(* ===== verification/Go_Prelude.thy ===== *)
theory Go_Prelude
  imports Main "HOL-Library.Word" "HOL-Library.Multiset" "HOL-Library.Monad_Syntax"
begin

text \<open>
  The shared vocabulary of the development: the Go types the SDK uses (bytes, fixed width
  integers, strings, slices, maps), the two ways a Go call can fail and the generic lemmas on
  lists, words and maps that the component theories rely on.

  \<^item> A Go call that returns \<^verbatim>\<open>(value, error)\<close> is a value of \<open>'e + 'a\<close>: \<open>Inl\<close> is a
    non-nil error, \<open>Inr\<close> the value. Where the source returns a meaningful value beside an
    error the model returns the pair.
  \<^item> A run-time panic (slice bounds, nil dereference) is \<open>None\<close> of an \<open>option\<close>.
  \<^item> Go iterates over a map in an unspecified order. A definition that models such a loop takes
    the order as an argument, a list of keys; \<open>go_range m ks\<close> says that \<open>ks\<close> is one of
    the orders Go may choose.
\<close>

section \<open>Types and constants\<close>

type_synonym byte = "8 word"
type_synonym u32 = "32 word"
type_synonym u64 = "64 word"
type_synonym i64 = "64 word"

named_theorems go_simps \<open>Unfolding rules shared by the component proofs\<close>

text \<open>A Go string is an immutable sequence of bytes; the conversions \<^verbatim>\<open>[]byte(s)\<close> and
  \<^verbatim>\<open>string(b)\<close> are inverse to each other.\<close>

definition byte_of_char :: "char \<Rightarrow> byte" where
  "byte_of_char c = of_nat (of_char c)"

definition char_of_byte :: "byte \<Rightarrow> char" where
  "char_of_byte b = char_of (unat b)"

definition bytes_of_string :: "string \<Rightarrow> byte list" where
  "bytes_of_string s = map byte_of_char s"

definition string_of_bytes :: "byte list \<Rightarrow> string" where
  "string_of_bytes bs = map char_of_byte bs"

text \<open>The orders in which Go may visit the keys of a map.\<close>

definition go_range :: "('k \<rightharpoonup> 'v) \<Rightarrow> 'k list \<Rightarrow> bool" where
  "go_range m ks \<longleftrightarrow> distinct ks \<and> set ks = dom m"

text \<open>The length of a slice is a non-negative \<^verbatim>\<open>int\<close>, so below \<open>2 ^ 63\<close>.\<close>

definition slice_ok :: "'a list \<Rightarrow> bool" where
  "slice_ok xs \<longleftrightarrow> length xs < 2 ^ 63"

definition go_len :: "'a list \<Rightarrow> u64" where
  "go_len xs = of_nat (length xs)"

text \<open>\<^verbatim>\<open>xs[lo:hi]\<close> on a slice whose capacity is not used beyond its length.\<close>

definition go_slice :: "'a list \<Rightarrow> nat \<Rightarrow> nat \<Rightarrow> 'a list option" where
  "go_slice xs lo hi = (if lo \<le> hi \<and> hi \<le> length xs then Some (take (hi - lo) (drop lo xs)) else None)"

text \<open>\<^verbatim>\<open>xs[i]\<close>, which panics out of range.\<close>

definition go_index :: "'a list \<Rightarrow> nat \<Rightarrow> 'a option" where
  "go_index xs i = (if i < length xs then Some (xs ! i) else None)"

section \<open>Lemmas\<close>

subsection \<open>Strings and bytes\<close>

lemma char_of_byte_of_char [simp]: "char_of_byte (byte_of_char c) = c"
proof -
  have "of_char c < (256::nat)" by simp
  then show ?thesis
    by (simp add: char_of_byte_def byte_of_char_def unat_of_nat take_bit_nat_eq_self)
qed

lemma byte_of_char_of_byte [simp]: "byte_of_char (char_of_byte b) = b"
proof -
  have "unat b < 256" using unsigned_less [of b, where ?'a = nat] by simp
  then show ?thesis
    by (simp add: char_of_byte_def byte_of_char_def)
qed

lemma string_of_bytes_of_string [simp]: "string_of_bytes (bytes_of_string s) = s"
  by (simp add: string_of_bytes_def bytes_of_string_def comp_def)

lemma bytes_of_string_of_bytes [simp]: "bytes_of_string (string_of_bytes bs) = bs"
  by (simp add: string_of_bytes_def bytes_of_string_def comp_def)

lemma length_bytes_of_string [simp]: "length (bytes_of_string s) = length s"
  by (simp add: bytes_of_string_def)

lemma length_string_of_bytes [simp]: "length (string_of_bytes s) = length s"
  by (simp add: string_of_bytes_def)

lemma string_of_bytes_inject [simp]: "string_of_bytes a = string_of_bytes b \<longleftrightarrow> a = b"
  by (metis bytes_of_string_of_bytes)

lemma bytes_of_string_inject [simp]: "bytes_of_string a = bytes_of_string b \<longleftrightarrow> a = b"
  by (metis string_of_bytes_of_string)

lemma bytes_of_string_append [simp]:
  "bytes_of_string (a @ b) = bytes_of_string a @ bytes_of_string b"
  by (simp add: bytes_of_string_def)

lemma string_of_bytes_append [simp]:
  "string_of_bytes (a @ b) = string_of_bytes a @ string_of_bytes b"
  by (simp add: string_of_bytes_def)

subsection \<open>Slices and maps\<close>

lemma unat_go_len [simp]: "slice_ok xs \<Longrightarrow> unat (go_len xs) = length xs"
  by (simp add: go_len_def slice_ok_def unat_of_nat take_bit_nat_eq_self)

lemma slice_ok_take [simp]: "slice_ok xs \<Longrightarrow> slice_ok (take n xs)"
  by (simp add: slice_ok_def)

lemma slice_ok_drop [simp]: "slice_ok xs \<Longrightarrow> slice_ok (drop n xs)"
  by (simp add: slice_ok_def)

lemma go_slice_Some [simp]:
  "lo \<le> hi \<Longrightarrow> hi \<le> length xs \<Longrightarrow> go_slice xs lo hi = Some (take (hi - lo) (drop lo xs))"
  by (simp add: go_slice_def)

lemma go_range_dom: "go_range m ks \<Longrightarrow> k \<in> set ks \<longleftrightarrow> m k \<noteq> None"
  by (auto simp: go_range_def dom_def)

lemma go_range_finite: "go_range m ks \<Longrightarrow> finite (dom m)"
  by (metis go_range_def List.finite_set)

lemma go_range_length: "go_range m ks \<Longrightarrow> length ks = card (dom m)"
  by (metis distinct_card go_range_def)

lemma go_range_ex: "finite (dom m) \<Longrightarrow> \<exists>ks. go_range m ks"
  by (metis finite_distinct_list go_range_def)

lemma go_range_empty [simp]: "go_range Map.empty ks \<longleftrightarrow> ks = []"
  by (auto simp: go_range_def)

end
