(* ===== verification/Sdk_Errors.thy ===== *)
theory Sdk_Errors
  imports Go_Prelude
begin

text \<open>
  The error values of the SDK. Every package declares its sentinel errors in an
  \<^verbatim>\<open>errors.go\<close>; each such file is one datatype, with one constructor per variable. The type
  \<open>go_error\<close> is the Go interface \<^verbatim>\<open>error\<close>: a sentinel of some package, a fresh
  \<^verbatim>\<open>errors.New\<close> value, an error wrapped by \<^verbatim>\<open>fmt.Errorf("...%w...")\<close> (with the text before
  and after the wrapped error), an error of the standard library, or an error handed in by code
  outside the repository (\<open>EExternal\<close>). \<open>errors_is\<close> is \<^verbatim>\<open>errors.Is\<close>.
\<close>

datatype interactors_error =
    Interactors_ErrNilProxy | Interactors_ErrNilTxBuilder | Interactors_ErrInvalidValue
  | Interactors_ErrWrongPassword | Interactors_ErrDifferentAccountRecovered
  | Interactors_ErrInvalidPemFile | Interactors_ErrNilAddress | Interactors_ErrNilTransaction
  | Interactors_ErrTxAlreadySent | Interactors_ErrTxWithSameNonceAndGasPriceAlreadySent
  | Interactors_ErrGapNonce | Interactors_ErrWorkerClosed

datatype builders_error =
    Builders_ErrInvalidValue | Builders_ErrNilValue | Builders_ErrNilAddress
  | Builders_ErrInvalidAddress | Builders_ErrNilSigner | Builders_ErrNilCryptoComponentsHolder
  | Builders_ErrMissingSignature | Builders_ErrNilInnerTransaction
  | Builders_ErrNilRelayerAccount | Builders_ErrNilNetworkConfig
  | Builders_ErrNilInnerTransactionSignature
  | Builders_ErrInvalidGasLimitNeededForInnerTransaction
  | Builders_ErrGasLimitForInnerTransactionV2ShouldBeZero
  | Builders_ErrMissingGuardianOption | Builders_ErrGuardianDoesNotMatch

datatype blockchain_error =
    Blockchain_ErrInvalidAddress | Blockchain_ErrNilAddress | Blockchain_ErrNilShardCoordinator
  | Blockchain_ErrNilNetworkConfigs | Blockchain_ErrInvalidCacherDuration
  | Blockchain_ErrInvalidAllowedDeltaToFinal | Blockchain_ErrNilHTTPClientWrapper
  | Blockchain_ErrHTTPStatusCodeIsNotOK | Blockchain_ErrNilEndpointProvider
  | Blockchain_ErrInvalidEndpointProvider | Blockchain_ErrShardIDMismatch
  | Blockchain_ErrNoShardOrAddressesProvided | Blockchain_ErrAddressesFromDifferentShards
  | Blockchain_ErrNilNetworkStatus | Blockchain_ErrNilRequest | Blockchain_ErrNilProxy
  | Blockchain_ErrNotUint64Bytes | Blockchain_ErrInvalidBlockRange
  | Blockchain_ErrNoBlockRangeProvided

datatype finality_error =
    Finality_ErrInvalidNonceCrossCheckValueFormat | Finality_ErrInvalidAllowedDeltaToFinal
  | Finality_ErrNilProxy | Finality_ErrNodeNotStarted

datatype factory_error = Factory_ErrUnknownRestAPIEntityType

datatype cryptoProvider_error = CryptoProvider_ErrTxAlreadySigned

datatype authentication_error =
    Authentication_ErrNilTokenHandler | Authentication_ErrNilSigner
  | Authentication_ErrNilSignature | Authentication_ErrNilAddress | Authentication_ErrNilBody
  | Authentication_ErrTokenExpired | Authentication_ErrNilCryptoComponentsHolder
  | Authentication_ErrNilHttpClientWrapper | Authentication_ErrHTTPStatusCodeIsNotOK
  | Authentication_ErrNilCacher | Authentication_ErrInvalidValue

datatype workflows_error =
    Workflows_ErrInvalidTransactionValue | Workflows_ErrInvalidAvailableBalanceValue
  | Workflows_ErrNilTrackableAddressesProvider | Workflows_ErrNilProxy
  | Workflows_ErrNilLastProcessedNonceHandler | Workflows_ErrNilMinimumBalance
  | Workflows_ErrNilTransactionInteractor

datatype polling_error =
    Polling_ErrNilLogger | Polling_ErrInvalidValue | Polling_ErrNilExecutor
  | Polling_ErrLoopAlreadyStarted

datatype txcheck_error =
    Txcheck_ErrNilTransaction | Txcheck_ErrNilPubKey | Txcheck_ErrNilSignature
  | Txcheck_ErrNilSignatureVerifier | Txcheck_ErrNilMarshaller | Txcheck_ErrNilHasher

datatype aggregator_error =
    Aggregator_ErrNotEnoughResponses | Aggregator_ErrInvalidMinNumberOfResults
  | Aggregator_ErrInvalidNumberOfPriceFetchers | Aggregator_ErrNilPriceFetcher
  | Aggregator_ErrNilPriceAggregator | Aggregator_ErrEmptyArgsPairsSlice | Aggregator_ErrNilArgsPair
  | Aggregator_ErrNilPriceNotifee | Aggregator_ErrInvalidNumOfElementsToComputeMedian
  | Aggregator_ErrInvalidDecimals | Aggregator_ErrNilBaseName | Aggregator_ErrNilQuoteName
  | Aggregator_ErrNilExchanges | Aggregator_ErrInvalidAutoSendInterval
  | Aggregator_ErrPairNotSupported | Aggregator_ErrNilAuthClient

datatype fetchers_error =
    Fetchers_errInvalidResponseData | Fetchers_errInvalidFetcherName | Fetchers_errNilResponseGetter
  | Fetchers_errNilGraphqlGetter | Fetchers_errNilXExchangeTokensMap | Fetchers_errInvalidPair
  | Fetchers_errInvalidGraphqlResponse | Fetchers_errInvalidGasPriceSelector

datatype notifees_error =
    Notifees_errNilProxy | Notifees_errNilTxBuilder | Notifees_errNilTxNonceHandler
  | Notifees_errNilContractAddressHandler | Notifees_errInvalidContractAddress
  | Notifees_errInvalidBaseGasLimit | Notifees_errInvalidGasLimitForEach

datatype headerCheck_error =
    HeaderCheck_ErrNilProxy | HeaderCheck_ErrNilNodesCoordinator | HeaderCheck_ErrNilHeaderSigVerifier
  | HeaderCheck_ErrNilRawHeaderHandler | HeaderCheck_ErrNilMarshaller

datatype go_error =
    EInteractors interactors_error
  | EBuilders builders_error
  | EBlockchain blockchain_error
  | EFinality finality_error
  | EFactory factory_error
  | ECryptoProvider cryptoProvider_error
  | EAuthentication authentication_error
  | EWorkflows workflows_error
  | EPolling polling_error
  | ETxcheck txcheck_error
  | EAggregator aggregator_error
  | EFetchers fetchers_error
  | ENotifees notifees_error
  | EHeaderCheck headerCheck_error
  | ErrorsNew string
  | Errorf string go_error string
  | EHexLength
  | EHexInvalidByte char
  | EBase64Corrupt
  | EParseNum string
  | EContextDone
  | EExternal string

text \<open>\<^verbatim>\<open>errors.Is\<close>: the error itself or one that it wraps.\<close>

fun errors_is :: "go_error \<Rightarrow> go_error \<Rightarrow> bool" where
  "errors_is (Errorf a e b) t = (Errorf a e b = t \<or> errors_is e t)"
| "errors_is e t = (e = t)"

type_synonym 'a result = "go_error + 'a"

text \<open>\<^verbatim>\<open>x, err := f(); if err != nil { return nil, err }; ...\<close>\<close>

definition on_ok :: "'a result \<Rightarrow> ('a \<Rightarrow> 'b result) \<Rightarrow> 'b result" where
  "on_ok r f = (case r of Inl e \<Rightarrow> Inl e | Inr x \<Rightarrow> f x)"

text \<open>A comma-ok result whose failure is reported as an error.\<close>

definition or_err :: "'a option \<Rightarrow> go_error \<Rightarrow> 'a result" where
  "or_err r e = (case r of None \<Rightarrow> Inl e | Some x \<Rightarrow> Inr x)"

lemma on_ok_simps [simp]: "on_ok (Inl e) f = Inl e" "on_ok (Inr x) f = f x"
  by (simp_all add: on_ok_def)

lemma on_ok_Inr [simp]: "on_ok r f = Inr y \<longleftrightarrow> (\<exists>x. r = Inr x \<and> f x = Inr y)"
  by (cases r) simp_all

lemma on_ok_Inl: "on_ok r f = Inl e \<longleftrightarrow> r = Inl e \<or> (\<exists>x. r = Inr x \<and> f x = Inl e)"
  by (cases r) simp_all

lemma or_err_simps [simp]: "or_err None e = Inl e" "or_err (Some x) e = Inr x"
  by (simp_all add: or_err_def)

lemma or_err_Inr [simp]: "or_err r e = Inr x \<longleftrightarrow> r = Some x"
  by (cases r) simp_all

lemma errors_is_refl [simp]: "errors_is e e"
  by (cases e) auto

lemma errors_is_Errorf [simp]: "errors_is (Errorf a e b) e"
  by simp

end
