(* ===== verification/Go_Encoding.thy ===== *)
theory Go_Encoding
  imports Sdk_Errors "HOL-Library.Sublist"
begin

text \<open>
  The parts of Go's standard library that the SDK's own logic rests on:
  \<^verbatim>\<open>encoding/binary\<close> (big endian), \<^verbatim>\<open>math/big\<close> (bytes and decimal strings),
  \<^verbatim>\<open>encoding/hex\<close>, \<^verbatim>\<open>strconv\<close>, \<^verbatim>\<open>strings\<close> and \<^verbatim>\<open>encoding/base64\<close>, with the round trip
  laws the components use. The position that a base64 error carries and the distinction between
  the syntax and the range error of \<^verbatim>\<open>strconv.ParseInt\<close> are not modelled.
\<close>

section \<open>Definitions\<close>

subsection \<open>Big endian integers\<close>

text \<open>\<^verbatim>\<open>binary.BigEndian.UintNN(b)\<close> and \<^verbatim>\<open>big.NewInt(0).SetBytes(b)\<close>.\<close>

definition be_val :: "byte list \<Rightarrow> nat" where
  "be_val bs = foldl (\<lambda>a b. a * 256 + unat b) 0 bs"

text \<open>\<^verbatim>\<open>binary.BigEndian.PutUintNN\<close> into a buffer of \<open>k\<close> bytes.\<close>

fun be_bytes :: "nat \<Rightarrow> nat \<Rightarrow> byte list" where
  "be_bytes 0 n = []"
| "be_bytes (Suc k) n = be_bytes k (n div 256) @ [of_nat n]"

text \<open>\<^verbatim>\<open>(*big.Int).Bytes()\<close>: the absolute value, big endian, without leading zeros.\<close>

fun nat_bytes :: "nat \<Rightarrow> byte list" where
  "nat_bytes n = (if n = 0 then [] else nat_bytes (n div 256) @ [of_nat n])"

declare nat_bytes.simps [simp del]

definition big_Bytes :: "int \<Rightarrow> byte list" where
  "big_Bytes x = nat_bytes (nat \<bar>x\<bar>)"

subsection \<open>Hexadecimal\<close>

definition hex_char :: "nat \<Rightarrow> char" where
  "hex_char n = ''0123456789abcdef'' ! n"

definition hex_val :: "char \<Rightarrow> nat option" where
  "hex_val c = (let n = of_char c :: nat in
     if 48 \<le> n \<and> n \<le> 57 then Some (n - 48)
     else if 97 \<le> n \<and> n \<le> 102 then Some (n - 87)
     else if 65 \<le> n \<and> n \<le> 70 then Some (n - 55)
     else None)"

fun hex_EncodeToString :: "byte list \<Rightarrow> string" where
  "hex_EncodeToString [] = []"
| "hex_EncodeToString (b # bs) =
     hex_char (unat b div 16) # hex_char (unat b mod 16) # hex_EncodeToString bs"

fun hex_DecodeString :: "string \<Rightarrow> byte list result" where
  "hex_DecodeString [] = Inr []"
| "hex_DecodeString [c] = (case hex_val c of None \<Rightarrow> Inl (EHexInvalidByte c) | Some _ \<Rightarrow> Inl EHexLength)"
| "hex_DecodeString (c # d # s) =
     (case hex_val c of None \<Rightarrow> Inl (EHexInvalidByte c)
      | Some x \<Rightarrow> (case hex_val d of None \<Rightarrow> Inl (EHexInvalidByte d)
         | Some y \<Rightarrow> (case hex_DecodeString s of Inl e \<Rightarrow> Inl e
            | Inr bs \<Rightarrow> Inr (of_nat (16 * x + y) # bs))))"

subsection \<open>Decimal\<close>

definition digit_char :: "nat \<Rightarrow> char" where
  "digit_char n = char_of (48 + n)"

definition digit_val :: "char \<Rightarrow> nat option" where
  "digit_val c = (let n = of_char c :: nat in if 48 \<le> n \<and> n \<le> 57 then Some (n - 48) else None)"

text \<open>\<^verbatim>\<open>%d\<close>, \<^verbatim>\<open>strconv.FormatUint(n, 10)\<close> and \<^verbatim>\<open>(*big.Int).String()\<close>.\<close>

fun dec_of_nat :: "nat \<Rightarrow> string" where
  "dec_of_nat n = (if n < 10 then [digit_char n] else dec_of_nat (n div 10) @ [digit_char (n mod 10)])"

declare dec_of_nat.simps [simp del]

definition dec_of_int :: "int \<Rightarrow> string" where
  "dec_of_int i = (if i < 0 then CHR ''-'' # dec_of_nat (nat (- i)) else dec_of_nat (nat i))"

fun dec_val_acc :: "nat \<Rightarrow> string \<Rightarrow> nat option" where
  "dec_val_acc a [] = Some a"
| "dec_val_acc a (c # s) = (case digit_val c of None \<Rightarrow> None | Some d \<Rightarrow> dec_val_acc (10 * a + d) s)"

definition dec_val :: "string \<Rightarrow> nat option" where
  "dec_val s = (if s = [] then None else dec_val_acc 0 s)"

text \<open>\<^verbatim>\<open>big.NewInt(0).SetString(s, 10)\<close>: an optional sign and at least one digit.\<close>

definition big_SetString :: "string \<Rightarrow> int option" where
  "big_SetString s = (case s of [] \<Rightarrow> None
     | c # r \<Rightarrow> if c = CHR ''-'' then map_option (\<lambda>n. - int n) (dec_val r)
                else if c = CHR ''+'' then map_option int (dec_val r)
                else map_option int (dec_val s))"

text \<open>\<^verbatim>\<open>strconv.ParseInt(s, 10, 64)\<close>.\<close>

definition parse_int64 :: "string \<Rightarrow> i64 result" where
  "parse_int64 s = (case big_SetString s of None \<Rightarrow> Inl (EParseNum s)
     | Some i \<Rightarrow> if - (2 ^ 63) \<le> i \<and> i < 2 ^ 63 then Inr (of_int i) else Inl (EParseNum s))"

subsection \<open>Strings\<close>

text \<open>\<^verbatim>\<open>strings.Split(s, sep)\<close> for a separator of one byte.\<close>

fun split_on :: "char \<Rightarrow> string \<Rightarrow> string list" where
  "split_on c [] = [[]]"
| "split_on c (x # xs) = (if x = c then [] # split_on c xs
     else (case split_on c xs of [] \<Rightarrow> [[x]] | y # ys \<Rightarrow> (x # y) # ys))"

text \<open>\<^verbatim>\<open>strings.Join(parts, sep)\<close> for a separator of one byte.\<close>

fun strings_Join :: "string list \<Rightarrow> char \<Rightarrow> string" where
  "strings_Join [] c = []"
| "strings_Join [x] c = x"
| "strings_Join (x # y # ys) c = x @ c # strings_Join (y # ys) c"

text \<open>\<^verbatim>\<open>strings.ReplaceAll(s, a, b)\<close> for single bytes, \<^verbatim>\<open>strings.TrimRight(s, c)\<close>.\<close>

definition replace_all :: "string \<Rightarrow> char \<Rightarrow> char \<Rightarrow> string" where
  "replace_all s a b = map (\<lambda>c. if c = a then b else c) s"

definition trim_right :: "string \<Rightarrow> char \<Rightarrow> string" where
  "trim_right s c = rev (dropWhile (\<lambda>x. x = c) (rev s))"

text \<open>
  \<^verbatim>\<open>strings.TrimSpace\<close>: the code points for which \<^verbatim>\<open>unicode.IsSpace\<close> holds, in UTF-8.
  \<open>space_len ws s\<close> is the length of the encoding in \<open>ws\<close> that \<open>s\<close> starts with, 0 if none.
\<close>

definition unicode_spaces :: "string list" where
  "unicode_spaces =
     [[CHR 0x09], [CHR 0x0A], [CHR 0x0B], [CHR 0x0C], [CHR 0x0D], [CHR 0x20],
      [CHR 0xC2, CHR 0x85], [CHR 0xC2, CHR 0xA0], [CHR 0xE1, CHR 0x9A, CHR 0x80],
      [CHR 0xE2, CHR 0x80, CHR 0x80], [CHR 0xE2, CHR 0x80, CHR 0x81], [CHR 0xE2, CHR 0x80, CHR 0x82],
      [CHR 0xE2, CHR 0x80, CHR 0x83], [CHR 0xE2, CHR 0x80, CHR 0x84], [CHR 0xE2, CHR 0x80, CHR 0x85],
      [CHR 0xE2, CHR 0x80, CHR 0x86], [CHR 0xE2, CHR 0x80, CHR 0x87], [CHR 0xE2, CHR 0x80, CHR 0x88],
      [CHR 0xE2, CHR 0x80, CHR 0x89], [CHR 0xE2, CHR 0x80, CHR 0x8A], [CHR 0xE2, CHR 0x80, CHR 0xA8],
      [CHR 0xE2, CHR 0x80, CHR 0xA9], [CHR 0xE2, CHR 0x80, CHR 0xAF], [CHR 0xE2, CHR 0x81, CHR 0x9F],
      [CHR 0xE3, CHR 0x80, CHR 0x80]]"

fun space_len :: "string list \<Rightarrow> string \<Rightarrow> nat" where
  "space_len [] s = 0"
| "space_len (w # ws) s = (if prefix w s then length w else space_len ws s)"

function strip_spaces :: "string list \<Rightarrow> string \<Rightarrow> string" where
  "strip_spaces ws s =
     (if space_len ws s = 0 \<or> s = [] then s else strip_spaces ws (drop (space_len ws s) s))"
  by pat_completeness auto
termination
  by (relation "measure (\<lambda>(ws, s). length s)") auto

declare strip_spaces.simps [simp del]

definition trim_space :: "string \<Rightarrow> string" where
  "trim_space s = rev (strip_spaces (map rev unicode_spaces) (rev (strip_spaces unicode_spaces s)))"

text \<open>\<^verbatim>\<open>strings.ToUpper\<close>, \<^verbatim>\<open>strings.ToLower\<close> and \<^verbatim>\<open>strings.Contains\<close>, the first two on ASCII letters; letters
  outside ASCII are left as they are.\<close>

definition strings_ToUpper :: "string \<Rightarrow> string" where
  "strings_ToUpper = map (\<lambda>c. let n = of_char c :: nat in if 97 \<le> n \<and> n \<le> 122 then char_of (n - 32) else c)"

definition strings_ToLower :: "string \<Rightarrow> string" where
  "strings_ToLower = map (\<lambda>c. let n = of_char c :: nat in if 65 \<le> n \<and> n \<le> 90 then char_of (n + 32) else c)"

definition strings_Contains :: "string \<Rightarrow> string \<Rightarrow> bool" where
  "strings_Contains s w \<longleftrightarrow> list_ex (\<lambda>t. prefix w t) (suffixes s)"

subsection \<open>Durations\<close>

text \<open>\<^verbatim>\<open>time.Duration.String\<close>: the fraction of \<open>u / 10 ^ prec\<close> without trailing zeros, and the units.\<close>

definition dur_frac :: "nat \<Rightarrow> nat \<Rightarrow> string" where
  "dur_frac prec u =
     (let f = u mod 10 ^ prec;
          digits = dec_of_nat f;
          padded_digits = replicate (prec - length digits) (CHR ''0'') @ digits
      in if f = 0 then [] else CHR ''.'' # trim_right padded_digits (CHR ''0''))"

definition dur_String :: "int \<Rightarrow> string" where
  "dur_String d =
     (let u = nat \<bar>d\<bar>;
          secs = u div 1000000000;
          mins = secs div 60;
          hours = mins div 60;
          body = (if u = 0 then ''0s''
            else if u < 1000 then dec_of_nat u @ ''ns''
            else if u < 1000000 then dec_of_nat (u div 1000) @ dur_frac 3 u @ [CHR 0xC2, CHR 0xB5, CHR ''s'']
            else if u < 1000000000 then dec_of_nat (u div 1000000) @ dur_frac 6 u @ ''ms''
            else (if hours > 0 then dec_of_nat hours @ ''h'' else [])
              @ (if mins > 0 then dec_of_nat (mins mod 60) @ ''m'' else [])
              @ dec_of_nat (secs mod 60) @ dur_frac 9 u @ ''s'')
      in if d < 0 then CHR ''-'' # body else body)"

subsection \<open>Base64\<close>

text \<open>The standard alphabet: \<^verbatim>\<open>A-Z\<close>, \<^verbatim>\<open>a-z\<close>, \<^verbatim>\<open>0-9\<close>, \<^verbatim>\<open>+\<close>, \<^verbatim>\<open>/\<close>.\<close>

definition b64_char :: "nat \<Rightarrow> char" where
  "b64_char n = char_of (if n < 26 then n + 65 else if n < 52 then n + 71
     else if n < 62 then n - 4 else if n = 62 then 43 else 47)"

definition b64_val :: "char \<Rightarrow> nat option" where
  "b64_val c = (let n = of_char c :: nat in
     if 65 \<le> n \<and> n \<le> 90 then Some (n - 65)
     else if 97 \<le> n \<and> n \<le> 122 then Some (n - 71)
     else if 48 \<le> n \<and> n \<le> 57 then Some (n + 4)
     else if n = 43 then Some 62
     else if n = 47 then Some 63
     else None)"

text \<open>\<^verbatim>\<open>base64.StdEncoding.EncodeToString\<close>: groups of three bytes, padded with \<^verbatim>\<open>=\<close>.\<close>

fun b64_EncodeToString :: "byte list \<Rightarrow> string" where
  "b64_EncodeToString [] = []"
| "b64_EncodeToString [a] =
     [b64_char (unat a div 4), b64_char (unat a mod 4 * 16), CHR ''='', CHR ''='']"
| "b64_EncodeToString [a, b] =
     [b64_char (unat a div 4), b64_char (unat a mod 4 * 16 + unat b div 16),
      b64_char (unat b mod 16 * 4), CHR ''='']"
| "b64_EncodeToString (a # b # c # r) =
     b64_char (unat a div 4) # b64_char (unat a mod 4 * 16 + unat b div 16)
     # b64_char (unat b mod 16 * 4 + unat c div 64) # b64_char (unat c mod 64)
     # b64_EncodeToString r"

text \<open>\<^verbatim>\<open>base64.RawStdEncoding.DecodeString\<close>: line breaks are skipped, there is no padding, and
  the unused bits of a last partial group are not checked.\<close>

fun b64_sextets :: "nat list \<Rightarrow> byte list option" where
  "b64_sextets [] = Some []"
| "b64_sextets [x] = None"
| "b64_sextets [x, y] = Some [of_nat (x * 4 + y div 16)]"
| "b64_sextets [x, y, z] = Some [of_nat (x * 4 + y div 16), of_nat (y mod 16 * 16 + z div 4)]"
| "b64_sextets (x # y # z # w # r) =
     (case b64_sextets r of None \<Rightarrow> None
      | Some bs \<Rightarrow> Some (of_nat (x * 4 + y div 16) # of_nat (y mod 16 * 16 + z div 4)
                         # of_nat (z mod 4 * 64 + w) # bs))"

definition b64_RawDecodeString :: "string \<Rightarrow> byte list result" where
  "b64_RawDecodeString s =
     (case those (map b64_val (filter (\<lambda>c. c \<noteq> CHR 0x0A \<and> c \<noteq> CHR 0x0D) s)) of
        None \<Rightarrow> Inl EBase64Corrupt
      | Some vs \<Rightarrow> (case b64_sextets vs of None \<Rightarrow> Inl EBase64Corrupt | Some bs \<Rightarrow> Inr bs))"

text \<open>The sextets of a byte sequence, as a reference for the encoder.\<close>

fun b64_of_bytes :: "byte list \<Rightarrow> nat list" where
  "b64_of_bytes [] = []"
| "b64_of_bytes [a] = [unat a div 4, unat a mod 4 * 16]"
| "b64_of_bytes [a, b] = [unat a div 4, unat a mod 4 * 16 + unat b div 16, unat b mod 16 * 4]"
| "b64_of_bytes (a # b # c # r) =
     unat a div 4 # (unat a mod 4 * 16 + unat b div 16) # (unat b mod 16 * 4 + unat c div 64)
     # unat c mod 64 # b64_of_bytes r"

section \<open>Lemmas\<close>

subsection \<open>Bytes and big endian integers\<close>

lemma unat_byte [simp]: "unat (b :: byte) < 256"
  using unsigned_less [of b, where ?'a = nat] by simp

lemma unat_of_nat_byte [simp]: "unat (of_nat n :: byte) = n mod 256"
  by (simp add: unat_of_nat take_bit_eq_mod)

lemma be_val_Nil [simp]: "be_val [] = 0"
  by (simp add: be_val_def)

lemma be_val_snoc [simp]: "be_val (bs @ [b]) = be_val bs * 256 + unat b"
  by (simp add: be_val_def)

lemma length_be_bytes [simp]: "length (be_bytes k n) = k"
  by (induction k arbitrary: n) auto

lemma be_val_be_bytes: "be_val (be_bytes k n) = n mod 256 ^ k"
proof (induction k arbitrary: n)
  case 0
  then show ?case by simp
next
  case (Suc k)
  have "n mod 256 ^ Suc k = 256 * (n div 256 mod 256 ^ k) + n mod 256"
    by (simp add: mod_mult2_eq)
  then show ?case by (simp add: Suc.IH)
qed

lemma be_val_bound: "be_val bs < 256 ^ length bs"
proof (induction bs rule: rev_induct)
  case Nil
  then show ?case by simp
next
  case (snoc b bs)
  have "be_val bs * 256 + unat b < be_val bs * 256 + 256"
    using unat_byte [of b] by simp
  also have "\<dots> = (be_val bs + 1) * 256" by simp
  also have "\<dots> \<le> 256 ^ length bs * 256"
    using snoc.IH by (intro mult_right_mono) auto
  finally show ?case by (simp add: mult.commute)
qed

lemma be_bytes_be_val: "length bs = k \<Longrightarrow> be_bytes k (be_val bs) = bs"
proof (induction k arbitrary: bs)
  case 0
  then show ?case by simp
next
  case (Suc k)
  then obtain cs b where bs: "bs = cs @ [b]" and "length cs = k"
    by (cases bs rule: rev_cases) auto
  moreover have "(of_nat (be_val cs * 256 + unat b) :: byte) = b"
    by (metis mod_mult_self3 mod_less unat_byte unat_of_nat_byte word_unat_eq_iff)
  ultimately show ?case
    using Suc.IH [of cs] unat_byte [of b] by simp
qed

lemma nat_bytes_0 [simp]: "nat_bytes 0 = []"
  by (simp add: nat_bytes.simps)

lemma be_val_nat_bytes [simp]: "be_val (nat_bytes n) = n"
proof (induction n rule: nat_bytes.induct)
  case (1 n)
  then show ?case
    by (cases "n = 0") (auto simp: nat_bytes.simps [of n])
qed

lemma nat_bytes_eq_Nil [simp]: "nat_bytes n = [] \<longleftrightarrow> n = 0"
  by (simp add: nat_bytes.simps [of n])

lemma be_val_Cons_zero [simp]: "be_val (0 # bs) = be_val bs"
  by (simp add: be_val_def)

lemma nat_bytes_length: "n < 256 ^ k \<Longrightarrow> length (nat_bytes n) \<le> k"
proof (induction k arbitrary: n)
  case 0
  then show ?case by (simp add: nat_bytes.simps)
next
  case (Suc k)
  then have "n div 256 < 256 ^ k" by (simp add: less_mult_imp_div_less mult.commute)
  with Suc.IH show ?case by (cases "n = 0") (auto simp: nat_bytes.simps [of n])
qed

subsection \<open>Hexadecimal\<close>

lemma hex_val_hex_char [simp]: "n < 16 \<Longrightarrow> hex_val (hex_char n) = Some n"
proof -
  have "\<forall>n\<in>set [0..<16]. hex_val (hex_char n) = Some n" by code_simp
  then show "n < 16 \<Longrightarrow> ?thesis" by auto
qed

lemma hex_roundtrip [simp]: "hex_DecodeString (hex_EncodeToString bs) = Inr bs"
proof (induction bs)
  case Nil
  then show ?case by simp
next
  case (Cons b bs)
  have "unat b div 16 < 16" using unat_byte [of b] by linarith
  with Cons show ?case by simp
qed

lemma length_hex [simp]: "length (hex_EncodeToString bs) = 2 * length bs"
  by (induction bs) auto

lemma hex_DecodeString_digits:
  "hex_DecodeString s = Inr bs \<Longrightarrow> c \<in> set s \<Longrightarrow> hex_val c \<noteq> None"
  by (induction s arbitrary: bs rule: hex_DecodeString.induct)
    (auto split: option.splits sum.splits)

lemma hex_DecodeString_length:
  "hex_DecodeString s = Inr bs \<Longrightarrow> length s = 2 * length bs"
  by (induction s arbitrary: bs rule: hex_DecodeString.induct)
    (auto split: option.splits sum.splits)

lemma hex_DecodeString_no_char:
  "hex_DecodeString s = Inr bs \<Longrightarrow> hex_val c = None \<Longrightarrow> c \<notin> set s"
  using hex_DecodeString_digits by blast

lemma hex_EncodeToString_notin [simp]: "hex_val c = None \<Longrightarrow> c \<notin> set (hex_EncodeToString bs)"
  using hex_DecodeString_no_char [OF hex_roundtrip] .

subsection \<open>Decimal\<close>

lemma digit_val_digit_char [simp]: "n < 10 \<Longrightarrow> digit_val (digit_char n) = Some n"
  by (simp add: digit_val_def digit_char_def)

lemma dec_val_acc_append:
  "dec_val_acc a (s @ t) = (case dec_val_acc a s of None \<Rightarrow> None | Some b \<Rightarrow> dec_val_acc b t)"
  by (induction s arbitrary: a) (auto split: option.splits)

lemma dec_of_nat_neq_Nil [simp]: "dec_of_nat n \<noteq> []"
  by (simp add: dec_of_nat.simps [of n])

lemma dec_val_acc_dec_of_nat: "dec_val_acc 0 (dec_of_nat n) = Some n"
proof (induction n rule: dec_of_nat.induct)
  case (1 n)
  then show ?case
    by (cases "n < 10") (auto simp: dec_of_nat.simps [of n] dec_val_acc_append)
qed

lemma dec_val_dec_of_nat [simp]: "dec_val (dec_of_nat n) = Some n"
  by (simp add: dec_val_def dec_val_acc_dec_of_nat)

lemma dec_of_nat_digits: "c \<in> set (dec_of_nat n) \<Longrightarrow> digit_val c \<noteq> None"
proof (induction n rule: dec_of_nat.induct)
  case (1 n)
  then show ?case
    by (cases "n < 10") (auto simp: dec_of_nat.simps [of n])
qed

lemma dec_of_nat_notin [simp]: "digit_val c = None \<Longrightarrow> c \<notin> set (dec_of_nat n)"
  using dec_of_nat_digits by blast

lemma dec_of_nat_inject [simp]: "dec_of_nat m = dec_of_nat n \<longleftrightarrow> m = n"
  by (metis dec_val_dec_of_nat option.inject)

lemma big_SetString_dec_of_nat [simp]: "big_SetString (dec_of_nat n) = Some (int n)"
proof (cases "dec_of_nat n")
  case Nil
  then show ?thesis by simp
next
  case (Cons c r)
  then have "c \<in> set (dec_of_nat n)" by simp
  moreover have "CHR ''-'' \<notin> set (dec_of_nat n)" "CHR ''+'' \<notin> set (dec_of_nat n)"
    by (rule dec_of_nat_notin, simp add: digit_val_def)+
  ultimately have "c \<noteq> CHR ''-''" "c \<noteq> CHR ''+''" by auto
  with Cons show ?thesis
    by (simp add: big_SetString_def) (metis dec_val_dec_of_nat option.map(2))
qed

lemma big_SetString_neg: "big_SetString (CHR ''-'' # s) = map_option (\<lambda>n. - int n) (dec_val s)"
  by (simp add: big_SetString_def)

lemma big_SetString_dec_of_int [simp]: "big_SetString (dec_of_int i) = Some i"
  by (cases "i < 0") (simp_all add: dec_of_int_def big_SetString_neg)

lemma parse_int64_dec_of_int [simp]: "parse_int64 (dec_of_int (sint (w :: i64))) = Inr w"
  using sint_range_size [of w] by (simp add: parse_int64_def word_size)

subsection \<open>Splitting and joining\<close>

lemma split_on_neq_Nil [simp]: "split_on c s \<noteq> []"
  by (induction s) (auto split: list.splits)

lemma split_on_none: "c \<notin> set s \<Longrightarrow> split_on c s = [s]"
  by (induction s) auto

lemma split_on_append: "c \<notin> set s \<Longrightarrow> split_on c (s @ c # t) = s # split_on c t"
  by (induction s) auto

lemma split_on_Join:
  "xs \<noteq> [] \<Longrightarrow> \<forall>x\<in>set xs. c \<notin> set x \<Longrightarrow> split_on c (strings_Join xs c) = xs"
  by (induction xs c rule: strings_Join.induct) (auto simp: split_on_append split_on_none)

lemma strings_Join_Cons: "ys \<noteq> [] \<Longrightarrow> strings_Join (x # ys) c = x @ c # strings_Join ys c"
  by (cases ys) auto

lemma Join_split_on: "strings_Join (split_on c s) c = s"
proof (induction s)
  case Nil
  then show ?case by simp
next
  case (Cons x s)
  show ?case
  proof (cases "split_on c s")
    case Nil
    then show ?thesis by simp
  next
    case (Cons y ys)
    with Cons.IH show ?thesis
      by (cases ys) (auto simp: strings_Join_Cons)
  qed
qed

subsection \<open>Trimming\<close>

lemma space_len_zero: "\<forall>w\<in>set ws. w \<noteq> [] \<and> hd w \<noteq> c \<Longrightarrow> space_len ws (c # s) = 0"
  by (induction ws) (auto simp: prefix_Cons)

lemma strip_spaces_id: "\<forall>w\<in>set ws. w \<noteq> [] \<and> hd w \<noteq> c \<Longrightarrow> strip_spaces ws (c # s) = c # s"
  by (simp add: strip_spaces.simps [of ws "c # s"] space_len_zero)

lemma digit_not_space:
  "digit_val c \<noteq> None \<Longrightarrow> w \<in> set unicode_spaces \<Longrightarrow> w \<noteq> [] \<and> hd w \<noteq> c \<and> last w \<noteq> c"
  by (auto simp: unicode_spaces_def digit_val_def)

lemma trim_space_digits:
  assumes "s \<noteq> []" and "\<forall>c\<in>set s. digit_val c \<noteq> None"
  shows "trim_space s = s"
proof -
  obtain c t where s: "s = c # t" using assms(1) by (cases s) auto
  obtain d u where r: "rev s = d # u" using assms(1) by (cases "rev s") auto
  have dc: "digit_val c \<noteq> None" "digit_val d \<noteq> None"
    using assms(2) s arg_cong [OF r, of set] by auto
  have "strip_spaces unicode_spaces s = s"
    unfolding s by (rule strip_spaces_id) (use digit_not_space [OF dc(1)] in auto)
  moreover have "strip_spaces (map rev unicode_spaces) (rev s) = rev s"
    unfolding r by (rule strip_spaces_id) (use digit_not_space [OF dc(2)] in \<open>auto simp: hd_rev\<close>)
  ultimately show ?thesis by (simp add: trim_space_def)
qed

lemma strip_spaces_blank: "strip_spaces unicode_spaces (CHR '' '' # s) = strip_spaces unicode_spaces s"
  by (subst strip_spaces.simps) (simp add: unicode_spaces_def)

lemma trim_space_blank: "trim_space (CHR '' '' # s) = trim_space s"
  by (simp add: trim_space_def strip_spaces_blank)

subsection \<open>Base64\<close>

lemma b64_val_b64_char [simp]: "n < 64 \<Longrightarrow> b64_val (b64_char n) = Some n"
  by (auto simp: b64_val_def b64_char_def Let_def)

lemma b64_char_neq [simp]:
  assumes "b64_val c = None" and "n < 64"
  shows "b64_char n \<noteq> c"
  using assms b64_val_b64_char by fastforce

lemma byte_div4 [simp]: "unat (b :: byte) div 4 < 64"
  using unat_byte [of b] by linarith

lemma byte_mod4 [simp]: "unat (b :: byte) mod 4 * 16 < 64"
  using mod_less_divisor [of 4 "unat b"] by linarith

lemma b64_mid2 [simp]: "unat (a :: byte) mod 4 * 16 + unat (b :: byte) div 16 < 64"
proof -
  have "unat a mod 4 \<le> 3" "unat b div 16 \<le> 15" using unat_byte [of b] by linarith+
  then show ?thesis by linarith
qed

lemma b64_mid3 [simp]: "unat (b :: byte) mod 16 * 4 + unat (c :: byte) div 64 < 64"
proof -
  have "unat b mod 16 \<le> 15" "unat c div 64 \<le> 3" using unat_byte [of c] by linarith+
  then show ?thesis by linarith
qed

lemma b64_mid3' [simp]: "unat (b :: byte) mod 16 * 4 < 64"
  using b64_mid3 [of b 0] by linarith

lemma sextet1: "(of_nat (unat (a :: byte) div 4 * 4 + (unat a mod 4 * 16 + unat (b :: byte) div 16) div 16) :: byte) = a"
proof -
  have "unat b div 16 < 16" using unat_byte [of b] by linarith
  then have "(unat a mod 4 * 16 + unat b div 16) div 16 = unat a mod 4" by simp
  then show ?thesis by (simp add: word_unat_eq_iff)
qed

lemma sextet2:
  "(of_nat ((unat (a :: byte) mod 4 * 16 + unat (b :: byte) div 16) mod 16 * 16
      + (unat b mod 16 * 4 + unat (c :: byte) div 64) div 4) :: byte) = b"
proof -
  have "unat b div 16 < 16" "unat c div 64 < 4" using unat_byte [of b] unat_byte [of c] by linarith+
  then have "(unat a mod 4 * 16 + unat b div 16) mod 16 = unat b div 16"
    "(unat b mod 16 * 4 + unat c div 64) div 4 = unat b mod 16" by simp_all
  then show ?thesis by (simp add: word_unat_eq_iff)
qed

lemma sextet3:
  "(of_nat ((unat (b :: byte) mod 16 * 4 + unat (c :: byte) div 64) mod 4 * 64 + unat c mod 64) :: byte) = c"
proof -
  have "unat c div 64 < 4" using unat_byte [of c] by linarith
  then have "(unat b mod 16 * 4 + unat c div 64) mod 4 = unat c div 64" by simp
  then show ?thesis by (simp add: word_unat_eq_iff)
qed

lemma sextet1': "(of_nat (unat (a :: byte) div 4 * 4 + unat a mod 4 * 16 div 16) :: byte) = a"
  using sextet1 [of a 0] by simp

lemma sextet2':
  "(of_nat ((unat (a :: byte) mod 4 * 16 + unat (b :: byte) div 16) mod 16 * 16
     + unat b mod 16 * 4 div 4) :: byte) = b"
  using sextet2 [of a b 0] by simp

lemmas sextets = sextet1 sextet2 sextet3 sextet1' sextet2'

lemma b64_of_bytes_bound: "n \<in> set (b64_of_bytes bs) \<Longrightarrow> n < 64"
  by (induction bs rule: b64_of_bytes.induct) auto

lemma b64_sextets_of_bytes: "b64_sextets (b64_of_bytes bs) = Some bs"
  by (induction bs rule: b64_of_bytes.induct)
    (simp_all only: b64_of_bytes.simps b64_sextets.simps sextets option.case)

lemma b64_EncodeToString_eq:
  "\<exists>k. b64_EncodeToString bs = map b64_char (b64_of_bytes bs) @ replicate k (CHR ''='')"
proof (induction bs rule: b64_of_bytes.induct)
  case 1
  then show ?case by simp
next
  case (2 a)
  then show ?case by (auto intro!: exI [of _ 2] simp: numeral_2_eq_2)
next
  case (3 a b)
  then show ?case by (auto intro!: exI [of _ 1])
next
  case (4 a b c r)
  then show ?case by auto
qed

lemma trim_right_replicate:
  assumes "c \<notin> set s"
  shows "trim_right (s @ replicate k c) c = s"
proof -
  have "dropWhile (\<lambda>x. x = c) (replicate k c @ rev s) = dropWhile (\<lambda>x. x = c) (rev s)"
    by (induction k) auto
  also have "\<dots> = rev s"
    using assms by (auto simp: dropWhile_eq_self_iff hd_rev)
  finally show ?thesis by (simp add: trim_right_def)
qed

lemma trim_right_b64: "trim_right (b64_EncodeToString bs) (CHR ''='') = map b64_char (b64_of_bytes bs)"
proof -
  have "b64_val (CHR ''='') = None" by (simp add: b64_val_def)
  then have "CHR ''='' \<notin> set (map b64_char (b64_of_bytes bs))"
    by (metis (no_types, lifting) b64_char_neq b64_of_bytes_bound imageE list.set_map)
  with b64_EncodeToString_eq [of bs] show ?thesis
    by (metis trim_right_replicate)
qed

lemma those_map_Some: "\<forall>x\<in>set xs. f x = Some (g x) \<Longrightarrow> those (map f xs) = Some (map g xs)"
  by (induction xs) auto

lemma b64_RawDecode_chars: "b64_RawDecodeString (map b64_char (b64_of_bytes bs)) = Inr bs"
proof -
  have "b64_val (CHR 0x0A) = None" "b64_val (CHR 0x0D) = None" by (simp_all add: b64_val_def)
  then have "filter (\<lambda>c. c \<noteq> CHR 0x0A \<and> c \<noteq> CHR 0x0D) (map b64_char (b64_of_bytes bs))
      = map b64_char (b64_of_bytes bs)"
    using b64_of_bytes_bound b64_char_neq by (intro filter_True) auto
  moreover have "those (map b64_val (map b64_char (b64_of_bytes bs))) = Some (b64_of_bytes bs)"
    using those_map_Some [of "b64_of_bytes bs" "b64_val \<circ> b64_char" id] b64_of_bytes_bound by simp
  ultimately show ?thesis
    by (simp add: b64_RawDecodeString_def b64_sextets_of_bytes del: map_map)
qed

end
