(* ===== verification/Serde.thy ===== *)
theory Serde
  imports Go_Encoding
begin

text \<open>
  The package \<^verbatim>\<open>serde\<close>: the byte cursor of \<^verbatim>\<open>sourceBuffer.go\<close> and the reflective
  deserializer of \<^verbatim>\<open>deserializer.go\<close>.

  A \<open>SourceBuffer\<close> is a slice with a 64 bit offset. Methods return their Go results and the
  updated cursor; a slice expression that Go would reject at run time makes them \<open>None\<close>.

  The deserializer walks a value by reflection. \<open>gtype\<close> is the part of \<^verbatim>\<open>reflect.Type\<close>
  that the code inspects: the kind, whether a basic type is the predeclared one (only then does
  \<^verbatim>\<open>setValue\<close> find equal types), the fields of a struct with their export status, and pointers.
  \<open>gval\<close> is the value that is filled in; a failing call keeps what was already written.
  The lemmas show that the cursor never leaves the slice, that no call panics, and that decoding
  inverts the wire format \<open>encode_val\<close> of the protocol.
\<close>

section \<open>Source buffer\<close>

record SourceBuffer =
  sb_s :: "byte list"
  sb_off :: u64

definition NewSourceBuffer :: "byte list \<Rightarrow> SourceBuffer" where
  "NewSourceBuffer b = \<lparr>sb_s = b, sb_off = 0\<rparr>"

definition safeAdd :: "u64 \<Rightarrow> u64 \<Rightarrow> u64 \<times> bool" where
  "safeAdd x y = (x + y, y > (- 1) - x)"

definition sb_Len :: "SourceBuffer \<Rightarrow> u64" where
  "sb_Len sb = (let len = go_len (sb_s sb) in if sb_off sb \<ge> len then 0 else len - sb_off sb)"

definition sb_Bytes :: "SourceBuffer \<Rightarrow> byte list" where
  "sb_Bytes sb = sb_s sb"

definition sb_OffBytes :: "SourceBuffer \<Rightarrow> byte list option" where
  "sb_OffBytes sb = go_slice (sb_s sb) (unat (sb_off sb)) (length (sb_s sb))"

definition sb_Pos :: "SourceBuffer \<Rightarrow> u64" where
  "sb_Pos sb = sb_off sb"

definition sb_Size :: "SourceBuffer \<Rightarrow> u64" where
  "sb_Size sb = go_len (sb_s sb)"

definition sb_NextBytes :: "u32 \<Rightarrow> SourceBuffer \<Rightarrow> ((byte list \<times> bool) \<times> SourceBuffer) option" where
  "sb_NextBytes n sb =
     (let m = go_len (sb_s sb);
          (end0, overflow) = safeAdd (sb_off sb) (ucast n);
          eof = (overflow \<or> end0 > m);
          end' = (if eof then m else end0)
      in case go_slice (sb_s sb) (unat (sb_off sb)) (unat end') of
           None \<Rightarrow> None
         | Some data \<Rightarrow> Some ((data, eof), sb\<lparr>sb_off := end'\<rparr>))"

definition sb_Skip :: "u64 \<Rightarrow> SourceBuffer \<Rightarrow> bool \<times> SourceBuffer" where
  "sb_Skip n sb =
     (let m = go_len (sb_s sb);
          (end0, overflow) = safeAdd (sb_off sb) n;
          eof = (overflow \<or> end0 > m);
          end' = (if eof then m else end0)
      in (eof, sb\<lparr>sb_off := end'\<rparr>))"

definition sb_NextByte :: "SourceBuffer \<Rightarrow> ((byte \<times> bool) \<times> SourceBuffer)" where
  "sb_NextByte sb =
     (if sb_off sb \<ge> go_len (sb_s sb) then ((0, True), sb)
      else ((sb_s sb ! unat (sb_off sb), False), sb\<lparr>sb_off := sb_off sb + 1\<rparr>))"

definition sb_NextUint8 :: "SourceBuffer \<Rightarrow> ((byte \<times> bool) \<times> SourceBuffer)" where
  "sb_NextUint8 sb = sb_NextByte sb"

definition sb_NextBool :: "SourceBuffer \<Rightarrow> ((bool \<times> bool) \<times> SourceBuffer)" where
  "sb_NextBool sb =
     (let ((val, eof), sb') = sb_NextByte sb
      in ((if val = 0 then (False, eof) else if val = 1 then (True, eof) else (False, True)), sb'))"

definition sb_BackUp :: "u64 \<Rightarrow> SourceBuffer \<Rightarrow> SourceBuffer" where
  "sb_BackUp n sb = sb\<lparr>sb_off := sb_off sb - n\<rparr>"

definition sb_NextUint16 :: "SourceBuffer \<Rightarrow> ((16 word \<times> bool) \<times> SourceBuffer) option" where
  "sb_NextUint16 sb = do {
     ((buf, eof), sb') \<leftarrow> sb_NextBytes 2 sb;
     Some (if eof then (0, eof) else (of_nat (be_val buf), eof), sb') }"

definition sb_NextUint32 :: "SourceBuffer \<Rightarrow> ((u32 \<times> bool) \<times> SourceBuffer) option" where
  "sb_NextUint32 sb = do {
     ((buf, eof), sb') \<leftarrow> sb_NextBytes 4 sb;
     Some (if eof then (0, eof) else (of_nat (be_val buf), eof), sb') }"

definition sb_NextUint64 :: "SourceBuffer \<Rightarrow> ((u64 \<times> bool) \<times> SourceBuffer) option" where
  "sb_NextUint64 sb = do {
     ((buf, eof), sb') \<leftarrow> sb_NextBytes 8 sb;
     Some (if eof then (0, eof) else (of_nat (be_val buf), eof), sb') }"

text \<open>The signed readers convert the unsigned word, which keeps its bits.\<close>

definition sb_NextInt32 :: "SourceBuffer \<Rightarrow> ((32 word \<times> bool) \<times> SourceBuffer) option" where
  "sb_NextInt32 sb = sb_NextUint32 sb"

definition sb_NextInt64 :: "SourceBuffer \<Rightarrow> ((i64 \<times> bool) \<times> SourceBuffer) option" where
  "sb_NextInt64 sb = sb_NextUint64 sb"

definition sb_NextInt16 :: "SourceBuffer \<Rightarrow> ((16 word \<times> bool) \<times> SourceBuffer) option" where
  "sb_NextInt16 sb = sb_NextUint16 sb"

definition sb_NextVarBytes :: "SourceBuffer \<Rightarrow> ((byte list \<times> bool) \<times> SourceBuffer) option" where
  "sb_NextVarBytes sb = do {
     ((count, eof), sb') \<leftarrow> sb_NextUint32 sb;
     if eof then Some (([], eof), sb') else sb_NextBytes count sb' }"

definition sb_NextHash :: "SourceBuffer \<Rightarrow> ((byte list \<times> bool) \<times> SourceBuffer) option" where
  "sb_NextHash sb = do {
     ((buf, eof), sb') \<leftarrow> sb_NextBytes 32 sb;
     Some (if eof then (replicate 32 0, eof) else (buf, eof), sb') }"

definition sb_NextString :: "SourceBuffer \<Rightarrow> ((string \<times> bool) \<times> SourceBuffer) option" where
  "sb_NextString sb = do {
     ((val, eof), sb') \<leftarrow> sb_NextVarBytes sb;
     Some ((string_of_bytes val, eof), sb') }"

section \<open>Deserializer\<close>

datatype basic_kind =
    KInt8 | KInt16 | KInt32 | KInt64 | KUint8 | KUint16 | KUint32 | KUint64 | KBool | KString

datatype gtype =
    GBasic bool basic_kind       \<comment> \<open>the flag: is it the predeclared type of that kind\<close>
  | GBigInt                      \<comment> \<open>\<^verbatim>\<open>big.Int\<close>\<close>
  | GStruct "(bool \<times> gtype) list" \<comment> \<open>export status and type of each field\<close>
  | GPtr gtype
  | GOther                       \<comment> \<open>every kind the deserializer does not know\<close>

datatype gval =
    VInt8 "8 word" | VInt16 "16 word" | VInt32 "32 word" | VInt64 "64 word"
  | VUint8 "8 word" | VUint16 "16 word" | VUint32 "32 word" | VUint64 "64 word"
  | VBool bool | VString string | VBigInt int
  | VStruct "gval list" | VNil | VPtr gval | VOther
  | VBytes "byte list"           \<comment> \<open>a \<^verbatim>\<open>[]byte\<close>, as returned for structs and pointers\<close>

definition errEmptyBuffer :: go_error where "errEmptyBuffer = ErrorsNew ''empty buffer''"
definition errInvalidType :: go_error where "errInvalidType = ErrorsNew ''invalid type''"
definition errCantSet :: go_error where "errCantSet = ErrorsNew ''can't set value for field''"

definition getNextBasic :: "basic_kind \<Rightarrow> SourceBuffer \<Rightarrow> ((gval \<times> bool) \<times> SourceBuffer) option" where
  "getNextBasic k sb = (case k of
     KInt8 \<Rightarrow> (let ((v, eof), sb') = sb_NextUint8 sb in Some ((VInt8 v, eof), sb'))
   | KInt16 \<Rightarrow> map_option (\<lambda>((v, eof), sb'). ((VInt16 v, eof), sb')) (sb_NextInt16 sb)
   | KInt32 \<Rightarrow> map_option (\<lambda>((v, eof), sb'). ((VInt32 v, eof), sb')) (sb_NextInt32 sb)
   | KInt64 \<Rightarrow> map_option (\<lambda>((v, eof), sb'). ((VInt64 v, eof), sb')) (sb_NextInt64 sb)
   | KUint16 \<Rightarrow> map_option (\<lambda>((v, eof), sb'). ((VUint16 v, eof), sb')) (sb_NextUint16 sb)
   | KUint32 \<Rightarrow> map_option (\<lambda>((v, eof), sb'). ((VUint32 v, eof), sb')) (sb_NextUint32 sb)
   | KUint64 \<Rightarrow> map_option (\<lambda>((v, eof), sb'). ((VUint64 v, eof), sb')) (sb_NextUint64 sb)
   | KUint8 \<Rightarrow> (let ((v, eof), sb') = sb_NextUint8 sb in Some ((VUint8 v, eof), sb'))
   | KBool \<Rightarrow> (let ((v, eof), sb') = sb_NextBool sb in Some ((VBool v, eof), sb'))
   | KString \<Rightarrow> map_option (\<lambda>((v, eof), sb'). ((VString (string_of_bytes v), eof), sb'))
                  (sb_NextVarBytes sb))"

definition getNextValueFromBuffer :: "SourceBuffer \<Rightarrow> gtype \<Rightarrow> ((gval \<times> bool) \<times> SourceBuffer) option" where
  "getNextValueFromBuffer sb ty = (case ty of
     GBasic _ k \<Rightarrow> getNextBasic k sb
   | GBigInt \<Rightarrow> map_option (\<lambda>((v, eof), sb'). ((VBigInt (int (be_val v)), eof), sb')) (sb_NextVarBytes sb)
   | GStruct _ \<Rightarrow> map_option (\<lambda>b. ((VBytes b, False), sb)) (sb_OffBytes sb)
   | GPtr _ \<Rightarrow> map_option (\<lambda>b. ((VBytes b, False), sb)) (sb_OffBytes sb)
   | GOther \<Rightarrow> Some ((VNil, True), sb))"

text \<open>\<^verbatim>\<open>setValue\<close>: the object must be settable and its type must be the type of the value.\<close>

definition setValue :: "bool \<Rightarrow> gtype \<Rightarrow> gval \<Rightarrow> gval result" where
  "setValue canSet ty value =
     (if \<not> canSet then Inl (ErrorsNew ''cannot set field value'')
      else (case ty of
          GBasic predeclared _ \<Rightarrow> (if predeclared then Inr value
            else Inl (ErrorsNew ''provided value type didn't match obj field type''))
        | GBigInt \<Rightarrow> Inr value
        | _ \<Rightarrow> Inl (ErrorsNew ''provided value type didn't match obj field type'')))"

text \<open>
  \<^verbatim>\<open>getReflectedValue\<close> and the kind check of \<^verbatim>\<open>CreateStruct\<close>: follow one pointer, require a
  settable struct. The result is the fields with their present values.
\<close>

definition structTarget :: "bool \<Rightarrow> gtype \<Rightarrow> gval \<Rightarrow> ((bool \<times> gtype) list \<times> gval list) option" where
  "structTarget canSet ty v =
     (if \<not> canSet then None
      else (case (ty, v) of
          (GStruct fs, VStruct vs) \<Rightarrow> Some (fs, vs)
        | (GPtr (GStruct fs), VPtr (VStruct vs)) \<Rightarrow> Some (fs, vs)
        | _ \<Rightarrow> None))"

definition rewrap :: "gtype \<Rightarrow> gval list \<Rightarrow> gval" where
  "rewrap ty vs = (case ty of GPtr _ \<Rightarrow> VPtr (VStruct vs) | _ \<Rightarrow> VStruct vs)"

lemma structTarget_size:
  "structTarget c ty v = Some (fs, vs) \<Longrightarrow>
     size_list (size_prod (\<lambda>_. 0) size) fs < size ty"
  by (auto simp: structTarget_def split: if_splits gtype.splits gval.splits)

text \<open>The type test and assertion \<^verbatim>\<open>valueFromBuffer.([]byte)\<close>.\<close>

definition asBytes :: "gval \<Rightarrow> byte list option" where
  "asBytes v = (case v of VBytes b \<Rightarrow> Some b | _ \<Rightarrow> None)"

text \<open>
  \<^verbatim>\<open>CreateStruct\<close> and \<^verbatim>\<open>setFields\<close>. The result of \<^verbatim>\<open>setFields\<close> is the number of bytes
  read, the error if any, the field values and the cursor. A nested struct is decoded from the
  bytes that remain, in a cursor of its own, and the outer cursor skips what it used.
\<close>

function CreateStruct :: "bool \<Rightarrow> gtype \<Rightarrow> gval \<Rightarrow> byte list \<Rightarrow> ((u64 \<times> go_error option) \<times> gval) option"
  and setFields :: "(bool \<times> gtype) list \<Rightarrow> gval list \<Rightarrow> SourceBuffer \<Rightarrow>
                      ((u64 \<times> go_error option) \<times> gval list \<times> SourceBuffer) option" where
  "CreateStruct canSet ty v buff =
     (case structTarget canSet ty v of
        None \<Rightarrow> Some ((0, Some errInvalidType), v)
      | Some (fs, vs) \<Rightarrow>
          (case setFields fs vs (NewSourceBuffer buff) of
             None \<Rightarrow> None
           | Some ((used, err), vs', sb) \<Rightarrow>
               Some (if err \<noteq> None then (used, err) else (sb_Pos sb, None), rewrap ty vs')))"
| "setFields [] vs sb = Some ((sb_Pos sb, None), vs, sb)"
| "setFields (f # fs) [] sb = Some ((sb_Pos sb, None), [], sb)"
| "setFields ((exported, ty) # fs) (v # vs) sb =
     (case getNextValueFromBuffer sb ty of
        None \<Rightarrow> None
      | Some ((value, eof), sb') \<Rightarrow>
          if eof then Some ((sb_Pos sb', Some errEmptyBuffer), v # vs, sb')
          else (case asBytes value of
             Some rest \<Rightarrow>
               (case CreateStruct exported ty v rest of
                  None \<Rightarrow> None
                | Some ((used, Some e), v') \<Rightarrow> Some ((used, Some e), v' # vs, sb')
                | Some ((used, None), v') \<Rightarrow>
                    map_option (\<lambda>(r, vs', sb''). (r, v' # vs', sb''))
                      (setFields fs vs (snd (sb_Skip used sb'))))
           | None \<Rightarrow>
               (case setValue exported ty value of
                  Inl e \<Rightarrow> Some ((sb_Pos sb', Some errCantSet), v # vs, sb')
                | Inr v' \<Rightarrow> map_option (\<lambda>(r, vs', sb''). (r, v' # vs', sb''))
                              (setFields fs vs sb'))))"
  by pat_completeness auto
termination
  by (relation "measure (\<lambda>x. case x of
        Inl (c, ty, v, b) \<Rightarrow> 2 * size ty
      | Inr (fs, vs, sb) \<Rightarrow> Suc (2 * size_list (size_prod (\<lambda>_. 0) size) fs))")
    (auto dest: structTarget_size)

text \<open>\<^verbatim>\<open>CreatePrimitiveDataType\<close> on a target of type \<open>ty\<close>; strings and big integers get
  the length prefix that the nested format has.\<close>

definition CreatePrimitiveDataType :: "bool \<Rightarrow> gtype \<Rightarrow> byte list \<Rightarrow> gval result option" where
  "CreatePrimitiveDataType canSet ty buff0 =
     (if \<not> canSet then Some (Inl errInvalidType)
      else
        let isVar = (case ty of GBasic _ k \<Rightarrow> k = KString | GBigInt \<Rightarrow> True | _ \<Rightarrow> False);
            buff = (if isVar then be_bytes 4 (length buff0 mod 2 ^ 32) @ buff0 else buff0)
        in case getNextValueFromBuffer (NewSourceBuffer buff) ty of
             None \<Rightarrow> None
           | Some ((value, eof), _) \<Rightarrow>
               if eof then Some (Inl errEmptyBuffer) else Some (setValue canSet ty value))"

section \<open>Reference encoding and cursor specification\<close>

text \<open>
  A cursor is well formed when its offset stays within the slice; \<open>sb_rest\<close> is the unread
  input, \<open>sb_adv\<close> the cursor moved forward and \<open>sb_reads\<close> says that one cursor comes from
  another one by reading.
\<close>

definition sb_ok :: "SourceBuffer \<Rightarrow> bool" where
  "sb_ok sb \<longleftrightarrow> slice_ok (sb_s sb) \<and> unat (sb_off sb) \<le> length (sb_s sb)"

definition sb_rest :: "SourceBuffer \<Rightarrow> byte list" where
  "sb_rest sb = drop (unat (sb_off sb)) (sb_s sb)"

definition sb_adv :: "nat \<Rightarrow> SourceBuffer \<Rightarrow> SourceBuffer" where
  "sb_adv n sb = sb\<lparr>sb_off := sb_off sb + of_nat n\<rparr>"

definition sb_reads :: "SourceBuffer \<Rightarrow> SourceBuffer \<Rightarrow> bool" where
  "sb_reads sb sb' \<longleftrightarrow> (\<exists>k \<le> length (sb_rest sb). sb' = sb_adv k sb)"

text \<open>
  The nested encoding of a value, which the deserializer is the inverse of, and the values that
  have one. \<open>allocated\<close> says that the target object has the shape of its type: the pointers
  in it are not nil.
\<close>

fun encode_val :: "gval \<Rightarrow> byte list" where
  "encode_val (VInt8 w) = [w]"
| "encode_val (VInt16 w) = be_bytes 2 (unat w)"
| "encode_val (VInt32 w) = be_bytes 4 (unat w)"
| "encode_val (VInt64 w) = be_bytes 8 (unat w)"
| "encode_val (VUint8 w) = [w]"
| "encode_val (VUint16 w) = be_bytes 2 (unat w)"
| "encode_val (VUint32 w) = be_bytes 4 (unat w)"
| "encode_val (VUint64 w) = be_bytes 8 (unat w)"
| "encode_val (VBool b) = [if b then 1 else 0]"
| "encode_val (VString s) = be_bytes 4 (length s) @ bytes_of_string s"
| "encode_val (VBigInt i) = be_bytes 4 (length (big_Bytes i)) @ big_Bytes i"
| "encode_val (VStruct vs) = concat (map encode_val vs)"
| "encode_val (VPtr v) = encode_val v"
| "encode_val _ = []"

fun kind_of :: "gval \<Rightarrow> basic_kind option" where
  "kind_of (VInt8 _) = Some KInt8"
| "kind_of (VInt16 _) = Some KInt16"
| "kind_of (VInt32 _) = Some KInt32"
| "kind_of (VInt64 _) = Some KInt64"
| "kind_of (VUint8 _) = Some KUint8"
| "kind_of (VUint16 _) = Some KUint16"
| "kind_of (VUint32 _) = Some KUint32"
| "kind_of (VUint64 _) = Some KUint64"
| "kind_of (VBool _) = Some KBool"
| "kind_of (VString _) = Some KString"
| "kind_of _ = None"

definition basic_val :: "basic_kind \<Rightarrow> gval \<Rightarrow> bool" where
  "basic_val k v \<longleftrightarrow> kind_of v = Some k \<and> (case v of VString s \<Rightarrow> length s < 2 ^ 32 | _ \<Rightarrow> True)"

definition is_struct :: "gtype \<Rightarrow> bool" where
  "is_struct ty = (case ty of GStruct _ \<Rightarrow> True | _ \<Rightarrow> False)"

fun serializable :: "gtype \<Rightarrow> gval \<Rightarrow> bool"
  and serializables :: "(bool \<times> gtype) list \<Rightarrow> gval list \<Rightarrow> bool" where
  "serializable (GBasic p k) v = (p \<and> basic_val k v)"
| "serializable GBigInt v = (case v of VBigInt i \<Rightarrow> 0 \<le> i \<and> length (big_Bytes i) < 2 ^ 32 | _ \<Rightarrow> False)"
| "serializable (GStruct fs) v = (case v of VStruct vs \<Rightarrow> serializables fs vs | _ \<Rightarrow> False)"
| "serializable (GPtr t) v = (case v of VPtr u \<Rightarrow> is_struct t \<and> serializable t u | _ \<Rightarrow> False)"
| "serializable GOther v = False"
| "serializables [] vs = (vs = [])"
| "serializables ((ex, ty) # fs) vs =
     (case vs of [] \<Rightarrow> False | v # vs' \<Rightarrow> ex \<and> serializable ty v \<and> serializables fs vs')"

fun allocated :: "gtype \<Rightarrow> gval \<Rightarrow> bool"
  and allocateds :: "(bool \<times> gtype) list \<Rightarrow> gval list \<Rightarrow> bool" where
  "allocated (GStruct fs) v = (case v of VStruct vs \<Rightarrow> allocateds fs vs | _ \<Rightarrow> False)"
| "allocated (GPtr t) v = (case v of VPtr u \<Rightarrow> allocated t u | _ \<Rightarrow> False)"
| "allocated (GBasic p k) v = True"
| "allocated GBigInt v = True"
| "allocated GOther v = True"
| "allocateds [] vs = (vs = [])"
| "allocateds ((ex, ty) # fs) vs =
     (case vs of [] \<Rightarrow> False | v # vs' \<Rightarrow> allocated ty v \<and> allocateds fs vs')"

text \<open>A Go value has the type of the variable that holds it. A pointer may be nil, and nothing is said of
  the kinds of types that the deserializer does not read.\<close>

fun has_type :: "gtype \<Rightarrow> gval \<Rightarrow> bool"
  and has_types :: "(bool \<times> gtype) list \<Rightarrow> gval list \<Rightarrow> bool" where
  "has_type (GBasic p k) v = (kind_of v = Some k)"
| "has_type GBigInt v = (case v of VBigInt i \<Rightarrow> True | _ \<Rightarrow> False)"
| "has_type (GStruct fs) v = (case v of VStruct vs \<Rightarrow> has_types fs vs | _ \<Rightarrow> False)"
| "has_type (GPtr t) v = (case v of VPtr u \<Rightarrow> has_type t u | VNil \<Rightarrow> True | _ \<Rightarrow> False)"
| "has_type GOther v = True"
| "has_types [] vs = (vs = [])"
| "has_types ((ex, ty) # fs) vs = (case vs of [] \<Rightarrow> False | v # vs' \<Rightarrow> has_type ty v \<and> has_types fs vs')"

text \<open>The top level encoding of a single value has no length prefix.\<close>

definition top_encode :: "gval \<Rightarrow> byte list" where
  "top_encode v = (case v of
     VString s \<Rightarrow> bytes_of_string s
   | VBigInt i \<Rightarrow> big_Bytes i
   | _ \<Rightarrow> encode_val v)"

definition is_scalar :: "gtype \<Rightarrow> bool" where
  "is_scalar ty = (case ty of GBasic _ _ \<Rightarrow> True | GBigInt \<Rightarrow> True | _ \<Rightarrow> False)"

section \<open>Lemmas: the cursor\<close>

lemma unat_u64: "unat (n :: u64) < 2 ^ 64"
  using unsigned_less [of n, where ?'a = nat] by simp

lemma unat_u32: "unat (n :: u32) < 2 ^ 32"
  using unsigned_less [of n, where ?'a = nat] by simp

lemma unat_neg_one_u64: "unat (- 1 :: u64) = 2 ^ 64 - 1"
  by (simp add: unsigned_minus_1_eq_mask mask_eq_exp_minus_1)

lemma unat_add_small: "unat (x :: u64) + unat y < 2 ^ 64 \<Longrightarrow> unat (x + y) = unat x + unat y"
  by (simp add: unat_word_ariths)

lemma unat_u64_of_nat [simp]: "n < 2 ^ 64 \<Longrightarrow> unat (of_nat n :: u64) = n"
  by (simp add: unat_of_nat take_bit_nat_eq_self)

lemma unat_ucast_u32: "unat (ucast (n :: u32) :: u64) = unat n"
  by (simp add: unsigned_ucast_eq take_bit_nat_eq_self unat_u32 [THEN less_trans])

lemma safeAdd_eq: "safeAdd x y = (x + y, 2 ^ 64 \<le> unat x + unat y)"
proof -
  have "unat ((- 1 :: u64) - x) = 2 ^ 64 - 1 - unat x"
    using unat_sub [of x "- 1"] by (simp add: unat_neg_one_u64)
  moreover have "unat x < 2 ^ 64" by (rule unat_u64)
  ultimately have "(- 1 - x < y) = (2 ^ 64 \<le> unat x + unat y)"
    unfolding word_less_nat_alt by linarith
  then show ?thesis by (simp add: safeAdd_def)
qed

lemma sb_ok_New [simp]: "slice_ok b \<Longrightarrow> sb_ok (NewSourceBuffer b)"
  by (simp add: sb_ok_def NewSourceBuffer_def)

lemma rem_New [simp]: "sb_rest (NewSourceBuffer b) = b"
  by (simp add: sb_rest_def NewSourceBuffer_def)

lemma sb_okD:
  assumes "sb_ok sb"
  shows "length (sb_s sb) < 9223372036854775808" and "unat (sb_off sb) + length (sb_rest sb) = length (sb_s sb)"
  using assms by (auto simp: sb_ok_def slice_ok_def sb_rest_def)

lemma sb_ok_slice: "sb_ok sb \<Longrightarrow> slice_ok (sb_s sb)"
  by (simp add: sb_ok_def)

lemma adv_s [simp]: "sb_s (sb_adv n sb) = sb_s sb"
  by (simp add: sb_adv_def)

lemma adv_off:
  assumes "sb_ok sb" and "n \<le> length (sb_rest sb)"
  shows "unat (sb_off (sb_adv n sb)) = unat (sb_off sb) + n"
proof -
  have b: "unat (sb_off sb) + n < 18446744073709551616"
    using sb_okD [OF assms(1)] assms(2) by linarith
  then show ?thesis by (simp add: sb_adv_def unat_add_small)
qed

lemma rem_adv: "sb_ok sb \<Longrightarrow> n \<le> length (sb_rest sb) \<Longrightarrow> sb_rest (sb_adv n sb) = drop n (sb_rest sb)"
  using adv_off [of sb n] by (simp add: sb_rest_def add.commute)

lemma sb_ok_adv: "sb_ok sb \<Longrightarrow> n \<le> length (sb_rest sb) \<Longrightarrow> sb_ok (sb_adv n sb)"
  using adv_off [of sb n] sb_okD(2) [of sb] by (simp add: sb_ok_def)

lemma adv_0 [simp]: "sb_adv 0 sb = sb"
  by (simp add: sb_adv_def)

lemma adv_adv [simp]: "sb_adv m (sb_adv n sb) = sb_adv (n + m) sb"
  by (simp add: sb_adv_def add.assoc)

lemma go_len_end: "sb_ok sb \<Longrightarrow> go_len (sb_s sb) = sb_off (sb_adv (length (sb_rest sb)) sb)"
  using adv_off [of sb "length (sb_rest sb)"] sb_okD(2) [of sb]
  by (simp add: word_unat_eq_iff sb_ok_slice)

text \<open>The end computed by \<^verbatim>\<open>safeAdd\<close>, clamped to the slice.\<close>

lemma clamp_end:
  assumes "sb_ok sb"
  shows "(case safeAdd (sb_off sb) n of (e, ov) \<Rightarrow>
            (ov \<or> e > go_len (sb_s sb), if ov \<or> e > go_len (sb_s sb) then go_len (sb_s sb) else e))
         = (length (sb_rest sb) < unat n, sb_off (sb_adv (min (unat n) (length (sb_rest sb))) sb))"
proof (cases "unat n \<le> length (sb_rest sb)")
  case True
  have "unat (sb_off sb + n) = unat (sb_off sb) + unat n"
    using adv_off [OF assms True] by (simp add: sb_adv_def)
  moreover have "\<not> 18446744073709551616 \<le> unat (sb_off sb) + unat n"
    using sb_okD [OF assms] True by linarith
  moreover have "\<not> go_len (sb_s sb) < sb_off sb + n"
    using calculation(1) True sb_okD [OF assms] sb_ok_slice [OF assms]
    by (simp add: word_less_nat_alt)
  ultimately show ?thesis
    using True by (simp add: safeAdd_eq sb_adv_def)
next
  case False
  have "2 ^ 64 \<le> unat (sb_off sb) + unat n \<or> go_len (sb_s sb) < sb_off sb + n"
  proof (cases "2 ^ 64 \<le> unat (sb_off sb) + unat n")
    case True
    then show ?thesis ..
  next
    case no: False
    then have "unat (sb_off sb + n) = unat (sb_off sb) + unat n"
      by (intro unat_add_small) simp
    with False sb_okD [OF assms] sb_ok_slice [OF assms] show ?thesis
      by (simp add: word_less_nat_alt)
  qed
  with False show ?thesis
    by (simp add: safeAdd_eq go_len_end [OF assms])
qed

lemma sb_NextBytes_eq:
  assumes "sb_ok sb"
  shows "sb_NextBytes n sb =
     Some ((take (unat n) (sb_rest sb), length (sb_rest sb) < unat n), sb_adv (min (unat n) (length (sb_rest sb))) sb)"
proof -
  let ?k = "min (unat n) (length (sb_rest sb))"
  have u: "unat (ucast n :: u64) = unat n"
    by (rule unat_ucast_u32)
  obtain e ov where s: "safeAdd (sb_off sb) (ucast n) = (e, ov)" by fastforce
  have c: "(ov \<or> e > go_len (sb_s sb)) = (length (sb_rest sb) < unat n)"
    using clamp_end [OF assms, of "ucast n"] by (simp_all add: s u)
  then have e: "(if length (sb_rest sb) < unat n then go_len (sb_s sb) else e) = sb_off (sb_adv ?k sb)"
    using clamp_end [OF assms, of "ucast n"] by (simp only: s u prod.case prod.inject)
  have "unat (sb_off (sb_adv ?k sb)) = unat (sb_off sb) + ?k"
    by (rule adv_off [OF assms]) simp
  moreover have "unat (sb_off sb) + ?k \<le> length (sb_s sb)"
    using sb_okD(2) [OF assms] by linarith
  ultimately have "go_slice (sb_s sb) (unat (sb_off sb)) (unat (sb_off (sb_adv ?k sb))) = Some (take ?k (sb_rest sb))"
    by (simp only: go_slice_def sb_rest_def) simp
  also have "take ?k (sb_rest sb) = take (unat n) (sb_rest sb)"
    by (simp add: min_def)
  finally have sl: "go_slice (sb_s sb) (unat (sb_off sb)) (unat (sb_off (sb_adv ?k sb))) = Some (take (unat n) (sb_rest sb))" .
  have a: "sb\<lparr>sb_off := sb_off (sb_adv ?k sb)\<rparr> = sb_adv ?k sb" by (simp add: sb_adv_def)
  show ?thesis
    unfolding sb_NextBytes_def Let_def s prod.case c e sl option.case a by (rule refl)
qed

lemma sb_Skip_eq:
  assumes "sb_ok sb"
  shows "sb_Skip n sb = (length (sb_rest sb) < unat n, sb_adv (min (unat n) (length (sb_rest sb))) sb)"
proof -
  obtain e ov where s: "safeAdd (sb_off sb) n = (e, ov)" by fastforce
  have c: "(ov \<or> e > go_len (sb_s sb)) = (length (sb_rest sb) < unat n)"
    using clamp_end [OF assms, of n] by (simp_all add: s)
  then have e: "(if length (sb_rest sb) < unat n then go_len (sb_s sb) else e)
      = sb_off (sb_adv (min (unat n) (length (sb_rest sb))) sb)"
    using clamp_end [OF assms, of n] by (simp only: s prod.case prod.inject)
  show ?thesis
    unfolding sb_Skip_def Let_def s prod.case c e by (simp add: sb_adv_def)
qed

lemma sb_NextByte_eq:
  assumes "sb_ok sb"
  shows "sb_NextByte sb = (case sb_rest sb of [] \<Rightarrow> ((0, True), sb) | b # _ \<Rightarrow> ((b, False), sb_adv 1 sb))"
proof (cases "unat (sb_off sb) < length (sb_s sb)")
  case True
  then have "sb_rest sb = sb_s sb ! unat (sb_off sb) # drop (Suc (unat (sb_off sb))) (sb_s sb)"
    by (simp add: sb_rest_def Cons_nth_drop_Suc)
  with True assms show ?thesis
    by (simp add: sb_NextByte_def word_le_nat_alt sb_ok_def sb_adv_def)
next
  case False
  with assms show ?thesis
    by (simp add: sb_NextByte_def word_le_nat_alt sb_ok_def sb_rest_def)
qed

lemma sb_OffBytes_eq: "sb_ok sb \<Longrightarrow> sb_OffBytes sb = Some (sb_rest sb)"
  by (simp add: sb_OffBytes_def sb_ok_def sb_rest_def)


lemma reads_refl [simp]: "sb_reads sb sb"
  by (auto simp: sb_reads_def intro!: exI [of _ 0])

lemma reads_adv [simp]: "k \<le> length (sb_rest sb) \<Longrightarrow> sb_reads sb (sb_adv k sb)"
  by (auto simp: sb_reads_def)

lemma reads_trans:
  assumes "sb_ok sb" and "sb_reads sb sb'" and "sb_reads sb' sb''"
  shows "sb_reads sb sb''"
proof -
  obtain j k where jk: "j \<le> length (sb_rest sb)" "sb' = sb_adv j sb" "k \<le> length (sb_rest sb')" "sb'' = sb_adv k sb'"
    using assms(2,3) by (auto simp: sb_reads_def)
  then have "j + k \<le> length (sb_rest sb)" using assms(1) by (simp add: rem_adv)
  with jk show ?thesis by simp
qed

lemma reads_ok: "sb_reads sb sb' \<Longrightarrow> sb_ok sb \<Longrightarrow> sb_ok sb'"
  by (auto simp: sb_reads_def sb_ok_adv)

lemma reads_s: "sb_reads sb sb' \<Longrightarrow> sb_s sb' = sb_s sb"
  by (auto simp: sb_reads_def)

lemma sb_Pos_bound: "sb_ok sb \<Longrightarrow> unat (sb_Pos sb) \<le> length (sb_s sb)"
  by (simp add: sb_Pos_def sb_ok_def)

lemma length_rem_le: "length (sb_rest sb) \<le> length (sb_s sb)"
  by (simp add: sb_rest_def)

lemma NextBytes_reads: "sb_ok sb \<Longrightarrow> \<exists>v eof sb'. sb_NextBytes n sb = Some ((v, eof), sb') \<and> sb_reads sb sb'"
  by (simp add: sb_NextBytes_eq)

lemma NextByte_reads: "sb_ok sb \<Longrightarrow> \<exists>v eof sb'. sb_NextByte sb = ((v, eof), sb') \<and> sb_reads sb sb'"
  by (auto simp: sb_NextByte_eq split: list.split)

lemma NextUint16_reads: "sb_ok sb \<Longrightarrow> \<exists>v eof sb'. sb_NextUint16 sb = Some ((v, eof), sb') \<and> sb_reads sb sb'"
  by (auto simp: sb_NextUint16_def sb_NextBytes_eq)

lemma NextUint32_reads: "sb_ok sb \<Longrightarrow> \<exists>v eof sb'. sb_NextUint32 sb = Some ((v, eof), sb') \<and> sb_reads sb sb'"
  by (auto simp: sb_NextUint32_def sb_NextBytes_eq)

lemma NextUint64_reads: "sb_ok sb \<Longrightarrow> \<exists>v eof sb'. sb_NextUint64 sb = Some ((v, eof), sb') \<and> sb_reads sb sb'"
  by (auto simp: sb_NextUint64_def sb_NextBytes_eq)

lemma NextVarBytes_reads:
  assumes "sb_ok sb"
  shows "\<exists>v eof sb'. sb_NextVarBytes sb = Some ((v, eof), sb') \<and> sb_reads sb sb'"
proof -
  obtain n eof sb1 where n: "sb_NextUint32 sb = Some ((n, eof), sb1)" and r: "sb_reads sb sb1"
    using NextUint32_reads [OF assms] by blast
  obtain v eof' sb2 where v: "sb_NextBytes n sb1 = Some ((v, eof'), sb2)" and r2: "sb_reads sb1 sb2"
    using NextBytes_reads [OF reads_ok [OF r assms]] by blast
  from n v r reads_trans [OF assms r r2] show ?thesis
    by (auto simp: sb_NextVarBytes_def)
qed

lemmas basic_reads = NextByte_reads NextUint16_reads NextUint32_reads NextUint64_reads NextVarBytes_reads

lemma NextBool_reads: "sb_ok sb \<Longrightarrow> \<exists>v eof sb'. sb_NextBool sb = ((v, eof), sb') \<and> sb_reads sb sb'"
  using NextByte_reads [of sb] by (auto simp: sb_NextBool_def)

lemma getNextBasic_reads: "sb_ok sb \<Longrightarrow> \<exists>v eof sb'. getNextBasic k sb = Some ((v, eof), sb') \<and> sb_reads sb sb'"
  using basic_reads [of sb] NextBool_reads [of sb]
  by (cases k) (auto simp: getNextBasic_def sb_NextUint8_def sb_NextInt16_def sb_NextInt32_def sb_NextInt64_def)

lemma getNextValue_reads:
  "sb_ok sb \<Longrightarrow> \<exists>v eof sb'. getNextValueFromBuffer sb ty = Some ((v, eof), sb') \<and> sb_reads sb sb'"
  using getNextBasic_reads [of sb] NextVarBytes_reads [of sb]
  by (cases ty) (fastforce simp: getNextValueFromBuffer_def sb_OffBytes_eq)+

lemma getNextValue_VBytes:
  "sb_ok sb \<Longrightarrow> getNextValueFromBuffer sb ty = Some ((x, eof), sb') \<Longrightarrow> asBytes x = Some r \<Longrightarrow> r = sb_rest sb \<and> sb' = sb \<and> \<not> eof"
  by (cases ty) (auto simp: getNextValueFromBuffer_def getNextBasic_def sb_OffBytes_eq asBytes_def
      split: basic_kind.splits prod.splits)

lemma Skip_reads: "sb_ok sb \<Longrightarrow> sb_reads sb (snd (sb_Skip n sb))"
  by (simp add: sb_Skip_eq)

declare CreateStruct.simps [simp del] setFields.simps [simp del]

lemma deserializer_total:
  "slice_ok buff \<Longrightarrow> \<exists>used err v'. CreateStruct c ty v buff = Some ((used, err), v') \<and> unat used \<le> length buff"
  "sb_ok sb \<Longrightarrow> \<exists>used err vs' sb'. setFields fs vs sb = Some ((used, err), vs', sb')
      \<and> sb_reads sb sb' \<and> unat used \<le> length (sb_s sb)"
proof (induction c ty v buff and fs vs sb rule: CreateStruct_setFields.induct)
  case (1 canSet ty v buff)
  show ?case
  proof (cases "structTarget canSet ty v")
    case None
    then show ?thesis by (simp add: CreateStruct.simps)
  next
    case (Some p)
    obtain fs vs where p: "p = (fs, vs)" by fastforce
    obtain used err vs' sb' where sf: "setFields fs vs (NewSourceBuffer buff) = Some ((used, err), vs', sb')"
      and r: "sb_reads (NewSourceBuffer buff) sb'" and u: "unat used \<le> length (sb_s (NewSourceBuffer buff))"
      using "1.IH" [OF Some p [symmetric]] "1.prems" by auto
    have "sb_ok sb'" using reads_ok [OF r] "1.prems" by simp
    moreover have "sb_s sb' = buff" using reads_s [OF r] by (simp add: NewSourceBuffer_def)
    ultimately show ?thesis
      using Some p sf u sb_Pos_bound [of sb'] by (auto simp: CreateStruct.simps NewSourceBuffer_def)
  qed
next
  case (2 vs sb)
  then show ?case by (simp add: setFields.simps sb_Pos_bound)
next
  case (3 f fs sb)
  then show ?case by (simp add: setFields.simps sb_Pos_bound)
next
  case (4 exported ty fs v vs sb)
  obtain x eof sb' where g: "getNextValueFromBuffer sb ty = Some ((x, eof), sb')" and r: "sb_reads sb sb'"
    using getNextValue_reads [OF "4.prems"] by blast
  have ok': "sb_ok sb'" using reads_ok [OF r "4.prems"] .
  have pos: "unat (sb_Pos sb') \<le> length (sb_s sb)"
    using sb_Pos_bound [OF ok'] reads_s [OF r] by simp
  show ?case
  proof (cases eof)
    case True
    with g r pos show ?thesis by (simp add: setFields.simps)
  next
    case noeof: False
    show ?thesis
    proof (cases "asBytes x")
      case val: (Some rest)
      with getNextValue_VBytes [OF "4.prems"] g have rest: "rest = sb_rest sb" "sb' = sb" by auto
      have "slice_ok rest" using sb_ok_slice [OF "4.prems"] by (simp add: rest sb_rest_def)
      then obtain used err v' where cs: "CreateStruct exported ty v rest = Some ((used, err), v')"
        and used: "unat used \<le> length rest"
        using "4.IH"(2) [OF g refl refl noeof val] by blast
      have used': "unat used \<le> length (sb_s sb)" using used length_rem_le [of sb] rest by simp
      show ?thesis
      proof (cases err)
        case (Some e)
        with g noeof val cs r used' show ?thesis by (simp add: setFields.simps)
      next
        case None
        let ?sk = "snd (sb_Skip used sb')"
        have rs: "sb_reads sb ?sk" using Skip_reads "4.prems" rest by simp
        obtain used2 err2 vs2 sb2 where "setFields fs vs ?sk = Some ((used2, err2), vs2, sb2)"
          "sb_reads ?sk sb2" "unat used2 \<le> length (sb_s ?sk)"
          using "4.IH"(3) [OF g refl refl noeof val cs refl refl None reads_ok [OF rs "4.prems"]] by blast
        with g noeof val cs None rs reads_trans [OF "4.prems" rs] reads_s [OF rs] show ?thesis
          by (simp add: setFields.simps)
      qed
    next
      case nob: None
      show ?thesis
      proof (cases "setValue exported ty x")
        case (Inl e)
        with g noeof nob r pos show ?thesis by (simp add: setFields.simps)
      next
        case (Inr v')
        have "\<exists>used err vs' sb''. setFields fs vs sb' = Some ((used, err), vs', sb'')
            \<and> sb_reads sb' sb'' \<and> unat used \<le> length (sb_s sb')"
          using "4.IH"(1) [OF g refl refl noeof nob Inr ok'] .
        with g noeof nob Inr reads_trans [OF "4.prems" r] reads_s [OF r] show ?thesis
          by (auto simp: setFields.simps)
      qed
    qed
  qed
qed

section \<open>Lemmas: decoding inverts the encoding\<close>

lemma NextBytes_exact:
  "sb_ok sb \<Longrightarrow> sb_rest sb = xs @ ys \<Longrightarrow> unat n = length xs \<Longrightarrow>
     sb_NextBytes n sb = Some ((xs, False), sb_adv (length xs) sb)"
  by (simp add: sb_NextBytes_eq)

lemma NextUint16_exact:
  "sb_ok sb \<Longrightarrow> sb_rest sb = be_bytes 2 (unat w) @ ys \<Longrightarrow> sb_NextUint16 sb = Some ((w, False), sb_adv 2 sb)"
  using NextBytes_exact [of sb "be_bytes 2 (unat w)" ys 2] unsigned_less [of w, where ?'a = nat]
  by (simp add: sb_NextUint16_def be_val_be_bytes)

lemma NextUint32_exact:
  "sb_ok sb \<Longrightarrow> sb_rest sb = be_bytes 4 n @ ys \<Longrightarrow> n < 2 ^ 32 \<Longrightarrow>
     sb_NextUint32 sb = Some ((of_nat n, False), sb_adv 4 sb)"
  using NextBytes_exact [of sb "be_bytes 4 n" ys 4]
  by (simp add: sb_NextUint32_def be_val_be_bytes)

lemma NextUint64_exact:
  "sb_ok sb \<Longrightarrow> sb_rest sb = be_bytes 8 (unat w) @ ys \<Longrightarrow> sb_NextUint64 sb = Some ((w, False), sb_adv 8 sb)"
  using NextBytes_exact [of sb "be_bytes 8 (unat w)" ys 8] unat_u64 [of w]
  by (simp add: sb_NextUint64_def be_val_be_bytes)

lemma NextVarBytes_exact:
  assumes "sb_ok sb" and "sb_rest sb = be_bytes 4 (length xs) @ xs @ ys" and "length xs < 2 ^ 32"
  shows "sb_NextVarBytes sb = Some ((xs, False), sb_adv (4 + length xs) sb)"
proof -
  have n: "sb_NextUint32 sb = Some ((of_nat (length xs), False), sb_adv 4 sb)"
    using NextUint32_exact [OF assms] .
  have "sb_ok (sb_adv 4 sb)" "sb_rest (sb_adv 4 sb) = xs @ ys"
    using assms(1,2) by (simp_all add: sb_ok_adv rem_adv)
  moreover have "unat (of_nat (length xs) :: u32) = length xs"
    using assms(3) by (simp add: unat_of_nat take_bit_nat_eq_self)
  ultimately have "sb_NextBytes (of_nat (length xs)) (sb_adv 4 sb) = Some ((xs, False), sb_adv (length xs) (sb_adv 4 sb))"
    by (rule NextBytes_exact)
  with n show ?thesis by (simp add: sb_NextVarBytes_def)
qed

lemma getNextBasic_exact:
  "basic_val k w \<Longrightarrow> sb_ok sb \<Longrightarrow> sb_rest sb = encode_val w @ ys \<Longrightarrow>
     getNextBasic k sb = Some ((w, False), sb_adv (length (encode_val w)) sb)"
  using unat_u32
  by (cases w)
    (auto simp: basic_val_def getNextBasic_def sb_NextUint8_def sb_NextInt16_def sb_NextInt32_def sb_NextInt64_def
      sb_NextBool_def sb_NextByte_eq NextUint16_exact NextUint32_exact NextUint64_exact
      NextVarBytes_exact [where xs = "bytes_of_string _"])

lemma getNextBig_exact:
  assumes "0 \<le> i" and "length (big_Bytes i) < 2 ^ 32" and "sb_ok sb" and "sb_rest sb = encode_val (VBigInt i) @ ys"
  shows "getNextValueFromBuffer sb GBigInt = Some ((VBigInt i, False), sb_adv (length (encode_val (VBigInt i))) sb)"
  using NextVarBytes_exact [of sb "big_Bytes i" ys] assms
  by (simp add: getNextValueFromBuffer_def) (simp add: big_Bytes_def)

lemma basic_not_bytes: "basic_val k w \<Longrightarrow> asBytes w = None"
  by (cases w) (auto simp: asBytes_def basic_val_def)

lemma of_nat_length_enc: "sb_ok sb \<Longrightarrow> n \<le> length (sb_rest sb) \<Longrightarrow> unat (of_nat n :: u64) = n"
  using sb_okD [of sb] by simp

text \<open>One field: the value is read and stored, and the loop goes on behind it.\<close>

lemma setFields_scalar:
  assumes "sb_ok sb" and "sb_rest sb = encode_val w @ ys"
    and "getNextValueFromBuffer sb ty = Some ((w, False), sb_adv (length (encode_val w)) sb)"
    and "asBytes w = None" and "setValue True ty w = Inr w"
  shows "setFields ((True, ty) # fs) (v # vs) sb =
     map_option (\<lambda>(r, vs', sb''). (r, w # vs', sb'')) (setFields fs vs (sb_adv (length (encode_val w)) sb))"
  using assms by (simp add: setFields.simps)

lemma setFields_struct:
  assumes ok: "sb_ok sb" and sb_rest: "sb_rest sb = encode_val w @ ys"
    and ty: "(\<exists>fs. ty = GStruct fs) \<or> (\<exists>t. ty = GPtr t)"
    and cs: "CreateStruct True ty v (sb_rest sb) = Some ((of_nat (length (encode_val w)), None), w)"
  shows "setFields ((True, ty) # fs) (v # vs) sb =
     map_option (\<lambda>(r, vs', sb''). (r, w # vs', sb'')) (setFields fs vs (sb_adv (length (encode_val w)) sb))"
proof -
  have g: "getNextValueFromBuffer sb ty = Some ((VBytes (sb_rest sb), False), sb)"
    using ty ok by (auto simp: getNextValueFromBuffer_def sb_OffBytes_eq)
  have "unat (of_nat (length (encode_val w)) :: u64) = length (encode_val w)"
    using of_nat_length_enc [OF ok, of "length (encode_val w)"] sb_rest by simp
  then have "snd (sb_Skip (of_nat (length (encode_val w))) sb) = sb_adv (length (encode_val w)) sb"
    using ok sb_rest by (simp add: sb_Skip_eq)
  with g cs show ?thesis by (simp add: setFields.simps asBytes_def)
qed

lemma CreateStruct_of_fields:
  assumes "structTarget True ty v = Some (fs, vs)" and "slice_ok buff"
    and "setFields fs vs (NewSourceBuffer buff) =
      Some ((of_nat (length (encode_val w)), None), ws, sb_adv (length (encode_val w)) (NewSourceBuffer buff))"
    and "rewrap ty ws = w"
  shows "CreateStruct True ty v buff = Some ((of_nat (length (encode_val w)), None), w)"
  using assms by (simp add: CreateStruct.simps sb_Pos_def sb_adv_def NewSourceBuffer_def)

lemma serde_roundtrip:
  "serializable ty w \<Longrightarrow> allocated ty v \<Longrightarrow> is_struct ty \<or> (\<exists>t. ty = GPtr t) \<Longrightarrow>
     slice_ok (encode_val w @ ys) \<Longrightarrow>
     CreateStruct True ty v (encode_val w @ ys) = Some ((of_nat (length (encode_val w)), None), w)"
  "serializables fs ws \<Longrightarrow> allocateds fs vs \<Longrightarrow> sb_ok sb \<Longrightarrow> sb_rest sb = concat (map encode_val ws) @ ys \<Longrightarrow>
     setFields fs vs sb = Some ((sb_off sb + of_nat (length (concat (map encode_val ws))), None), ws,
        sb_adv (length (concat (map encode_val ws))) sb)"
proof (induction ty w and fs ws arbitrary: v ys and vs sb ys rule: serializable_serializables.induct)
  case (3 fs w)
  then obtain ws vs where w: "w = VStruct ws" "serializables fs ws" and v: "v = VStruct vs" "allocateds fs vs"
    by (auto split: gval.splits)
  let ?b = "encode_val w @ ys"
  have "sb_ok (NewSourceBuffer ?b)" using "3.prems" by simp
  moreover have "sb_rest (NewSourceBuffer ?b) = concat (map encode_val ws) @ ys" using w by simp
  ultimately have "setFields fs vs (NewSourceBuffer ?b) =
     Some ((sb_off (NewSourceBuffer ?b) + of_nat (length (encode_val w)), None), ws,
       sb_adv (length (encode_val w)) (NewSourceBuffer ?b))"
    using "3.IH" [OF w v(2), of "NewSourceBuffer ?b" ys] w by simp
  moreover have "sb_off (NewSourceBuffer ?b) = 0" by (simp add: NewSourceBuffer_def)
  ultimately have "setFields fs vs (NewSourceBuffer ?b) =
     Some ((of_nat (length (encode_val w)), None), ws, sb_adv (length (encode_val w)) (NewSourceBuffer ?b))"
    by simp
  then show ?case
    using v w "3.prems" by (intro CreateStruct_of_fields [of _ _ fs vs _ _ ws]) (auto simp: structTarget_def rewrap_def)
next
  case (4 t w)
  then obtain u v0 where w: "w = VPtr u" "is_struct t" "serializable t u" and v: "v = VPtr v0" "allocated t v0"
    by (auto split: gval.splits)
  have cs: "CreateStruct True t v0 (encode_val u @ ys) = Some ((of_nat (length (encode_val u)), None), u)"
    using "4.IH" [of u v0 ys] "4.prems" v w by simp
  then show ?case
    using v w by (auto simp: CreateStruct.simps structTarget_def rewrap_def is_struct_def
        split: gtype.splits gval.splits option.splits prod.splits if_splits)
next
  case (6 ws)
  then show ?case by (simp add: setFields.simps sb_Pos_def)
next
  case (7 ex ty fs ws)
  then obtain w ws' v vs' where ws: "ws = w # ws'" "ex" "serializable ty w" "serializables fs ws'"
    and vs: "vs = v # vs'" "allocated ty v" "allocateds fs vs'"
    by (auto split: list.splits)
  let ?n = "length (encode_val w)"
  have sb_rest: "sb_rest sb = encode_val w @ concat (map encode_val ws') @ ys" using "7.prems" ws by simp
  have len: "?n \<le> length (sb_rest sb)" using sb_rest by simp
  have ok: "sb_ok sb" by (rule "7.prems")
  have rest: "setFields fs vs' (sb_adv ?n sb) =
      Some ((sb_off (sb_adv ?n sb) + of_nat (length (concat (map encode_val ws'))), None), ws',
        sb_adv (length (concat (map encode_val ws'))) (sb_adv ?n sb))"
    using "7.IH"(2) [OF ws(1) ws(4) vs(3) sb_ok_adv [OF ok len], of ys] sb_rest len ok by (simp add: rem_adv)
  have "setFields ((True, ty) # fs) (v # vs') sb =
     map_option (\<lambda>(r, vs', sb''). (r, w # vs', sb'')) (setFields fs vs' (sb_adv ?n sb))"
  proof (cases "is_struct ty \<or> (\<exists>t. ty = GPtr t)")
    case True
    have "slice_ok (sb_rest sb)" using sb_ok_slice [OF ok] by (simp add: sb_rest_def)
    then have "CreateStruct True ty v (sb_rest sb) = Some ((of_nat ?n, None), w)"
      using "7.IH"(1) [OF ws(1) ws(3) vs(2) True] sb_rest by simp
    then show ?thesis
      using setFields_struct [OF ok sb_rest] True by (auto simp: is_struct_def split: gtype.splits)
  next
    case False
    with ws(3) consider k where "ty = GBasic True k" "basic_val k w" | "ty = GBigInt"
      by (cases ty) (auto simp: is_struct_def)
    then show ?thesis
    proof cases
      case 1
      then show ?thesis
        using ok sb_rest by (intro setFields_scalar)
          (simp_all add: getNextValueFromBuffer_def getNextBasic_exact basic_not_bytes setValue_def)
    next
      case 2
      with ws(3) obtain i where i: "w = VBigInt i" "0 \<le> i" "length (big_Bytes i) < 2 ^ 32"
        by (auto split: gval.splits)
      with 2 show ?thesis
        using ok sb_rest getNextBig_exact [OF i(2,3) ok, of "concat (map encode_val ws') @ ys"]
        by (intro setFields_scalar) (simp_all add: asBytes_def setValue_def)
    qed
  qed
  with rest ws vs show ?case
    by (simp add: sb_adv_def add.assoc)
qed (simp_all add: is_struct_def)

lemma primitive_buffer:
  assumes "serializable ty w" and "is_scalar ty"
  shows "(if (case ty of GBasic _ k \<Rightarrow> k = KString | GBigInt \<Rightarrow> True | _ \<Rightarrow> False)
           then be_bytes 4 (length (top_encode w) mod 2 ^ 32) @ top_encode w else top_encode w) = encode_val w"
  using assms
  by (cases ty; cases w) (auto simp: is_scalar_def top_encode_def basic_val_def)

lemma getNextValue_exact:
  assumes "serializable ty w" and "is_scalar ty" and "sb_ok sb" and "sb_rest sb = encode_val w @ ys"
  shows "getNextValueFromBuffer sb ty = Some ((w, False), sb_adv (length (encode_val w)) sb)"
proof -
  from assms(1,2) consider k where "ty = GBasic True k" "basic_val k w"
    | i where "ty = GBigInt" "w = VBigInt i" "0 \<le> i" "length (big_Bytes i) < 2 ^ 32"
    by (cases ty) (auto simp: is_scalar_def split: gval.splits)
  then show ?thesis
    by cases (use assms(3,4) in \<open>simp add: getNextValueFromBuffer_def getNextBasic_exact\<close>,
        use getNextBig_exact assms(3,4) in \<open>blast\<close>)
qed

lemma serializable_setValue:
  "serializable ty w \<Longrightarrow> is_scalar ty \<Longrightarrow> setValue True ty w = Inr w"
  by (cases ty) (auto simp: is_scalar_def setValue_def)

text \<open>
  \<^verbatim>\<open>BackUp\<close> subtracts without a guard: backing up over the start of the buffer leaves an offset
  beyond its end, and the next read panics.
\<close>

lemma BackUp_over_start_panics:
  assumes "slice_ok b"
  shows "sb_NextBytes n (sb_BackUp 1 (NewSourceBuffer b)) = None"
proof -
  have "length b < 9223372036854775808" using assms by (simp add: slice_ok_def)
  moreover have "safeAdd (- 1 :: u64) x = (x - 1, 0 < unat x)" for x
    by (auto simp: safeAdd_eq unat_neg_one_u64 word_less_nat_alt)
  ultimately show ?thesis
    using unat_u64 [of "go_len b"] assms
    by (auto simp: sb_NextBytes_def sb_BackUp_def NewSourceBuffer_def go_slice_def unat_neg_one_u64
        word_less_nat_alt Let_def unat_ucast_u32)
qed

section \<open>Lemmas: types\<close>

lemma getNextBasic_kind: "getNextBasic k sb = Some ((v, eof), sb') \<Longrightarrow> kind_of v = Some k"
  by (auto simp: getNextBasic_def Let_def split: basic_kind.splits prod.splits)

lemma getNextValue_type:
  assumes "getNextValueFromBuffer sb ty = Some ((v, False), sb')" and "asBytes v = None"
  shows "has_type ty v"
  using assms by (cases ty) (auto simp: getNextValueFromBuffer_def asBytes_def dest: getNextBasic_kind)

lemma setValue_ok: "setValue ex ty v = Inr v' \<Longrightarrow> v' = v"
  by (auto simp: setValue_def split: if_splits gtype.splits)

lemma structTarget_type:
  assumes "structTarget c ty v = Some (fs, vs)" and "has_type ty v"
  shows "has_types fs vs" and "has_types fs vs' \<Longrightarrow> has_type ty (rewrap ty vs')"
  using assms by (auto simp: structTarget_def rewrap_def split: if_splits gtype.splits gval.splits)

lemma deserializer_types:
  "has_type ty v \<Longrightarrow> CreateStruct c ty v b = Some (r, v') \<Longrightarrow> has_type ty v'"
  "has_types fs vs \<Longrightarrow> setFields fs vs sb = Some (r', vs', sb') \<Longrightarrow> has_types fs vs'"
proof (induction c ty v b and fs vs sb arbitrary: r v' and r' vs' sb' rule: CreateStruct_setFields.induct)
  case (1 canSet ty v buff)
  show ?case
  proof (cases "structTarget canSet ty v")
    case None
    with 1 show ?thesis by (simp add: CreateStruct.simps)
  next
    case (Some a)
    obtain fs vs where a: "a = (fs, vs)" by fastforce
    from "1.prems" Some a obtain r0 vs1 sb1
      where s: "setFields fs vs (NewSourceBuffer buff) = Some (r0, vs1, sb1)" "v' = rewrap ty vs1"
      by (auto simp: CreateStruct.simps split: option.splits)
    have st: "structTarget canSet ty v = Some (fs, vs)" using Some a by simp
    have "has_types fs vs1"
      by (rule "1.IH" [OF Some a [symmetric] structTarget_type(1) [OF st "1.prems"(1)] s(1)])
    from structTarget_type(2) [OF st "1.prems"(1) this] s(2) show ?thesis by simp
  qed
next
  case (4 exported ty fs v vs sb)
  have t: "has_type ty v" "has_types fs vs" using "4.prems"(1) by auto
  from "4.prems"(2) obtain val eof sb1 where g: "getNextValueFromBuffer sb ty = Some ((val, eof), sb1)"
    by (auto simp: setFields.simps split: option.splits)
  show ?case
  proof (cases eof)
    case True
    with "4.prems" g show ?thesis by (auto simp: setFields.simps)
  next
    case eof: False
    show ?thesis
    proof (cases "asBytes val")
      case None
      have v: "has_type ty val" using getNextValue_type g eof None by simp
      show ?thesis
      proof (cases "setValue exported ty val")
        case (Inl e)
        with "4.prems" g eof None show ?thesis by (auto simp: setFields.simps)
      next
        case (Inr w)
        with "4.prems"(2) g eof None obtain vs1 where
          "setFields fs vs sb1 = Some (r', vs1, sb')" "vs' = w # vs1"
          by (auto simp: setFields.simps)
        with "4.IH"(1) [OF g refl refl eof None Inr t(2)] v setValue_ok [OF Inr] show ?thesis by simp
      qed
    next
      case (Some rest)
      from "4.prems"(2) g eof Some obtain used e w where
        c: "CreateStruct exported ty v rest = Some ((used, e), w)"
        by (auto simp: setFields.simps split: option.splits)
      have w: "has_type ty w" by (rule "4.IH"(2) [OF g refl refl eof Some t(1) c])
      show ?thesis
      proof (cases e)
        case None
        with "4.prems"(2) g eof Some c obtain vs1 where
          "setFields fs vs (snd (sb_Skip used sb1)) = Some (r', vs1, sb')" "vs' = w # vs1"
          by (auto simp: setFields.simps)
        with "4.IH"(3) [OF g refl refl eof Some c refl refl None t(2)] w show ?thesis by simp
      next
        case e: (Some err)
        with "4.prems"(2) g eof Some c w t show ?thesis by (auto simp: setFields.simps)
      qed
    qed
  qed
qed (auto simp: setFields.simps)

section \<open>Properties\<close>

text \<open>C3. Decoding inverts the nested encoding: whatever the target object held, filling it from
  the encoding of a value of its type, followed by any other bytes, returns no error, leaves
  exactly that value in the target and reports exactly the bytes of the encoding as used.\<close>

theorem CreateStruct_roundtrip:
  assumes "serializable ty w" and "allocated ty v" and "is_struct ty \<or> (\<exists>t. ty = GPtr t)"
    and "slice_ok (encode_val w @ ys)"
  shows "CreateStruct True ty v (encode_val w @ ys) = Some ((of_nat (length (encode_val w)), None), w)"
  using serde_roundtrip(1) [OF assms] .

theorem CreateStruct_roundtrip_witness:
  "CreateStruct True (GPtr (GStruct [(True, GBasic True KUint16), (True, GStruct [(True, GBigInt)])]))
     (VPtr (VStruct [VUint16 0, VStruct [VBigInt 0]]))
     (encode_val (VPtr (VStruct [VUint16 515, VStruct [VBigInt 7]])) @ [9])
   = Some ((of_nat (length (encode_val (VPtr (VStruct [VUint16 515, VStruct [VBigInt 7]])))), None),
       VPtr (VStruct [VUint16 515, VStruct [VBigInt 7]]))"
  by (rule CreateStruct_roundtrip)
    (simp_all add: is_struct_def basic_val_def big_Bytes_def nat_bytes.simps slice_ok_def)

text \<open>C14. The deserializer never panics: on every target and every input, however short or
  malformed, it returns a count of used bytes that does not exceed the input.\<close>

theorem CreateStruct_no_panic:
  assumes "slice_ok buff"
  shows "\<exists>used err v'. CreateStruct canSet ty v buff = Some ((used, err), v') \<and> unat used \<le> length buff"
  using deserializer_total(1) [OF assms] .

theorem CreateStruct_no_panic_witness:
  "\<exists>used err v'. CreateStruct True (GStruct [(True, GBasic True KString)]) (VStruct [VString []]) [0, 0, 0, 9, 1]
     = Some ((used, err), v') \<and> unat used \<le> length [0, 0, 0, 9, 1 :: byte]"
  by (rule CreateStruct_no_panic) (simp add: slice_ok_def)

text \<open>A primitive target is filled with exactly the value whose top level encoding the input
  is; strings and big integers take the whole input.\<close>

lemma CreatePrimitiveDataType_roundtrip:
  assumes "serializable ty w" and "is_scalar ty" and "slice_ok (encode_val w)"
  shows "CreatePrimitiveDataType True ty (top_encode w) = Some (Inr w)"
proof -
  have "getNextValueFromBuffer (NewSourceBuffer (encode_val w)) ty =
      Some ((w, False), sb_adv (length (encode_val w)) (NewSourceBuffer (encode_val w)))"
    by (rule getNextValue_exact [OF assms(1,2), of _ "[]"]) (use assms(3) in simp_all)
  then show ?thesis
    unfolding CreatePrimitiveDataType_def Let_def primitive_buffer [OF assms(1,2)]
    using serializable_setValue [OF assms(1,2)] by simp
qed

lemma CreatePrimitiveDataType_roundtrip_example:
  "CreatePrimitiveDataType True GBigInt (top_encode (VBigInt 300)) = Some (Inr (VBigInt 300))"
  by (rule CreatePrimitiveDataType_roundtrip)
    (simp_all add: is_scalar_def big_Bytes_def nat_bytes.simps slice_ok_def)



end
