(* ===== verification/Map_Cacher.thy ===== *)
theory Map_Cacher
  imports Sdk_Errors
begin

text \<open>
  The map based cacher of \<^verbatim>\<open>storage/mapCacher.go\<close>, which backs the contract pool of the
  address generator, and the disabled cache of \<^verbatim>\<open>disabled/cache.go\<close>, which the proxy falls back
  to. The operations run under a mutex, so each one is an atomic function on the state.
  The callbacks that \<^verbatim>\<open>Put\<close> and \<^verbatim>\<open>HasOrAdd\<close> start as goroutines are returned as a list of
  calls. The locales state what a client may rely on: \<open>cacher\<close> is the contract of any
  \<^verbatim>\<open>storage.Cacher\<close>, which may evict, and \<open>exact_cacher\<close> the one of a cacher that keeps
  everything.
\<close>

section \<open>State and operations\<close>

record ('v, 'h) mapCacher =
  mc_dataMap :: "string \<rightharpoonup> 'v"
  mc_addedDataHandlers :: "'h list"

definition NewMapCacher :: "('v, 'h) mapCacher" where
  "NewMapCacher = \<lparr>mc_dataMap = Map.empty, mc_addedDataHandlers = []\<rparr>"

definition mc_Clear :: "('v, 'h) mapCacher \<Rightarrow> ('v, 'h) mapCacher" where
  "mc_Clear mc = mc\<lparr>mc_dataMap := Map.empty\<rparr>"

definition callAddedDataHandlers ::
  "byte list \<Rightarrow> 'v \<Rightarrow> ('v, 'h) mapCacher \<Rightarrow> ('h \<times> byte list \<times> 'v) list" where
  "callAddedDataHandlers key val mc = map (\<lambda>handler. (handler, key, val)) (mc_addedDataHandlers mc)"

text \<open>The results are the ones of the source (\<^verbatim>\<open>evicted\<close>, \<^verbatim>\<open>(has, added)\<close>), then the started
  calls, then the new state.\<close>

definition mc_Put ::
  "byte list \<Rightarrow> 'v \<Rightarrow> ('v, 'h) mapCacher \<Rightarrow> bool \<times> ('h \<times> byte list \<times> 'v) list \<times> ('v, 'h) mapCacher" where
  "mc_Put key val mc =
     (let mc' = mc\<lparr>mc_dataMap := (mc_dataMap mc)(string_of_bytes key \<mapsto> val)\<rparr>
      in (False, callAddedDataHandlers key val mc', mc'))"

definition mc_Get :: "('v, 'h) mapCacher \<Rightarrow> byte list \<Rightarrow> 'v option" where
  "mc_Get mc key = mc_dataMap mc (string_of_bytes key)"

definition mc_Has :: "('v, 'h) mapCacher \<Rightarrow> byte list \<Rightarrow> bool" where
  "mc_Has mc key \<longleftrightarrow> mc_dataMap mc (string_of_bytes key) \<noteq> None"

definition mc_Peek :: "('v, 'h) mapCacher \<Rightarrow> byte list \<Rightarrow> 'v option" where
  "mc_Peek mc key = mc_dataMap mc (string_of_bytes key)"

definition mc_HasOrAdd ::
  "byte list \<Rightarrow> 'v \<Rightarrow> ('v, 'h) mapCacher \<Rightarrow>
     (bool \<times> bool) \<times> ('h \<times> byte list \<times> 'v) list \<times> ('v, 'h) mapCacher" where
  "mc_HasOrAdd key val mc =
     (if mc_dataMap mc (string_of_bytes key) \<noteq> None then ((True, False), [], mc)
      else let mc' = mc\<lparr>mc_dataMap := (mc_dataMap mc)(string_of_bytes key \<mapsto> val)\<rparr>
           in ((False, True), callAddedDataHandlers key val mc', mc'))"

definition mc_Remove :: "byte list \<Rightarrow> ('v, 'h) mapCacher \<Rightarrow> ('v, 'h) mapCacher" where
  "mc_Remove key mc = mc\<lparr>mc_dataMap := (mc_dataMap mc)(string_of_bytes key := None)\<rparr>"

text \<open>\<^verbatim>\<open>Keys\<close>, for the order \<open>ks\<close> in which the loop visits the map.\<close>

definition mc_Keys :: "string list \<Rightarrow> ('v, 'h) mapCacher \<Rightarrow> byte list list" where
  "mc_Keys ks mc = map bytes_of_string ks"

definition mc_Len :: "('v, 'h) mapCacher \<Rightarrow> nat" where
  "mc_Len mc = card (dom (mc_dataMap mc))"

text \<open>
  \<^verbatim>\<open>SizeInBytesContained\<close>. The gob encoder is a parameter: it appends a number of bytes to the
  buffer and says whether it failed. One buffer serves the whole loop; \<open>blen\<close> is its length.
\<close>

primrec sizeLoop :: "('v \<Rightarrow> nat \<times> bool) \<Rightarrow> 'v list \<Rightarrow> u64 \<Rightarrow> nat \<Rightarrow> u64" where
  "sizeLoop gob [] tot blen = tot"
| "sizeLoop gob (v # vs) tot blen =
     (let (n, failed) = gob v; blen' = blen + n
      in sizeLoop gob vs (if failed then tot else tot + of_nat blen') blen')"

definition mc_SizeInBytesContained ::
  "('v \<Rightarrow> nat \<times> bool) \<Rightarrow> string list \<Rightarrow> ('v, 'h) mapCacher \<Rightarrow> u64" where
  "mc_SizeInBytesContained gob ks mc = sizeLoop gob (map (\<lambda>k. the (mc_dataMap mc k)) ks) 0 0"

definition mc_MaxSize :: nat where "mc_MaxSize = 10000"

definition mc_RegisterHandler :: "'h option \<Rightarrow> ('v, 'h) mapCacher \<Rightarrow> ('v, 'h) mapCacher" where
  "mc_RegisterHandler handler mc = (case handler of
     None \<Rightarrow> mc
   | Some h \<Rightarrow> mc\<lparr>mc_addedDataHandlers := mc_addedDataHandlers mc @ [h]\<rparr>)"

definition mc_UnRegisterHandler :: "string \<Rightarrow> ('v, 'h) mapCacher \<Rightarrow> ('v, 'h) mapCacher" where
  "mc_UnRegisterHandler _ mc = mc"

section \<open>The disabled cache\<close>

record disabled_Cache = dc_unit :: unit

definition dc_Clear :: "disabled_Cache \<Rightarrow> disabled_Cache" where
  "dc_Clear c = c"

definition dc_Put :: "byte list \<Rightarrow> 'v \<Rightarrow> disabled_Cache \<Rightarrow> bool \<times> disabled_Cache" where
  "dc_Put _ _ c = (False, c)"

definition dc_Get :: "disabled_Cache \<Rightarrow> byte list \<Rightarrow> 'v option" where
  "dc_Get _ _ = None"

section \<open>Histories\<close>

text \<open>The operations that change the state, as steps of a history, and what a history says about a
  key: the last write that no removal follows.\<close>

datatype ('v, 'h) cacher_op =
    OpClear | OpPut "byte list" 'v | OpHasOrAdd "byte list" 'v | OpRemove "byte list"
  | OpRegister "'h option" | OpUnRegister string

fun mc_step :: "('v, 'h) cacher_op \<Rightarrow> ('v, 'h) mapCacher \<Rightarrow> ('h \<times> byte list \<times> 'v) list \<times> ('v, 'h) mapCacher" where
  "mc_step OpClear mc = ([], mc_Clear mc)"
| "mc_step (OpPut k v) mc = snd (mc_Put k v mc)"
| "mc_step (OpHasOrAdd k v) mc = snd (mc_HasOrAdd k v mc)"
| "mc_step (OpRemove k) mc = ([], mc_Remove k mc)"
| "mc_step (OpRegister h) mc = ([], mc_RegisterHandler h mc)"
| "mc_step (OpUnRegister s) mc = ([], mc_UnRegisterHandler s mc)"

primrec mc_run :: "('v, 'h) cacher_op list \<Rightarrow> ('v, 'h) mapCacher \<Rightarrow> ('h \<times> byte list \<times> 'v) list \<times> ('v, 'h) mapCacher" where
  "mc_run [] mc = ([], mc)"
| "mc_run (op # ops) mc =
     (let (calls, mc') = mc_step op mc; (calls', mc'') = mc_run ops mc' in (calls @ calls', mc''))"

text \<open>The newest operation comes first in the list given to \<open>last_write\<close>.\<close>

fun last_write :: "('v, 'h) cacher_op list \<Rightarrow> byte list \<Rightarrow> 'v option" where
  "last_write [] k = None"
| "last_write (OpClear # ops) k = None"
| "last_write (OpPut k' v # ops) k = (if k = k' then Some v else last_write ops k)"
| "last_write (OpHasOrAdd k' v # ops) k =
     (if k = k' \<and> last_write ops k = None then Some v else last_write ops k)"
| "last_write (OpRemove k' # ops) k = (if k = k' then None else last_write ops k)"
| "last_write (OpRegister h # ops) k = last_write ops k"
| "last_write (OpUnRegister s # ops) k = last_write ops k"

section \<open>The contract of a cacher\<close>

locale cacher =
  fixes cget :: "'c \<Rightarrow> byte list \<Rightarrow> 'v option"
    and cput :: "byte list \<Rightarrow> 'v \<Rightarrow> 'c \<Rightarrow> 'c"
  assumes cput_same: "cget (cput k v c) k = Some w \<Longrightarrow> w = v"
    and cput_other: "k' \<noteq> k \<Longrightarrow> cget (cput k v c) k' = Some w \<Longrightarrow> cget c k' = Some w"
begin

text \<open>A cache is sound for a relation when it only holds pairs of that relation; looking up and
  storing computed values keeps it sound, whatever is evicted in between.\<close>

definition sound :: "(byte list \<Rightarrow> 'v \<Rightarrow> bool) \<Rightarrow> 'c \<Rightarrow> bool" where
  "sound R c \<longleftrightarrow> (\<forall>k v. cget c k = Some v \<longrightarrow> R k v)"

lemma sound_put: "sound R c \<Longrightarrow> R k v \<Longrightarrow> sound R (cput k v c)"
  unfolding sound_def by (metis cput_other cput_same)

lemma sound_get: "sound R c \<Longrightarrow> cget c k = Some v \<Longrightarrow> R k v"
  by (simp add: sound_def)

lemma sound_fold: "sound R c \<Longrightarrow> \<forall>(k, v) \<in> set kvs. R k v \<Longrightarrow> sound R (fold (\<lambda>(k, v). cput k v) kvs c)"
  by (induction kvs arbitrary: c) (auto intro: sound_put)

end

locale exact_cacher =
  fixes cget :: "'c \<Rightarrow> byte list \<Rightarrow> 'v option"
    and cput :: "byte list \<Rightarrow> 'v \<Rightarrow> 'c \<Rightarrow> 'c"
  assumes cget_cput: "cget (cput k v c) k' = (if k' = k then Some v else cget c k')"
begin

lemma cput_idem: "cget (cput k v (cput k v c)) k' = cget (cput k v c) k'"
  by (simp add: cget_cput)

lemma cput_commute: "k \<noteq> l \<Longrightarrow> cget (cput k v (cput l w c)) k' = cget (cput l w (cput k v c)) k'"
  by (simp add: cget_cput)

end

sublocale exact_cacher \<subseteq> cacher cget cput
  by unfold_locales (simp_all add: cget_cput)

definition mc_store :: "byte list \<Rightarrow> 'v \<Rightarrow> ('v, 'h) mapCacher \<Rightarrow> ('v, 'h) mapCacher" where
  "mc_store key val mc = snd (snd (mc_Put key val mc))"

interpretation map_cacher: exact_cacher mc_Get mc_store
  by unfold_locales (auto simp: mc_Get_def mc_store_def mc_Put_def Let_def)

interpretation disabled_cacher: cacher dc_Get "\<lambda>k v c. snd (dc_Put k v c)"
  by unfold_locales (simp_all add: dc_Get_def)

section \<open>Lemmas\<close>

lemma mc_run_append:
  "mc_run (ops @ ops') mc =
     (let (calls, mc') = mc_run ops mc; (calls', mc'') = mc_run ops' mc' in (calls @ calls', mc''))"
  by (induction ops arbitrary: mc) (auto simp: Let_def split: prod.splits)

lemma mc_Get_step:
  "mc_Get (snd (mc_step op mc)) k = (case op of
     OpClear \<Rightarrow> None
   | OpPut k' v \<Rightarrow> if k = k' then Some v else mc_Get mc k
   | OpHasOrAdd k' v \<Rightarrow> if k = k' \<and> mc_Get mc k = None then Some v else mc_Get mc k
   | OpRemove k' \<Rightarrow> if k = k' then None else mc_Get mc k
   | _ \<Rightarrow> mc_Get mc k)"
  by (cases op)
    (auto simp: mc_Get_def mc_Clear_def mc_Put_def mc_HasOrAdd_def mc_Remove_def mc_RegisterHandler_def
      mc_UnRegisterHandler_def Let_def split: option.splits)

lemma mc_Get_run:
  "mc_Get (snd (mc_run (rev ops) NewMapCacher)) k = last_write ops k"
proof (induction ops)
  case Nil
  show ?case by (simp add: mc_Get_def NewMapCacher_def)
next
  case (Cons op ops)
  let ?mc = "snd (mc_run (rev ops) (NewMapCacher :: ('a, 'b) mapCacher))"
  have "mc_Get (snd (mc_run (rev (op # ops)) NewMapCacher)) k = mc_Get (snd (mc_step op ?mc)) k"
    by (simp add: mc_run_append Let_def split: prod.splits)
  with Cons show ?case by (cases op) (auto simp: mc_Get_step simp del: mc_step.simps)
qed

lemma mc_finite_step: "finite (dom (mc_dataMap mc)) \<Longrightarrow> finite (dom (mc_dataMap (snd (mc_step op mc))))"
  by (cases op)
    (auto simp: mc_Clear_def mc_Put_def mc_HasOrAdd_def mc_Remove_def mc_RegisterHandler_def
      mc_UnRegisterHandler_def Let_def split: option.splits)

lemma sizeLoop_eq:
  assumes "\<forall>v \<in> set vs. \<not> snd (gob v)"
  shows "sizeLoop gob vs tot blen =
    tot + of_nat (\<Sum>i<length vs. blen + sum_list (map (fst \<circ> gob) (take (Suc i) vs)))"
  using assms
proof (induction vs arbitrary: tot blen)
  case (Cons v vs)
  have "(\<Sum>i<length (v # vs). blen + sum_list (map (fst \<circ> gob) (take (Suc i) (v # vs)))) =
      (blen + fst (gob v)) + (\<Sum>i<length vs. (blen + fst (gob v)) + sum_list (map (fst \<circ> gob) (take (Suc i) vs)))"
    by (simp add: sum.lessThan_Suc_shift add.assoc del: sum.lessThan_Suc)
  moreover have "sizeLoop gob (v # vs) tot blen = sizeLoop gob vs (tot + of_nat (blen + fst (gob v))) (blen + fst (gob v))"
    using Cons.prems by (simp add: split_beta Let_def)
  moreover have "\<dots> = (tot + of_nat (blen + fst (gob v))) +
      of_nat (\<Sum>i<length vs. (blen + fst (gob v)) + sum_list (map (fst \<circ> gob) (take (Suc i) vs)))"
    by (rule Cons.IH) (use Cons.prems in simp)
  ultimately show ?case by (simp only: of_nat_add add.assoc)
qed simp

section \<open>Properties\<close>

text \<open>C38. After any history of operations on a new cacher, \<^verbatim>\<open>Get\<close>, \<^verbatim>\<open>Peek\<close> and \<^verbatim>\<open>Has\<close>
  answer with the last write to the key that no removal and no clearing follows, where
  \<^verbatim>\<open>HasOrAdd\<close> writes only a key that is absent.\<close>

theorem mapCacher_history:
  "mc_Get (snd (mc_run (rev ops) NewMapCacher)) k = last_write ops k \<and>
   mc_Peek (snd (mc_run (rev ops) NewMapCacher)) k = last_write ops k \<and>
   mc_Has (snd (mc_run (rev ops) NewMapCacher)) k = (last_write ops k \<noteq> None)"
  using mc_Get_run [of ops k] by (auto simp: mc_Get_def mc_Peek_def mc_Has_def)

text \<open>\<^verbatim>\<open>SizeInBytesContained\<close> reuses one buffer and adds its whole length for every element:
  the result is the sum of all prefix sums of the element sizes in the visiting order, not the
  sum of the element sizes, and so depends on the order in which the map is visited.\<close>

lemma SizeInBytesContained_prefix_sums:
  assumes "go_range (mc_dataMap mc) ks" and "\<forall>v \<in> ran (mc_dataMap mc). \<not> snd (gob v)"
  shows "mc_SizeInBytesContained gob ks mc =
    of_nat (\<Sum>i<length ks. sum_list (map (\<lambda>k. fst (gob (the (mc_dataMap mc k)))) (take (Suc i) ks)))"
proof -
  have "\<forall>v \<in> set (map (\<lambda>k. the (mc_dataMap mc k)) ks). \<not> snd (gob v)"
    using assms by (fastforce simp: go_range_def intro: ranI)
  from sizeLoop_eq [OF this, of 0 0] show ?thesis
    by (simp add: mc_SizeInBytesContained_def comp_def take_map)
qed

lemma SizeInBytesContained_prefix_sums_example:
  "mc_SizeInBytesContained (\<lambda>n. (n, False)) [''a'', ''b'']
     (snd (mc_run [OpPut (bytes_of_string ''a'') 3, OpPut (bytes_of_string ''b'') (5 :: nat)]
        (NewMapCacher :: (nat, unit) mapCacher))) = 11"
  using SizeInBytesContained_prefix_sums
    [of "snd (mc_run [OpPut (bytes_of_string ''a'') 3, OpPut (bytes_of_string ''b'') (5 :: nat)]
        (NewMapCacher :: (nat, unit) mapCacher))" "[''a'', ''b'']" "\<lambda>n. (n, False)"]
  by (simp add: mc_Put_def NewMapCacher_def go_range_def insert_commute Let_def)

end
