(* ===== verification/Sdk_Data.thy ===== *)
theory Sdk_Data
  imports Go_Encoding
begin

text \<open>
  The data the components exchange: addresses (\<^verbatim>\<open>data/address.go\<close>), accounts, network
  configurations, VM queries and transactions. The transaction types belong to the library
  \<^verbatim>\<open>mx-chain-core-go\<close>; the records have the fields that the SDK reads and writes. The bech32
  converter \<^verbatim>\<open>core.AddressPublicKeyConverter\<close> is an argument of the functions that call it, and
  \<open>pkc_law\<close> is the one fact about it that theorems use: an encoded address decodes to its bytes.
\<close>

section \<open>Constants\<close>

definition AddressBytesLen :: nat where "AddressBytesLen = 32"

definition MetachainShardId :: u32 where "MetachainShardId = 4294967295"

section \<open>Addresses\<close>

record pubkey_converter =
  pkc_Encode :: "byte list \<Rightarrow> string result"
  pkc_Decode :: "string \<Rightarrow> byte list result"

definition pkc_law :: "pubkey_converter \<Rightarrow> bool" where
  "pkc_law pkc \<longleftrightarrow> (\<forall>b s. pkc_Encode pkc b = Inr s \<longrightarrow> pkc_Decode pkc s = Inr b)"

text \<open>A converter that satisfies the law, for concrete instances: plain hexadecimal.\<close>

definition hex_converter :: pubkey_converter where
  "hex_converter = \<lparr>pkc_Encode = (\<lambda>b. Inr (hex_EncodeToString b)), pkc_Decode = hex_DecodeString\<rparr>"

record address =
  addr_bytes :: "byte list"

definition NewAddressFromBytes :: "byte list \<Rightarrow> address" where
  "NewAddressFromBytes bs = \<lparr>addr_bytes = bs\<rparr>"

definition NewAddressFromBech32String :: "pubkey_converter \<Rightarrow> string \<Rightarrow> address result" where
  "NewAddressFromBech32String pkc bech32 = (case pkc_Decode pkc bech32 of
     Inl err \<Rightarrow> Inl err
   | Inr buff \<Rightarrow> Inr \<lparr>addr_bytes = buff\<rparr>)"

definition AddressAsBech32String :: "pubkey_converter \<Rightarrow> address \<Rightarrow> string result" where
  "AddressAsBech32String pkc a = pkc_Encode pkc (addr_bytes a)"

definition AddressBytes :: "address \<Rightarrow> byte list" where
  "AddressBytes a = addr_bytes a"

text \<open>\<^verbatim>\<open>copy\<close> into an array of 32 zero bytes.\<close>

definition AddressSlice :: "address \<Rightarrow> byte list" where
  "AddressSlice a = take 32 (addr_bytes a @ replicate (32 - length (addr_bytes a)) 0)"

definition addr_IsValid :: "address \<Rightarrow> bool" where
  "addr_IsValid a \<longleftrightarrow> length (addr_bytes a) = AddressBytesLen"

definition Pretty :: "pubkey_converter \<Rightarrow> address \<Rightarrow> string" where
  "Pretty pkc a =
     (let bech32Addr = (case AddressAsBech32String pkc a of Inl _ \<Rightarrow> [] | Inr s \<Rightarrow> s)
      in if length bech32Addr \<le> 16 then bech32Addr
         else take 8 bech32Addr @ ''...'' @ drop (length bech32Addr - 8) bech32Addr)"

section \<open>Accounts, network configuration, VM queries\<close>

record Account =
  acc_Address :: string
  acc_Nonce :: u64
  acc_Balance :: string

record NetworkConfig =
  nc_ChainID :: string
  nc_Denomination :: int
  nc_GasPerDataByte :: u64
  nc_MinGasLimit :: u64
  nc_MinGasPrice :: u64
  nc_MinTransactionVersion :: u32
  nc_NumShardsWithoutMeta :: u32

record VmValueRequest =
  vq_Address :: string
  vq_FuncName :: string
  vq_CallerAddr :: string
  vq_CallValue :: string
  vq_Args :: "string list"

section \<open>Transactions\<close>

record FrontendTransaction =
  tx_Nonce :: u64
  tx_Value :: string
  tx_Receiver :: string
  tx_Sender :: string
  tx_SenderUsername :: "byte list"
  tx_ReceiverUsername :: "byte list"
  tx_GasPrice :: u64
  tx_GasLimit :: u64
  tx_Data :: "byte list"
  tx_Signature :: string
  tx_ChainID :: string
  tx_Version :: u32
  tx_Options :: u32
  tx_GuardianAddr :: string
  tx_GuardianSignature :: string

record NodeTransaction =
  ntx_Nonce :: u64
  ntx_Value :: int
  ntx_RcvAddr :: "byte list"
  ntx_SndAddr :: "byte list"
  ntx_GasPrice :: u64
  ntx_GasLimit :: u64
  ntx_Data :: "byte list"
  ntx_ChainID :: "byte list"
  ntx_Version :: u32
  ntx_Signature :: "byte list"
  ntx_Options :: u32
  ntx_GuardianAddr :: "byte list"
  ntx_GuardianSignature :: "byte list"

text \<open>The zero value of the transaction struct, for the fields a literal leaves out.\<close>

definition zero_tx :: FrontendTransaction where
  "zero_tx = \<lparr>tx_Nonce = 0, tx_Value = [], tx_Receiver = [], tx_Sender = [], tx_SenderUsername = [],
     tx_ReceiverUsername = [], tx_GasPrice = 0, tx_GasLimit = 0, tx_Data = [], tx_Signature = [],
     tx_ChainID = [], tx_Version = 0, tx_Options = 0, tx_GuardianAddr = [], tx_GuardianSignature = []\<rparr>"

section \<open>Lemmas\<close>

lemma hex_converter_law [simp]: "pkc_law hex_converter"
  by (auto simp: pkc_law_def hex_converter_def)

lemma length_AddressSlice [simp]: "length (AddressSlice a) = 32"
  by (simp add: AddressSlice_def)

lemma AddressSlice_valid: "addr_IsValid a \<Longrightarrow> AddressSlice a = AddressBytes a"
  by (simp add: AddressSlice_def addr_IsValid_def AddressBytesLen_def AddressBytes_def)

lemma bech32_roundtrip:
  "pkc_law pkc \<Longrightarrow> AddressAsBech32String pkc a = Inr s \<Longrightarrow> NewAddressFromBech32String pkc s = Inr a"
  by (cases a) (auto simp: pkc_law_def AddressAsBech32String_def NewAddressFromBech32String_def)

lemma Pretty_length: "length (Pretty pkc a) \<le> 19"
  by (auto simp: Pretty_def Let_def split: sum.splits)

end
