(* ===== verification/Builders.thy ===== *)
theory Builders
  imports Sdk_Data
begin

text \<open>
  The argument builders of \<^verbatim>\<open>builders/baseBuilder.go\<close>, \<^verbatim>\<open>txDataBuilder.go\<close> and
  \<^verbatim>\<open>vmQueryBuilder.go\<close>. A builder collects hex encoded arguments; the first failing call stores
  its error, later argument calls do nothing. The two builders extend the base record, as the Go
  structs embed \<^verbatim>\<open>*baseBuilder\<close>. The lemmas show what the data field contains for every sequence
  of calls and that it can be decoded to the arguments, and that errors are never lost.
\<close>

section \<open>Base builder\<close>

record baseBuilder =
  bb_args :: "string list"
  bb_err :: "go_error option"

definition addBytes :: "byte list \<Rightarrow> 'a baseBuilder_scheme \<Rightarrow> 'a baseBuilder_scheme" where
  "addBytes bs b =
     (let bs' = (if length bs = 0 then [0] else bs)
      in b\<lparr>bb_args := bb_args b @ [hex_EncodeToString bs']\<rparr>)"

definition checkAddress :: "address option \<Rightarrow> go_error option" where
  "checkAddress a = (case a of
     None \<Rightarrow> Some (Errorf [] (EBuilders Builders_ErrNilAddress) '' in builder.checkAddress'')
   | Some addr \<Rightarrow>
       if \<not> addr_IsValid addr
       then Some (Errorf [] (EBuilders Builders_ErrInvalidAddress) '' in builder.checkAddress'')
       else None)"

definition addArgHexString :: "string \<Rightarrow> 'a baseBuilder_scheme \<Rightarrow> 'a baseBuilder_scheme" where
  "addArgHexString hexed b =
     (if bb_err b \<noteq> None then b
      else case hex_DecodeString hexed of
        Inl err \<Rightarrow> b\<lparr>bb_err := Some (Errorf [] err ('' in builder.ArgHexString for string '' @ hexed))\<rparr>
      | Inr _ \<Rightarrow> b\<lparr>bb_args := bb_args b @ [hexed]\<rparr>)"

definition addArgAddress :: "address option \<Rightarrow> 'a baseBuilder_scheme \<Rightarrow> 'a baseBuilder_scheme" where
  "addArgAddress a b =
     (if bb_err b \<noteq> None then b
      else case checkAddress a of
        Some err \<Rightarrow> b\<lparr>bb_err := Some err\<rparr>
      | None \<Rightarrow> addBytes (AddressBytes (the a)) b)"

definition addArgBigInt :: "int option \<Rightarrow> 'a baseBuilder_scheme \<Rightarrow> 'a baseBuilder_scheme" where
  "addArgBigInt v b =
     (if bb_err b \<noteq> None then b
      else case v of
        None \<Rightarrow> b\<lparr>bb_err := Some (Errorf [] (EBuilders Builders_ErrNilValue) '' in builder.ArgBigInt'')\<rparr>
      | Some i \<Rightarrow> addBytes (big_Bytes i) b)"

definition addArgInt64 :: "i64 \<Rightarrow> 'a baseBuilder_scheme \<Rightarrow> 'a baseBuilder_scheme" where
  "addArgInt64 v b = (if bb_err b \<noteq> None then b else addBytes (big_Bytes (sint v)) b)"

text \<open>There is no return after the error: the zero byte is appended as well.\<close>

definition addArgBytes :: "byte list \<Rightarrow> 'a baseBuilder_scheme \<Rightarrow> 'a baseBuilder_scheme" where
  "addArgBytes bs b =
     (if bb_err b \<noteq> None then b
      else addBytes bs
        (if length bs = 0
         then b\<lparr>bb_err := Some (Errorf [] (EBuilders Builders_ErrInvalidValue) '' in builder.ArgBytes'')\<rparr>
         else b))"

section \<open>Transaction data builder\<close>

record txDataBuilder = baseBuilder +
  td_function :: string

definition dataSeparator :: char where "dataSeparator = CHR ''@''"

definition NewTxDataBuilder :: txDataBuilder where
  "NewTxDataBuilder = \<lparr>bb_args = [], bb_err = None, td_function = []\<rparr>"

definition td_Function :: "string \<Rightarrow> txDataBuilder \<Rightarrow> txDataBuilder" where
  "td_Function f b = b\<lparr>td_function := f\<rparr>"

definition ArgBytesList :: "byte list list \<Rightarrow> txDataBuilder \<Rightarrow> txDataBuilder" where
  "ArgBytesList bss b = fold addArgBytes bss b"

definition ToDataString :: "txDataBuilder \<Rightarrow> string result" where
  "ToDataString b = (case bb_err b of
     Some err \<Rightarrow> Inl err
   | None \<Rightarrow>
       let parts = (if length (td_function b) > 0 then [td_function b] else [])
       in Inr (strings_Join (parts @ bb_args b) dataSeparator))"

definition ToDataBytes :: "txDataBuilder \<Rightarrow> byte list result" where
  "ToDataBytes b = (case ToDataString b of Inl err \<Rightarrow> Inl err | Inr s \<Rightarrow> Inr (bytes_of_string s))"

text \<open>The calls of the fluent interface, and a chain of them.\<close>

datatype builder_arg =
    AHexString string | AAddress "address option" | ABigInt "int option" | AInt64 i64 | ABytes "byte list"

fun addArg :: "builder_arg \<Rightarrow> 'a baseBuilder_scheme \<Rightarrow> 'a baseBuilder_scheme" where
  "addArg (AHexString s) b = addArgHexString s b"
| "addArg (AAddress a) b = addArgAddress a b"
| "addArg (ABigInt v) b = addArgBigInt v b"
| "addArg (AInt64 v) b = addArgInt64 v b"
| "addArg (ABytes bs) b = addArgBytes bs b"

datatype data_call = DFunction string | DArg builder_arg | DBytesList "byte list list"

fun data_step :: "data_call \<Rightarrow> txDataBuilder \<Rightarrow> txDataBuilder" where
  "data_step (DFunction f) b = td_Function f b"
| "data_step (DArg a) b = addArg a b"
| "data_step (DBytesList bss) b = ArgBytesList bss b"

section \<open>VM query builder\<close>

record vmQueryBuilder = baseBuilder +
  vqb_address :: string
  vqb_callerAddr :: string
  vqb_function :: string

definition NewVMQueryBuilder :: vmQueryBuilder where
  "NewVMQueryBuilder = \<lparr>bb_args = [], bb_err = None, vqb_address = [], vqb_callerAddr = [], vqb_function = []\<rparr>"

definition vqb_Function :: "string \<Rightarrow> vmQueryBuilder \<Rightarrow> vmQueryBuilder" where
  "vqb_Function f b = b\<lparr>vqb_function := f\<rparr>"

definition vqb_CallerAddress :: "pubkey_converter \<Rightarrow> address option \<Rightarrow> vmQueryBuilder \<Rightarrow> vmQueryBuilder" where
  "vqb_CallerAddress pkc a b = (case checkAddress a of
     Some err \<Rightarrow> b\<lparr>bb_err := Some err\<rparr>
   | None \<Rightarrow> (case AddressAsBech32String pkc (the a) of
       Inl err \<Rightarrow> b\<lparr>bb_err := Some err\<rparr>
     | Inr s \<Rightarrow> b\<lparr>vqb_callerAddr := s\<rparr>))"

definition vqb_Address :: "pubkey_converter \<Rightarrow> address option \<Rightarrow> vmQueryBuilder \<Rightarrow> vmQueryBuilder" where
  "vqb_Address pkc a b = (case checkAddress a of
     Some err \<Rightarrow> b\<lparr>bb_err := Some err\<rparr>
   | None \<Rightarrow> (case AddressAsBech32String pkc (the a) of
       Inl err \<Rightarrow> b\<lparr>bb_err := Some err\<rparr>
     | Inr s \<Rightarrow> b\<lparr>vqb_address := s\<rparr>))"

definition ToVmValueRequest :: "vmQueryBuilder \<Rightarrow> VmValueRequest result" where
  "ToVmValueRequest b = (case bb_err b of
     Some err \<Rightarrow> Inl err
   | None \<Rightarrow> Inr \<lparr>vq_Address = vqb_address b, vq_FuncName = vqb_function b,
                  vq_CallerAddr = vqb_callerAddr b, vq_CallValue = [], vq_Args = bb_args b\<rparr>)"

datatype vm_call = VFunction string | VArg builder_arg | VCaller "address option" | VAddress "address option"

fun vm_step :: "pubkey_converter \<Rightarrow> vm_call \<Rightarrow> vmQueryBuilder \<Rightarrow> vmQueryBuilder" where
  "vm_step pkc (VFunction f) b = vqb_Function f b"
| "vm_step pkc (VArg a) b = addArg a b"
| "vm_step pkc (VCaller a) b = vqb_CallerAddress pkc a b"
| "vm_step pkc (VAddress a) b = vqb_Address pkc a b"

section \<open>Meaning of an argument\<close>

text \<open>The bytes that an argument stands for, or the error of the call that adds it.\<close>

definition padded :: "byte list \<Rightarrow> byte list" where
  "padded bs = (if bs = [] then [0] else bs)"

fun arg_value :: "builder_arg \<Rightarrow> byte list result" where
  "arg_value (AHexString s) = (case hex_DecodeString s of
     Inl err \<Rightarrow> Inl (Errorf [] err ('' in builder.ArgHexString for string '' @ s)) | Inr bs \<Rightarrow> Inr bs)"
| "arg_value (AAddress a) = (case checkAddress a of Some err \<Rightarrow> Inl err | None \<Rightarrow> Inr (padded (AddressBytes (the a))))"
| "arg_value (ABigInt v) = (case v of
     None \<Rightarrow> Inl (Errorf [] (EBuilders Builders_ErrNilValue) '' in builder.ArgBigInt'')
   | Some i \<Rightarrow> Inr (padded (nat_bytes (nat \<bar>i\<bar>))))"
| "arg_value (AInt64 v) = Inr (padded (nat_bytes (nat \<bar>sint v\<bar>)))"
| "arg_value (ABytes bs) =
     (if bs = [] then Inl (Errorf [] (EBuilders Builders_ErrInvalidValue) '' in builder.ArgBytes'') else Inr bs)"

fun arg_text :: "builder_arg \<Rightarrow> string" where
  "arg_text (AHexString s) = s"
| "arg_text a = (case arg_value a of Inl _ \<Rightarrow> [] | Inr bs \<Rightarrow> hex_EncodeToString bs)"

fun call_args :: "data_call \<Rightarrow> builder_arg list" where
  "call_args (DFunction f) = []"
| "call_args (DArg a) = [a]"
| "call_args (DBytesList bss) = map ABytes bss"

text \<open>The function that a chain of calls selects: the last one set.\<close>

definition last_function :: "data_call list \<Rightarrow> string" where
  "last_function cs = foldl (\<lambda>f c. case c of DFunction g \<Rightarrow> g | _ \<Rightarrow> f) [] cs"

primrec first_error :: "builder_arg list \<Rightarrow> go_error option" where
  "first_error [] = None"
| "first_error (a # as) = (case arg_value a of Inl e \<Rightarrow> Some e | Inr _ \<Rightarrow> first_error as)"

text \<open>The error of a single call on a VM query builder, and the parts of the request that a chain
  of calls determines.\<close>

definition addr_text :: "pubkey_converter \<Rightarrow> address option \<Rightarrow> string result" where
  "addr_text pkc a = (case checkAddress a of Some e \<Rightarrow> Inl e | None \<Rightarrow> AddressAsBech32String pkc (the a))"

fun vm_call_err :: "pubkey_converter \<Rightarrow> vm_call \<Rightarrow> go_error option" where
  "vm_call_err pkc (VFunction f) = None"
| "vm_call_err pkc (VArg a) = (case arg_value a of Inl e \<Rightarrow> Some e | Inr _ \<Rightarrow> None)"
| "vm_call_err pkc (VCaller a) = (case addr_text pkc a of Inl e \<Rightarrow> Some e | Inr _ \<Rightarrow> None)"
| "vm_call_err pkc (VAddress a) = (case addr_text pkc a of Inl e \<Rightarrow> Some e | Inr _ \<Rightarrow> None)"

fun vm_request_step :: "pubkey_converter \<Rightarrow> VmValueRequest \<Rightarrow> vm_call \<Rightarrow> VmValueRequest" where
  "vm_request_step pkc r (VFunction f) = r\<lparr>vq_FuncName := f\<rparr>"
| "vm_request_step pkc r (VArg a) = r\<lparr>vq_Args := vq_Args r @ [arg_text a]\<rparr>"
| "vm_request_step pkc r (VCaller a) = (case addr_text pkc a of Inl e \<Rightarrow> r | Inr s \<Rightarrow> r\<lparr>vq_CallerAddr := s\<rparr>)"
| "vm_request_step pkc r (VAddress a) = (case addr_text pkc a of Inl e \<Rightarrow> r | Inr s \<Rightarrow> r\<lparr>vq_Address := s\<rparr>)"

definition vm_request :: "pubkey_converter \<Rightarrow> vm_call list \<Rightarrow> VmValueRequest" where
  "vm_request pkc cs = foldl (vm_request_step pkc)
     \<lparr>vq_Address = [], vq_FuncName = [], vq_CallerAddr = [], vq_CallValue = [], vq_Args = []\<rparr> cs"

definition vm_view :: "vmQueryBuilder \<Rightarrow> VmValueRequest" where
  "vm_view b = \<lparr>vq_Address = vqb_address b, vq_FuncName = vqb_function b,
     vq_CallerAddr = vqb_callerAddr b, vq_CallValue = [], vq_Args = bb_args b\<rparr>"

section \<open>The contract of a builder: errors are sticky\<close>

locale sticky_builder =
  fixes bstep :: "'call \<Rightarrow> 's \<Rightarrow> 's"
    and berr :: "'s \<Rightarrow> go_error option"
  assumes sticky: "berr s \<noteq> None \<Longrightarrow> berr (bstep c s) \<noteq> None"
begin

lemma sticky_chain: "berr s \<noteq> None \<Longrightarrow> berr (fold bstep cs s) \<noteq> None"
proof (induction cs arbitrary: s)
  case (Cons c cs)
  from Cons.IH [OF sticky [OF Cons.prems]] show ?case by simp
qed simp

lemma clean_prefix: "berr (fold bstep (cs @ ds) s) = None \<Longrightarrow> berr (fold bstep cs s) = None"
  using sticky_chain [of "fold bstep cs s" ds] by (cases "berr (fold bstep cs s)") simp_all

end

section \<open>Lemmas\<close>

lemma addArg_sticky: "bb_err b \<noteq> None \<Longrightarrow> addArg a b = b"
  by (cases a)
    (auto simp: addArgHexString_def addArgAddress_def addArgBigInt_def addArgInt64_def addArgBytes_def)

lemma addArg_ok:
  assumes "bb_err b = None" and "arg_value a = Inr bs"
  shows "addArg a b = b\<lparr>bb_args := bb_args b @ [arg_text a]\<rparr>"
  using assms
  by (cases a) (auto simp: addArgHexString_def addArgAddress_def addArgBigInt_def addArgInt64_def
      addArgBytes_def addBytes_def padded_def big_Bytes_def Let_def split: sum.splits option.splits if_splits)

lemma addArg_err:
  assumes "bb_err b = None" and "arg_value a = Inl e"
  shows "bb_err (addArg a b) = Some e"
  using assms
  by (cases a) (auto simp: addArgHexString_def addArgAddress_def addArgBigInt_def addArgInt64_def
      addArgBytes_def addBytes_def Let_def split: sum.splits option.splits if_splits)

lemma addArgs_sticky: "bb_err b \<noteq> None \<Longrightarrow> fold addArg as b = b"
  by (induction as) (simp_all add: addArg_sticky)

lemma addArgs_ok:
  "bb_err b = None \<Longrightarrow> first_error as = None \<Longrightarrow>
     fold addArg as b = b\<lparr>bb_args := bb_args b @ map arg_text as\<rparr>"
  by (induction as arbitrary: b) (auto simp: addArg_ok split: sum.splits)

lemma addArgs_err:
  "bb_err b = None \<Longrightarrow> first_error as = Some e \<Longrightarrow> bb_err (fold addArg as b) = Some e"
  by (induction as arbitrary: b) (auto simp: addArg_ok addArg_err addArgs_sticky split: sum.splits)

lemma td_Function_addArg: "td_Function f (addArg a b) = addArg a (td_Function f b)"
  by (cases a) (auto simp: td_Function_def addArgHexString_def addArgAddress_def addArgBigInt_def
      addArgInt64_def addArgBytes_def addBytes_def Let_def split: sum.splits option.splits)

lemma td_Function_addArgs: "td_Function f (fold addArg as b) = fold addArg as (td_Function f b)"
  by (induction as arbitrary: b) (simp_all add: td_Function_addArg)

lemma ArgBytesList_addArgs: "ArgBytesList bss b = fold addArg (map ABytes bss) b"
  unfolding ArgBytesList_def by (induction bss arbitrary: b) simp_all

lemma td_function_addArg [simp]: "td_function (addArg a b) = td_function b"
  by (cases a) (auto simp: addArgHexString_def addArgAddress_def addArgBigInt_def
      addArgInt64_def addArgBytes_def addBytes_def Let_def split: sum.splits option.splits)

lemma td_function_addArgs [simp]: "td_function (fold addArg as b) = td_function b"
  by (induction as arbitrary: b) simp_all

text \<open>A chain of calls is one selection of the function and one list of arguments.\<close>

lemma data_chain_normal:
  "fold data_step cs b =
     fold addArg (concat (map call_args cs))
       (td_Function (foldl (\<lambda>f c. case c of DFunction g \<Rightarrow> g | _ \<Rightarrow> f) (td_function b) cs) b)"
proof (induction cs arbitrary: b)
  case Nil
  then show ?case by (simp add: td_Function_def)
next
  case (Cons c cs)
  have f: "td_function (td_Function f b) = f" for f by (simp add: td_Function_def)
  show ?case
    by (cases c) (simp_all add: Cons ArgBytesList_addArgs td_Function_addArg td_Function_addArgs,
        simp add: td_Function_def)
qed

lemma arg_text_decodes: "arg_value a = Inr bs \<Longrightarrow> hex_DecodeString (arg_text a) = Inr bs"
  by (cases a) (auto split: sum.splits)

lemma arg_text_no_separator: "arg_value a = Inr bs \<Longrightarrow> dataSeparator \<notin> set (arg_text a)"
  using hex_DecodeString_no_char [OF arg_text_decodes, of a bs dataSeparator]
  by (simp add: dataSeparator_def hex_val_def)

lemma first_error_None: "first_error as = None \<Longrightarrow> a \<in> set as \<Longrightarrow> \<exists>bs. arg_value a = Inr bs"
  by (induction as) (auto split: sum.splits)

interpretation data_builder: sticky_builder data_step bb_err
proof
  fix c :: data_call and s :: txDataBuilder
  assume "bb_err s \<noteq> None"
  then show "bb_err (data_step c s) \<noteq> None"
    by (cases c) (simp_all add: td_Function_def addArg_sticky ArgBytesList_addArgs addArgs_sticky)
qed

interpretation vm_builder: sticky_builder "vm_step pkc" bb_err for pkc
proof
  fix c :: vm_call and s :: vmQueryBuilder
  assume "bb_err s \<noteq> None"
  then show "bb_err (vm_step pkc c s) \<noteq> None"
    by (cases c) (auto simp: vqb_Function_def vqb_CallerAddress_def vqb_Address_def addArg_sticky
        split: option.splits sum.splits)
qed

lemma ToDataString_chain:
  "ToDataString (fold data_step cs NewTxDataBuilder) =
     (case first_error (concat (map call_args cs)) of
        Some e \<Rightarrow> Inl e
      | None \<Rightarrow> Inr (strings_Join
          ((if last_function cs = [] then [] else [last_function cs]) @ map arg_text (concat (map call_args cs)))
          dataSeparator))"
proof -
  let ?as = "concat (map call_args cs)" and ?b = "td_Function (last_function cs) NewTxDataBuilder"
  have c: "fold data_step cs NewTxDataBuilder = fold addArg ?as ?b"
    by (simp add: data_chain_normal last_function_def NewTxDataBuilder_def)
  have b: "bb_err ?b = None" "bb_args ?b = []" "td_function ?b = last_function cs"
    by (simp_all add: td_Function_def NewTxDataBuilder_def)
  show ?thesis
  proof (cases "first_error ?as")
    case None
    then show ?thesis using b by (simp add: c addArgs_ok ToDataString_def)
  next
    case (Some e)
    then show ?thesis using b by (simp add: c addArgs_err ToDataString_def)
  qed
qed

text \<open>A produced data field splits into the function and texts that decode to the arguments.\<close>

lemma ToDataString_split:
  assumes "last_function cs \<noteq> []" and "dataSeparator \<notin> set (last_function cs)"
    and "first_error (concat (map call_args cs)) = None"
  shows "\<exists>s hs. ToDataString (fold data_step cs NewTxDataBuilder) = Inr s \<and> split_on dataSeparator s = last_function cs # hs
    \<and> map hex_DecodeString hs = map arg_value (concat (map call_args cs))"
proof -
  let ?as = "concat (map call_args cs)"
  have "\<forall>x \<in> set (last_function cs # map arg_text ?as). dataSeparator \<notin> set x"
    using first_error_None [OF assms(3)] assms(2) arg_text_no_separator by fastforce
  then have "split_on dataSeparator (strings_Join (last_function cs # map arg_text ?as) dataSeparator)
      = last_function cs # map arg_text ?as"
    by (intro split_on_Join) simp_all
  moreover have "map hex_DecodeString (map arg_text ?as) = map arg_value ?as"
    using first_error_None [OF assms(3)] arg_text_decodes by fastforce
  ultimately show ?thesis
    using assms(1,3) by (simp add: ToDataString_chain)
qed

lemma vm_step_err:
  "bb_err (vm_step pkc c b) = (if bb_err b \<noteq> None \<and> vm_call_err pkc c = None then bb_err b
     else case c of VArg a \<Rightarrow> if bb_err b \<noteq> None then bb_err b else vm_call_err pkc c
       | _ \<Rightarrow> vm_call_err pkc c)"
proof (cases c)
  case (VArg a)
  then show ?thesis
    by (cases "bb_err b"; cases "arg_value a") (auto simp: addArg_sticky addArg_ok addArg_err)
qed (auto simp: vqb_Function_def vqb_CallerAddress_def vqb_Address_def addr_text_def
    split: option.splits sum.splits)

lemma vm_step_ok:
  "bb_err b = None \<Longrightarrow> vm_call_err pkc c = None \<Longrightarrow> bb_err (vm_step pkc c b) = None"
  unfolding vm_step_err by (cases c) simp_all

lemma vm_step_view:
  assumes "bb_err b = None" and "vm_call_err pkc c = None"
  shows "vm_view (vm_step pkc c b) = vm_request_step pkc (vm_view b) c"
  using assms
  by (cases c) (auto simp: vm_view_def vqb_Function_def vqb_CallerAddress_def vqb_Address_def
      addr_text_def addArg_ok split: option.splits sum.splits)

lemma vm_chain:
  "let b = fold (vm_step pkc) cs NewVMQueryBuilder in
     case bb_err b of
       Some e \<Rightarrow> Some e \<in> vm_call_err pkc ` set cs
     | None \<Rightarrow> vm_call_err pkc ` set cs \<subseteq> {None} \<and> vm_view b = vm_request pkc cs"
proof (induction cs rule: rev_induct)
  case Nil
  then show ?case by (simp add: NewVMQueryBuilder_def vm_view_def vm_request_def)
next
  case (snoc c cs)
  let ?b = "fold (vm_step pkc) cs NewVMQueryBuilder"
  show ?case
  proof (cases "bb_err ?b")
    case None
    show ?thesis
    proof (cases "vm_call_err pkc c")
      case ok: None
      from vm_step_view [OF None ok] show ?thesis
        using snoc None ok vm_step_ok [OF None ok] by (simp add: Let_def vm_request_def del: vm_step.simps)
    next
      case (Some e)
      with snoc None show ?thesis
        by (auto simp: Let_def vm_step_err split: vm_call.splits simp del: vm_step.simps)
    qed
  next
    case (Some e)
    with snoc show ?thesis
      by (cases "vm_call_err pkc c") (auto simp: Let_def vm_step_err split: vm_call.splits)
  qed
qed

section \<open>Properties\<close>



text \<open>\<^verbatim>\<open>ArgInt64\<close> and \<^verbatim>\<open>ArgBigInt\<close> write the absolute value: the sign of an argument never
  reaches the data field, so a negative value and its opposite are sent as the same bytes.\<close>

lemma addArgInt_sign_lost:
  "addArgBigInt (Some (- i)) b = addArgBigInt (Some i) b \<and>
   addArgInt64 v b = (if bb_err b \<noteq> None then b else addBytes (nat_bytes (nat \<bar>sint v\<bar>)) b)"
  by (simp add: addArgBigInt_def addArgInt64_def big_Bytes_def)

text \<open>For every chain of calls on the VM query builder: the request is produced exactly when
  every call succeeds by itself, and then it has the last function, caller and address and the
  texts of all arguments in order; otherwise the error returned is the one of some failing call.\<close>

lemma ToVmValueRequest_chain:
  "case ToVmValueRequest (fold (vm_step pkc) cs NewVMQueryBuilder) of
     Inl e \<Rightarrow> Some e \<in> vm_call_err pkc ` set cs
   | Inr req \<Rightarrow> vm_call_err pkc ` set cs \<subseteq> {None} \<and> req = vm_request pkc cs"
  using vm_chain [of pkc cs] by (simp add: ToVmValueRequest_def vm_view_def Let_def split: option.splits)

end
