(* ===== verification/Tx_Builder.thy ===== *)
theory Tx_Builder
  imports Sdk_Data
begin

text \<open>
  Signing and verifying transactions: \<^verbatim>\<open>blockchain/cryptoProvider\<close> (the signer and the key
  holder), \<^verbatim>\<open>builders/txBuilder.go\<close>, the relayed transaction builders and
  \<^verbatim>\<open>txcheck/sigcheck.go\<close>.

  The cryptographic primitives, the JSON and protobuf marshallers and the methods of library types
  are not part of the repository; they are the fields of \<open>crypto_env\<close>. \<open>sig_law\<close> is the
  correctness of the signature scheme: a signature made with a private key is accepted for the
  public key of that key, and it is not empty. Functions that change a transaction through a pointer return the new
  transaction beside the error.
\<close>

unbundle bit_operations_syntax

section \<open>The environment\<close>

record ('sk, 'pk) crypto_env =
  ed_Sign :: "'sk \<Rightarrow> byte list \<Rightarrow> byte list result"
  ed_Verify :: "'pk \<Rightarrow> byte list \<Rightarrow> byte list \<Rightarrow> go_error option"
  sk_FromByteArray :: "byte list \<Rightarrow> 'sk result"
  sk_GeneratePublic :: "'sk \<Rightarrow> 'pk"
  pk_ToByteArray :: "'pk \<Rightarrow> byte list result"
  keccak_Compute :: "string \<Rightarrow> byte list"
  blake2b_Compute :: "string \<Rightarrow> byte list"
  json_tx :: "FrontendTransaction \<Rightarrow> byte list result"
  json_node :: "NodeTransaction \<Rightarrow> byte list result"
  proto_node :: "NodeTransaction \<Rightarrow> byte list result"
  HasOptionGuardianSet :: "NodeTransaction \<Rightarrow> bool"
  env_pkc :: pubkey_converter

definition sig_law :: "('sk, 'pk) crypto_env \<Rightarrow> bool" where
  "sig_law env \<longleftrightarrow> (\<forall>sk m s. ed_Sign env sk m = Inr s \<longrightarrow>
     s \<noteq> [] \<and> ed_Verify env (sk_GeneratePublic env sk) m s = None)"

section \<open>Signer\<close>

definition messagePrefix :: "byte list" where
  "messagePrefix = 0x17 # bytes_of_string (''Elrond Signed Message:'' @ [CHR 0x0A])"

definition serializeForSigning :: "('sk, 'pk) crypto_env \<Rightarrow> byte list \<Rightarrow> byte list" where
  "serializeForSigning env msg0 =
     (let msgSize = dec_of_nat (length msg0);
          msg1 = bytes_of_string msgSize @ msg0;
          msg2 = messagePrefix @ msg1
      in keccak_Compute env (string_of_bytes msg2))"

definition SignByteSlice :: "('sk, 'pk) crypto_env \<Rightarrow> byte list \<Rightarrow> 'sk \<Rightarrow> byte list result" where
  "SignByteSlice env msg sk = ed_Sign env sk msg"

definition VerifyByteSlice :: "('sk, 'pk) crypto_env \<Rightarrow> byte list \<Rightarrow> 'pk \<Rightarrow> byte list \<Rightarrow> go_error option" where
  "VerifyByteSlice env msg pk sig = ed_Verify env pk msg sig"

definition SignMessage :: "('sk, 'pk) crypto_env \<Rightarrow> byte list \<Rightarrow> 'sk \<Rightarrow> byte list result" where
  "SignMessage env msg sk = SignByteSlice env (serializeForSigning env msg) sk"

definition VerifyMessage :: "('sk, 'pk) crypto_env \<Rightarrow> byte list \<Rightarrow> 'pk \<Rightarrow> byte list \<Rightarrow> go_error option" where
  "VerifyMessage env msg pk sig = ed_Verify env pk (serializeForSigning env msg) sig"

definition SignTransaction :: "('sk, 'pk) crypto_env \<Rightarrow> FrontendTransaction \<Rightarrow> 'sk \<Rightarrow> byte list result" where
  "SignTransaction env tx sk =
     (if length (tx_Signature tx) > 0 then Inl (ECryptoProvider CryptoProvider_ErrTxAlreadySigned)
      else case json_tx env tx of
        Inl err \<Rightarrow> Inl err
      | Inr txBytes0 \<Rightarrow>
          let shouldSignOnTxHash = tx_Version tx \<ge> 2 \<and> tx_Options tx AND 1 > 0;
              txBytes = (if shouldSignOnTxHash then keccak_Compute env (string_of_bytes txBytes0) else txBytes0)
          in SignByteSlice env txBytes sk)"

text \<open>The interface \<^verbatim>\<open>builders.Signer\<close> and its implementation by \<^verbatim>\<open>cryptoProvider.NewSigner\<close>.\<close>

record ('sk, 'pk) Signer =
  sg_SignMessage :: "byte list \<Rightarrow> 'sk \<Rightarrow> byte list result"
  sg_VerifyMessage :: "byte list \<Rightarrow> 'pk \<Rightarrow> byte list \<Rightarrow> go_error option"
  sg_SignTransaction :: "FrontendTransaction \<Rightarrow> 'sk \<Rightarrow> byte list result"
  sg_SignByteSlice :: "byte list \<Rightarrow> 'sk \<Rightarrow> byte list result"
  sg_VerifyByteSlice :: "byte list \<Rightarrow> 'pk \<Rightarrow> byte list \<Rightarrow> go_error option"

definition NewSigner :: "('sk, 'pk) crypto_env \<Rightarrow> ('sk, 'pk) Signer" where
  "NewSigner env = \<lparr>sg_SignMessage = SignMessage env, sg_VerifyMessage = VerifyMessage env,
     sg_SignTransaction = SignTransaction env, sg_SignByteSlice = SignByteSlice env,
     sg_VerifyByteSlice = VerifyByteSlice env\<rparr>"

section \<open>Crypto components holder\<close>

record ('sk, 'pk) cryptoComponentsHolder =
  cch_publicKey :: 'pk
  cch_privateKey :: 'sk
  cch_addressHandler :: address
  cch_bech32Address :: string

definition NewCryptoComponentsHolder ::
  "('sk, 'pk) crypto_env \<Rightarrow> byte list \<Rightarrow> ('sk, 'pk) cryptoComponentsHolder result" where
  "NewCryptoComponentsHolder env skBytes = (case sk_FromByteArray env skBytes of
     Inl err \<Rightarrow> Inl err
   | Inr sk \<Rightarrow>
       let pk = sk_GeneratePublic env sk
       in case pk_ToByteArray env pk of
            Inl err \<Rightarrow> Inl err
          | Inr pkBytes \<Rightarrow>
              let ah = NewAddressFromBytes pkBytes
              in case AddressAsBech32String (env_pkc env) ah of
                   Inl err \<Rightarrow> Inl err
                 | Inr bech32 \<Rightarrow> Inr \<lparr>cch_publicKey = pk, cch_privateKey = sk,
                     cch_addressHandler = ah, cch_bech32Address = bech32\<rparr>)"

section \<open>Transaction builder\<close>

record ('sk, 'pk) txBuilder =
  tb_signer :: "('sk, 'pk) Signer"

definition NewTxBuilder :: "('sk, 'pk) Signer option \<Rightarrow> ('sk, 'pk) txBuilder result" where
  "NewTxBuilder sg = (case sg of
     None \<Rightarrow> Inl (EBuilders Builders_ErrNilSigner)
   | Some s \<Rightarrow> Inr \<lparr>tb_signer = s\<rparr>)"

definition TransactionToUnsignedTx :: "FrontendTransaction \<Rightarrow> FrontendTransaction" where
  "TransactionToUnsignedTx tx = tx\<lparr>tx_Signature := [], tx_GuardianSignature := []\<rparr>"

definition signTx ::
  "('sk, 'pk) crypto_env \<Rightarrow> ('sk, 'pk) txBuilder \<Rightarrow> FrontendTransaction \<Rightarrow> ('sk, 'pk) cryptoComponentsHolder
     \<Rightarrow> byte list result" where
  "signTx env tb unsignedTx holder = (case json_tx env unsignedTx of
     Inl err \<Rightarrow> Inl err
   | Inr msg0 \<Rightarrow>
       let shouldSignOnTxHash = tx_Version unsignedTx \<ge> 2 \<and> tx_Options unsignedTx AND 1 > 0;
           msg = (if shouldSignOnTxHash then keccak_Compute env (string_of_bytes msg0) else msg0)
       in sg_SignByteSlice (tb_signer tb) msg (cch_privateKey holder))"

definition ApplyUserSignature ::
  "('sk, 'pk) crypto_env \<Rightarrow> ('sk, 'pk) txBuilder \<Rightarrow> ('sk, 'pk) cryptoComponentsHolder \<Rightarrow> FrontendTransaction
     \<Rightarrow> go_error option \<times> FrontendTransaction" where
  "ApplyUserSignature env tb holder tx0 =
     (let tx = tx0\<lparr>tx_Sender := cch_bech32Address holder\<rparr>
      in case signTx env tb (TransactionToUnsignedTx tx) holder of
           Inl err \<Rightarrow> (Some err, tx)
         | Inr signature \<Rightarrow> (None, tx\<lparr>tx_Signature := hex_EncodeToString signature\<rparr>))"

definition transactionToNodeTransaction ::
  "('sk, 'pk) crypto_env \<Rightarrow> FrontendTransaction \<Rightarrow> NodeTransaction result" where
  "transactionToNodeTransaction env tx =
     on_ok (pkc_Decode (env_pkc env) (tx_Receiver tx)) (\<lambda>receiverBytes.
     on_ok (pkc_Decode (env_pkc env) (tx_Sender tx)) (\<lambda>senderBytes.
     on_ok (hex_DecodeString (tx_Signature tx)) (\<lambda>signaturesBytes.
     on_ok (or_err (big_SetString (tx_Value tx)) (EBuilders Builders_ErrInvalidValue)) (\<lambda>valueBI.
     on_ok (if length (tx_GuardianAddr tx) > 0
            then on_ok (pkc_Decode (env_pkc env) (tx_GuardianAddr tx)) (\<lambda>ga.
                 on_ok (hex_DecodeString (tx_GuardianSignature tx)) (\<lambda>gs. Inr (ga, gs)))
            else Inr ([], [])) (\<lambda>(guardianAddrBytes, guardianSigBytes).
     Inr \<lparr>ntx_Nonce = tx_Nonce tx, ntx_Value = valueBI, ntx_RcvAddr = receiverBytes,
       ntx_SndAddr = senderBytes, ntx_GasPrice = tx_GasPrice tx, ntx_GasLimit = tx_GasLimit tx,
       ntx_Data = tx_Data tx, ntx_ChainID = bytes_of_string (tx_ChainID tx), ntx_Version = tx_Version tx,
       ntx_Signature = signaturesBytes, ntx_Options = tx_Options tx,
       ntx_GuardianAddr = guardianAddrBytes, ntx_GuardianSignature = guardianSigBytes\<rparr>)))))"

definition ApplyGuardianSignature ::
  "('sk, 'pk) crypto_env \<Rightarrow> ('sk, 'pk) txBuilder \<Rightarrow> ('sk, 'pk) cryptoComponentsHolder \<Rightarrow> FrontendTransaction
     \<Rightarrow> go_error option \<times> FrontendTransaction" where
  "ApplyGuardianSignature env tb holder tx =
     (case transactionToNodeTransaction env tx of
        Inl err \<Rightarrow> (Some err, tx)
      | Inr nodeTx \<Rightarrow>
          if \<not> HasOptionGuardianSet env nodeTx then (Some (EBuilders Builders_ErrMissingGuardianOption), tx)
          else case pkc_Decode (env_pkc env) (tx_GuardianAddr tx) of
            Inl err \<Rightarrow> (Some err, tx)
          | Inr txGuardianAddrBytes \<Rightarrow>
              (case pk_ToByteArray env (cch_publicKey holder) of
                 Inl err \<Rightarrow> (Some err, tx)
               | Inr guardianPubKeyBytes \<Rightarrow>
                   if txGuardianAddrBytes \<noteq> guardianPubKeyBytes
                   then (Some (EBuilders Builders_ErrGuardianDoesNotMatch), tx)
                   else case signTx env tb (TransactionToUnsignedTx tx) holder of
                     Inl err \<Rightarrow> (Some err, tx)
                   | Inr sig \<Rightarrow> (None, tx\<lparr>tx_GuardianSignature := hex_EncodeToString sig\<rparr>)))"

definition ComputeTxHash :: "('sk, 'pk) crypto_env \<Rightarrow> FrontendTransaction \<Rightarrow> byte list result" where
  "ComputeTxHash env tx =
     (if length (tx_Signature tx) = 0 then Inl (EBuilders Builders_ErrMissingSignature)
      else on_ok (transactionToNodeTransaction env tx) (\<lambda>nodeTx.
           on_ok (proto_node env nodeTx) (\<lambda>txBytes.
           Inr (blake2b_Compute env (string_of_bytes txBytes)))))"

section \<open>Signature check\<close>

definition checkParams ::
  "FrontendTransaction option \<Rightarrow> 'pk option \<Rightarrow> byte list \<Rightarrow> ('sk, 'pk) Signer option \<Rightarrow>
     (FrontendTransaction \<Rightarrow> byte list result) option \<Rightarrow> (string \<Rightarrow> byte list) option \<Rightarrow> go_error option" where
  "checkParams tx pk signature verifier marshaller hasher =
     (if tx = None then Some (ETxcheck Txcheck_ErrNilTransaction)
      else if length signature = 0 then Some (ETxcheck Txcheck_ErrNilSignature)
      else if Option.is_none pk then Some (ETxcheck Txcheck_ErrNilPubKey)
      else if Option.is_none verifier then Some (ETxcheck Txcheck_ErrNilSignatureVerifier)
      else if Option.is_none marshaller then Some (ETxcheck Txcheck_ErrNilMarshaller)
      else if Option.is_none hasher then Some (ETxcheck Txcheck_ErrNilHasher)
      else None)"

text \<open>\<open>maskSignedWithHash\<close> is the constant \<^verbatim>\<open>transaction.MaskSignedWithHash\<close> of the library.\<close>

definition VerifyTransactionSignature ::
  "u32 \<Rightarrow> FrontendTransaction option \<Rightarrow> 'pk option \<Rightarrow> byte list \<Rightarrow> ('sk, 'pk) Signer option \<Rightarrow>
     (FrontendTransaction \<Rightarrow> byte list result) option \<Rightarrow> (string \<Rightarrow> byte list) option \<Rightarrow> go_error option" where
  "VerifyTransactionSignature maskSignedWithHash tx pk signature verifier marshaller hasher =
     (case checkParams tx pk signature verifier marshaller hasher of
        Some err \<Rightarrow> Some err
      | None \<Rightarrow>
          let unsignedTx = TransactionToUnsignedTx (the tx)
          in case the marshaller unsignedTx of
               Inl err \<Rightarrow> Some err
             | Inr msg0 \<Rightarrow>
                 let shouldVerifyOnTxHash = tx_Version unsignedTx \<ge> 2 \<and> tx_Options unsignedTx AND maskSignedWithHash > 0;
                     msg = (if shouldVerifyOnTxHash then the hasher (string_of_bytes msg0) else msg0)
                 in sg_VerifyByteSlice (the verifier) msg (the pk) signature)"

section \<open>Relayed transactions\<close>

record relayedTxV1Builder =
  rv1_innerTransaction :: "FrontendTransaction option"
  rv1_relayerAccount :: "Account option"
  rv1_networkConfig :: "NetworkConfig option"

definition NewRelayedTxV1Builder :: relayedTxV1Builder where
  "NewRelayedTxV1Builder = \<lparr>rv1_innerTransaction = None, rv1_relayerAccount = None, rv1_networkConfig = None\<rparr>"

definition rv1_SetInnerTransaction :: "FrontendTransaction option \<Rightarrow> relayedTxV1Builder \<Rightarrow> relayedTxV1Builder" where
  "rv1_SetInnerTransaction tx b = b\<lparr>rv1_innerTransaction := tx\<rparr>"

definition rv1_SetRelayerAccount :: "Account option \<Rightarrow> relayedTxV1Builder \<Rightarrow> relayedTxV1Builder" where
  "rv1_SetRelayerAccount acc b = b\<lparr>rv1_relayerAccount := acc\<rparr>"

definition rv1_SetNetworkConfig :: "NetworkConfig option \<Rightarrow> relayedTxV1Builder \<Rightarrow> relayedTxV1Builder" where
  "rv1_SetNetworkConfig cfg b = b\<lparr>rv1_networkConfig := cfg\<rparr>"

definition prepareInnerTxForRelayV1 :: "('sk, 'pk) crypto_env \<Rightarrow> FrontendTransaction \<Rightarrow> string result" where
  "prepareInnerTxForRelayV1 env tx =
     on_ok (or_err (big_SetString (tx_Value tx)) (EBuilders Builders_ErrInvalidValue)) (\<lambda>txValue.
     on_ok (pkc_Decode (env_pkc env) (tx_Receiver tx)) (\<lambda>receiverAddress.
     on_ok (pkc_Decode (env_pkc env) (tx_Sender tx)) (\<lambda>senderAddress.
     on_ok (hex_DecodeString (tx_Signature tx)) (\<lambda>signatureBytes.
     on_ok (json_node env
       \<lparr>ntx_Nonce = tx_Nonce tx, ntx_Value = txValue, ntx_RcvAddr = receiverAddress,
        ntx_SndAddr = senderAddress, ntx_GasPrice = tx_GasPrice tx, ntx_GasLimit = tx_GasLimit tx,
        ntx_Data = tx_Data tx, ntx_ChainID = bytes_of_string (tx_ChainID tx), ntx_Version = tx_Version tx,
        ntx_Signature = signatureBytes, ntx_Options = tx_Options tx,
        ntx_GuardianAddr = [], ntx_GuardianSignature = []\<rparr>) (\<lambda>serializedTx.
     Inr (hex_EncodeToString serializedTx))))))"

definition rv1_Build :: "('sk, 'pk) crypto_env \<Rightarrow> relayedTxV1Builder \<Rightarrow> FrontendTransaction result" where
  "rv1_Build env b = (case rv1_innerTransaction b of
     None \<Rightarrow> Inl (EBuilders Builders_ErrNilInnerTransaction)
   | Some inner \<Rightarrow>
       if length (tx_Signature inner) = 0 then Inl (EBuilders Builders_ErrNilInnerTransactionSignature)
       else case rv1_relayerAccount b of
         None \<Rightarrow> Inl (EBuilders Builders_ErrNilRelayerAccount)
       | Some relayer \<Rightarrow> (case rv1_networkConfig b of
           None \<Rightarrow> Inl (EBuilders Builders_ErrNilNetworkConfig)
         | Some cfg \<Rightarrow>
             on_ok (prepareInnerTxForRelayV1 env inner) (\<lambda>innerTxHex.
             let payload = bytes_of_string (''relayedTx@'' @ innerTxHex);
                 gasLimit = nc_MinGasLimit cfg + nc_GasPerDataByte cfg * go_len payload + tx_GasLimit inner
             in on_ok (or_err (big_SetString (tx_Value inner)) (EBuilders Builders_ErrInvalidValue)) (\<lambda>innerTxValue.
             Inr (zero_tx\<lparr>tx_Nonce := acc_Nonce relayer, tx_Value := dec_of_int innerTxValue,
               tx_Receiver := tx_Sender inner, tx_Sender := acc_Address relayer,
               tx_GasPrice := tx_GasPrice inner, tx_GasLimit := gasLimit, tx_Data := payload,
               tx_ChainID := nc_ChainID cfg, tx_Version := nc_MinTransactionVersion cfg\<rparr>)))))"

record relayedTxV2Builder =
  rv2_innerTransaction :: "FrontendTransaction option"
  rv2_gasLimitNeeded :: u64
  rv2_relayerAccount :: "Account option"
  rv2_networkConfig :: "NetworkConfig option"

definition NewRelayedTxV2Builder :: relayedTxV2Builder where
  "NewRelayedTxV2Builder = \<lparr>rv2_innerTransaction = None, rv2_gasLimitNeeded = 0,
     rv2_relayerAccount = None, rv2_networkConfig = None\<rparr>"

definition rv2_SetInnerTransaction :: "FrontendTransaction option \<Rightarrow> relayedTxV2Builder \<Rightarrow> relayedTxV2Builder" where
  "rv2_SetInnerTransaction tx b = b\<lparr>rv2_innerTransaction := tx\<rparr>"

definition rv2_SetRelayerAccount :: "Account option \<Rightarrow> relayedTxV2Builder \<Rightarrow> relayedTxV2Builder" where
  "rv2_SetRelayerAccount acc b = b\<lparr>rv2_relayerAccount := acc\<rparr>"

definition rv2_SetGasLimitNeededForInnerTransaction :: "u64 \<Rightarrow> relayedTxV2Builder \<Rightarrow> relayedTxV2Builder" where
  "rv2_SetGasLimitNeededForInnerTransaction gasLimit b = b\<lparr>rv2_gasLimitNeeded := gasLimit\<rparr>"

definition rv2_SetNetworkConfig :: "NetworkConfig option \<Rightarrow> relayedTxV2Builder \<Rightarrow> relayedTxV2Builder" where
  "rv2_SetNetworkConfig cfg b = b\<lparr>rv2_networkConfig := cfg\<rparr>"

definition prepareInnerTxForRelayV2 :: "('sk, 'pk) crypto_env \<Rightarrow> FrontendTransaction \<Rightarrow> string result" where
  "prepareInnerTxForRelayV2 env tx =
     (let nonceBytes = big_Bytes (uint (tx_Nonce tx))
      in on_ok (pkc_Decode (env_pkc env) (tx_Receiver tx)) (\<lambda>decodedReceiver.
     Inr (hex_EncodeToString decodedReceiver @ ''@'' @ hex_EncodeToString nonceBytes @ ''@''
       @ hex_EncodeToString (tx_Data tx) @ ''@'' @ tx_Signature tx)))"

definition rv2_Build :: "('sk, 'pk) crypto_env \<Rightarrow> relayedTxV2Builder \<Rightarrow> FrontendTransaction result" where
  "rv2_Build env b = (case rv2_innerTransaction b of
     None \<Rightarrow> Inl (EBuilders Builders_ErrNilInnerTransaction)
   | Some inner \<Rightarrow>
       if length (tx_Signature inner) = 0 then Inl (EBuilders Builders_ErrNilInnerTransactionSignature)
       else case rv2_relayerAccount b of
         None \<Rightarrow> Inl (EBuilders Builders_ErrNilRelayerAccount)
       | Some relayer \<Rightarrow> (case rv2_networkConfig b of
           None \<Rightarrow> Inl (EBuilders Builders_ErrNilNetworkConfig)
         | Some cfg \<Rightarrow>
             if rv2_gasLimitNeeded b = 0
             then Inl (EBuilders Builders_ErrInvalidGasLimitNeededForInnerTransaction)
             else if tx_GasLimit inner \<noteq> 0
             then Inl (EBuilders Builders_ErrGasLimitForInnerTransactionV2ShouldBeZero)
             else on_ok (prepareInnerTxForRelayV2 env inner) (\<lambda>innerTxHex.
               let payload = bytes_of_string (''relayedTxV2@'' @ innerTxHex);
                   gasLimit = nc_MinGasLimit cfg + nc_GasPerDataByte cfg * go_len payload + rv2_gasLimitNeeded b
               in Inr (zero_tx\<lparr>tx_Nonce := acc_Nonce relayer, tx_Value := ''0'',
                 tx_Receiver := tx_Sender inner, tx_Sender := acc_Address relayer,
                 tx_GasPrice := tx_GasPrice inner, tx_GasLimit := gasLimit, tx_Data := payload,
                 tx_ChainID := nc_ChainID cfg, tx_Version := nc_MinTransactionVersion cfg\<rparr>))))"

section \<open>A concrete environment\<close>

text \<open>An instance of the environment that satisfies its law, for evaluating the properties.\<close>

definition demo_env :: "(byte list, byte list) crypto_env" where
  "demo_env = \<lparr>ed_Sign = (\<lambda>sk m. Inr (1 # sk @ m)),
     ed_Verify = (\<lambda>pk m s. if s = 1 # pk @ m then None else Some (EExternal ''invalid signature'')),
     sk_FromByteArray = Inr, sk_GeneratePublic = id, pk_ToByteArray = Inr,
     keccak_Compute = bytes_of_string, blake2b_Compute = bytes_of_string,
     json_tx = (\<lambda>tx. Inr (bytes_of_string (tx_Sender tx @ tx_Value tx @ tx_Signature tx))),
     json_node = (\<lambda>tx. Inr (ntx_SndAddr tx @ ntx_Data tx)), proto_node = (\<lambda>tx. Inr (ntx_SndAddr tx @ ntx_Data tx)),
     HasOptionGuardianSet = (\<lambda>tx. ntx_Options tx AND 2 > 0), env_pkc = hex_converter\<rparr>"

definition demo_holder :: "byte \<Rightarrow> (byte list, byte list) cryptoComponentsHolder" where
  "demo_holder k = \<lparr>cch_publicKey = [k], cch_privateKey = [k], cch_addressHandler = \<lparr>addr_bytes = [k]\<rparr>,
     cch_bech32Address = hex_EncodeToString [k]\<rparr>"

definition demo_builder :: "(byte list, byte list) txBuilder" where
  "demo_builder = \<lparr>tb_signer = NewSigner demo_env\<rparr>"

definition demo_guarded_tx :: FrontendTransaction where
  "demo_guarded_tx = zero_tx\<lparr>tx_Value := ''5'', tx_Receiver := ''09'', tx_Options := 3, tx_Version := 2,
     tx_GuardianAddr := ''08''\<rparr>"

definition demo_inner_tx :: FrontendTransaction where
  "demo_inner_tx = zero_tx\<lparr>tx_Nonce := 258, tx_Value := ''1'', tx_Sender := ''01'', tx_Receiver := ''02'', tx_Signature := ''03''\<rparr>"

definition demo_account :: Account where
  "demo_account = \<lparr>acc_Address = ''04'', acc_Nonce = 5, acc_Balance = ''0''\<rparr>"

definition demo_config :: NetworkConfig where
  "demo_config = \<lparr>nc_ChainID = ''T'', nc_Denomination = 18, nc_GasPerDataByte = 1500, nc_MinGasLimit = 50000, nc_MinGasPrice = 1,
     nc_MinTransactionVersion = 1, nc_NumShardsWithoutMeta = 3\<rparr>"

section \<open>Lemmas\<close>

lemma demo_env_law [simp]: "sig_law demo_env"
  by (simp add: sig_law_def demo_env_def)

text \<open>The clone that is signed does not depend on the signature fields, so applying one signature
  does not invalidate the other.\<close>

lemma unsigned_idem [simp]: "TransactionToUnsignedTx (TransactionToUnsignedTx tx) = TransactionToUnsignedTx tx"
  by (simp add: TransactionToUnsignedTx_def)

lemma unsigned_signature [simp]:
  "TransactionToUnsignedTx (tx\<lparr>tx_Signature := s\<rparr>) = TransactionToUnsignedTx tx"
  by (simp add: TransactionToUnsignedTx_def)

lemma unsigned_guardian_signature [simp]:
  "TransactionToUnsignedTx (tx\<lparr>tx_GuardianSignature := s\<rparr>) = TransactionToUnsignedTx tx"
  by (simp add: TransactionToUnsignedTx_def)

lemma NewSigner_sel [simp]:
  "sg_SignByteSlice (NewSigner env) = SignByteSlice env" "sg_VerifyByteSlice (NewSigner env) = VerifyByteSlice env"
  by (simp_all add: NewSigner_def)

text \<open>What \<^verbatim>\<open>signTx\<close> signs is what \<^verbatim>\<open>VerifyTransactionSignature\<close> checks.\<close>

lemma signTx_verifies:
  assumes "sig_law env" and "signTx env \<lparr>tb_signer = NewSigner env\<rparr> (TransactionToUnsignedTx tx) holder = Inr s"
    and "cch_publicKey holder = sk_GeneratePublic env (cch_privateKey holder)"
  shows "VerifyTransactionSignature 1 (Some tx) (Some (cch_publicKey holder)) s
           (Some (NewSigner env)) (Some (json_tx env)) (Some (keccak_Compute env)) = None"
  using assms
  by (auto simp: signTx_def VerifyTransactionSignature_def checkParams_def SignByteSlice_def
      VerifyByteSlice_def sig_law_def Let_def split: sum.splits if_splits)

lemma ApplyUserSignature_ok:
  assumes "ApplyUserSignature env tb holder tx = (None, tx')"
  shows "\<exists>s. signTx env tb (TransactionToUnsignedTx tx') holder = Inr s
     \<and> tx' = tx\<lparr>tx_Sender := cch_bech32Address holder, tx_Signature := hex_EncodeToString s\<rparr>"
  using assms by (auto simp: ApplyUserSignature_def Let_def split: sum.splits)

lemma ApplyGuardianSignature_cases:
  assumes "ApplyGuardianSignature env tb holder tx = (err, tx')"
  shows "(\<exists>e. err = Some e \<and> tx' = tx) \<or>
     (\<exists>s ga. err = None \<and> signTx env tb (TransactionToUnsignedTx tx) holder = Inr s
       \<and> tx' = tx\<lparr>tx_GuardianSignature := hex_EncodeToString s\<rparr>
       \<and> pkc_Decode (env_pkc env) (tx_GuardianAddr tx) = Inr ga \<and> pk_ToByteArray env (cch_publicKey holder) = Inr ga
       \<and> (\<exists>ntx. transactionToNodeTransaction env tx = Inr ntx \<and> HasOptionGuardianSet env ntx))"
  using assms by (auto simp: ApplyGuardianSignature_def split: sum.splits if_splits)

lemma NewCryptoComponentsHolder_keys:
  assumes "NewCryptoComponentsHolder env skBytes = Inr h"
  shows "cch_publicKey h = sk_GeneratePublic env (cch_privateKey h)"
    and "pk_ToByteArray env (cch_publicKey h) = Inr (AddressBytes (cch_addressHandler h))"
    and "AddressAsBech32String (env_pkc env) (cch_addressHandler h) = Inr (cch_bech32Address h)"
  using assms
  by (auto simp: NewCryptoComponentsHolder_def NewAddressFromBytes_def AddressBytes_def Let_def split: sum.splits)

lemma relay_v2_payload_fields:
  assumes "CHR ''@'' \<notin> set sig"
  shows "split_on (CHR ''@'') (''relayedTxV2@'' @ hex_EncodeToString r @ ''@'' @ hex_EncodeToString n @ ''@''
           @ hex_EncodeToString d @ ''@'' @ sig) =
         [''relayedTxV2'', hex_EncodeToString r, hex_EncodeToString n, hex_EncodeToString d, sig]"
  using split_on_Join [of "[''relayedTxV2'', hex_EncodeToString r, hex_EncodeToString n, hex_EncodeToString d, sig]"
      "CHR ''@''"] assms
  by (simp add: hex_val_def)

lemma at_not_hex [simp]: "hex_val (CHR ''@'') = None"
  by (simp add: hex_val_def)

section \<open>Properties\<close>

text \<open>C8. A transaction signed by its sender and then by its guardian passes the signature check for
  both: the user signature stays valid when the guardian signature is added, on the plain and on
  the hash-signing path.\<close>

theorem user_and_guardian_signatures_verify:
  assumes "sig_law env"
    and "NewCryptoComponentsHolder env userSk = Inr user" and "NewCryptoComponentsHolder env guardianSk = Inr guardian"
    and "ApplyUserSignature env \<lparr>tb_signer = NewSigner env\<rparr> user tx = (None, tx1)"
    and "ApplyGuardianSignature env \<lparr>tb_signer = NewSigner env\<rparr> guardian tx1 = (None, tx2)"
  shows "\<exists>us gs. hex_DecodeString (tx_Signature tx2) = Inr us \<and> hex_DecodeString (tx_GuardianSignature tx2) = Inr gs
     \<and> VerifyTransactionSignature 1 (Some tx2) (Some (cch_publicKey user)) us
         (Some (NewSigner env)) (Some (json_tx env)) (Some (keccak_Compute env)) = None
     \<and> VerifyTransactionSignature 1 (Some tx2) (Some (cch_publicKey guardian)) gs
         (Some (NewSigner env)) (Some (json_tx env)) (Some (keccak_Compute env)) = None"
proof -
  let ?tb = "\<lparr>tb_signer = NewSigner env\<rparr>"
  obtain us where us: "signTx env ?tb (TransactionToUnsignedTx tx1) user = Inr us"
    "tx_Signature tx1 = hex_EncodeToString us"
    using ApplyUserSignature_ok [OF assms(4)] by auto
  obtain gs where gs: "signTx env ?tb (TransactionToUnsignedTx tx1) guardian = Inr gs"
    "tx2 = tx1\<lparr>tx_GuardianSignature := hex_EncodeToString gs\<rparr>"
    using ApplyGuardianSignature_cases [OF assms(5)] by auto
  have un: "TransactionToUnsignedTx tx2 = TransactionToUnsignedTx tx1" by (simp add: gs(2))
  show ?thesis
    using signTx_verifies [OF assms(1), of tx2 user us] signTx_verifies [OF assms(1), of tx2 guardian gs]
      NewCryptoComponentsHolder_keys(1) [OF assms(2)] NewCryptoComponentsHolder_keys(1) [OF assms(3)] us gs un
    by simp
qed

theorem user_and_guardian_signatures_verify_witness:
  "let tx1 = snd (ApplyUserSignature demo_env demo_builder (demo_holder 7) demo_guarded_tx);
       tx2 = snd (ApplyGuardianSignature demo_env demo_builder (demo_holder 8) tx1)
   in \<exists>us gs. hex_DecodeString (tx_Signature tx2) = Inr us \<and> hex_DecodeString (tx_GuardianSignature tx2) = Inr gs
     \<and> VerifyTransactionSignature 1 (Some tx2) (Some [7]) us
         (Some (NewSigner demo_env)) (Some (json_tx demo_env)) (Some (keccak_Compute demo_env)) = None
     \<and> VerifyTransactionSignature 1 (Some tx2) (Some [8]) gs
         (Some (NewSigner demo_env)) (Some (json_tx demo_env)) (Some (keccak_Compute demo_env)) = None"
proof -
  let ?tb = "\<lparr>tb_signer = NewSigner demo_env\<rparr>"
  let ?tx1 = "snd (ApplyUserSignature demo_env ?tb (demo_holder 7) demo_guarded_tx)"
  let ?tx2 = "snd (ApplyGuardianSignature demo_env ?tb (demo_holder 8) ?tx1)"
  have u: "NewCryptoComponentsHolder demo_env [7] = Inr (demo_holder 7)" by code_simp
  have g: "NewCryptoComponentsHolder demo_env [8] = Inr (demo_holder 8)" by code_simp
  have "fst (ApplyUserSignature demo_env ?tb (demo_holder 7) demo_guarded_tx) = None" by code_simp
  then have a: "ApplyUserSignature demo_env ?tb (demo_holder 7) demo_guarded_tx = (None, ?tx1)" by (simp add: prod_eq_iff)
  have "fst (ApplyGuardianSignature demo_env ?tb (demo_holder 8) ?tx1) = None" by code_simp
  then have b: "ApplyGuardianSignature demo_env ?tb (demo_holder 8) ?tx1 = (None, ?tx2)" by (simp add: prod_eq_iff)
  have "cch_publicKey (demo_holder 7) = [7]" "cch_publicKey (demo_holder 8) = [8]" by (simp_all add: demo_holder_def)
  with user_and_guardian_signatures_verify [OF demo_env_law u g a b] show ?thesis
    unfolding demo_builder_def Let_def by simp
qed

text \<open>The guardian signature is only applied when the transaction converts, has the guardian
  option set and names as guardian the very key that signs; a refused call leaves the transaction
  as it was, and a successful one changes the guardian signature only.\<close>

lemma ApplyGuardianSignature_guarded:
  assumes "ApplyGuardianSignature env tb holder tx = (err, tx')"
  shows "(err \<noteq> None \<longrightarrow> tx' = tx) \<and>
     (err = None \<longrightarrow> (\<exists>s ga ntx. tx' = tx\<lparr>tx_GuardianSignature := hex_EncodeToString s\<rparr>
        \<and> pkc_Decode (env_pkc env) (tx_GuardianAddr tx) = Inr ga \<and> pk_ToByteArray env (cch_publicKey holder) = Inr ga
        \<and> transactionToNodeTransaction env tx = Inr ntx \<and> HasOptionGuardianSet env ntx))"
  using ApplyGuardianSignature_cases [OF assms] by auto

lemma ApplyGuardianSignature_guarded_example:
  "\<exists>e. ApplyGuardianSignature demo_env demo_builder (demo_holder 8) zero_tx = (Some e, zero_tx)"
proof -
  obtain err tx' where e: "ApplyGuardianSignature demo_env demo_builder (demo_holder 8) zero_tx = (err, tx')"
    by fastforce
  moreover have "transactionToNodeTransaction demo_env zero_tx = Inl (EBuilders Builders_ErrInvalidValue)" by code_simp
  ultimately show ?thesis
    using ApplyGuardianSignature_guarded [OF e] by auto
qed

text \<open>A relayed transaction V1 is built exactly from a signed inner transaction, a relayer and
  a network configuration: it goes from the relayer to the inner sender with the inner value and
  gas price, its payload is the hex of the serialized inner transaction, and its gas limit is the
  inner gas limit plus the cost of moving the payload.\<close>

lemma rv1_Build_ok:
  assumes "rv1_Build env b = Inr tx"
  shows "\<exists>inner relayer cfg ntx serialized.
     b = \<lparr>rv1_innerTransaction = Some inner, rv1_relayerAccount = Some relayer, rv1_networkConfig = Some cfg\<rparr>
     \<and> tx_Signature inner \<noteq> [] \<and> tx_Signature tx = []
     \<and> tx_Sender tx = acc_Address relayer \<and> tx_Nonce tx = acc_Nonce relayer
     \<and> tx_Receiver tx = tx_Sender inner \<and> big_SetString (tx_Value tx) = big_SetString (tx_Value inner)
     \<and> tx_GasPrice tx = tx_GasPrice inner
     \<and> tx_GasLimit tx = nc_MinGasLimit cfg + nc_GasPerDataByte cfg * go_len (tx_Data tx) + tx_GasLimit inner
     \<and> json_node env ntx = Inr serialized \<and> tx_Data tx = bytes_of_string (''relayedTx@'' @ hex_EncodeToString serialized)
     \<and> ntx_Nonce ntx = tx_Nonce inner \<and> ntx_Data ntx = tx_Data inner
     \<and> big_SetString (tx_Value inner) = Some (ntx_Value ntx) \<and> hex_DecodeString (tx_Signature inner) = Inr (ntx_Signature ntx)
     \<and> pkc_Decode (env_pkc env) (tx_Sender inner) = Inr (ntx_SndAddr ntx)
     \<and> pkc_Decode (env_pkc env) (tx_Receiver inner) = Inr (ntx_RcvAddr ntx)"
  using assms
  by (cases b) (auto simp: rv1_Build_def prepareInnerTxForRelayV1_def zero_tx_def Let_def
      simp del: bytes_of_string_append split: option.splits if_splits
      intro!: exI [of _ "\<lparr>ntx_Nonce = _, ntx_Value = _, ntx_RcvAddr = _, ntx_SndAddr = _, ntx_GasPrice = _,
        ntx_GasLimit = _, ntx_Data = _, ntx_ChainID = _, ntx_Version = _, ntx_Signature = _, ntx_Options = _,
        ntx_GuardianAddr = [], ntx_GuardianSignature = []\<rparr>"])

lemma rv1_Build_ok_example:
  "\<exists>tx. rv1_Build demo_env \<lparr>rv1_innerTransaction = Some demo_inner_tx,
       rv1_relayerAccount = Some demo_account, rv1_networkConfig = Some demo_config\<rparr> = Inr tx
     \<and> tx_Sender tx = ''04'' \<and> tx_Receiver tx = ''01''"
proof -
  let ?b = "\<lparr>rv1_innerTransaction = Some demo_inner_tx,
       rv1_relayerAccount = Some demo_account, rv1_networkConfig = Some demo_config\<rparr>"
  have "case rv1_Build demo_env ?b of Inl _ \<Rightarrow> False | Inr _ \<Rightarrow> True" by code_simp
  then obtain tx where "rv1_Build demo_env ?b = Inr tx" by (cases "rv1_Build demo_env ?b") auto
  with rv1_Build_ok [OF this] show ?thesis by (auto simp: demo_inner_tx_def demo_account_def)
qed

text \<open>A relayed transaction V2 carries a payload whose fields, split at the separator, decode
  to the receiver, the nonce, the data and the signature of the inner transaction; it moves no
  value and its gas limit adds the gas requested for the inner transaction, which itself has to
  have gas limit zero.\<close>

lemma rv2_Build_ok:
  assumes "rv2_Build env b = Inr tx" and "rv2_innerTransaction b = Some inner" and "CHR ''@'' \<notin> set (tx_Signature inner)"
  shows "\<exists>relayer cfg r n d.
     rv2_relayerAccount b = Some relayer \<and> rv2_networkConfig b = Some cfg
     \<and> tx_Signature inner \<noteq> [] \<and> tx_GasLimit inner = 0 \<and> rv2_gasLimitNeeded b \<noteq> 0
     \<and> tx_Sender tx = acc_Address relayer \<and> tx_Nonce tx = acc_Nonce relayer
     \<and> tx_Receiver tx = tx_Sender inner \<and> tx_Value tx = ''0'' \<and> tx_Signature tx = []
     \<and> tx_GasLimit tx = nc_MinGasLimit cfg + nc_GasPerDataByte cfg * go_len (tx_Data tx) + rv2_gasLimitNeeded b
     \<and> split_on (CHR ''@'') (string_of_bytes (tx_Data tx)) = [''relayedTxV2'', r, n, d, tx_Signature inner]
     \<and> hex_DecodeString r = pkc_Decode (env_pkc env) (tx_Receiver inner)
     \<and> (\<exists>nb. hex_DecodeString n = Inr nb \<and> be_val nb = unat (tx_Nonce inner))
     \<and> hex_DecodeString d = Inr (tx_Data inner)"
proof -
  obtain relayer cfg rb where parts: "rv2_relayerAccount b = Some relayer" "rv2_networkConfig b = Some cfg"
    "pkc_Decode (env_pkc env) (tx_Receiver inner) = Inr rb"
    "tx_Signature inner \<noteq> []" "tx_GasLimit inner = 0" "rv2_gasLimitNeeded b \<noteq> 0"
    and tx: "tx_Data tx = bytes_of_string (''relayedTxV2@'' @ hex_EncodeToString rb @ ''@''
        @ hex_EncodeToString (big_Bytes (uint (tx_Nonce inner))) @ ''@''
        @ hex_EncodeToString (tx_Data inner) @ ''@'' @ tx_Signature inner)"
      "tx_Sender tx = acc_Address relayer" "tx_Nonce tx = acc_Nonce relayer" "tx_Receiver tx = tx_Sender inner"
      "tx_Value tx = ''0''" "tx_Signature tx = []"
      "tx_GasLimit tx = nc_MinGasLimit cfg + nc_GasPerDataByte cfg * go_len (tx_Data tx) + rv2_gasLimitNeeded b"
    using assms(1,2)
    by (auto simp: rv2_Build_def prepareInnerTxForRelayV2_def zero_tx_def Let_def
        simp del: bytes_of_string_append split: option.splits if_splits)
  have "be_val (big_Bytes (uint (tx_Nonce inner))) = unat (tx_Nonce inner)"
    by (simp add: big_Bytes_def)
  then show ?thesis
    using parts tx relay_v2_payload_fields [OF assms(3), of rb "big_Bytes (uint (tx_Nonce inner))" "tx_Data inner"]
    by (auto simp del: bytes_of_string_append)
qed

lemma rv2_Build_ok_example:
  "\<exists>tx. rv2_Build demo_env \<lparr>rv2_innerTransaction = Some demo_inner_tx, rv2_gasLimitNeeded = 10,
       rv2_relayerAccount = Some demo_account, rv2_networkConfig = Some demo_config\<rparr> = Inr tx
     \<and> tx_Sender tx = ''04'' \<and> tx_Receiver tx = ''01''"
proof -
  let ?b = "\<lparr>rv2_innerTransaction = Some demo_inner_tx, rv2_gasLimitNeeded = 10,
       rv2_relayerAccount = Some demo_account, rv2_networkConfig = Some demo_config\<rparr>"
  have "case rv2_Build demo_env ?b of Inl _ \<Rightarrow> False | Inr _ \<Rightarrow> True" by code_simp
  then obtain tx where t: "rv2_Build demo_env ?b = Inr tx" by (cases "rv2_Build demo_env ?b") auto
  have "CHR ''@'' \<notin> set (tx_Signature demo_inner_tx)" by (simp add: demo_inner_tx_def)
  from t rv2_Build_ok [OF t _ this] show ?thesis by (auto simp: demo_inner_tx_def demo_account_def)
qed

end
