(* ===== verification/Interactors_Base.thy ===== *)
theory Interactors_Base
  imports Sdk_Data
begin

text \<open>
  What the transaction handlers of \<^verbatim>\<open>interactors\<close> share: the proxy they talk to and the registry
  of per-address handlers.

  The network answers differently from call to call, so every operation takes the proxy \<^emph>\<open>as it
  answers during that operation\<close>; a sequence of operations takes a sequence of proxies, and no
  relation between their answers is assumed. That also covers a response that was fetched before a
  concurrent operation ran. Operations return what they hand to the proxy, so that theorems can
  speak about the transactions that leave the process.

  The locale \<open>handler_registry\<close> is the contract of \<^verbatim>\<open>getOrCreateAddressNonceHandler\<close>, which all
  three versions of the nonce handler implement.
\<close>

section \<open>The proxy\<close>

record Proxy =
  px_GetNetworkConfig :: "NetworkConfig result"
  px_GetAccount :: "address \<Rightarrow> Account result"
  px_SendTransaction :: "FrontendTransaction \<Rightarrow> string result"
  px_SendTransactions :: "FrontendTransaction list \<Rightarrow> string list result"

text \<open>A proxy that reports the given account nonce and accepts everything, for concrete instances.\<close>

definition demo_account_of :: "u64 \<Rightarrow> Account" where
  "demo_account_of n = \<lparr>acc_Address = [], acc_Nonce = n, acc_Balance = ''0''\<rparr>"

definition demo_network :: NetworkConfig where
  "demo_network = \<lparr>nc_ChainID = ''T'', nc_Denomination = 18, nc_GasPerDataByte = 1500, nc_MinGasLimit = 50000, nc_MinGasPrice = 10,
     nc_MinTransactionVersion = 1, nc_NumShardsWithoutMeta = 3\<rparr>"

definition demo_proxy :: "u64 \<Rightarrow> Proxy" where
  "demo_proxy n = \<lparr>px_GetNetworkConfig = Inr demo_network, px_GetAccount = (\<lambda>_. Inr (demo_account_of n)),
     px_SendTransaction = (\<lambda>tx. Inr (tx_Signature tx)), px_SendTransactions = (\<lambda>txs. Inr (map tx_Signature txs))\<rparr>"

type_synonym tx_map = "u64 \<rightharpoonup> FrontendTransaction"

text \<open>\<^verbatim>\<open>time.Second\<close> in nanoseconds, the minimal interval of the resend loops.\<close>

definition minimumIntervalToResend :: int where "minimumIntervalToResend = 1000000000"

section \<open>The loop over the sent transactions\<close>

text \<open>
  The sweep that \<^verbatim>\<open>reSendTransactionsIfRequired\<close> of the versions 1 and 2 makes over the map, for the
  order \<open>ks\<close> in which the keys are visited: entries up to the account nonce are deleted, the
  others are collected.
\<close>

primrec sweep :: "u64 \<Rightarrow> u64 list \<Rightarrow> tx_map \<Rightarrow> FrontendTransaction list \<times> tx_map" where
  "sweep accNonce [] m = ([], m)"
| "sweep accNonce (n # ns) m =
     (if n \<le> accNonce then sweep accNonce ns (m(n := None))
      else let (txs, m') = sweep accNonce ns m in (the (m n) # txs, m'))"

section \<open>Nonce sources\<close>

text \<open>Consecutive answers of a nonce source, given the account nonces fetched by the calls.\<close>

primrec nonce_run :: "(u64 \<Rightarrow> 's \<Rightarrow> u64 \<times> 's) \<Rightarrow> u64 list \<Rightarrow> 's \<Rightarrow> u64 list" where
  "nonce_run gnext [] s = []"
| "nonce_run gnext (v # vs) s = fst (gnext v s) # nonce_run gnext vs (snd (gnext v s))"

text \<open>
  The contract of the critical section of \<^verbatim>\<open>getNonceUpdatingCurrent\<close>: the first answer is the nonce
  of the account, later ones count on from the last stored nonce, and a larger account nonce is
  answered but not stored.
\<close>

locale nonce_source =
  fixes gnext :: "u64 \<Rightarrow> 's \<Rightarrow> u64 \<times> 's"
    and wasSet :: "'s \<Rightarrow> bool"
    and computed :: "'s \<Rightarrow> u64"
  assumes gnext_first: "\<not> wasSet s \<Longrightarrow> fst (gnext v s) = v \<and> wasSet (snd (gnext v s)) \<and> computed (snd (gnext v s)) = v"
    and gnext_next: "wasSet s \<Longrightarrow> fst (gnext v s) = max (computed s + 1) v \<and> wasSet (snd (gnext v s))
          \<and> computed (snd (gnext v s)) = computed s + 1"
begin

lemma nonce_run_set:
  "wasSet s \<Longrightarrow> nonce_run gnext vs s = map (\<lambda>i. max (computed s + of_nat (Suc i)) (vs ! i)) [0..<length vs]"
proof (induction vs arbitrary: s)
  case (Cons v vs)
  have "map f [0..<length (v # vs)] = f 0 # map (\<lambda>i. f (Suc i)) [0..<length vs]" for f :: "nat \<Rightarrow> u64"
    by (simp add: upt_conv_Cons map_Suc_upt [symmetric] del: upt_Suc)
  with Cons gnext_next [OF Cons.prems, of v] show ?case
    by (simp add: add.assoc del: upt_Suc)
qed simp

lemma nonce_run_fresh:
  "\<not> wasSet s \<Longrightarrow> nonce_run gnext (v # vs) s = v # map (\<lambda>i. max (v + of_nat (Suc i)) (vs ! i)) [0..<length vs]"
  using gnext_first [of s v] nonce_run_set [of "snd (gnext v s)" vs] by simp

text \<open>As long as the account does not get ahead of the answers, they are consecutive.\<close>

lemma nonce_run_consecutive:
  assumes "\<not> wasSet s" and "unat v + length vs < 2 ^ 64"
    and "\<forall>i < length vs. unat (vs ! i) \<le> unat v + Suc i"
  shows "nonce_run gnext (v # vs) s = map (\<lambda>i. v + of_nat i) [0..<Suc (length vs)]"
proof -
  have "max (v + of_nat (Suc i)) (vs ! i) = v + of_nat (Suc i)" if "i < length vs" for i
  proof -
    have "unat (v + of_nat (Suc i)) = unat v + Suc i"
      using assms(2) that by (simp add: unat_word_ariths unat_of_nat del: of_nat_Suc)
    with assms(3) that show ?thesis by (intro max_absorb1) (simp add: word_le_nat_alt del: of_nat_Suc)
  qed
  then have "map (\<lambda>i. max (v + of_nat (Suc i)) (vs ! i)) [0..<length vs] = map (\<lambda>i. v + of_nat (Suc i)) [0..<length vs]"
    by (simp del: of_nat_Suc)
  moreover have "map (\<lambda>i. v + of_nat i) [0..<Suc (length vs)] = v # map (\<lambda>i. v + of_nat (Suc i)) [0..<length vs]"
    by (simp add: upt_conv_Cons map_Suc_upt [symmetric] del: upt_Suc)
  ultimately show ?thesis
    using nonce_run_fresh [OF assms(1)] by simp
qed

text \<open>When the account is ahead, the same nonce is answered again.\<close>

lemma nonce_run_duplicate:
  assumes "wasSet s" and "computed s + 1 \<le> v" and "computed s + 2 \<le> v"
  shows "nonce_run gnext [v, v] s = [v, v]"
  using assms gnext_next [of s v] gnext_next [of "snd (gnext v s)" v] by (simp add: add.assoc max_absorb2)

end

section \<open>Handler registry\<close>

locale handler_registry =
  fixes rfind :: "'s \<Rightarrow> string \<Rightarrow> 'h option"
    and rget :: "address \<Rightarrow> 's \<Rightarrow> 'h \<times> 's"
    and rput :: "address \<Rightarrow> 'h \<Rightarrow> 's \<Rightarrow> 's"
  assumes rget_found: "rfind s (string_of_bytes (addr_bytes a)) = Some h \<Longrightarrow> rget a s = (h, s)"
    and rget_new: "rfind s (string_of_bytes (addr_bytes a)) = None \<Longrightarrow>
        rfind (snd (rget a s)) (string_of_bytes (addr_bytes a)) = Some (fst (rget a s))"
    and rget_other: "k \<noteq> string_of_bytes (addr_bytes a) \<Longrightarrow> rfind (snd (rget a s)) k = rfind s k"
    and rput_find: "rfind (rput a h s) k = (if k = string_of_bytes (addr_bytes a) then Some h else rfind s k)"
begin

lemma rget_registered: "rfind (snd (rget a s)) (string_of_bytes (addr_bytes a)) = Some (fst (rget a s))"
  by (cases "rfind s (string_of_bytes (addr_bytes a))") (simp_all add: rget_found rget_new)

lemma rget_twice: "rget a (snd (rget a s)) = rget a s"
  using rget_found [OF rget_registered, of a s] by simp

lemma rget_rput: "rget a (rput a h s) = (h, rput a h s)"
  by (simp add: rget_found rput_find)

text \<open>An operation on the handler of one address leaves the handlers of all others alone.\<close>

lemma rupdate_other:
  assumes "addr_bytes b \<noteq> addr_bytes a"
  shows "rfind (rput a h (snd (rget a s))) (string_of_bytes (addr_bytes b)) = rfind s (string_of_bytes (addr_bytes b))"
  using assms by (simp add: rput_find rget_other)

end

section \<open>Lemmas\<close>

lemma demo_proxy_sel [simp]:
  "px_GetAccount (demo_proxy n) a = Inr (demo_account_of n)" "acc_Nonce (demo_account_of n) = n"
  "px_GetNetworkConfig (demo_proxy n) = Inr demo_network" "nc_MinGasPrice demo_network = 10"
  "px_SendTransaction (demo_proxy n) tx = Inr (tx_Signature tx)"
  "px_SendTransactions (demo_proxy n) txs = Inr (map tx_Signature txs)"
  by (simp_all add: demo_proxy_def demo_account_of_def demo_network_def)

lemma sweep_map: "snd (sweep a ns m) = (\<lambda>n. if n \<in> set ns \<and> n \<le> a then None else m n)"
  by (induction ns arbitrary: m) (auto simp: Let_def split_beta fun_eq_iff)

lemma sweep_txs:
  "distinct ns \<Longrightarrow> fst (sweep a ns m) = map (\<lambda>n. the (m n)) (filter (\<lambda>n. a < n) ns)"
proof (induction ns arbitrary: m)
  case (Cons n ns)
  have "map (\<lambda>n'. the ((m(n := None)) n')) (filter (\<lambda>n. a < n) ns) = map (\<lambda>n. the (m n)) (filter (\<lambda>n. a < n) ns)"
    using Cons.prems by (intro map_cong refl) auto
  with Cons show ?case by (auto simp: Let_def split_beta not_le not_less)
qed simp

lemma sweep_range_map:
  "go_range m ns \<Longrightarrow> snd (sweep a ns m) = (\<lambda>n. if n \<le> a then None else m n)"
  unfolding sweep_map by (auto simp: go_range_def fun_eq_iff domIff)

lemma sweep_range_mem:
  assumes "go_range m ns" and "m n = Some tx" and "a < n"
  shows "tx \<in> set (fst (sweep a ns m))"
proof -
  have "n \<in> set ns" using assms(1,2) by (auto simp: go_range_def)
  moreover have "distinct ns" using assms(1) by (simp add: go_range_def)
  ultimately show ?thesis using assms(2,3) by (force simp: sweep_txs)
qed

end
