(* ===== verification/Nonce_V1.thy ===== *)
theory Nonce_V1
  imports Interactors_Base
begin

text \<open>
  \<^verbatim>\<open>interactors/nonceHandlerV1\<close>: the nonce handler of one address and the handler of many
  addresses with its resend loop. The mutex sections are the steps; the resend sweep is one step,
  since nothing but logging follows its critical section and the call to the proxy.
\<close>

section \<open>The handler of one address\<close>

record anhV1 =
  a1_address :: address
  a1_computedNonceWasSet :: bool
  a1_computedNonce :: u64
  a1_transactions :: tx_map

definition newAddressNonceHandler :: "address \<Rightarrow> anhV1" where
  "newAddressNonceHandler a = \<lparr>a1_address = a, a1_computedNonceWasSet = False, a1_computedNonce = 0,
     a1_transactions = Map.empty\<rparr>"

text \<open>The critical section of \<^verbatim>\<open>getNonceUpdatingCurrent\<close>, for the account nonce that was fetched.\<close>

definition a1_nextNonce :: "u64 \<Rightarrow> anhV1 \<Rightarrow> u64 \<times> anhV1" where
  "a1_nextNonce accNonce anh =
     (if \<not> a1_computedNonceWasSet anh then
        let anh' = anh\<lparr>a1_computedNonce := accNonce, a1_computedNonceWasSet := True\<rparr>
        in (a1_computedNonce anh', anh')
      else
        let anh' = anh\<lparr>a1_computedNonce := a1_computedNonce anh + 1\<rparr>
        in (max (a1_computedNonce anh') accNonce, anh'))"

definition a1_getNonceUpdatingCurrent :: "Proxy \<Rightarrow> anhV1 \<Rightarrow> u64 result \<times> anhV1" where
  "a1_getNonceUpdatingCurrent px anh = (case px_GetAccount px (a1_address anh) of
     Inl err \<Rightarrow> (Inl err, anh)
   | Inr account \<Rightarrow>
       let (nonce, anh') = a1_nextNonce (acc_Nonce account) anh
       in (Inr nonce, anh'))"

text \<open>The second component of the result is what is handed to \<^verbatim>\<open>proxy.SendTransactions\<close>; \<open>[]\<close> when
  it is not called.\<close>

definition a1_reSendTransactionsIfRequired ::
  "pubkey_converter \<Rightarrow> Proxy \<Rightarrow> u64 list \<Rightarrow> anhV1 \<Rightarrow> go_error option \<times> FrontendTransaction list \<times> anhV1" where
  "a1_reSendTransactionsIfRequired pkc px ks anh = (case px_GetAccount px (a1_address anh) of
     Inl err \<Rightarrow> (Some err, [], anh)
   | Inr account \<Rightarrow>
       if acc_Nonce account = a1_computedNonce anh then (None, [], anh\<lparr>a1_transactions := Map.empty\<rparr>)
       else
         let (resendableTxs, m) = sweep (acc_Nonce account) ks (a1_transactions anh);
             anh' = anh\<lparr>a1_transactions := m\<rparr>
         in if length resendableTxs = 0 then (None, [], anh')
            else case px_SendTransactions px resendableTxs of
              Inl err \<Rightarrow> (Some err, resendableTxs, anh')
            | Inr hashes \<Rightarrow> (case AddressAsBech32String pkc (a1_address anh') of
                Inl err \<Rightarrow> (Some err, resendableTxs, anh')
              | Inr _ \<Rightarrow> (None, resendableTxs, anh')))"

definition a1_sendTransaction :: "Proxy \<Rightarrow> FrontendTransaction \<Rightarrow> anhV1 \<Rightarrow> string result \<times> anhV1" where
  "a1_sendTransaction px tx anh =
     (px_SendTransaction px tx, anh\<lparr>a1_transactions := (a1_transactions anh)(tx_Nonce tx \<mapsto> tx)\<rparr>)"

definition isTheSameReceiverDataValue :: "FrontendTransaction \<Rightarrow> FrontendTransaction \<Rightarrow> bool" where
  "isTheSameReceiverDataValue oldTx tx \<longleftrightarrow> tx_Receiver oldTx = tx_Receiver tx \<and> tx_Data oldTx = tx_Data tx
     \<and> tx_Value oldTx = tx_Value tx"

definition a1_isTxAlreadySent :: "u64 list \<Rightarrow> FrontendTransaction \<Rightarrow> anhV1 \<Rightarrow> bool" where
  "a1_isTxAlreadySent ks tx anh = list_ex (\<lambda>k. isTheSameReceiverDataValue (the (a1_transactions anh k)) tx) ks"

definition a1_decrementComputedNonce :: "anhV1 \<Rightarrow> anhV1" where
  "a1_decrementComputedNonce anh =
     (if a1_computedNonce anh > 0 then anh\<lparr>a1_computedNonce := a1_computedNonce anh - 1\<rparr> else anh)"

definition a1_markReFetchNonce :: "anhV1 \<Rightarrow> anhV1" where
  "a1_markReFetchNonce anh = anh\<lparr>a1_computedNonceWasSet := False\<rparr>"

section \<open>The handler of all addresses\<close>

text \<open>\<open>n1_cancelled\<close> is the state of the context that \<^verbatim>\<open>cancelFunc\<close> cancels.\<close>

record nthV1 =
  n1_handlers :: "string \<rightharpoonup> anhV1"
  n1_checkForDuplicates :: bool
  n1_intervalToResend :: int
  n1_cancelled :: bool

definition NewNonceTransactionHandlerV1 :: "'p option \<Rightarrow> int \<Rightarrow> bool \<Rightarrow> nthV1 result" where
  "NewNonceTransactionHandlerV1 proxy intervalToResend checkForDuplicates =
     (if Option.is_none proxy then Inl (EInteractors Interactors_ErrNilProxy)
      else if intervalToResend < minimumIntervalToResend
      then Inl (Errorf [] (EInteractors Interactors_ErrInvalidValue)
             '' for intervalToResend in NewNonceTransactionHandlerV1'')
      else Inr \<lparr>n1_handlers = Map.empty, n1_checkForDuplicates = checkForDuplicates,
                n1_intervalToResend = intervalToResend, n1_cancelled = False\<rparr>)"

definition n1_getOrCreate :: "address \<Rightarrow> nthV1 \<Rightarrow> anhV1 \<times> nthV1" where
  "n1_getOrCreate a nt =
     (let k = string_of_bytes (AddressBytes a)
      in case n1_handlers nt k of
           Some anh \<Rightarrow> (anh, nt)
         | None \<Rightarrow> (let anh = newAddressNonceHandler a
                    in (anh, nt\<lparr>n1_handlers := (n1_handlers nt)(k \<mapsto> anh)\<rparr>)))"

text \<open>The handlers are pointers; \<open>n1_write\<close> is the state after the handler of \<open>a\<close> changed.\<close>

definition n1_write :: "address \<Rightarrow> anhV1 \<Rightarrow> nthV1 \<Rightarrow> nthV1" where
  "n1_write a anh nt = nt\<lparr>n1_handlers := (n1_handlers nt)(string_of_bytes (AddressBytes a) \<mapsto> anh)\<rparr>"

definition n1_GetNonce :: "Proxy \<Rightarrow> address option \<Rightarrow> nthV1 \<Rightarrow> u64 result \<times> nthV1" where
  "n1_GetNonce px addr nt = (case addr of
     None \<Rightarrow> (Inl (EInteractors Interactors_ErrNilAddress), nt)
   | Some a \<Rightarrow>
       let (anh, nt') = n1_getOrCreate a nt;
           (r, anh') = a1_getNonceUpdatingCurrent px anh
       in (r, n1_write a anh' nt'))"

text \<open>\<open>ks\<close> is the visiting order of the duplicate check.\<close>

definition n1_SendTransaction ::
  "pubkey_converter \<Rightarrow> Proxy \<Rightarrow> u64 list \<Rightarrow> FrontendTransaction option \<Rightarrow> nthV1 \<Rightarrow> string result \<times> nthV1" where
  "n1_SendTransaction pkc px ks txp nt = (case txp of
     None \<Rightarrow> (Inl (EInteractors Interactors_ErrNilTransaction), nt)
   | Some tx \<Rightarrow>
       (case NewAddressFromBech32String pkc (tx_Sender tx) of
          Inl err \<Rightarrow> (Inl (Errorf [] err ('' while creating address handler for string '' @ tx_Sender tx)), nt)
        | Inr a \<Rightarrow>
            let (anh, nt') = n1_getOrCreate a nt
            in if n1_checkForDuplicates nt' \<and> a1_isTxAlreadySent ks tx anh
               then (Inl (EInteractors Interactors_ErrTxAlreadySent), n1_write a (a1_decrementComputedNonce anh) nt')
               else case a1_sendTransaction px tx anh of
                 (Inl err, anh') \<Rightarrow>
                   (Inl (Errorf [] err ('' while sending transaction for address '' @ tx_Sender tx)), n1_write a anh' nt')
               | (Inr hash, anh') \<Rightarrow> (Inr hash, n1_write a anh' nt')))"

text \<open>
  One round of the resend loop. Each visited handler comes with the proxy and the visiting order of
  its own sweep and with the answer of the test of \<^verbatim>\<open>ctx.Done()\<close> before it.
\<close>

primrec n1_resendTransactions ::
  "pubkey_converter \<Rightarrow> (string \<times> bool \<times> Proxy \<times> u64 list) list \<Rightarrow> nthV1 \<Rightarrow> FrontendTransaction list \<times> nthV1" where
  "n1_resendTransactions pkc [] nt = ([], nt)"
| "n1_resendTransactions pkc (h # hs) nt =
     (let (k, ctxDone, px, ks) = h
      in if ctxDone then ([], nt)
         else case n1_handlers nt k of
           None \<Rightarrow> n1_resendTransactions pkc hs nt
         | Some anh \<Rightarrow>
             let (err, sent, anh') = a1_reSendTransactionsIfRequired pkc px ks anh;
                 (sent', nt') = n1_resendTransactions pkc hs (nt\<lparr>n1_handlers := (n1_handlers nt)(k \<mapsto> anh')\<rparr>)
             in (sent @ sent', nt'))"

definition n1_ForceNonceReFetch :: "address option \<Rightarrow> nthV1 \<Rightarrow> go_error option \<times> nthV1" where
  "n1_ForceNonceReFetch addr nt = (case addr of
     None \<Rightarrow> (Some (EInteractors Interactors_ErrNilAddress), nt)
   | Some a \<Rightarrow>
       let (anh, nt') = n1_getOrCreate a nt
       in (None, n1_write a (a1_markReFetchNonce anh) nt'))"

definition n1_Close :: "nthV1 \<Rightarrow> nthV1" where
  "n1_Close nt = nt\<lparr>n1_cancelled := True\<rparr>"

text \<open>The \<^verbatim>\<open>select\<close> of the resend loop: the loop goes on with a round when the ticker fires and ends
  when the context is done. The result says whether the loop is still running.\<close>

definition n1_resendTransactionsLoop ::
  "pubkey_converter \<Rightarrow> (string \<times> bool \<times> Proxy \<times> u64 list) list \<Rightarrow> nthV1 \<Rightarrow> bool \<times> FrontendTransaction list \<times> nthV1" where
  "n1_resendTransactionsLoop pkc hs nt =
     (if n1_cancelled nt then (False, [], nt)
      else let (sent, nt') = n1_resendTransactions pkc hs nt in (True, sent, nt'))"

section \<open>Sequences of operations\<close>

primrec a1_getNonces :: "Proxy list \<Rightarrow> anhV1 \<Rightarrow> u64 result list" where
  "a1_getNonces [] anh = []"
| "a1_getNonces (px # pxs) anh =
     (let (r, anh') = a1_getNonceUpdatingCurrent px anh in r # a1_getNonces pxs anh')"

datatype a1_op =
    A1GetNonce Proxy | A1Send Proxy FrontendTransaction | A1ReSend Proxy "u64 list" | A1Decrement | A1ReFetch

fun a1_exec :: "pubkey_converter \<Rightarrow> a1_op \<Rightarrow> anhV1 \<Rightarrow> anhV1" where
  "a1_exec pkc (A1GetNonce px) anh = snd (a1_getNonceUpdatingCurrent px anh)"
| "a1_exec pkc (A1Send px tx) anh = snd (a1_sendTransaction px tx anh)"
| "a1_exec pkc (A1ReSend px ks) anh = snd (snd (a1_reSendTransactionsIfRequired pkc px ks anh))"
| "a1_exec pkc A1Decrement anh = a1_decrementComputedNonce anh"
| "a1_exec pkc A1ReFetch anh = a1_markReFetchNonce anh"

text \<open>The operation does not replace the transaction with nonce \<open>n\<close> and, if it is a sweep, finds the
  account below \<open>n\<close> and not at the computed nonce.\<close>

fun a1_spares :: "u64 \<Rightarrow> a1_op \<Rightarrow> anhV1 \<Rightarrow> bool" where
  "a1_spares n (A1Send px tx) anh = (tx_Nonce tx \<noteq> n)"
| "a1_spares n (A1ReSend px ks) anh = (case px_GetAccount px (a1_address anh) of
     Inl _ \<Rightarrow> True
   | Inr acc \<Rightarrow> acc_Nonce acc < n \<and> acc_Nonce acc \<noteq> a1_computedNonce anh)"
| "a1_spares n _ anh = True"

primrec a1_spares_all :: "pubkey_converter \<Rightarrow> u64 \<Rightarrow> a1_op list \<Rightarrow> anhV1 \<Rightarrow> bool" where
  "a1_spares_all pkc n [] anh = True"
| "a1_spares_all pkc n (op # ops) anh = (a1_spares n op anh \<and> a1_spares_all pkc n ops (a1_exec pkc op anh))"

section \<open>Interfaces\<close>

interpretation v1_source: nonce_source a1_nextNonce a1_computedNonceWasSet a1_computedNonce
  by unfold_locales (simp_all add: a1_nextNonce_def Let_def)

interpretation v1_registry: handler_registry n1_handlers n1_getOrCreate n1_write
  by unfold_locales
    (simp_all add: n1_getOrCreate_def n1_write_def AddressBytes_def Let_def split: option.splits)

section \<open>Lemmas\<close>

lemma a1_nextNonce_address [simp]: "a1_address (snd (a1_nextNonce v anh)) = a1_address anh"
  by (simp add: a1_nextNonce_def Let_def)

lemma a1_getNonces_run:
  "map (\<lambda>px. px_GetAccount px (a1_address anh)) pxs = map Inr accs \<Longrightarrow>
     a1_getNonces pxs anh = map Inr (nonce_run a1_nextNonce (map acc_Nonce accs) anh)"
proof (induction pxs arbitrary: accs anh)
  case (Cons px pxs)
  then obtain acc accs' where "accs = acc # accs'" by (cases accs) auto
  with Cons show ?case by (simp add: a1_getNonceUpdatingCurrent_def split_beta)
qed simp

lemma a1_resend_eq:
  assumes "px_GetAccount px (a1_address anh) = Inr acc" and "acc_Nonce acc \<noteq> a1_computedNonce anh"
  shows "fst (snd (a1_reSendTransactionsIfRequired pkc px ks anh)) = fst (sweep (acc_Nonce acc) ks (a1_transactions anh))"
    and "snd (snd (a1_reSendTransactionsIfRequired pkc px ks anh)) =
           anh\<lparr>a1_transactions := snd (sweep (acc_Nonce acc) ks (a1_transactions anh))\<rparr>"
  using assms by (simp_all add: a1_reSendTransactionsIfRequired_def split_beta Let_def split: sum.split)

lemma a1_resend_clear:
  assumes "px_GetAccount px (a1_address anh) = Inr acc" and "acc_Nonce acc = a1_computedNonce anh"
  shows "a1_reSendTransactionsIfRequired pkc px ks anh = (None, [], anh\<lparr>a1_transactions := Map.empty\<rparr>)"
  using assms by (simp add: a1_reSendTransactionsIfRequired_def)

lemma a1_spares_step:
  assumes "a1_transactions anh n = Some tx" and "a1_spares n op anh"
  shows "a1_transactions (a1_exec pkc op anh) n = Some tx"
proof (cases op)
  case (A1ReSend px ks)
  show ?thesis
  proof (cases "px_GetAccount px (a1_address anh)")
    case (Inr acc)
    with A1ReSend assms a1_resend_eq(2) [OF Inr] show ?thesis
      by (simp add: sweep_map not_le)
  qed (use A1ReSend assms in \<open>simp add: a1_reSendTransactionsIfRequired_def\<close>)
qed (use assms in \<open>auto simp: a1_getNonceUpdatingCurrent_def a1_nextNonce_def a1_sendTransaction_def
      a1_decrementComputedNonce_def a1_markReFetchNonce_def Let_def split: sum.split\<close>)

lemma a1_spares_all_kept:
  "a1_transactions anh n = Some tx \<Longrightarrow> a1_spares_all pkc n ops anh \<Longrightarrow>
     a1_transactions (fold (a1_exec pkc) ops anh) n = Some tx"
  by (induction ops arbitrary: anh) (simp_all add: a1_spares_step)

section \<open>Properties\<close>

text \<open>Version 1 hands out consecutive nonces starting at the account nonce, as long as the
  account never gets ahead of them and the counter does not overflow.\<close>

lemma a1_nonces_consecutive:
  assumes "\<not> a1_computedNonceWasSet anh"
    and "map (\<lambda>px. px_GetAccount px (a1_address anh)) pxs = map Inr (acc # accs)"
    and "unat (acc_Nonce acc) + length accs < 2 ^ 64"
    and "\<forall>i < length accs. unat (acc_Nonce (accs ! i)) \<le> unat (acc_Nonce acc) + Suc i"
  shows "a1_getNonces pxs anh = map (\<lambda>i. Inr (acc_Nonce acc + of_nat i)) [0..<Suc (length accs)]"
proof -
  have "nonce_run a1_nextNonce (acc_Nonce acc # map acc_Nonce accs) anh
      = map (\<lambda>i. acc_Nonce acc + of_nat i) [0..<Suc (length accs)]"
    using v1_source.nonce_run_consecutive [OF assms(1), of "acc_Nonce acc" "map acc_Nonce accs"] assms(3,4) by simp
  then show ?thesis
    by (simp only: a1_getNonces_run [OF assms(2)] list.map(2)) (simp del: upt_Suc)
qed

lemma a1_nonces_consecutive_example:
  "a1_getNonces [demo_proxy 5, demo_proxy 5, demo_proxy 6] (newAddressNonceHandler \<lparr>addr_bytes = []\<rparr>)
     = map (\<lambda>i. Inr (5 + of_nat i)) [0..<3]"
proof -
  let ?as = "[demo_account_of 5, demo_account_of 6]"
  have "\<forall>i < length ?as. unat (acc_Nonce (?as ! i)) \<le> unat (acc_Nonce (demo_account_of 5)) + Suc i"
    by (simp add: less_Suc_eq)
  with a1_nonces_consecutive [of "newAddressNonceHandler \<lparr>addr_bytes = []\<rparr>"
      "[demo_proxy 5, demo_proxy 5, demo_proxy 6]" "demo_account_of 5" ?as] show ?thesis
    by (simp add: newAddressNonceHandler_def numeral_3_eq_3 del: upt_Suc)
qed

text \<open>When the account has moved ahead of the stored nonce, the stored nonce is not brought up to
  it: two consecutive calls return the same nonce, so two transactions compete for it. The comment
  on the struct promises \<open>max(stored, account)\<close> followed by an increment.\<close>

lemma a1_duplicate_nonce:
  assumes "a1_computedNonceWasSet anh" and "a1_computedNonce anh + 1 \<le> acc_Nonce acc"
    and "a1_computedNonce anh + 2 \<le> acc_Nonce acc" and "px_GetAccount px (a1_address anh) = Inr acc"
  shows "a1_getNonces [px, px] anh = [Inr (acc_Nonce acc), Inr (acc_Nonce acc)]"
  using v1_source.nonce_run_duplicate [OF assms(1-3)] a1_getNonces_run [of anh "[px, px]" "[acc, acc]"] assms(4)
  by simp

lemma a1_duplicate_nonce_example:
  "let anh = snd (a1_getNonceUpdatingCurrent (demo_proxy 5) (newAddressNonceHandler \<lparr>addr_bytes = []\<rparr>))
   in a1_getNonces [demo_proxy 9, demo_proxy 9] anh = [Inr 9, Inr 9]"
proof -
  let ?anh = "snd (a1_getNonceUpdatingCurrent (demo_proxy 5) (newAddressNonceHandler \<lparr>addr_bytes = []\<rparr>))"
  have "a1_computedNonceWasSet ?anh" "a1_computedNonce ?anh = 5"
    by (simp_all add: a1_getNonceUpdatingCurrent_def a1_nextNonce_def newAddressNonceHandler_def Let_def)
  with a1_duplicate_nonce [of ?anh "demo_account_of 9" "demo_proxy 9"] show ?thesis by simp
qed

text \<open>What one resend sweep does: when the account nonce equals the computed nonce, everything is
  forgotten and nothing is sent; otherwise exactly the stored transactions with a nonce above the
  account nonce are resent, each one once, and exactly these stay stored. In particular the
  transaction whose nonce is the account nonce, the next one the network waits for, is dropped.\<close>

lemma a1_resend_exact:
  assumes "go_range (a1_transactions anh) ks" and "px_GetAccount px (a1_address anh) = Inr acc"
    and "a1_reSendTransactionsIfRequired pkc px ks anh = (err, sent, anh')"
  shows "if acc_Nonce acc = a1_computedNonce anh then sent = [] \<and> a1_transactions anh' = Map.empty
     else mset sent = image_mset (\<lambda>n. the (a1_transactions anh n)) (mset_set {n \<in> dom (a1_transactions anh). acc_Nonce acc < n})
        \<and> a1_transactions anh' = (\<lambda>n. if n \<le> acc_Nonce acc then None else a1_transactions anh n)"
proof (cases "acc_Nonce acc = a1_computedNonce anh")
  case True
  with a1_resend_clear [OF assms(2) True] assms(3) show ?thesis by auto
next
  case False
  have d: "distinct ks" "set ks = dom (a1_transactions anh)" using assms(1) by (auto simp: go_range_def)
  have "sent = map (\<lambda>n. the (a1_transactions anh n)) (filter (\<lambda>n. acc_Nonce acc < n) ks)"
    using a1_resend_eq(1) [OF assms(2) False, of pkc ks] assms(3) d(1) by (simp add: sweep_txs)
  moreover have "mset (filter (\<lambda>n. acc_Nonce acc < n) ks) = mset_set {n \<in> dom (a1_transactions anh). acc_Nonce acc < n}"
    using d mset_set_set [of "filter (\<lambda>n. acc_Nonce acc < n) ks"] by simp
  moreover have "a1_transactions anh' = (\<lambda>n. if n \<le> acc_Nonce acc then None else a1_transactions anh n)"
    using a1_resend_eq(2) [OF assms(2) False, of pkc ks] assms(3) sweep_range_map [OF assms(1)] by simp
  ultimately show ?thesis using False by (simp add: mset_map)
qed

lemma a1_resend_exact_example:
  "let tx = zero_tx\<lparr>tx_Nonce := 7\<rparr>;
       anh = \<lparr>a1_address = \<lparr>addr_bytes = []\<rparr>, a1_computedNonceWasSet = True, a1_computedNonce = 7, a1_transactions = [7 \<mapsto> tx]\<rparr>
   in fst (snd (a1_reSendTransactionsIfRequired hex_converter (demo_proxy 5) [7] anh)) = [tx]"
proof -
  let ?tx = "zero_tx\<lparr>tx_Nonce := 7\<rparr>"
  let ?anh = "\<lparr>a1_address = \<lparr>addr_bytes = []\<rparr>, a1_computedNonceWasSet = True, a1_computedNonce = 7, a1_transactions = [7 \<mapsto> ?tx]\<rparr>"
  obtain err sent anh' where r: "a1_reSendTransactionsIfRequired hex_converter (demo_proxy 5) [7] ?anh = (err, sent, anh')"
    by (metis prod_cases3)
  have "go_range (a1_transactions ?anh) [7]" by (simp add: go_range_def)
  from a1_resend_exact [OF this _ r, of "demo_account_of 5"] have "mset sent = {#?tx#}"
    by (simp add: Collect_conv_if)
  then show ?thesis unfolding Let_def by (simp add: r)
qed



text \<open>The handlers of different addresses do not interfere: getting a nonce for, sending from or
  resetting one address leaves the handler of every other address unchanged.\<close>

lemma n1_isolation:
  assumes "addr_bytes b \<noteq> addr_bytes a"
  shows "n1_handlers (snd (n1_GetNonce px (Some a) nt)) (string_of_bytes (addr_bytes b)) = n1_handlers nt (string_of_bytes (addr_bytes b))
    \<and> n1_handlers (snd (n1_ForceNonceReFetch (Some a) nt)) (string_of_bytes (addr_bytes b)) = n1_handlers nt (string_of_bytes (addr_bytes b))
    \<and> (NewAddressFromBech32String pkc (tx_Sender tx) = Inr a \<longrightarrow>
        n1_handlers (snd (n1_SendTransaction pkc px ks (Some tx) nt)) (string_of_bytes (addr_bytes b)) = n1_handlers nt (string_of_bytes (addr_bytes b)))"
  using v1_registry.rupdate_other [OF assms]
  by (simp add: n1_GetNonce_def n1_ForceNonceReFetch_def n1_SendTransaction_def split_beta split: sum.split)

lemma n1_isolation_example:
  "n1_handlers (snd (n1_ForceNonceReFetch (Some \<lparr>addr_bytes = [1]\<rparr>) \<lparr>n1_handlers = Map.empty, n1_checkForDuplicates = False,
      n1_intervalToResend = minimumIntervalToResend, n1_cancelled = False\<rparr>)) (string_of_bytes [2]) = None"
  using n1_isolation [of "\<lparr>addr_bytes = [2]\<rparr>" "\<lparr>addr_bytes = [1]\<rparr>" _ "\<lparr>n1_handlers = Map.empty, n1_checkForDuplicates = False,
      n1_intervalToResend = minimumIntervalToResend, n1_cancelled = False\<rparr>"]
  by simp

end
