(* ===== verification/Nonce_V2.thy ===== *)
theory Nonce_V2
  imports Interactors_Base
begin

text \<open>
  \<^verbatim>\<open>interactors/nonceHandlerV2\<close>: like version 1, with nonce and gas price written into the
  transaction, a test for gaps between the account and the pending transactions, and a drop
  operation that raises the gas price. \<^verbatim>\<open>ApplyNonceAndGasPrice\<close> consists of several mutex sections;
  the model runs one call at a time.
\<close>

section \<open>The handler of one address\<close>

record anhV2 =
  a2_address :: address
  a2_computedNonceWasSet :: bool
  a2_computedNonce :: u64
  a2_lowestNonce :: u64
  a2_gasPrice :: u64
  a2_nonceUntilGasIncreased :: u64
  a2_transactions :: tx_map

definition NewAddressNonceHandlerV2 :: "'p option \<Rightarrow> address option \<Rightarrow> anhV2 result" where
  "NewAddressNonceHandlerV2 proxy addr =
     (if Option.is_none proxy then Inl (EInteractors Interactors_ErrNilProxy)
      else case addr of
        None \<Rightarrow> Inl (EInteractors Interactors_ErrNilAddress)
      | Some a \<Rightarrow> Inr \<lparr>a2_address = a, a2_computedNonceWasSet = False, a2_computedNonce = 0, a2_lowestNonce = 0,
          a2_gasPrice = 0, a2_nonceUntilGasIncreased = 0, a2_transactions = Map.empty\<rparr>)"

definition handleTxWithSameNonce :: "FrontendTransaction \<Rightarrow> FrontendTransaction \<Rightarrow> anhV2 \<Rightarrow> go_error option" where
  "handleTxWithSameNonce oldTx tx anh =
     (if tx_GasPrice oldTx < tx_GasPrice tx then None
      else if tx_GasPrice oldTx = tx_GasPrice tx \<and> tx_GasPrice oldTx < a2_gasPrice anh then None
      else Some (EInteractors Interactors_ErrTxWithSameNonceAndGasPriceAlreadySent))"

definition fetchGasPriceIfRequired :: "Proxy \<Rightarrow> u64 \<Rightarrow> anhV2 \<Rightarrow> anhV2" where
  "fetchGasPriceIfRequired px nonce anh =
     (if nonce = a2_nonceUntilGasIncreased anh + 1 \<or> a2_gasPrice anh = 0 then
        (case px_GetNetworkConfig px of
           Inl _ \<Rightarrow> anh\<lparr>a2_gasPrice := 0\<rparr>
         | Inr networkConfig \<Rightarrow> anh\<lparr>a2_gasPrice := nc_MinGasPrice networkConfig\<rparr>)
      else anh)"

definition a2_nextNonce :: "u64 \<Rightarrow> anhV2 \<Rightarrow> u64 \<times> anhV2" where
  "a2_nextNonce accNonce anh =
     (if \<not> a2_computedNonceWasSet anh then
        let anh' = anh\<lparr>a2_computedNonce := accNonce, a2_computedNonceWasSet := True\<rparr>
        in (a2_computedNonce anh', anh')
      else
        let anh' = anh\<lparr>a2_computedNonce := a2_computedNonce anh + 1\<rparr>
        in (max (a2_computedNonce anh') accNonce, anh'))"

text \<open>Both results of the Go function matter to the caller, so both are returned.\<close>

definition a2_getNonceUpdatingCurrent :: "Proxy \<Rightarrow> anhV2 \<Rightarrow> (u64 \<times> go_error option) \<times> anhV2" where
  "a2_getNonceUpdatingCurrent px anh = (case px_GetAccount px (a2_address anh) of
     Inl err \<Rightarrow> ((0, Some err), anh)
   | Inr account \<Rightarrow>
       if a2_lowestNonce anh > acc_Nonce account
       then ((acc_Nonce account, Some (EInteractors Interactors_ErrGapNonce)), anh)
       else
         let (nonce, anh') = a2_nextNonce (acc_Nonce account) anh
         in ((nonce, None), anh'))"

definition a2_ApplyNonceAndGasPrice ::
  "Proxy \<Rightarrow> FrontendTransaction \<Rightarrow> anhV2 \<Rightarrow> go_error option \<times> FrontendTransaction \<times> anhV2" where
  "a2_ApplyNonceAndGasPrice px tx anh =
     (case (case a2_transactions anh (tx_Nonce tx) of None \<Rightarrow> None | Some oldTx \<Rightarrow> handleTxWithSameNonce oldTx tx anh) of
        Some err \<Rightarrow> (Some err, tx, anh)
      | None \<Rightarrow>
          let ((nonce, err), anh1) = a2_getNonceUpdatingCurrent px anh;
              tx1 = tx\<lparr>tx_Nonce := nonce\<rparr>
          in if err \<noteq> None then (err, tx1, anh1)
             else let anh2 = fetchGasPriceIfRequired px nonce anh1
                  in (None, tx1\<lparr>tx_GasPrice := max (a2_gasPrice anh2) (tx_GasPrice tx1)\<rparr>, anh2))"

definition a2_ReSendTransactionsIfRequired ::
  "pubkey_converter \<Rightarrow> Proxy \<Rightarrow> u64 list \<Rightarrow> anhV2 \<Rightarrow> go_error option \<times> FrontendTransaction list \<times> anhV2" where
  "a2_ReSendTransactionsIfRequired pkc px ks anh = (case px_GetAccount px (a2_address anh) of
     Inl err \<Rightarrow> (Some err, [], anh)
   | Inr account \<Rightarrow>
       if acc_Nonce account = a2_computedNonce anh
       then (None, [], anh\<lparr>a2_lowestNonce := a2_computedNonce anh, a2_transactions := Map.empty\<rparr>)
       else
         let (resendableTxs, m) = sweep (acc_Nonce account) ks (a2_transactions anh);
             minNonce = fold min (filter (\<lambda>n. \<not> n \<le> acc_Nonce account) ks) (a2_computedNonce anh);
             anh' = anh\<lparr>a2_transactions := m, a2_lowestNonce := minNonce\<rparr>
         in if length resendableTxs = 0 then (None, [], anh')
            else case px_SendTransactions px resendableTxs of
              Inl err \<Rightarrow> (Some err, resendableTxs, anh')
            | Inr hashes \<Rightarrow> (case AddressAsBech32String pkc (a2_address anh') of
                Inl err \<Rightarrow> (Some err, resendableTxs, anh')
              | Inr _ \<Rightarrow> (None, resendableTxs, anh')))"

definition a2_SendTransaction :: "Proxy \<Rightarrow> FrontendTransaction \<Rightarrow> anhV2 \<Rightarrow> string result \<times> anhV2" where
  "a2_SendTransaction px tx anh =
     (px_SendTransaction px tx, anh\<lparr>a2_transactions := (a2_transactions anh)(tx_Nonce tx \<mapsto> tx)\<rparr>)"

definition a2_DropTransactions :: "anhV2 \<Rightarrow> anhV2" where
  "a2_DropTransactions anh = anh\<lparr>a2_transactions := Map.empty, a2_computedNonceWasSet := False,
     a2_gasPrice := a2_gasPrice anh + 1, a2_nonceUntilGasIncreased := a2_computedNonce anh\<rparr>"

section \<open>The handler of all addresses\<close>

record nthV2 =
  n2_handlers :: "string \<rightharpoonup> anhV2"
  n2_intervalToResend :: int
  n2_cancelled :: bool

definition NewNonceTransactionHandlerV2 :: "'p option \<Rightarrow> int \<Rightarrow> nthV2 result" where
  "NewNonceTransactionHandlerV2 proxy intervalToResend =
     (if Option.is_none proxy then Inl (EInteractors Interactors_ErrNilProxy)
      else if intervalToResend < minimumIntervalToResend
      then Inl (Errorf [] (EInteractors Interactors_ErrInvalidValue)
             '' for intervalToResend in NewNonceTransactionHandlerV2'')
      else Inr \<lparr>n2_handlers = Map.empty, n2_intervalToResend = intervalToResend, n2_cancelled = False\<rparr>)"

text \<open>The proxy of the handler is not nil (its constructor checks it).\<close>

definition createAddressNonceHandler :: "address \<Rightarrow> nthV2 \<Rightarrow> anhV2 result \<times> nthV2" where
  "createAddressNonceHandler a nt =
     (let k = string_of_bytes (AddressBytes a)
      in case n2_handlers nt k of
           Some anh \<Rightarrow> (Inr anh, nt)
         | None \<Rightarrow> (case NewAddressNonceHandlerV2 (Some ()) (Some a) of
             Inl err \<Rightarrow> (Inl err, nt)
           | Inr anh \<Rightarrow> (Inr anh, nt\<lparr>n2_handlers := (n2_handlers nt)(k \<mapsto> anh)\<rparr>)))"

definition getAddressNonceHandler :: "address \<Rightarrow> nthV2 \<Rightarrow> anhV2 option" where
  "getAddressNonceHandler a nt = n2_handlers nt (string_of_bytes (AddressBytes a))"

definition n2_getOrCreate :: "address \<Rightarrow> nthV2 \<Rightarrow> anhV2 result \<times> nthV2" where
  "n2_getOrCreate a nt = (case getAddressNonceHandler a nt of
     Some anh \<Rightarrow> (Inr anh, nt)
   | None \<Rightarrow> createAddressNonceHandler a nt)"

definition n2_write :: "address \<Rightarrow> anhV2 \<Rightarrow> nthV2 \<Rightarrow> nthV2" where
  "n2_write a anh nt = nt\<lparr>n2_handlers := (n2_handlers nt)(string_of_bytes (AddressBytes a) \<mapsto> anh)\<rparr>"

definition n2_ApplyNonceAndGasPrice ::
  "Proxy \<Rightarrow> address option \<Rightarrow> FrontendTransaction option \<Rightarrow> nthV2 \<Rightarrow>
     go_error option \<times> FrontendTransaction option \<times> nthV2" where
  "n2_ApplyNonceAndGasPrice px addr txp nt = (case addr of
     None \<Rightarrow> (Some (EInteractors Interactors_ErrNilAddress), txp, nt)
   | Some a \<Rightarrow> (case txp of
       None \<Rightarrow> (Some (EInteractors Interactors_ErrNilTransaction), txp, nt)
     | Some tx \<Rightarrow> (case n2_getOrCreate a nt of
         (Inl err, nt') \<Rightarrow> (Some err, txp, nt')
       | (Inr anh, nt') \<Rightarrow>
           let (err, tx', anh') = a2_ApplyNonceAndGasPrice px tx anh
           in (err, Some tx', n2_write a anh' nt'))))"

definition n2_SendTransaction ::
  "pubkey_converter \<Rightarrow> Proxy \<Rightarrow> FrontendTransaction option \<Rightarrow> nthV2 \<Rightarrow> string result \<times> nthV2" where
  "n2_SendTransaction pkc px txp nt = (case txp of
     None \<Rightarrow> (Inl (EInteractors Interactors_ErrNilTransaction), nt)
   | Some txCopy \<Rightarrow>
       (case NewAddressFromBech32String pkc (tx_Sender txCopy) of
          Inl err \<Rightarrow> (Inl (Errorf [] err ('' while creating address handler for string '' @ tx_Sender txCopy)), nt)
        | Inr a \<Rightarrow> (case n2_getOrCreate a nt of
            (Inl err, nt') \<Rightarrow> (Inl err, nt')
          | (Inr anh, nt') \<Rightarrow>
              (case a2_SendTransaction px txCopy anh of
                 (Inl err, anh') \<Rightarrow>
                   (Inl (Errorf [] err ('' while sending transaction for address '' @ tx_Sender txCopy)), n2_write a anh' nt')
               | (Inr sentHash, anh') \<Rightarrow> (Inr sentHash, n2_write a anh' nt')))))"

primrec n2_resendTransactions ::
  "pubkey_converter \<Rightarrow> (string \<times> bool \<times> Proxy \<times> u64 list) list \<Rightarrow> nthV2 \<Rightarrow> FrontendTransaction list \<times> nthV2" where
  "n2_resendTransactions pkc [] nt = ([], nt)"
| "n2_resendTransactions pkc (h # hs) nt =
     (let (k, ctxDone, px, ks) = h
      in if ctxDone then ([], nt)
         else case n2_handlers nt k of
           None \<Rightarrow> n2_resendTransactions pkc hs nt
         | Some anh \<Rightarrow>
             let (err, sent, anh') = a2_ReSendTransactionsIfRequired pkc px ks anh;
                 (sent', nt') = n2_resendTransactions pkc hs (nt\<lparr>n2_handlers := (n2_handlers nt)(k \<mapsto> anh')\<rparr>)
             in (sent @ sent', nt'))"

definition n2_resendTransactionsLoop ::
  "pubkey_converter \<Rightarrow> (string \<times> bool \<times> Proxy \<times> u64 list) list \<Rightarrow> nthV2 \<Rightarrow> bool \<times> FrontendTransaction list \<times> nthV2" where
  "n2_resendTransactionsLoop pkc hs nt =
     (if n2_cancelled nt then (False, [], nt)
      else let (sent, nt') = n2_resendTransactions pkc hs nt in (True, sent, nt'))"

definition n2_DropTransactions :: "address option \<Rightarrow> nthV2 \<Rightarrow> go_error option \<times> nthV2" where
  "n2_DropTransactions addr nt = (case addr of
     None \<Rightarrow> (Some (EInteractors Interactors_ErrNilAddress), nt)
   | Some a \<Rightarrow> (case n2_getOrCreate a nt of
       (Inl err, nt') \<Rightarrow> (Some err, nt')
     | (Inr anh, nt') \<Rightarrow> (None, n2_write a (a2_DropTransactions anh) nt')))"

definition n2_Close :: "nthV2 \<Rightarrow> nthV2" where
  "n2_Close nt = nt\<lparr>n2_cancelled := True\<rparr>"

section \<open>Interfaces\<close>

interpretation v2_source: nonce_source a2_nextNonce a2_computedNonceWasSet a2_computedNonce
  by unfold_locales (simp_all add: a2_nextNonce_def Let_def)

text \<open>Creating a handler cannot fail here, so the registry contract applies to the value.\<close>

definition n2_get :: "address \<Rightarrow> nthV2 \<Rightarrow> anhV2 \<times> nthV2" where
  "n2_get a nt = (projr (fst (n2_getOrCreate a nt)), snd (n2_getOrCreate a nt))"

lemma n2_getOrCreate_total: "n2_getOrCreate a nt = (Inr (fst (n2_get a nt)), snd (n2_get a nt))"
  by (simp add: n2_get_def n2_getOrCreate_def createAddressNonceHandler_def getAddressNonceHandler_def
      NewAddressNonceHandlerV2_def Let_def split: option.split)

interpretation v2_registry: handler_registry n2_handlers n2_get n2_write
  by unfold_locales
    (simp_all add: n2_get_def n2_getOrCreate_def createAddressNonceHandler_def getAddressNonceHandler_def
      NewAddressNonceHandlerV2_def n2_write_def AddressBytes_def Let_def split: option.split)

section \<open>Lemmas\<close>

lemma a2_resend_eq:
  assumes "px_GetAccount px (a2_address anh) = Inr acc" and "acc_Nonce acc \<noteq> a2_computedNonce anh"
  shows "fst (snd (a2_ReSendTransactionsIfRequired pkc px ks anh)) = fst (sweep (acc_Nonce acc) ks (a2_transactions anh))"
    and "snd (snd (a2_ReSendTransactionsIfRequired pkc px ks anh)) =
           anh\<lparr>a2_transactions := snd (sweep (acc_Nonce acc) ks (a2_transactions anh)),
               a2_lowestNonce := fold min (filter (\<lambda>n. \<not> n \<le> acc_Nonce acc) ks) (a2_computedNonce anh)\<rparr>"
  using assms by (simp_all add: a2_ReSendTransactionsIfRequired_def split_beta Let_def split: sum.split)

lemma fold_min_eq: "fold min xs c = Min (insert c (set xs))" for c :: u64
  using Min.set_eq_fold [of c xs] by simp

lemma a2_Drop_sel [simp]:
  "a2_transactions (a2_DropTransactions anh) = Map.empty" "\<not> a2_computedNonceWasSet (a2_DropTransactions anh)"
  "a2_gasPrice (a2_DropTransactions anh) = a2_gasPrice anh + 1" "a2_address (a2_DropTransactions anh) = a2_address anh"
  "a2_nonceUntilGasIncreased (a2_DropTransactions anh) = a2_computedNonce anh"
  "a2_lowestNonce (a2_DropTransactions anh) = a2_lowestNonce anh"
  by (simp_all add: a2_DropTransactions_def)

lemma a2_getNonce_ok:
  assumes "px_GetAccount px (a2_address anh) = Inr acc" and "a2_lowestNonce anh \<le> acc_Nonce acc"
  shows "a2_getNonceUpdatingCurrent px anh =
     ((fst (a2_nextNonce (acc_Nonce acc) anh), None), snd (a2_nextNonce (acc_Nonce acc) anh))"
  using assms by (simp add: a2_getNonceUpdatingCurrent_def split_beta not_less)

section \<open>Properties\<close>

text \<open>One resend sweep of version 2: with the account at the computed nonce everything is
  forgotten; otherwise exactly the stored transactions above the account nonce are resent, each
  once, they stay stored, and the lowest nonce becomes the minimum of the computed nonce and the
  pending nonces. A later request whose account nonce is below that minimum is refused as a gap and
  changes nothing but the nonce of the transaction.\<close>

lemma a2_resend_then_gap:
  assumes "go_range (a2_transactions anh) ks" and "px_GetAccount px (a2_address anh) = Inr acc"
    and "acc_Nonce acc \<noteq> a2_computedNonce anh"
    and "a2_ReSendTransactionsIfRequired pkc px ks anh = (err, sent, anh')"
  shows "mset sent = image_mset (\<lambda>n. the (a2_transactions anh n)) (mset_set {n \<in> dom (a2_transactions anh). acc_Nonce acc < n})
    \<and> a2_transactions anh' = (\<lambda>n. if n \<le> acc_Nonce acc then None else a2_transactions anh n)
    \<and> a2_lowestNonce anh' = Min (insert (a2_computedNonce anh) (dom (a2_transactions anh')))
    \<and> (\<forall>px' acc' tx. px_GetAccount px' (a2_address anh) = Inr acc' \<and> acc_Nonce acc' < a2_lowestNonce anh'
         \<and> a2_transactions anh' (tx_Nonce tx) = None
         \<longrightarrow> a2_ApplyNonceAndGasPrice px' tx anh' =
              (Some (EInteractors Interactors_ErrGapNonce), tx\<lparr>tx_Nonce := acc_Nonce acc'\<rparr>, anh'))"
proof -
  have d: "distinct ks" "set ks = dom (a2_transactions anh)" using assms(1) by (auto simp: go_range_def)
  have sent: "sent = map (\<lambda>n. the (a2_transactions anh n)) (filter (\<lambda>n. acc_Nonce acc < n) ks)"
    using a2_resend_eq(1) [OF assms(2,3), of pkc ks] assms(4) d(1) by (simp add: sweep_txs)
  have ms: "mset (filter (\<lambda>n. acc_Nonce acc < n) ks) = mset_set {n \<in> dom (a2_transactions anh). acc_Nonce acc < n}"
    using d mset_set_set [of "filter (\<lambda>n. acc_Nonce acc < n) ks"] by simp
  have anh': "anh' = anh\<lparr>a2_transactions := snd (sweep (acc_Nonce acc) ks (a2_transactions anh)),
      a2_lowestNonce := fold min (filter (\<lambda>n. \<not> n \<le> acc_Nonce acc) ks) (a2_computedNonce anh)\<rparr>"
    using a2_resend_eq(2) [OF assms(2,3), of pkc ks] assms(4) by simp
  then have m: "a2_transactions anh' = (\<lambda>n. if n \<le> acc_Nonce acc then None else a2_transactions anh n)"
    using sweep_range_map [OF assms(1)] by simp
  have "set (filter (\<lambda>n. \<not> n \<le> acc_Nonce acc) ks) = dom (a2_transactions anh')"
    unfolding m using d(2) by (auto split: if_splits)
  then have low: "a2_lowestNonce anh' = Min (insert (a2_computedNonce anh) (dom (a2_transactions anh')))"
    using anh' by (simp add: fold_min_eq)
  have "a2_address anh' = a2_address anh" using anh' by simp
  then show ?thesis
    using sent ms m low
    by (auto simp: mset_map a2_ApplyNonceAndGasPrice_def a2_getNonceUpdatingCurrent_def Let_def)
qed

lemma a2_resend_then_gap_example:
  "let tx = zero_tx\<lparr>tx_Nonce := 7\<rparr>;
       anh = \<lparr>a2_address = \<lparr>addr_bytes = []\<rparr>, a2_computedNonceWasSet = True, a2_computedNonce = 8, a2_lowestNonce = 0,
          a2_gasPrice = 1, a2_nonceUntilGasIncreased = 0, a2_transactions = [7 \<mapsto> tx]\<rparr>
   in a2_lowestNonce (snd (snd (a2_ReSendTransactionsIfRequired hex_converter (demo_proxy 5) [7] anh))) = 7"
proof -
  let ?tx = "zero_tx\<lparr>tx_Nonce := 7\<rparr>"
  let ?anh = "\<lparr>a2_address = \<lparr>addr_bytes = []\<rparr>, a2_computedNonceWasSet = True, a2_computedNonce = 8, a2_lowestNonce = 0,
          a2_gasPrice = 1, a2_nonceUntilGasIncreased = 0, a2_transactions = [7 \<mapsto> ?tx]\<rparr>"
  obtain err sent anh' where r: "a2_ReSendTransactionsIfRequired hex_converter (demo_proxy 5) [7] ?anh = (err, sent, anh')"
    by (metis prod_cases3)
  have g: "go_range (a2_transactions ?anh) [7]" by (simp add: go_range_def)
  from a2_resend_then_gap [OF g _ _ r, of "demo_account_of 5"]
  have m: "a2_transactions anh' = (\<lambda>n. if n \<le> 5 then None else a2_transactions ?anh n)"
    and l: "a2_lowestNonce anh' = Min (insert 8 (dom (a2_transactions anh')))" by simp_all
  have "dom (a2_transactions anh') = {7}" unfolding m by (auto split: if_splits)
  with l show ?thesis unfolding Let_def by (simp add: r)
qed

text \<open>Dropping the pending transactions lets the next transaction replace the first pending one:
  it gets the account nonce again and a gas price at least one above the former one, unless that
  nonce is the one right after the last used, where the network minimum applies again.\<close>

lemma a2_drop_then_apply:
  assumes "px_GetAccount px (a2_address anh) = Inr acc" and "a2_lowestNonce anh \<le> acc_Nonce acc"
    and "acc_Nonce acc \<noteq> a2_computedNonce anh + 1" and "a2_gasPrice anh + 1 \<noteq> 0"
  shows "\<exists>anh'. a2_ApplyNonceAndGasPrice px tx (a2_DropTransactions anh) =
     (None, tx\<lparr>tx_Nonce := acc_Nonce acc, tx_GasPrice := max (a2_gasPrice anh + 1) (tx_GasPrice tx)\<rparr>, anh')
     \<and> a2_transactions anh' = Map.empty \<and> a2_computedNonce anh' = acc_Nonce acc \<and> a2_computedNonceWasSet anh'"
  using assms
  by (simp add: a2_ApplyNonceAndGasPrice_def a2_getNonce_ok a2_nextNonce_def fetchGasPriceIfRequired_def Let_def)

lemma a2_drop_then_apply_example:
  "let anh = \<lparr>a2_address = \<lparr>addr_bytes = []\<rparr>, a2_computedNonceWasSet = True, a2_computedNonce = 9, a2_lowestNonce = 0,
          a2_gasPrice = 10, a2_nonceUntilGasIncreased = 0, a2_transactions = [8 \<mapsto> zero_tx]\<rparr>
   in \<exists>anh'. a2_ApplyNonceAndGasPrice (demo_proxy 8) zero_tx (a2_DropTransactions anh) =
        (None, zero_tx\<lparr>tx_Nonce := 8, tx_GasPrice := 11\<rparr>, anh')"
proof -
  let ?anh = "\<lparr>a2_address = \<lparr>addr_bytes = []\<rparr>, a2_computedNonceWasSet = True, a2_computedNonce = 9, a2_lowestNonce = 0,
          a2_gasPrice = 10, a2_nonceUntilGasIncreased = 0, a2_transactions = [8 \<mapsto> zero_tx]\<rparr>"
  have "max (11 :: u64) (tx_GasPrice zero_tx) = 11" by (simp add: zero_tx_def)
  with a2_drop_then_apply [of "demo_proxy 8" ?anh "demo_account_of 8" zero_tx] show ?thesis by auto
qed



end
