(* ===== verification/Tx_Heap.thy ===== *)
theory Tx_Heap
  imports Sdk_Data
begin

text \<open>
  The priority queue of \<^verbatim>\<open>interactors/nonceHandlerV3/workers/transactionWorker.go\<close>: the methods of
  \<^verbatim>\<open>transactionQueue\<close> and the algorithms of the standard package \<^verbatim>\<open>container/heap\<close> on top of
  them. The queue is the slice of its items; an item stores the transaction and its own index.
  The locale \<open>priority_queue\<close> is what a client may use of such a queue; its lemmas say in which
  order the elements leave.
\<close>

section \<open>The queue as a slice\<close>

record TransactionQueueItem =
  tqi_tx :: FrontendTransaction
  tqi_index :: int

type_synonym transactionQueue = "TransactionQueueItem list"

definition tq_Push :: "TransactionQueueItem \<Rightarrow> transactionQueue \<Rightarrow> transactionQueue" where
  "tq_Push x tq = tq @ [x\<lparr>tqi_index := int (length tq)\<rparr>]"

text \<open>\<open>None\<close>: the index is out of range.\<close>

definition tq_Pop :: "transactionQueue \<Rightarrow> (TransactionQueueItem \<times> transactionQueue) option" where
  "tq_Pop tq = (let n = length tq in
     if n = 0 then None else Some ((tq ! (n - 1))\<lparr>tqi_index := -1\<rparr>, take (n - 1) tq))"

definition tq_Len :: "transactionQueue \<Rightarrow> nat" where
  "tq_Len tq = length tq"

definition tq_Swap :: "nat \<Rightarrow> nat \<Rightarrow> transactionQueue \<Rightarrow> transactionQueue" where
  "tq_Swap a b tq =
     (let tq' = tq[a := tq ! b, b := tq ! a];
          tq'' = tq'[a := (tq' ! a)\<lparr>tqi_index := int a\<rparr>]
      in tq''[b := (tq'' ! b)\<lparr>tqi_index := int b\<rparr>])"

definition tq_Less :: "nat \<Rightarrow> nat \<Rightarrow> transactionQueue \<Rightarrow> bool" where
  "tq_Less a b tq \<longleftrightarrow> tx_Nonce (tqi_tx (tq ! a)) < tx_Nonce (tqi_tx (tq ! b))"

section \<open>container/heap\<close>

fun heap_up :: "nat \<Rightarrow> transactionQueue \<Rightarrow> transactionQueue" where
  "heap_up j h =
     (let i = (j - 1) div 2
      in if i = j \<or> \<not> tq_Less j i h then h else heap_up i (tq_Swap i j h))"

declare heap_up.simps [simp del]

function heap_down :: "nat \<Rightarrow> nat \<Rightarrow> transactionQueue \<Rightarrow> transactionQueue" where
  "heap_down i n h =
     (let j1 = 2 * i + 1
      in if j1 \<ge> n then h
         else let j2 = j1 + 1;
                  j = (if j2 < n \<and> tq_Less j2 j1 h then j2 else j1)
              in if \<not> tq_Less j i h then h else heap_down j n (tq_Swap i j h))"
  by pat_completeness auto
termination by (relation "measure (\<lambda>(i, n, h). n - i)") (auto simp: Let_def)

declare heap_down.simps [simp del]

definition heap_Push :: "TransactionQueueItem \<Rightarrow> transactionQueue \<Rightarrow> transactionQueue" where
  "heap_Push x h = (let h' = tq_Push x h in heap_up (tq_Len h' - 1) h')"

definition heap_Pop :: "transactionQueue \<Rightarrow> (TransactionQueueItem \<times> transactionQueue) option" where
  "heap_Pop h =
     (if tq_Len h = 0 then None
      else let n = tq_Len h - 1 in tq_Pop (heap_down 0 n (tq_Swap 0 n h)))"

section \<open>Specification\<close>

definition nonce_at :: "transactionQueue \<Rightarrow> nat \<Rightarrow> u64" where
  "nonce_at h i = tx_Nonce (tqi_tx (h ! i))"

text \<open>The heap order on the first \<open>n\<close> items: every item but the first is at least its parent.\<close>

definition heap_to :: "nat \<Rightarrow> transactionQueue \<Rightarrow> bool" where
  "heap_to n h \<longleftrightarrow> (\<forall>k<n. 0 < k \<longrightarrow> nonce_at h ((k - 1) div 2) \<le> nonce_at h k)"

definition tq_txs :: "transactionQueue \<Rightarrow> FrontendTransaction multiset" where
  "tq_txs h = mset (map tqi_tx h)"

definition tq_inv :: "transactionQueue \<Rightarrow> bool" where
  "tq_inv h \<longleftrightarrow> heap_to (length h) h \<and> (\<forall>i<length h. tqi_index (h ! i) = int i)"

text \<open>The contract of a priority queue.\<close>

locale priority_queue =
  fixes qpush :: "'x \<Rightarrow> 'q \<Rightarrow> 'q"
    and qpop :: "'q \<Rightarrow> ('x \<times> 'q) option"
    and qcontent :: "'q \<Rightarrow> 'x multiset"
    and qinv :: "'q \<Rightarrow> bool"
    and prio :: "'x \<Rightarrow> 'k :: linorder"
  assumes qpush_content: "qinv q \<Longrightarrow> qcontent (qpush x q) = add_mset x (qcontent q)"
    and qpush_inv: "qinv q \<Longrightarrow> qinv (qpush x q)"
    and qpop_None: "qinv q \<Longrightarrow> qpop q = None \<longleftrightarrow> qcontent q = {#}"
    and qpop_content: "qinv q \<Longrightarrow> qpop q = Some (x, q') \<Longrightarrow> qcontent q = add_mset x (qcontent q')"
    and qpop_inv: "qinv q \<Longrightarrow> qpop q = Some (x, q') \<Longrightarrow> qinv q'"
    and qpop_min: "qinv q \<Longrightarrow> qpop q = Some (x, q') \<Longrightarrow> y \<in># qcontent q \<Longrightarrow> prio x \<le> prio y"
begin

text \<open>The elements in the order in which they leave the queue.\<close>

fun drain :: "nat \<Rightarrow> 'q \<Rightarrow> 'x list" where
  "drain 0 q = []"
| "drain (Suc n) q = (case qpop q of None \<Rightarrow> [] | Some (x, q') \<Rightarrow> x # drain n q')"

lemma drain_spec:
  "qinv q \<Longrightarrow> size (qcontent q) \<le> n \<Longrightarrow> mset (drain n q) = qcontent q \<and> sorted (map prio (drain n q))"
proof (induction n arbitrary: q)
  case (Suc n)
  show ?case
  proof (cases "qpop q")
    case None
    then show ?thesis using qpop_None [OF Suc.prems(1)] by simp
  next
    case (Some p)
    obtain x q' where p: "qpop q = Some (x, q')" using Some by (cases p) auto
    have c: "qcontent q = add_mset x (qcontent q')" using qpop_content [OF Suc.prems(1) p] .
    have "mset (drain n q') = qcontent q' \<and> sorted (map prio (drain n q'))"
      using Suc.IH [OF qpop_inv [OF Suc.prems(1) p]] Suc.prems(2) c by simp
    moreover have "prio x \<le> prio y" if "y \<in> set (drain n q')" for y
      using qpop_min [OF Suc.prems(1) p, of y] calculation that c by (metis set_mset_mset union_iff add_mset_add_single)
    ultimately show ?thesis using p c by auto
  qed
qed simp

lemma fold_qpush:
  "qinv q \<Longrightarrow> qinv (fold qpush xs q) \<and> qcontent (fold qpush xs q) = mset xs + qcontent q"
  by (induction xs arbitrary: q) (auto simp: qpush_inv qpush_content)

end

section \<open>Lemmas\<close>

lemma parent_less: "0 < k \<Longrightarrow> (k - 1) div 2 < (k :: nat)"
  by linarith

lemma tq_Swap_length [simp]: "length (tq_Swap a b h) = length h"
  by (simp add: tq_Swap_def Let_def)

lemma tq_Swap_nth:
  "a < length h \<Longrightarrow> b < length h \<Longrightarrow> k < length h \<Longrightarrow>
     tqi_tx (tq_Swap a b h ! k) = tqi_tx (h ! (if k = a then b else if k = b then a else k))"
  by (auto simp: tq_Swap_def Let_def nth_list_update)

lemma nonce_at_Swap:
  "a < length h \<Longrightarrow> b < length h \<Longrightarrow> k < length h \<Longrightarrow>
     nonce_at (tq_Swap a b h) k = nonce_at h (if k = a then b else if k = b then a else k)"
  by (simp add: nonce_at_def tq_Swap_nth)

lemma map_tx_Swap:
  "a < length h \<Longrightarrow> b < length h \<Longrightarrow> map tqi_tx (tq_Swap a b h) = (map tqi_tx h)[a := map tqi_tx h ! b, b := map tqi_tx h ! a]"
  by (intro nth_equalityI) (auto simp: tq_Swap_nth nth_list_update)

lemma tq_txs_Swap [simp]: "a < length h \<Longrightarrow> b < length h \<Longrightarrow> tq_txs (tq_Swap a b h) = tq_txs h"
  unfolding tq_txs_def map_tx_Swap using mset_swap [of b "map tqi_tx h" a] by (simp del: nth_map)

definition idx_ok :: "transactionQueue \<Rightarrow> bool" where
  "idx_ok h \<longleftrightarrow> (\<forall>i<length h. tqi_index (h ! i) = int i)"

lemma idx_ok_Swap: "a < length h \<Longrightarrow> b < length h \<Longrightarrow> idx_ok h \<Longrightarrow> idx_ok (tq_Swap a b h)"
  by (auto simp: idx_ok_def tq_Swap_def Let_def nth_list_update)

lemma tq_Less_nonce: "tq_Less a b h \<longleftrightarrow> nonce_at h a < nonce_at h b"
  by (simp add: tq_Less_def nonce_at_def)

text \<open>Sifting up: the order holds everywhere but possibly between \<open>j\<close> and its parent, and the
  children of \<open>j\<close> are not below that parent.\<close>

definition up_inv :: "nat \<Rightarrow> transactionQueue \<Rightarrow> bool" where
  "up_inv j h \<longleftrightarrow> j < length h
     \<and> (\<forall>k<length h. 0 < k \<and> k \<noteq> j \<longrightarrow> nonce_at h ((k - 1) div 2) \<le> nonce_at h k)
     \<and> (\<forall>k<length h. 0 < j \<and> 0 < k \<and> (k - 1) div 2 = j \<longrightarrow> nonce_at h ((j - 1) div 2) \<le> nonce_at h k)"

lemma up_inv_step:
  assumes inv: "up_inv j h" and i: "i = (j - 1) div 2" "i \<noteq> j" and lt: "nonce_at h j < nonce_at h i"
  shows "up_inv i (tq_Swap i j h)"
proof -
  have "0 < j" using i by auto
  then have j: "0 < j" "j < length h" "i < j" using inv i parent_less by (auto simp: up_inv_def)
  have ord: "nonce_at h ((k - 1) div 2) \<le> nonce_at h k" if "k < length h" "0 < k" "k \<noteq> j" for k
    using inv that by (simp add: up_inv_def)
  have kids: "nonce_at h i \<le> nonce_at h k" if "k < length h" "0 < k" "(k - 1) div 2 = j" for k
    using inv that j(1) i(1) by (simp add: up_inv_def)
  have s: "nonce_at (tq_Swap i j h) k = nonce_at h (if k = i then j else if k = j then i else k)" if "k < length h" for k
    using nonce_at_Swap [of i h j k] j that by simp
  have "nonce_at (tq_Swap i j h) p \<le> nonce_at (tq_Swap i j h) k"
    if k: "k < length h" "0 < k" "k \<noteq> i" and p: "p = (k - 1) div 2" for k p
  proof -
    have pk: "p < k" "p < length h" using parent_less [OF k(2)] k(1) p by linarith+
    have o: "k \<noteq> j \<Longrightarrow> nonce_at h p \<le> nonce_at h k" using ord [OF k(1,2)] p by simp
    have c: "p = j \<Longrightarrow> nonce_at h i \<le> nonce_at h k" using kids [OF k(1,2)] p by simp
    have e: "k = j \<Longrightarrow> p = i" using p i(1) by simp
    show ?thesis
      unfolding s [OF k(1)] s [OF pk(2)] using o c e lt k(3) j(3) pk(1)
      by (cases "k = j"; cases "p = j"; cases "p = i") auto
  qed
  moreover have "nonce_at (tq_Swap i j h) q \<le> nonce_at (tq_Swap i j h) k"
    if k: "k < length h" "0 < i" "0 < k" "(k - 1) div 2 = i" and q: "q = (i - 1) div 2" for k q
  proof -
    have qi: "q < i" using parent_less [OF k(2)] q by simp
    have up: "nonce_at h q \<le> nonce_at h i" using ord [of i] k(2) j q by simp
    have "k \<noteq> i" using parent_less [OF k(3)] k(4) by simp
    have ql: "q < length h" using qi j by simp
    have o: "k \<noteq> j \<Longrightarrow> nonce_at h i \<le> nonce_at h k" using ord [OF k(1,3)] k(4) by simp
    show ?thesis
      unfolding s [OF k(1)] s [OF ql] using up o qi j(3) \<open>k \<noteq> i\<close> by (cases "k = j") auto
  qed
  ultimately show ?thesis
    using j unfolding up_inv_def tq_Swap_length by simp
qed

lemma up_inv_done:
  assumes "up_inv j h" and "(j - 1) div 2 = j \<or> \<not> nonce_at h j < nonce_at h ((j - 1) div 2)"
  shows "heap_to (length h) h"
  using assms by (auto simp: up_inv_def heap_to_def not_less)

lemma heap_up_spec:
  "up_inv j h \<Longrightarrow> idx_ok h \<Longrightarrow>
     heap_to (length h) (heap_up j h) \<and> length (heap_up j h) = length h \<and> tq_txs (heap_up j h) = tq_txs h
     \<and> idx_ok (heap_up j h)"
proof (induction j h rule: heap_up.induct)
  case (1 j h)
  let ?i = "(j - 1) div 2"
  show ?case
  proof (cases "?i = j \<or> \<not> tq_Less j ?i h")
    case True
    then show ?thesis
      using 1 up_inv_done [OF "1.prems"(1)] by (simp add: heap_up.simps [of j h] Let_def tq_Less_nonce)
  next
    case False
    have b: "?i < length h" "j < length h" using "1.prems" by (auto simp: up_inv_def)
    have u: "up_inv ?i (tq_Swap ?i j h)"
      using up_inv_step [OF "1.prems"(1) refl] False by (simp add: tq_Less_nonce)
    show ?thesis
      using "1.IH" [OF refl False u idx_ok_Swap [OF b "1.prems"(2)]] False b by (simp add: heap_up.simps [of j h] Let_def)
  qed
qed

text \<open>Sifting down within the first \<open>n\<close> items: the order holds everywhere but possibly below
  \<open>i\<close>, and the children of \<open>i\<close> are not below the parent of \<open>i\<close>.\<close>

definition down_inv :: "nat \<Rightarrow> nat \<Rightarrow> transactionQueue \<Rightarrow> bool" where
  "down_inv i n h \<longleftrightarrow> n \<le> length h
     \<and> (\<forall>k<n. 0 < k \<and> (k - 1) div 2 \<noteq> i \<longrightarrow> nonce_at h ((k - 1) div 2) \<le> nonce_at h k)
     \<and> (\<forall>k<n. 0 < i \<and> 0 < k \<and> (k - 1) div 2 = i \<longrightarrow> nonce_at h ((i - 1) div 2) \<le> nonce_at h k)"

lemma child_cases: "0 < k \<Longrightarrow> (k - 1) div 2 = i \<longleftrightarrow> k = 2 * i + 1 \<or> k = 2 * i + 2" for k :: nat
  by linarith

lemma down_inv_step:
  assumes inv: "down_inv i n h" and j: "0 < j" "j < n" "(j - 1) div 2 = i"
    and small: "nonce_at h j < nonce_at h i"
    and least: "\<And>k. 0 < k \<Longrightarrow> k < n \<Longrightarrow> (k - 1) div 2 = i \<Longrightarrow> nonce_at h j \<le> nonce_at h k"
  shows "down_inv j n (tq_Swap i j h)"
proof -
  have len: "n \<le> length h" using inv by (simp add: down_inv_def)
  have ij: "i < j" using j parent_less [OF j(1)] by simp
  have s: "nonce_at (tq_Swap i j h) k = nonce_at h (if k = i then j else if k = j then i else k)" if "k < n" for k
    using nonce_at_Swap [of i h j k] ij j(2) len that by simp
  have ord: "nonce_at h ((k - 1) div 2) \<le> nonce_at h k" if "k < n" "0 < k" "(k - 1) div 2 \<noteq> i" for k
    using inv that by (simp add: down_inv_def)
  have kids: "nonce_at h ((i - 1) div 2) \<le> nonce_at h k" if "k < n" "0 < i" "0 < k" "(k - 1) div 2 = i" for k
    using inv that by (simp add: down_inv_def)
  have "nonce_at (tq_Swap i j h) ((k - 1) div 2) \<le> nonce_at (tq_Swap i j h) k" if k: "k < n" "0 < k" "(k - 1) div 2 \<noteq> j" for k
  proof -
    have p: "(k - 1) div 2 < k" "(k - 1) div 2 < n" using parent_less [OF k(2)] k(1) by linarith+
    consider "(k - 1) div 2 = i" | "k = i" "(k - 1) div 2 \<noteq> i" | "k \<noteq> i" "(k - 1) div 2 \<noteq> i" by blast
    then show ?thesis
    proof cases
      case 1
      then show ?thesis using s [OF k(1)] s [OF p(2)] least [OF k(2,1)] small k(3) p(1) by (cases "k = j") auto
    next
      case 2
      then show ?thesis using s [OF k(1)] s [OF p(2)] kids [OF j(2) _ j(1,3)] k(2,3) ij by simp
    next
      case 3
      then show ?thesis using s [OF k(1)] s [OF p(2)] ord [OF k(1,2)] k(3) j(3) by auto
    qed
  qed
  moreover have "nonce_at (tq_Swap i j h) ((j - 1) div 2) \<le> nonce_at (tq_Swap i j h) k"
    if k: "k < n" "0 < k" "(k - 1) div 2 = j" for k
  proof -
    have "k \<noteq> i" "k \<noteq> j" using parent_less [OF k(2)] k(3) ij by auto
    moreover have "i < n" using ij j(2) by simp
    moreover have "nonce_at h j \<le> nonce_at h k" using ord [OF k(1,2)] k(3) ij by simp
    ultimately show ?thesis using s [OF k(1)] s [of i] j(3) by simp
  qed
  ultimately show ?thesis
    using len unfolding down_inv_def by auto
qed

lemma down_inv_done:
  assumes "down_inv i n h" and "\<And>k. 0 < k \<Longrightarrow> k < n \<Longrightarrow> (k - 1) div 2 = i \<Longrightarrow> nonce_at h i \<le> nonce_at h k"
  shows "heap_to n h"
  using assms by (auto simp: down_inv_def heap_to_def)

lemma heap_down_spec:
  "down_inv i n h \<Longrightarrow> idx_ok h \<Longrightarrow>
     heap_to n (heap_down i n h) \<and> length (heap_down i n h) = length h \<and> tq_txs (heap_down i n h) = tq_txs h
     \<and> idx_ok (heap_down i n h) \<and> (\<forall>k. n \<le> k \<and> k < length h \<longrightarrow> tqi_tx (heap_down i n h ! k) = tqi_tx (h ! k))"
proof (induction i n h rule: heap_down.induct)
  case (1 i n h)
  let ?j1 = "2 * i + 1"
  let ?j = "if ?j1 + 1 < n \<and> tq_Less (?j1 + 1) ?j1 h then ?j1 + 1 else ?j1"
  show ?case
  proof (cases "?j1 \<ge> n")
    case True
    have "heap_to n h" using down_inv_done [OF "1.prems"(1)] True child_cases by fastforce
    with True "1.prems" show ?thesis by (simp add: heap_down.simps [of i n h] Let_def)
  next
    case False
    have j: "0 < ?j" "?j < n" "(?j - 1) div 2 = i" using False by auto
    have least: "nonce_at h ?j \<le> nonce_at h k" if "0 < k" "k < n" "(k - 1) div 2 = i" for k
      using child_cases [OF that(1), of i] that by (auto simp: tq_Less_nonce not_less)
    have eq: "heap_down i n h = (if \<not> tq_Less ?j i h then h else heap_down ?j n (tq_Swap i ?j h))"
      using False by (simp add: heap_down.simps [of i n h] Let_def)
    show ?thesis
    proof (cases "tq_Less ?j i h")
      case stop: False
      have "nonce_at h i \<le> nonce_at h ?j" using stop unfolding tq_Less_nonce not_less .
      then have "heap_to n h"
        using down_inv_done [OF "1.prems"(1)] least by (meson order_trans)
      with stop "1.prems" show ?thesis by (simp only: eq) simp
    next
      case swap: True
      have small: "nonce_at h ?j < nonce_at h i" using swap unfolding tq_Less_nonce .
      have b: "i < length h" "?j < length h" using j "1.prems"(1) parent_less [OF j(1)] by (auto simp: down_inv_def)
      have d: "down_inv ?j n (tq_Swap i ?j h)" by (rule down_inv_step [OF "1.prems"(1) j small least])
      have IH: "heap_to n (heap_down ?j n (tq_Swap i ?j h)) \<and> length (heap_down ?j n (tq_Swap i ?j h)) = length (tq_Swap i ?j h)
         \<and> tq_txs (heap_down ?j n (tq_Swap i ?j h)) = tq_txs (tq_Swap i ?j h) \<and> idx_ok (heap_down ?j n (tq_Swap i ?j h))
         \<and> (\<forall>k. n \<le> k \<and> k < length (tq_Swap i ?j h) \<longrightarrow> tqi_tx (heap_down ?j n (tq_Swap i ?j h) ! k) = tqi_tx (tq_Swap i ?j h ! k))"
        using "1.IH" [OF refl False refl refl _ d idx_ok_Swap [OF b "1.prems"(2)]] swap by simp
      moreover have "tqi_tx (tq_Swap i ?j h ! k) = tqi_tx (h ! k)" if "n \<le> k" "k < length h" for k
        using tq_Swap_nth [OF b that(2)] that j(2) parent_less [OF j(1)] j(3) by auto
      ultimately show ?thesis
        using swap b by (simp only: eq tq_txs_Swap tq_Swap_length if_False not_True_eq_False) simp
    qed
  qed
qed

lemma heap_to_root: "heap_to n h \<Longrightarrow> k < n \<Longrightarrow> nonce_at h 0 \<le> nonce_at h k"
proof (induction k rule: less_induct)
  case (less k)
  show ?case
  proof (cases "k = 0")
    case False
    then have "(k - 1) div 2 < k" by (simp add: parent_less)
    with less False show ?thesis by (fastforce simp: heap_to_def dest: order_trans)
  qed simp
qed

lemma tq_inv_idx: "tq_inv h \<longleftrightarrow> heap_to (length h) h \<and> idx_ok h"
  by (simp add: tq_inv_def idx_ok_def)

lemma tq_inv_empty [simp]: "tq_inv []"
  by (simp add: tq_inv_def heap_to_def)

lemma nonce_at_Push: "k < length h \<Longrightarrow> nonce_at (tq_Push x h) k = nonce_at h k"
  by (simp add: nonce_at_def tq_Push_def nth_append)

lemma up_inv_Push:
  assumes "heap_to (length h) h"
  shows "up_inv (length h) (tq_Push x h)"
proof -
  have "nonce_at (tq_Push x h) ((k - 1) div 2) \<le> nonce_at (tq_Push x h) k" if k: "k < length h" "0 < k" for k
  proof -
    have "(k - 1) div 2 < length h" using parent_less [OF k(2)] k(1) by linarith
    with assms k show ?thesis by (simp add: heap_to_def nonce_at_Push)
  qed
  moreover have "(k - 1) div 2 \<noteq> length h" if "k < Suc (length h)" "0 < k" for k
    using parent_less [OF that(2)] that(1) by linarith
  ultimately show ?thesis
    by (auto simp: up_inv_def tq_Push_def less_Suc_eq)
qed

lemma heap_Push_spec:
  assumes "tq_inv h"
  shows "tq_inv (heap_Push x h)" and "tq_txs (heap_Push x h) = add_mset (tqi_tx x) (tq_txs h)"
proof -
  have "idx_ok (tq_Push x h)"
    using assms by (auto simp: tq_inv_idx idx_ok_def tq_Push_def nth_append less_Suc_eq)
  with heap_up_spec [OF up_inv_Push [of h x]] assms
  have "heap_to (length (tq_Push x h)) (heap_up (length h) (tq_Push x h))"
    "length (heap_up (length h) (tq_Push x h)) = length (tq_Push x h)"
    "tq_txs (heap_up (length h) (tq_Push x h)) = tq_txs (tq_Push x h)" "idx_ok (heap_up (length h) (tq_Push x h))"
    by (simp_all add: tq_inv_idx)
  moreover have "heap_Push x h = heap_up (length h) (tq_Push x h)"
    by (simp add: heap_Push_def Let_def tq_Len_def tq_Push_def)
  ultimately show "tq_inv (heap_Push x h)" "tq_txs (heap_Push x h) = add_mset (tqi_tx x) (tq_txs h)"
    by (simp_all add: tq_inv_idx tq_txs_def tq_Push_def)
qed

lemma down_inv_Pop:
  assumes "heap_to (length h) h" and "h \<noteq> []" and n: "n = length h - 1"
  shows "down_inv 0 n (tq_Swap 0 n h)"
proof -
  have b: "0 < length h" "n < length h" "n \<le> length h" using assms(2) n by auto
  have "nonce_at (tq_Swap 0 n h) p \<le> nonce_at (tq_Swap 0 n h) k"
    if k: "k < n" "0 < k" "p \<noteq> 0" and p: "p = (k - 1) div 2" for k p
  proof -
    have pl: "p < n" "k < length h" "p < length h" using parent_less [OF k(2)] k(1) p b by linarith+
    have "nonce_at h p \<le> nonce_at h k" using assms(1) pl k p by (simp add: heap_to_def)
    then show ?thesis
      using nonce_at_Swap [OF b(1,2) pl(2)] nonce_at_Swap [OF b(1,2) pl(3)] k pl(1) by simp
  qed
  then show ?thesis using b by (simp add: down_inv_def)
qed

lemma heap_Pop_spec:
  assumes inv: "tq_inv h" and ne: "h \<noteq> []"
  shows "\<exists>x h'. heap_Pop h = Some (x, h') \<and> tqi_tx x = tqi_tx (h ! 0) \<and> tq_inv h'
     \<and> tq_txs h = add_mset (tqi_tx x) (tq_txs h')"
proof -
  define n where "n = length h - 1"
  define h2 where "h2 = heap_down 0 n (tq_Swap 0 n h)"
  have b: "0 < length h" "n < length h" "length h = Suc n" using ne by (auto simp: n_def)
  have "idx_ok (tq_Swap 0 n h)" using idx_ok_Swap b inv by (simp add: tq_inv_idx)
  with heap_down_spec [OF down_inv_Pop [OF _ ne n_def]] inv
  have d: "heap_to n h2" "length h2 = Suc n" "tq_txs h2 = tq_txs h" "idx_ok h2" "tqi_tx (h2 ! n) = tqi_tx (h ! 0)"
    using b tq_Swap_nth [OF b(1,2,2)] by (simp_all add: tq_inv_idx h2_def)
  have p: "heap_Pop h = Some ((h2 ! n)\<lparr>tqi_index := -1\<rparr>, take n h2)"
    using b d(2) by (auto simp: heap_Pop_def tq_Len_def Let_def tq_Pop_def h2_def)
  have "nonce_at (take n h2) k = nonce_at h2 k" if "k < n" for k
    using that by (simp add: nonce_at_def)
  moreover have "(k - 1) div 2 < n" if "k < n" "0 < k" for k using parent_less [OF that(2)] that(1) by linarith
  ultimately have "tq_inv (take n h2)"
    using d by (simp add: tq_inv_idx heap_to_def idx_ok_def)
  moreover have "map tqi_tx h2 = map tqi_tx (take n h2) @ [tqi_tx (h2 ! n)]"
    using d(2) take_Suc_conv_app_nth [of n "map tqi_tx h2"] by (simp add: take_map)
  then have "mset (map tqi_tx h2) = add_mset (tqi_tx (h2 ! n)) (mset (map tqi_tx (take n h2)))" by simp
  ultimately show ?thesis
    using p d by (simp add: tq_txs_def)
qed

section \<open>The queue is a priority queue\<close>

text \<open>\<open>pq_push\<close> is \<^verbatim>\<open>heap.Push(&tw.tq, &TransactionQueueItem{tx: transaction})\<close> and \<open>pq_pop\<close> is
  \<^verbatim>\<open>heap.Pop(&tw.tq).(*TransactionQueueItem).tx\<close> on a queue that may be empty.\<close>

definition pq_push :: "FrontendTransaction \<Rightarrow> transactionQueue \<Rightarrow> transactionQueue" where
  "pq_push tx h = heap_Push \<lparr>tqi_tx = tx, tqi_index = 0\<rparr> h"

definition pq_pop :: "transactionQueue \<Rightarrow> (FrontendTransaction \<times> transactionQueue) option" where
  "pq_pop h = map_option (\<lambda>(x, h'). (tqi_tx x, h')) (heap_Pop h)"

text \<open>Popping up to \<open>n\<close> times.\<close>

primrec pq_drain :: "nat \<Rightarrow> transactionQueue \<Rightarrow> FrontendTransaction list" where
  "pq_drain 0 h = []"
| "pq_drain (Suc n) h = (case pq_pop h of None \<Rightarrow> [] | Some (x, h') \<Rightarrow> x # pq_drain n h')"

lemma pq_pop_spec:
  assumes "tq_inv h"
  shows "if h = [] then pq_pop h = None
    else \<exists>h'. pq_pop h = Some (tqi_tx (h ! 0), h') \<and> tq_inv h' \<and> tq_txs h = add_mset (tqi_tx (h ! 0)) (tq_txs h')"
  using heap_Pop_spec [OF assms] by (force simp: pq_pop_def heap_Pop_def tq_Len_def)

lemma tq_txs_nonce_at: "tx \<in># tq_txs h \<longleftrightarrow> (\<exists>k<length h. tx = tqi_tx (h ! k))"
  by (auto simp: tq_txs_def in_set_conv_nth image_iff Bex_def)

interpretation tx_queue: priority_queue pq_push pq_pop tq_txs tq_inv tx_Nonce
proof
  fix q q' :: transactionQueue and x y :: FrontendTransaction
  assume inv: "tq_inv q"
  show "tq_txs (pq_push x q) = add_mset x (tq_txs q)" "tq_inv (pq_push x q)"
    using heap_Push_spec [OF inv, of "\<lparr>tqi_tx = x, tqi_index = 0\<rparr>"] by (simp_all add: pq_push_def)
  show "pq_pop q = None \<longleftrightarrow> tq_txs q = {#}"
    using pq_pop_spec [OF inv] by (auto simp: tq_txs_def split: if_splits)
  assume p: "pq_pop q = Some (x, q')"
  then have ne: "q \<noteq> []" using pq_pop_spec [OF inv] by auto
  show "tq_txs q = add_mset x (tq_txs q')" "tq_inv q'"
    using pq_pop_spec [OF inv] p ne by auto
  assume y: "y \<in># tq_txs q"
  then obtain k where k: "k < length q" "y = tqi_tx (q ! k)" by (auto simp: tq_txs_nonce_at)
  have "x = tqi_tx (q ! 0)" using pq_pop_spec [OF inv] p ne by auto
  then show "tx_Nonce x \<le> tx_Nonce y"
    using heap_to_root [of "length q" q k] inv k by (simp add: tq_inv_def nonce_at_def)
qed

lemma pq_drain_eq: "pq_drain n h = tx_queue.drain n h"
  by (induction n arbitrary: h) (auto split: option.split)

section \<open>Properties\<close>

text \<open>The heap of the worker: whatever was pushed on an empty queue, popping until it is empty
  returns exactly the pushed transactions in ascending order of their nonces.\<close>

lemma heap_drains_sorted:
  "mset (pq_drain (length txs) (fold pq_push txs [])) = mset txs
   \<and> sorted (map tx_Nonce (pq_drain (length txs) (fold pq_push txs [])))"
proof -
  have q: "tq_inv (fold pq_push txs [])" "tq_txs (fold pq_push txs []) = mset txs"
    using tx_queue.fold_qpush [OF tq_inv_empty, of txs] by (simp_all add: tq_txs_def)
  then have "size (tq_txs (fold pq_push txs [])) \<le> length txs" by simp
  from tx_queue.drain_spec [OF q(1) this] q(2) show ?thesis by (simp add: pq_drain_eq)
qed

end
