(* ===== verification/Tx_Worker.thy ===== *)
theory Tx_Worker
  imports Tx_Heap Interactors_Base
begin


text \<open>
  The transaction worker of \<^verbatim>\<open>nonceHandlerV3/workers/transactionWorker.go\<close>: callers add
  transactions and wait on a channel, one goroutine takes the transaction with the lowest nonce at
  every tick, sends it and answers on the channel.

  A channel is a position in \<open>tw_chans\<close>; the list there is everything that was ever sent on it.
  The channels have capacity one and a send on a full one blocks; since the model never removes
  what a receiver took, it allows a send only on a channel that was never used. \<open>tw_pc\<close> is the
  position of the goroutine: the critical sections are steps, and callers run in between.
\<close>

section \<open>State\<close>

record TransactionResponse =
  tr_TxHash :: string
  tr_Error :: "go_error option"

datatype worker_pc =
    PcSelect                             \<comment> \<open>at the select statement\<close>
  | PcPopped FrontendTransaction         \<comment> \<open>before \<^verbatim>\<open>retrieveChannel\<close>\<close>
  | PcSending FrontendTransaction nat    \<comment> \<open>before the answer on the channel\<close>
  | PcStopped                            \<comment> \<open>the goroutine has returned\<close>

record TransactionWorker =
  tw_tq :: transactionQueue
  tw_workerClosed :: bool
  tw_responsesChannels :: "u64 \<rightharpoonup> nat"
  tw_chans :: "TransactionResponse list list"
  tw_pc :: worker_pc

definition NewTransactionWorker :: TransactionWorker where
  "NewTransactionWorker = \<lparr>tw_tq = [], tw_workerClosed = False, tw_responsesChannels = Map.empty,
     tw_chans = [], tw_pc = PcSelect\<rparr>"

section \<open>Operations\<close>

text \<open>\<^verbatim>\<open>ch <- response\<close>; \<open>None\<close> while the send blocks.\<close>

definition chan_send :: "nat \<Rightarrow> TransactionResponse \<Rightarrow> TransactionWorker \<Rightarrow> TransactionWorker option" where
  "chan_send c r tw =
     (if c < length (tw_chans tw) \<and> tw_chans tw ! c = [] then Some (tw\<lparr>tw_chans := (tw_chans tw)[c := [r]]\<rparr>) else None)"

definition AddTransaction :: "FrontendTransaction \<Rightarrow> TransactionWorker \<Rightarrow> nat \<times> TransactionWorker" where
  "AddTransaction tx tw =
     (let r = length (tw_chans tw)
      in if tw_workerClosed tw
         then (r, tw\<lparr>tw_chans := tw_chans tw @ [[\<lparr>tr_TxHash = [], tr_Error = Some (EInteractors Interactors_ErrWorkerClosed)\<rparr>]]\<rparr>)
         else if tw_responsesChannels tw (tx_Nonce tx) \<noteq> None
         then (r, tw\<lparr>tw_chans := tw_chans tw @ [[\<lparr>tr_TxHash = [], tr_Error = Some (ErrorsNew
                (''transaction with nonce: '' @ dec_of_nat (unat (tx_Nonce tx)) @ '' has already been scheduled to send''))\<rparr>]]\<rparr>)
         else (r, tw\<lparr>tw_chans := tw_chans tw @ [[]],
                   tw_responsesChannels := (tw_responsesChannels tw)(tx_Nonce tx \<mapsto> r),
                   tw_tq := pq_push tx (tw_tq tw)\<rparr>))"

definition nextTransaction :: "TransactionWorker \<Rightarrow> FrontendTransaction option \<times> TransactionWorker" where
  "nextTransaction tw =
     (if tq_Len (tw_tq tw) = 0 then (None, tw)
      else case pq_pop (tw_tq tw) of
        None \<Rightarrow> (None, tw)
      | Some (tx, tq') \<Rightarrow> (Some tx, tw\<lparr>tw_tq := tq'\<rparr>))"

text \<open>\<open>None\<close> is the nil channel of a nonce without entry.\<close>

definition retrieveChannel :: "u64 \<Rightarrow> TransactionWorker \<Rightarrow> nat option \<times> TransactionWorker" where
  "retrieveChannel nonce tw =
     (tw_responsesChannels tw nonce, tw\<lparr>tw_responsesChannels := (tw_responsesChannels tw)(nonce := None)\<rparr>)"

text \<open>\<^verbatim>\<open>closeAllChannels\<close> in the visiting order \<open>ks\<close>.\<close>

primrec close_loop :: "go_error \<Rightarrow> u64 list \<Rightarrow> TransactionWorker \<Rightarrow> TransactionWorker option" where
  "close_loop ctxErr [] tw = Some tw"
| "close_loop ctxErr (k # ks) tw = (case tw_responsesChannels tw k of
     None \<Rightarrow> close_loop ctxErr ks tw
   | Some c \<Rightarrow> (case chan_send c \<lparr>tr_TxHash = [], tr_Error = Some ctxErr\<rparr> tw of
       None \<Rightarrow> None
     | Some tw' \<Rightarrow> close_loop ctxErr ks tw'))"

definition closeAllChannels :: "go_error \<Rightarrow> u64 list \<Rightarrow> TransactionWorker \<Rightarrow> TransactionWorker option" where
  "closeAllChannels ctxErr ks tw = map_option (\<lambda>tw'. tw'\<lparr>tw_workerClosed := True\<rparr>) (close_loop ctxErr ks tw)"

text \<open>One uninterrupted run of \<^verbatim>\<open>processNextTransaction\<close> with the given proxy; the first component is
  the transaction that was sent. \<open>None\<close>: it blocks.\<close>

definition response_of :: "string result \<Rightarrow> TransactionResponse" where
  "response_of r = (case r of Inl e \<Rightarrow> \<lparr>tr_TxHash = [], tr_Error = Some e\<rparr> | Inr h \<Rightarrow> \<lparr>tr_TxHash = h, tr_Error = None\<rparr>)"

definition processNextTransaction :: "Proxy \<Rightarrow> TransactionWorker \<Rightarrow> (FrontendTransaction option \<times> TransactionWorker) option" where
  "processNextTransaction px tw = (case nextTransaction tw of
     (None, tw') \<Rightarrow> Some (None, tw')
   | (Some tx, tw') \<Rightarrow> (case retrieveChannel (tx_Nonce tx) tw' of
       (None, tw'') \<Rightarrow> None
     | (Some c, tw'') \<Rightarrow> map_option (Pair (Some tx)) (chan_send c (response_of (px_SendTransaction px tx)) tw'')))"

text \<open>Rounds of the worker without other steps in between: the transactions sent and the state.\<close>

primrec tw_process_n :: "nat \<Rightarrow> Proxy \<Rightarrow> TransactionWorker \<Rightarrow> (FrontendTransaction list \<times> TransactionWorker) option" where
  "tw_process_n 0 px tw = Some ([], tw)"
| "tw_process_n (Suc n) px tw = (case processNextTransaction px tw of
     None \<Rightarrow> None
   | Some (None, tw') \<Rightarrow> tw_process_n n px tw'
   | Some (Some tx, tw') \<Rightarrow> map_option (\<lambda>(txs, tw''). (tx # txs, tw'')) (tw_process_n n px tw'))"

section \<open>The worker and its callers as a transition system\<close>

inductive tw_step :: "TransactionWorker \<Rightarrow> TransactionWorker \<Rightarrow> bool" where
  add: "tw_step tw (snd (AddTransaction tx tw))"
| tick_empty: "tw_pc tw = PcSelect \<Longrightarrow> nextTransaction tw = (None, tw') \<Longrightarrow> tw_step tw tw'"
| tick: "tw_pc tw = PcSelect \<Longrightarrow> nextTransaction tw = (Some tx, tw') \<Longrightarrow> tw_step tw (tw'\<lparr>tw_pc := PcPopped tx\<rparr>)"
| retrieve: "tw_pc tw = PcPopped tx \<Longrightarrow> retrieveChannel (tx_Nonce tx) tw = (Some c, tw') \<Longrightarrow>
     tw_step tw (tw'\<lparr>tw_pc := PcSending tx c\<rparr>)"
| respond: "tw_pc tw = PcSending tx c \<Longrightarrow> chan_send c (response_of r) tw = Some tw' \<Longrightarrow>
     tw_step tw (tw'\<lparr>tw_pc := PcSelect\<rparr>)"
| ctx_done: "tw_pc tw = PcSelect \<Longrightarrow> go_range (tw_responsesChannels tw) ks \<Longrightarrow> closeAllChannels ctxErr ks tw = Some tw' \<Longrightarrow>
     tw_step tw (tw'\<lparr>tw_pc := PcStopped\<rparr>)"

inductive tw_reachable :: "TransactionWorker \<Rightarrow> bool" where
  init: "tw_reachable NewTransactionWorker"
| step: "tw_reachable tw \<Longrightarrow> tw_step tw tw' \<Longrightarrow> tw_reachable tw'"

inductive_cases tw_stepE: "tw_step tw tw'"

section \<open>Invariant\<close>

text \<open>A channel waits for an answer: it is registered, or the goroutine is about to answer on it.\<close>

definition waiting :: "TransactionWorker \<Rightarrow> nat \<Rightarrow> bool" where
  "waiting tw c \<longleftrightarrow> (\<exists>tx. tw_pc tw = PcSending tx c) \<or> (tw_pc tw \<noteq> PcStopped \<and> c \<in> ran (tw_responsesChannels tw))"

definition popped_nonces :: "worker_pc \<Rightarrow> u64 multiset" where
  "popped_nonces pc = (case pc of PcPopped tx \<Rightarrow> {#tx_Nonce tx#} | _ \<Rightarrow> {#})"

definition tw_inv :: "TransactionWorker \<Rightarrow> bool" where
  "tw_inv tw \<longleftrightarrow> tq_inv (tw_tq tw)
     \<and> finite (dom (tw_responsesChannels tw))
     \<and> image_mset tx_Nonce (tq_txs (tw_tq tw)) + popped_nonces (tw_pc tw) = mset_set (dom (tw_responsesChannels tw))
     \<and> inj_on (tw_responsesChannels tw) (dom (tw_responsesChannels tw))
     \<and> ran (tw_responsesChannels tw) \<subseteq> {..<length (tw_chans tw)}
     \<and> (\<forall>tx c. tw_pc tw = PcSending tx c \<longrightarrow> c < length (tw_chans tw) \<and> c \<notin> ran (tw_responsesChannels tw))
     \<and> (\<forall>c<length (tw_chans tw). length (tw_chans tw ! c) = (if waiting tw c then 0 else 1))
     \<and> (tw_workerClosed tw \<longleftrightarrow> tw_pc tw = PcStopped)"

section \<open>Lemmas\<close>

lemma tw_invD:
  assumes "tw_inv tw"
  shows "tq_inv (tw_tq tw)" "finite (dom (tw_responsesChannels tw))"
    "image_mset tx_Nonce (tq_txs (tw_tq tw)) + popped_nonces (tw_pc tw) = mset_set (dom (tw_responsesChannels tw))"
    "inj_on (tw_responsesChannels tw) (dom (tw_responsesChannels tw))"
    "ran (tw_responsesChannels tw) \<subseteq> {..<length (tw_chans tw)}"
    "\<And>tx c. tw_pc tw = PcSending tx c \<Longrightarrow> c < length (tw_chans tw) \<and> c \<notin> ran (tw_responsesChannels tw)"
    "\<And>c. c < length (tw_chans tw) \<Longrightarrow> length (tw_chans tw ! c) = (if waiting tw c then 0 else 1)"
    "tw_workerClosed tw \<longleftrightarrow> tw_pc tw = PcStopped"
  using assms unfolding tw_inv_def by blast+

lemma tw_invI:
  assumes "tq_inv (tw_tq tw)" "finite (dom (tw_responsesChannels tw))"
    "image_mset tx_Nonce (tq_txs (tw_tq tw)) + popped_nonces (tw_pc tw) = mset_set (dom (tw_responsesChannels tw))"
    "inj_on (tw_responsesChannels tw) (dom (tw_responsesChannels tw))"
    "ran (tw_responsesChannels tw) \<subseteq> {..<length (tw_chans tw)}"
    "\<And>tx c. tw_pc tw = PcSending tx c \<Longrightarrow> c < length (tw_chans tw) \<and> c \<notin> ran (tw_responsesChannels tw)"
    "\<And>c. c < length (tw_chans tw) \<Longrightarrow> length (tw_chans tw ! c) = (if waiting tw c then 0 else 1)"
    "tw_workerClosed tw \<longleftrightarrow> tw_pc tw = PcStopped"
  shows "tw_inv tw"
  using assms unfolding tw_inv_def by blast

lemma popped_nonces_simps [simp]:
  "popped_nonces PcSelect = {#}" "popped_nonces (PcPopped tx) = {#tx_Nonce tx#}"
  "popped_nonces (PcSending tx c) = {#}" "popped_nonces PcStopped = {#}"
  by (simp_all add: popped_nonces_def)

lemma tw_inv_New: "tw_inv NewTransactionWorker"
  by (simp add: tw_inv_def NewTransactionWorker_def tq_txs_def)

lemma inj_on_new:
  "inj_on m (dom m) \<Longrightarrow> c \<notin> ran m \<Longrightarrow> inj_on (m(n \<mapsto> c)) (insert n (dom m))"
  by (auto simp: inj_on_def ran_def)

lemma ran_delete:
  assumes "inj_on m (dom m)" and "m n = Some c"
  shows "ran (m(n := None)) = ran m - {c}"
proof -
  have "k = n" if "m k = Some c" for k using assms that by (auto simp: inj_on_def dom_def)
  then have "k \<noteq> n \<Longrightarrow> m k \<noteq> Some c" for k by blast
  moreover have "a \<noteq> n" if "m a = Some x" "x \<noteq> c" for a x using assms(2) that by auto
  ultimately show ?thesis unfolding ran_def by (fastforce split: if_splits)
qed

lemma inv_refused:
  assumes inv: "tw_inv tw"
  shows "tw_inv (tw\<lparr>tw_chans := tw_chans tw @ [[r]]\<rparr>)"
proof -
  note d = tw_invD [OF inv]
  let ?tw = "tw\<lparr>tw_chans := tw_chans tw @ [[r]]\<rparr>"
  have w: "waiting ?tw c = waiting tw c" for c by (simp add: waiting_def)
  have "\<not> waiting tw (length (tw_chans tw))" using d(5,6) by (auto simp: waiting_def)
  then have "length (tw_chans ?tw ! c) = (if waiting ?tw c then 0 else 1)" if "c < length (tw_chans ?tw)" for c
    using that d(7) [of c] by (cases "c < length (tw_chans tw)") (auto simp: w nth_append less_Suc_eq)
  moreover have "ran (tw_responsesChannels ?tw) \<subseteq> {..<length (tw_chans ?tw)}" using d(5) by auto
  moreover have "\<And>t c. tw_pc ?tw = PcSending t c \<Longrightarrow> c < length (tw_chans ?tw) \<and> c \<notin> ran (tw_responsesChannels ?tw)"
    using d(6) by (simp add: less_SucI)
  ultimately show ?thesis
    using d(1-4,8) by (intro tw_invI) simp_all
qed

lemma inv_accepted:
  assumes inv: "tw_inv tw" and open': "tw_pc tw \<noteq> PcStopped" and new: "tw_responsesChannels tw (tx_Nonce tx) = None"
  shows "tw_inv (tw\<lparr>tw_chans := tw_chans tw @ [[]],
       tw_responsesChannels := (tw_responsesChannels tw)(tx_Nonce tx \<mapsto> length (tw_chans tw)),
       tw_tq := pq_push tx (tw_tq tw)\<rparr>)" (is "tw_inv ?tw")
proof -
  note d = tw_invD [OF inv]
  let ?r = "length (tw_chans tw)"
  have fresh: "?r \<notin> ran (tw_responsesChannels tw)" using d(5) by auto
  have ran: "ran (tw_responsesChannels ?tw) = insert ?r (ran (tw_responsesChannels tw))"
    using new by (simp add: ran_map_upd)
  have pc: "tw_pc ?tw = tw_pc tw" by simp
  have w: "waiting ?tw c \<longleftrightarrow> waiting tw c \<or> c = ?r" for c
    unfolding waiting_def ran pc using open' by blast
  have ch: "tw_chans ?tw = tw_chans tw @ [[]]" by simp
  have a: "length (tw_chans ?tw ! c) = (if waiting ?tw c then 0 else 1)" if "c < length (tw_chans ?tw)" for c
    unfolding w ch using that d(7) [of c] by (cases "c < ?r") (auto simp: nth_append)
  have "tx_Nonce tx \<notin> dom (tw_responsesChannels tw)" using new by auto
  then have m: "mset_set (dom (tw_responsesChannels ?tw)) = add_mset (tx_Nonce tx) (mset_set (dom (tw_responsesChannels tw)))"
    using d(2) by simp
  show ?thesis
  proof (rule tw_invI)
    show "image_mset tx_Nonce (tq_txs (tw_tq ?tw)) + popped_nonces (tw_pc ?tw) = mset_set (dom (tw_responsesChannels ?tw))"
      unfolding m d(3) [symmetric] using tx_queue.qpush_content [OF d(1)] by simp
    show "inj_on (tw_responsesChannels ?tw) (dom (tw_responsesChannels ?tw))"
      using inj_on_new [OF d(4) fresh, of "tx_Nonce tx"] by simp
    show "ran (tw_responsesChannels ?tw) \<subseteq> {..<length (tw_chans ?tw)}" unfolding ran using d(5) by auto
    show "\<And>t c. tw_pc ?tw = PcSending t c \<Longrightarrow> c < length (tw_chans ?tw) \<and> c \<notin> ran (tw_responsesChannels ?tw)"
      unfolding ran pc using d(6) by fastforce
  qed (use d(1,2,8) a tx_queue.qpush_inv [OF d(1)] in simp_all)
qed

lemma inv_AddTransaction:
  assumes inv: "tw_inv tw"
  shows "tw_inv (snd (AddTransaction tx tw))"
  using inv_refused [OF inv] inv_accepted [OF inv, of tx] tw_invD(8) [OF inv]
  by (auto simp: AddTransaction_def Let_def)

lemma nextTransaction_Some:
  assumes "tw_inv tw" and "nextTransaction tw = (Some tx, tw')"
  shows "\<exists>q. tw' = tw\<lparr>tw_tq := q\<rparr> \<and> pq_pop (tw_tq tw) = Some (tx, q) \<and> tq_inv q \<and> tq_txs (tw_tq tw) = add_mset tx (tq_txs q)"
proof -
  obtain q where p: "pq_pop (tw_tq tw) = Some (tx, q)" "tw' = tw\<lparr>tw_tq := q\<rparr>"
    using assms(2) by (auto simp: nextTransaction_def split: if_splits option.splits)
  with tx_queue.qpop_inv [OF tw_invD(1) [OF assms(1)] p(1)] tx_queue.qpop_content [OF tw_invD(1) [OF assms(1)] p(1)]
  show ?thesis by blast
qed

lemma inv_nextTransaction:
  assumes inv: "tw_inv tw" and pc: "tw_pc tw = PcSelect" and n: "nextTransaction tw = (Some tx, tw')"
  shows "tw_inv (tw'\<lparr>tw_pc := PcPopped tx\<rparr>)" (is "tw_inv ?tw")
proof -
  note d = tw_invD [OF inv]
  obtain q where tw': "tw' = tw\<lparr>tw_tq := q\<rparr>" and q: "tq_inv q" "tq_txs (tw_tq tw) = add_mset tx (tq_txs q)"
    using nextTransaction_Some [OF inv n] by blast
  have w: "waiting ?tw c = waiting tw c" for c using pc by (simp add: waiting_def tw')
  show ?thesis
  proof (rule tw_invI)
    show "image_mset tx_Nonce (tq_txs (tw_tq ?tw)) + popped_nonces (tw_pc ?tw) = mset_set (dom (tw_responsesChannels ?tw))"
      using d(3) pc q(2) by (simp add: tw')
    show "\<And>c. c < length (tw_chans ?tw) \<Longrightarrow> length (tw_chans ?tw ! c) = (if waiting ?tw c then 0 else 1)"
      unfolding w using d(7) by (simp add: tw')
  qed (use d(2,4,5,8) q(1) pc in \<open>simp_all add: tw'\<close>)
qed

lemma popped_registered:
  assumes "tw_inv tw" and "tw_pc tw = PcPopped tx"
  shows "\<exists>c. tw_responsesChannels tw (tx_Nonce tx) = Some c"
proof -
  have "image_mset tx_Nonce (tq_txs (tw_tq tw)) + {#tx_Nonce tx#} = mset_set (dom (tw_responsesChannels tw))"
    using tw_invD(3) [OF assms(1)] assms(2) by simp
  then have "tx_Nonce tx \<in># mset_set (dom (tw_responsesChannels tw))" by (metis union_iff multi_member_last)
  with tw_invD(2) [OF assms(1)] show ?thesis by auto
qed

lemma inv_retrieveChannel:
  assumes inv: "tw_inv tw" and pc: "tw_pc tw = PcPopped tx" and r: "retrieveChannel (tx_Nonce tx) tw = (Some c, tw')"
  shows "tw_inv (tw'\<lparr>tw_pc := PcSending tx c\<rparr>)" (is "tw_inv ?tw")
proof -
  note d = tw_invD [OF inv]
  let ?m = "(tw_responsesChannels tw)(tx_Nonce tx := None)"
  have m: "tw_responsesChannels tw (tx_Nonce tx) = Some c" and tw': "tw' = tw\<lparr>tw_responsesChannels := ?m\<rparr>"
    using r by (simp_all add: retrieveChannel_def)
  have ran: "ran ?m = ran (tw_responsesChannels tw) - {c}" by (rule ran_delete [OF d(4) m])
  have c: "c \<in> ran (tw_responsesChannels tw)" using m by (rule ranI)
  have "dom (tw_responsesChannels tw) = insert (tx_Nonce tx) (dom ?m)" "tx_Nonce tx \<notin> dom ?m" using m by auto
  then have ms: "mset_set (dom (tw_responsesChannels tw)) = add_mset (tx_Nonce tx) (mset_set (dom ?m))"
    using d(2) mset_set.insert [of "dom ?m" "tx_Nonce tx"] by simp
  have w: "waiting ?tw k = waiting tw k" for k
    using pc c by (auto simp: waiting_def tw' ran)
  show ?thesis
  proof (rule tw_invI)
    show "image_mset tx_Nonce (tq_txs (tw_tq ?tw)) + popped_nonces (tw_pc ?tw) = mset_set (dom (tw_responsesChannels ?tw))"
      using d(3) pc ms by (simp add: tw')
    show "inj_on (tw_responsesChannels ?tw) (dom (tw_responsesChannels ?tw))"
      using d(4) by (auto simp: tw' inj_on_def dom_def)
    show "ran (tw_responsesChannels ?tw) \<subseteq> {..<length (tw_chans ?tw)}" using d(5) ran by (auto simp: tw')
    show "\<And>t k. tw_pc ?tw = PcSending t k \<Longrightarrow> k < length (tw_chans ?tw) \<and> k \<notin> ran (tw_responsesChannels ?tw)"
      using d(5) c by (auto simp: tw' ran)
    show "\<And>k. k < length (tw_chans ?tw) \<Longrightarrow> length (tw_chans ?tw ! k) = (if waiting ?tw k then 0 else 1)"
      unfolding w using d(7) by (simp add: tw')
  qed (use d(1,2,8) pc in \<open>simp_all add: tw'\<close>)
qed

lemma inv_respond:
  assumes inv: "tw_inv tw" and pc: "tw_pc tw = PcSending tx c" and r: "chan_send c r tw = Some tw'"
  shows "tw_inv (tw'\<lparr>tw_pc := PcSelect\<rparr>)" (is "tw_inv ?tw")
proof -
  note d = tw_invD [OF inv]
  have c: "c < length (tw_chans tw)" "c \<notin> ran (tw_responsesChannels tw)" using d(6) [OF pc] by auto
  have tw': "tw' = tw\<lparr>tw_chans := (tw_chans tw)[c := [r]]\<rparr>"
    using r by (simp add: chan_send_def split: if_splits)
  have w: "waiting ?tw k \<longleftrightarrow> waiting tw k \<and> k \<noteq> c" for k
    using pc c by (auto simp: waiting_def tw')
  show ?thesis
  proof (rule tw_invI)
    show "\<And>k. k < length (tw_chans ?tw) \<Longrightarrow> length (tw_chans ?tw ! k) = (if waiting ?tw k then 0 else 1)"
      unfolding w using d(7) c(1) by (auto simp: tw' nth_list_update)
  qed (use d(1-5,8) pc in \<open>simp_all add: tw'\<close>)
qed

text \<open>Closing answers every registered channel once; no send blocks.\<close>

lemma close_loop_spec:
  assumes "distinct ks" and "inj_on (tw_responsesChannels tw) (dom (tw_responsesChannels tw))"
    and "set ks \<subseteq> dom (tw_responsesChannels tw)"
    and "\<forall>k \<in> set ks. the (tw_responsesChannels tw k) < length (tw_chans tw) \<and> tw_chans tw ! the (tw_responsesChannels tw k) = []"
  shows "\<exists>cs. close_loop e ks tw = Some (tw\<lparr>tw_chans := cs\<rparr>) \<and> length cs = length (tw_chans tw)
     \<and> (\<forall>c<length cs. cs ! c = (if c \<in> the ` tw_responsesChannels tw ` set ks
           then [\<lparr>tr_TxHash = [], tr_Error = Some e\<rparr>] else tw_chans tw ! c))"
  using assms
proof (induction ks arbitrary: tw)
  case Nil
  show ?case by (intro exI [of _ "tw_chans tw"]) simp
next
  case (Cons k ks)
  let ?r = "\<lparr>tr_TxHash = [], tr_Error = Some e\<rparr>"
  obtain c where c: "tw_responsesChannels tw k = Some c" using Cons.prems(3) by auto
  let ?tw = "tw\<lparr>tw_chans := (tw_chans tw)[c := [?r]]\<rparr>"
  have cl: "c < length (tw_chans tw)" "tw_chans tw ! c = []" using Cons.prems(4) c by auto
  have ne: "the (tw_responsesChannels tw k') \<noteq> c" if "k' \<in> set ks" for k'
  proof -
    have "k' \<in> dom (tw_responsesChannels tw)" using Cons.prems(3) that by auto
    then obtain c' where c': "tw_responsesChannels tw k' = Some c'" by blast
    have "k' \<noteq> k" using Cons.prems(1) that by auto
    then have "c' \<noteq> c" using Cons.prems(2) c c' by (auto simp: inj_on_def dom_def)
    then show ?thesis using c' by simp
  qed
  have "\<forall>k' \<in> set ks. the (tw_responsesChannels ?tw k') < length (tw_chans ?tw) \<and> tw_chans ?tw ! the (tw_responsesChannels ?tw k') = []"
  proof
    fix k' assume k': "k' \<in> set ks"
    show "the (tw_responsesChannels ?tw k') < length (tw_chans ?tw) \<and> tw_chans ?tw ! the (tw_responsesChannels ?tw k') = []"
      using Cons.prems(4) k' ne [OF k'] by simp
  qed
  then obtain cs where cs: "close_loop e ks ?tw = Some (?tw\<lparr>tw_chans := cs\<rparr>)" "length cs = length (tw_chans ?tw)"
    "\<forall>i<length cs. cs ! i = (if i \<in> the ` tw_responsesChannels ?tw ` set ks then [?r] else tw_chans ?tw ! i)"
    using Cons.IH [of ?tw] Cons.prems(1-3) by auto
  show ?case
  proof (intro exI conjI)
    show "close_loop e (k # ks) tw = Some (tw\<lparr>tw_chans := cs\<rparr>)" using c cl cs(1) by (simp add: chan_send_def)
    show "length cs = length (tw_chans tw)" using cs(2) by simp
    show "\<forall>i<length cs. cs ! i = (if i \<in> the ` tw_responsesChannels tw ` set (k # ks) then [?r] else tw_chans tw ! i)"
      using cs(2,3) c cl by (auto simp: nth_list_update)
  qed
qed

lemma ran_eq_image: "ran m = the ` m ` dom m"
  by (force simp: ran_def dom_def image_iff)

lemma closeAllChannels_ok:
  assumes inv: "tw_inv tw" and pc: "tw_pc tw = PcSelect" and ks: "go_range (tw_responsesChannels tw) ks"
  shows "\<exists>cs. closeAllChannels e ks tw = Some (tw\<lparr>tw_chans := cs, tw_workerClosed := True\<rparr>) \<and> length cs = length (tw_chans tw)
     \<and> (\<forall>c<length cs. cs ! c = (if c \<in> ran (tw_responsesChannels tw)
           then [\<lparr>tr_TxHash = [], tr_Error = Some e\<rparr>] else tw_chans tw ! c))"
proof -
  note d = tw_invD [OF inv]
  have k: "distinct ks" "set ks = dom (tw_responsesChannels tw)" using ks by (auto simp: go_range_def)
  have "the (tw_responsesChannels tw k) < length (tw_chans tw) \<and> tw_chans tw ! the (tw_responsesChannels tw k) = []"
    if "k \<in> set ks" for k
  proof -
    have "k \<in> dom (tw_responsesChannels tw)" using that k(2) by simp
    then obtain c where c: "tw_responsesChannels tw k = Some c" by blast
    then have "c \<in> ran (tw_responsesChannels tw)" by (rule ranI)
    then have "c < length (tw_chans tw)" "waiting tw c" using d(5) pc by (auto simp: waiting_def)
    with d(7) [of c] c show ?thesis by simp
  qed
  then obtain cs where "close_loop e ks tw = Some (tw\<lparr>tw_chans := cs\<rparr>)" "length cs = length (tw_chans tw)"
     "\<forall>c<length cs. cs ! c = (if c \<in> the ` tw_responsesChannels tw ` set ks
           then [\<lparr>tr_TxHash = [], tr_Error = Some e\<rparr>] else tw_chans tw ! c)"
    using close_loop_spec [OF k(1) d(4), of e] k(2) by auto
  then show ?thesis
    by (intro exI [of _ cs]) (simp add: closeAllChannels_def k(2) ran_eq_image)
qed

lemma inv_ctx_done:
  assumes inv: "tw_inv tw" and pc: "tw_pc tw = PcSelect" and ks: "go_range (tw_responsesChannels tw) ks"
    and cl: "closeAllChannels e ks tw = Some tw'"
  shows "tw_inv (tw'\<lparr>tw_pc := PcStopped\<rparr>)" (is "tw_inv ?tw")
proof -
  note d = tw_invD [OF inv]
  obtain cs where tw': "tw' = tw\<lparr>tw_chans := cs, tw_workerClosed := True\<rparr>" and l: "length cs = length (tw_chans tw)"
    and cs: "\<forall>c<length cs. cs ! c = (if c \<in> ran (tw_responsesChannels tw) then [\<lparr>tr_TxHash = [], tr_Error = Some e\<rparr>] else tw_chans tw ! c)"
    using closeAllChannels_ok [OF inv pc ks, of e] cl by auto
  have "length (cs ! c) = 1" if "c < length cs" for c
    using cs that l d(7) [of c] pc by (auto simp: waiting_def)
  then show ?thesis
    using d(1-5) pc l by (intro tw_invI) (simp_all add: tw' waiting_def)
qed

lemma tw_inv_step: "tw_step tw tw' \<Longrightarrow> tw_inv tw \<Longrightarrow> tw_inv tw'"
proof (induction rule: tw_step.induct)
  case (tick_empty tw tw')
  then show ?case by (auto simp: nextTransaction_def split: if_splits option.splits)
qed (blast intro: inv_AddTransaction inv_nextTransaction inv_retrieveChannel inv_respond inv_ctx_done)+

lemma tw_reachable_inv: "tw_reachable tw \<Longrightarrow> tw_inv tw"
  by (induction rule: tw_reachable.induct) (auto intro: tw_inv_New tw_inv_step)


text \<open>One round of the worker on a non-empty queue.\<close>

lemma processNext_ok:
  assumes inv: "tw_inv tw" and pc: "tw_pc tw = PcSelect" and ne: "tw_tq tw \<noteq> []"
  shows "\<exists>tx c q tw'. pq_pop (tw_tq tw) = Some (tx, q) \<and> tw_responsesChannels tw (tx_Nonce tx) = Some c
     \<and> c < length (tw_chans tw) \<and> tw_chans tw ! c = []
     \<and> tw' = tw\<lparr>tw_tq := q, tw_responsesChannels := (tw_responsesChannels tw)(tx_Nonce tx := None),
              tw_chans := (tw_chans tw)[c := [response_of (px_SendTransaction px tx)]]\<rparr>
     \<and> processNextTransaction px tw = Some (Some tx, tw') \<and> tw_inv tw'"
proof -
  note d = tw_invD [OF inv]
  obtain tx q where p: "pq_pop (tw_tq tw) = Some (tx, q)" using pq_pop_spec [OF d(1)] ne by auto
  let ?t1 = "tw\<lparr>tw_tq := q\<rparr>" let ?p1 = "?t1\<lparr>tw_pc := PcPopped tx\<rparr>"
  have n: "nextTransaction tw = (Some tx, ?t1)" using p ne by (simp add: nextTransaction_def tq_Len_def)
  have i1: "tw_inv ?p1" by (rule inv_nextTransaction [OF inv pc n])
  obtain c where c: "tw_responsesChannels tw (tx_Nonce tx) = Some c" using popped_registered [OF i1, of tx] by auto
  let ?m = "(tw_responsesChannels tw)(tx_Nonce tx := None)"
  let ?p2 = "?p1\<lparr>tw_responsesChannels := ?m, tw_pc := PcSending tx c\<rparr>"
  have i2: "tw_inv ?p2"
    using inv_retrieveChannel [OF i1, of tx c "?p1\<lparr>tw_responsesChannels := ?m\<rparr>"] c by (simp add: retrieveChannel_def)
  have "waiting tw c" using c pc by (auto simp: waiting_def ran_def)
  moreover have cl: "c < length (tw_chans tw)" using d(5) c by (auto simp: ran_def)
  ultimately have ce: "tw_chans tw ! c = []" using d(7) [of c] by simp
  let ?r = "response_of (px_SendTransaction px tx)"
  have "tw_inv (?p2\<lparr>tw_chans := (tw_chans tw)[c := [?r]], tw_pc := PcSelect\<rparr>)"
    using inv_respond [OF i2, of tx c ?r] cl ce by (simp add: chan_send_def)
  moreover have "?p2\<lparr>tw_chans := (tw_chans tw)[c := [?r]], tw_pc := PcSelect\<rparr> =
      tw\<lparr>tw_tq := q, tw_responsesChannels := ?m, tw_chans := (tw_chans tw)[c := [?r]]\<rparr>"
    using pc by (cases tw) simp
  ultimately show ?thesis
    using p c cl ce n by (simp add: processNextTransaction_def retrieveChannel_def chan_send_def)
qed

lemma process_empty: "tw_tq tw = [] \<Longrightarrow> tw_process_n n px tw = Some ([], tw)"
  by (induction n) (simp_all add: processNextTransaction_def nextTransaction_def tq_Len_def)

lemma process_all:
  "tw_inv tw \<Longrightarrow> tw_pc tw = PcSelect \<Longrightarrow> length (tw_tq tw) \<le> n \<Longrightarrow>
     \<exists>tw'. tw_process_n n px tw = Some (pq_drain n (tw_tq tw), tw') \<and> tw_inv tw' \<and> tw_pc tw' = PcSelect
       \<and> tw_tq tw' = [] \<and> length (tw_chans tw') = length (tw_chans tw)
       \<and> (\<forall>c<length (tw_chans tw). tw_chans tw ! c \<noteq> [] \<longrightarrow> tw_chans tw' ! c = tw_chans tw ! c)
       \<and> (\<forall>tx \<in> set (pq_drain n (tw_tq tw)). \<exists>c. tw_responsesChannels tw (tx_Nonce tx) = Some c
            \<and> tw_chans tw' ! c = [response_of (px_SendTransaction px tx)])"
proof (induction n arbitrary: tw)
  case (Suc n)
  show ?case
  proof (cases "tw_tq tw = []")
    case True
    then have "pq_pop (tw_tq tw) = None" using pq_pop_spec [OF tq_inv_empty] by simp
    then show ?thesis using True Suc.prems process_empty [OF True, of "Suc n" px] by simp
  next
    case False
    obtain tx c q tw1 where p: "pq_pop (tw_tq tw) = Some (tx, q)" and c: "tw_responsesChannels tw (tx_Nonce tx) = Some c"
      "c < length (tw_chans tw)" "tw_chans tw ! c = []"
      and tw1: "tw1 = tw\<lparr>tw_tq := q, tw_responsesChannels := (tw_responsesChannels tw)(tx_Nonce tx := None),
              tw_chans := (tw_chans tw)[c := [response_of (px_SendTransaction px tx)]]\<rparr>"
      and pn: "processNextTransaction px tw = Some (Some tx, tw1)" and i1: "tw_inv tw1"
      using processNext_ok [OF Suc.prems(1,2) False, of px] by blast
    have "tq_txs (tw_tq tw) = add_mset tx (tq_txs q)"
      using tx_queue.qpop_content [OF tw_invD(1) [OF Suc.prems(1)] p] .
    then have "length (tw_tq tw) = Suc (length q)" by (metis tq_txs_def size_mset length_map size_add_mset)
    then have "length (tw_tq tw1) \<le> n" "tw_pc tw1 = PcSelect" using Suc.prems tw1 by simp_all
    then obtain tw' where tw': "tw_process_n n px tw1 = Some (pq_drain n (tw_tq tw1), tw')" "tw_inv tw'" "tw_pc tw' = PcSelect"
      "tw_tq tw' = []" "length (tw_chans tw') = length (tw_chans tw1)"
      "\<forall>c<length (tw_chans tw1). tw_chans tw1 ! c \<noteq> [] \<longrightarrow> tw_chans tw' ! c = tw_chans tw1 ! c"
      "\<forall>tx \<in> set (pq_drain n (tw_tq tw1)). \<exists>c. tw_responsesChannels tw1 (tx_Nonce tx) = Some c
            \<and> tw_chans tw' ! c = [response_of (px_SendTransaction px tx)]"
      using Suc.IH [OF i1] by blast
    have later: "\<exists>k. tw_responsesChannels tw (tx_Nonce t) = Some k \<and> tw_chans tw' ! k = [response_of (px_SendTransaction px t)]"
      if "t \<in> set (pq_drain n q)" for t
      using tw'(7) that tw1 by (auto split: if_splits)
    have "tw_chans tw' ! c = [response_of (px_SendTransaction px tx)]" using tw'(6) c(2) by (simp add: tw1)
    moreover have "tw_chans tw' ! k = tw_chans tw ! k" if k: "k < length (tw_chans tw)" "tw_chans tw ! k \<noteq> []" for k
    proof -
      have "k \<noteq> c" using k(2) c(3) by auto
      then show ?thesis using tw'(6) k by (simp add: tw1)
    qed
    ultimately show ?thesis
      using tw'(1-5) pn p c(1) later by (simp add: tw1)
  qed
qed simp

section \<open>Properties\<close>



text \<open>C13. The worker never blocks: a popped transaction always has its channel, a response can always
  be delivered, and closing never waits for a receiver while it holds the mutex.\<close>

theorem worker_never_blocks:
  assumes "tw_reachable tw" and "go_range (tw_responsesChannels tw) ks"
  shows "case tw_pc tw of
     PcSelect \<Rightarrow> closeAllChannels e ks tw \<noteq> None \<and> processNextTransaction px tw \<noteq> None
   | PcPopped tx \<Rightarrow> fst (retrieveChannel (tx_Nonce tx) tw) \<noteq> None
   | PcSending tx c \<Rightarrow> chan_send c r tw \<noteq> None
   | PcStopped \<Rightarrow> tw_workerClosed tw"
proof -
  have inv: "tw_inv tw" by (rule tw_reachable_inv [OF assms(1)])
  show ?thesis
  proof (cases "tw_pc tw")
    case PcSelect
    moreover have "processNextTransaction px tw \<noteq> None"
      using processNext_ok [OF inv PcSelect, of px]
      by (cases "tw_tq tw = []") (auto simp: processNextTransaction_def nextTransaction_def tq_Len_def)
    ultimately show ?thesis using closeAllChannels_ok [OF inv PcSelect assms(2), of e] by auto
  next
    case (PcPopped tx)
    then show ?thesis using popped_registered [OF inv] by (simp add: retrieveChannel_def)
  next
    case (PcSending tx c)
    then have "c < length (tw_chans tw)" "waiting tw c" using tw_invD(6) [OF inv] by (auto simp: waiting_def)
    then show ?thesis using tw_invD(7) [OF inv, of c] PcSending by (simp add: chan_send_def)
  next
    case PcStopped
    then show ?thesis using tw_invD(8) [OF inv] by simp
  qed
qed

theorem worker_never_blocks_witness:
  "closeAllChannels EContextDone [] NewTransactionWorker \<noteq> None
   \<and> processNextTransaction (demo_proxy 0) NewTransactionWorker \<noteq> None"
  using worker_never_blocks [OF tw_reachable.init, of "[]" EContextDone "demo_proxy 0"]
  by (simp add: NewTransactionWorker_def)

text \<open>C5. Liveness of the worker: from any reachable idle state, as many rounds as there are queued
  transactions send all of them in ascending order of the nonces, empty the queue and put the
  answer of the proxy for each transaction on its own channel.\<close>

theorem worker_drains:
  assumes "tw_reachable tw" and "tw_pc tw = PcSelect"
  shows "\<exists>out tw'. tw_process_n (length (tw_tq tw)) px tw = Some (out, tw') \<and> tw_tq tw' = []
     \<and> mset out = tq_txs (tw_tq tw) \<and> sorted (map tx_Nonce out)
     \<and> (\<forall>tx \<in> set out. \<exists>c. tw_responsesChannels tw (tx_Nonce tx) = Some c
          \<and> tw_chans tw' ! c = [response_of (px_SendTransaction px tx)])"
proof -
  have inv: "tw_inv tw" by (rule tw_reachable_inv [OF assms(1)])
  have "size (tq_txs (tw_tq tw)) \<le> length (tw_tq tw)" by (simp add: tq_txs_def)
  from tx_queue.drain_spec [OF tw_invD(1) [OF inv] this]
  have "mset (pq_drain (length (tw_tq tw)) (tw_tq tw)) = tq_txs (tw_tq tw)"
    "sorted (map tx_Nonce (pq_drain (length (tw_tq tw)) (tw_tq tw)))" by (simp_all add: pq_drain_eq)
  with process_all [OF inv assms(2) le_refl, of px] show ?thesis by blast
qed

theorem worker_drains_witness:
  "let tw = snd (AddTransaction (zero_tx\<lparr>tx_Nonce := 3\<rparr>) (snd (AddTransaction (zero_tx\<lparr>tx_Nonce := 5\<rparr>) NewTransactionWorker)))
   in \<exists>out tw'. tw_process_n 2 (demo_proxy 0) tw = Some (out, tw') \<and> tw_tq tw' = [] \<and> sorted (map tx_Nonce out)"
proof -
  let ?a = "snd (AddTransaction (zero_tx\<lparr>tx_Nonce := 5\<rparr>) NewTransactionWorker)"
  let ?tw = "snd (AddTransaction (zero_tx\<lparr>tx_Nonce := 3\<rparr>) ?a)"
  have r: "tw_reachable ?tw"
    by (rule tw_reachable.step [OF tw_reachable.step [OF tw_reachable.init tw_step.add] tw_step.add])
  have "tw_pc ?tw = PcSelect" by (simp add: AddTransaction_def NewTransactionWorker_def Let_def)
  moreover have "length (tw_tq ?tw) = 2" by code_simp
  ultimately show ?thesis using worker_drains [OF r, of "demo_proxy 0"] by (auto simp: Let_def)
qed

end
