(* ===== verification/Nonce_V3.thy ===== *)
theory Nonce_V3
  imports Tx_Worker
begin

text \<open>
  \<^verbatim>\<open>interactors/nonceHandlerV3\<close>: nonces and gas prices for batches of transactions, with one
  worker per address that sends them. \<open>None\<close> as the result of an operation is a run-time panic.

  The transactions of a batch are pointers; the model works on the list of their values and a
  position in that list stands for the pointer, so the pointers of a batch are taken to be
  distinct. The order in which Go visits the map of senders is an argument.
\<close>

section \<open>The handler of one address\<close>

record anhV3 =
  a3_address :: address
  a3_nonce :: i64
  a3_gasPrice :: u64
  a3_transactionWorker :: TransactionWorker
  a3_cancelled :: bool

definition NewAddressNonceHandlerV3 :: "'p option \<Rightarrow> address option \<Rightarrow> anhV3 result" where
  "NewAddressNonceHandlerV3 proxy addr =
     (if Option.is_none proxy then Inl (EInteractors Interactors_ErrNilProxy)
      else case addr of
        None \<Rightarrow> Inl (EInteractors Interactors_ErrNilAddress)
      | Some a \<Rightarrow> Inr \<lparr>a3_address = a, a3_nonce = -1, a3_gasPrice = 0,
          a3_transactionWorker = NewTransactionWorker, a3_cancelled = False\<rparr>)"

definition computeNonce :: "Proxy \<Rightarrow> anhV3 \<Rightarrow> i64 result \<times> anhV3" where
  "computeNonce px anh =
     (if a3_nonce anh = -1 then
        (case px_GetAccount px (a3_address anh) of
           Inl err \<Rightarrow> (Inl (Errorf ''failed to fetch nonce: '' err []), anh)
         | Inr account \<Rightarrow>
             let anh' = anh\<lparr>a3_nonce := acc_Nonce account\<rparr> in (Inr (a3_nonce anh'), anh'))
      else
        let anh' = anh\<lparr>a3_nonce := a3_nonce anh + 1\<rparr> in (Inr (a3_nonce anh'), anh'))"

text \<open>When the network configuration cannot be fetched the error is logged and the nil configuration
  dereferenced.\<close>

definition applyGasPriceIfRequired ::
  "Proxy \<Rightarrow> FrontendTransaction \<Rightarrow> anhV3 \<Rightarrow> (FrontendTransaction \<times> anhV3) option" where
  "applyGasPriceIfRequired px tx anh =
     (case (if a3_gasPrice anh = 0
            then (case px_GetNetworkConfig px of Inl _ \<Rightarrow> None | Inr networkConfig \<Rightarrow> Some (nc_MinGasPrice networkConfig))
            else Some (a3_gasPrice anh)) of
        None \<Rightarrow> None
      | Some gasPrice \<Rightarrow>
          Some (tx\<lparr>tx_GasPrice := max gasPrice (tx_GasPrice tx)\<rparr>, anh\<lparr>a3_gasPrice := gasPrice\<rparr>))"

primrec a3_ApplyNonceAndGasPrice ::
  "Proxy \<Rightarrow> FrontendTransaction list \<Rightarrow> anhV3 \<Rightarrow> ((go_error option \<times> FrontendTransaction list) \<times> anhV3) option" where
  "a3_ApplyNonceAndGasPrice px [] anh = Some ((None, []), anh)"
| "a3_ApplyNonceAndGasPrice px (tx # txs) anh =
     (case computeNonce px anh of
        (Inl err, anh1) \<Rightarrow> Some ((Some (Errorf ''failed to fetch nonce: '' err []), tx # txs), anh1)
      | (Inr nonce, anh1) \<Rightarrow>
          (case applyGasPriceIfRequired px (tx\<lparr>tx_Nonce := nonce\<rparr>) anh1 of
             None \<Rightarrow> None
           | Some (tx', anh2) \<Rightarrow>
               map_option (\<lambda>((err, txs'), anh3). ((err, tx' # txs'), anh3)) (a3_ApplyNonceAndGasPrice px txs anh2)))"

definition adaptNonceBasedOnResponse :: "TransactionResponse \<Rightarrow> anhV3 \<Rightarrow> anhV3" where
  "adaptNonceBasedOnResponse response anh =
     (if tr_Error response \<noteq> None then anh\<lparr>a3_nonce := -1\<rparr> else anh)"

text \<open>
  \<^verbatim>\<open>SendTransaction\<close>. \<open>evolve\<close> is what happens to the worker between the submission and the moment
  the \<^verbatim>\<open>select\<close> fires; the context branch is taken when there is no response yet or, both being
  ready, when Go chooses it (\<open>ctxFirst\<close>).
\<close>

definition a3_SendTransaction ::
  "(TransactionWorker \<Rightarrow> TransactionWorker) \<Rightarrow> bool \<Rightarrow> FrontendTransaction \<Rightarrow> anhV3 \<Rightarrow> (string \<times> go_error option) \<times> anhV3" where
  "a3_SendTransaction evolve ctxFirst tx anh =
     (let (ch, tw) = AddTransaction tx (a3_transactionWorker anh);
          tw' = evolve tw;
          anh' = anh\<lparr>a3_transactionWorker := tw'\<rparr>
      in if ctxFirst \<or> tw_chans tw' ! ch = [] then (([], Some EContextDone), anh')
         else let response = hd (tw_chans tw' ! ch)
              in ((tr_TxHash response, tr_Error response), adaptNonceBasedOnResponse response anh'))"

definition a3_Close :: "anhV3 \<Rightarrow> anhV3" where
  "a3_Close anh = anh\<lparr>a3_cancelled := True\<rparr>"

section \<open>The handler of all addresses\<close>

record nthV3 =
  n3_handlers :: "string \<rightharpoonup> anhV3"
  n3_intervalToSend :: int

definition minimumIntervalToResendV3 :: int where "minimumIntervalToResendV3 = 1000000"

definition NewNonceTransactionHandlerV3 :: "'p option \<Rightarrow> int \<Rightarrow> nthV3 result" where
  "NewNonceTransactionHandlerV3 proxy intervalToSend =
     (if Option.is_none proxy then Inl (EInteractors Interactors_ErrNilProxy)
      else if intervalToSend < minimumIntervalToResendV3
      then Inl (Errorf [] (EInteractors Interactors_ErrInvalidValue)
             '' for intervalToSend in NewNonceTransactionHandlerV2'')
      else Inr \<lparr>n3_handlers = Map.empty, n3_intervalToSend = intervalToSend\<rparr>)"

definition n3_getAddressNonceHandler :: "address \<Rightarrow> nthV3 \<Rightarrow> anhV3 option" where
  "n3_getAddressNonceHandler a nt = n3_handlers nt (string_of_bytes (AddressBytes a))"

definition n3_createAddressNonceHandler :: "address \<Rightarrow> nthV3 \<Rightarrow> anhV3 result \<times> nthV3" where
  "n3_createAddressNonceHandler a nt =
     (let k = string_of_bytes (AddressBytes a)
      in case n3_handlers nt k of
           Some anh \<Rightarrow> (Inr anh, nt)
         | None \<Rightarrow> (case NewAddressNonceHandlerV3 (Some ()) (Some a) of
             Inl err \<Rightarrow> (Inl err, nt)
           | Inr anh \<Rightarrow> (Inr anh, nt\<lparr>n3_handlers := (n3_handlers nt)(k \<mapsto> anh)\<rparr>)))"

definition n3_getOrCreate :: "address \<Rightarrow> nthV3 \<Rightarrow> anhV3 result \<times> nthV3" where
  "n3_getOrCreate a nt = (case n3_getAddressNonceHandler a nt of
     Some anh \<Rightarrow> (Inr anh, nt)
   | None \<Rightarrow> n3_createAddressNonceHandler a nt)"

definition n3_write :: "address \<Rightarrow> anhV3 \<Rightarrow> nthV3 \<Rightarrow> nthV3" where
  "n3_write a anh nt = nt\<lparr>n3_handlers := (n3_handlers nt)(string_of_bytes (AddressBytes a) \<mapsto> anh)\<rparr>"

text \<open>\<^verbatim>\<open>filterTransactionsBySenderAddress\<close>: the positions of the transactions of each sender, in
  order. A nil transaction is dereferenced.\<close>

primrec filter_loop :: "nat \<Rightarrow> FrontendTransaction option list \<Rightarrow> (string \<rightharpoonup> nat list) \<Rightarrow> (string \<rightharpoonup> nat list) option" where
  "filter_loop i [] m = Some m"
| "filter_loop i (t # ts) m = (case t of
     None \<Rightarrow> None
   | Some tx \<Rightarrow>
       let transactionsPerAddress = (case m (tx_Sender tx) of None \<Rightarrow> [] | Some ps \<Rightarrow> ps)
       in filter_loop (Suc i) ts (m(tx_Sender tx \<mapsto> transactionsPerAddress @ [i])))"

definition filterTransactionsBySenderAddress :: "FrontendTransaction option list \<Rightarrow> (string \<rightharpoonup> nat list) option" where
  "filterTransactionsBySenderAddress ts = filter_loop 0 ts Map.empty"

text \<open>Writing the transactions of one sender back through their pointers.\<close>

definition write_back :: "nat list \<Rightarrow> FrontendTransaction list \<Rightarrow> FrontendTransaction list \<Rightarrow> FrontendTransaction list" where
  "write_back ps new txs = fold (\<lambda>(p, tx) txs. txs[p := tx]) (zip ps new) txs"

primrec n3_apply_loop ::
  "pubkey_converter \<Rightarrow> Proxy \<Rightarrow> (string \<rightharpoonup> nat list) \<Rightarrow> string list \<Rightarrow> FrontendTransaction list \<Rightarrow> nthV3
     \<Rightarrow> ((go_error option \<times> FrontendTransaction list) \<times> nthV3) option" where
  "n3_apply_loop pkc px m [] txs nt = Some ((None, txs), nt)"
| "n3_apply_loop pkc px m (s # ss) txs nt =
     (case NewAddressFromBech32String pkc s of
        Inl err \<Rightarrow> Some ((Some err, txs), nt)
      | Inr a \<Rightarrow> (case n3_getOrCreate a nt of
          (Inl err, nt1) \<Rightarrow> Some ((Some err, txs), nt1)
        | (Inr anh, nt1) \<Rightarrow>
            let ps = the (m s)
            in case a3_ApplyNonceAndGasPrice px (map (\<lambda>p. txs ! p) ps) anh of
                 None \<Rightarrow> None
               | Some ((err, new), anh') \<Rightarrow>
                   let txs' = write_back ps new txs; nt2 = n3_write a anh' nt1
                   in if err \<noteq> None then Some ((err, txs'), nt2)
                      else n3_apply_loop pkc px m ss txs' nt2))"

text \<open>The outer list option is the variadic slice, which is nil when there are no arguments.\<close>

definition n3_ApplyNonceAndGasPrice ::
  "pubkey_converter \<Rightarrow> Proxy \<Rightarrow> string list \<Rightarrow> FrontendTransaction option list option \<Rightarrow> nthV3
     \<Rightarrow> ((go_error option \<times> FrontendTransaction list) \<times> nthV3) option" where
  "n3_ApplyNonceAndGasPrice pkc px order ts nt = (case ts of
     None \<Rightarrow> Some ((Some (EInteractors Interactors_ErrNilTransaction), []), nt)
   | Some ts' \<Rightarrow> (case filterTransactionsBySenderAddress ts' of
       None \<Rightarrow> None
     | Some m \<Rightarrow> n3_apply_loop pkc px m order (map the ts') nt))"

text \<open>
  \<^verbatim>\<open>SendTransactions\<close>. The loop over the transactions registers the handlers and starts one goroutine
  per transaction; \<open>launch\<close> returns the goroutines started and the error of an early return.
\<close>

primrec launch ::
  "pubkey_converter \<Rightarrow> nat \<Rightarrow> FrontendTransaction option list \<Rightarrow> nthV3 \<Rightarrow>
     (nat \<times> address \<times> FrontendTransaction) list \<times> go_error option \<times> nthV3" where
  "launch pkc i [] nt = ([], None, nt)"
| "launch pkc i (t # ts) nt = (case t of
     None \<Rightarrow> ([], Some (EInteractors Interactors_ErrNilTransaction), nt)
   | Some txCopy \<Rightarrow> (case NewAddressFromBech32String pkc (tx_Sender txCopy) of
       Inl err \<Rightarrow> ([], Some (Errorf [] err ('' while creating address handler for string '' @ tx_Sender txCopy)), nt)
     | Inr a \<Rightarrow> (case n3_getOrCreate a nt of
         (Inl err, nt1) \<Rightarrow> ([], Some err, nt1)
       | (Inr anh, nt1) \<Rightarrow>
           let (gs, err, nt2) = launch pkc (Suc i) ts nt1 in ((i, a, txCopy) # gs, err, nt2))))"

text \<open>One goroutine: send through the handler of the address, remember the hash or the first error.\<close>

definition run_goroutine ::
  "(nat \<Rightarrow> TransactionWorker \<Rightarrow> TransactionWorker) \<Rightarrow> (nat \<Rightarrow> bool) \<Rightarrow> nat \<times> address \<times> FrontendTransaction
     \<Rightarrow> string list \<times> go_error option \<times> nthV3 \<Rightarrow> string list \<times> go_error option \<times> nthV3" where
  "run_goroutine evolve ctxFirst g st =
     (let (i, a, tx) = g; (hashes, gerr, nt) = st
      in case n3_handlers nt (string_of_bytes (AddressBytes a)) of
           None \<Rightarrow> st
         | Some anh \<Rightarrow>
             (case a3_SendTransaction (evolve i) (ctxFirst i) tx anh of
                ((sentHash, Some err), anh') \<Rightarrow>
                  (hashes,
                   (if gerr = None then Some (Errorf [] err ('' while sending transaction for address '' @ tx_Sender tx)) else gerr),
                   n3_write a anh' nt)
              | ((sentHash, None), anh') \<Rightarrow> (hashes[i := sentHash], gerr, n3_write a anh' nt)))"

text \<open>\<open>order\<close> is a permutation of the started goroutines: the order in which they finish.\<close>

definition n3_SendTransactions ::
  "pubkey_converter \<Rightarrow> (nat \<Rightarrow> TransactionWorker \<Rightarrow> TransactionWorker) \<Rightarrow> (nat \<Rightarrow> bool) \<Rightarrow>
     ((nat \<times> address \<times> FrontendTransaction) list \<Rightarrow> (nat \<times> address \<times> FrontendTransaction) list) \<Rightarrow>
     FrontendTransaction option list \<Rightarrow> nthV3 \<Rightarrow> (string list option \<times> go_error option) \<times> nthV3" where
  "n3_SendTransactions pkc evolve ctxFirst order ts nt =
     (let (gs, early, nt1) = launch pkc 0 ts nt;
          (hashes, gerr, nt2) = fold (run_goroutine evolve ctxFirst) (order gs) (replicate (length ts) [], None, nt1)
      in if early \<noteq> None then ((None, early), nt2) else ((Some hashes, gerr), nt2))"

definition n3_Close :: "nthV3 \<Rightarrow> nthV3" where
  "n3_Close nt = nt\<lparr>n3_handlers := (\<lambda>k. map_option a3_Close (n3_handlers nt k))\<rparr>"

section \<open>Interfaces\<close>

definition n3_get :: "address \<Rightarrow> nthV3 \<Rightarrow> anhV3 \<times> nthV3" where
  "n3_get a nt = (projr (fst (n3_getOrCreate a nt)), snd (n3_getOrCreate a nt))"

lemma n3_getOrCreate_total: "n3_getOrCreate a nt = (Inr (fst (n3_get a nt)), snd (n3_get a nt))"
  by (simp add: n3_get_def n3_getOrCreate_def n3_createAddressNonceHandler_def n3_getAddressNonceHandler_def
      NewAddressNonceHandlerV3_def Let_def split: option.split)

interpretation v3_registry: handler_registry n3_handlers n3_get n3_write
  by unfold_locales
    (simp_all add: n3_get_def n3_getOrCreate_def n3_createAddressNonceHandler_def n3_getAddressNonceHandler_def
      NewAddressNonceHandlerV3_def n3_write_def AddressBytes_def Let_def split: option.split)

section \<open>Specification\<close>

text \<open>The first nonce and the gas price that a batch gets, if they are available.\<close>

definition first_nonce :: "Proxy \<Rightarrow> anhV3 \<Rightarrow> u64 result" where
  "first_nonce px anh = (if a3_nonce anh = -1
     then (case px_GetAccount px (a3_address anh) of Inl e \<Rightarrow> Inl e | Inr acc \<Rightarrow> Inr (acc_Nonce acc))
     else Inr (a3_nonce anh + 1))"

definition batch_price :: "Proxy \<Rightarrow> anhV3 \<Rightarrow> u64 option" where
  "batch_price px anh = (if a3_gasPrice anh = 0
     then (case px_GetNetworkConfig px of Inl _ \<Rightarrow> None | Inr cfg \<Rightarrow> Some (nc_MinGasPrice cfg))
     else Some (a3_gasPrice anh))"

definition numbered :: "u64 \<Rightarrow> u64 \<Rightarrow> FrontendTransaction list \<Rightarrow> FrontendTransaction list" where
  "numbered base price txs = map (\<lambda>(j, tx). tx\<lparr>tx_Nonce := base + of_nat j, tx_GasPrice := max price (tx_GasPrice tx)\<rparr>)
     (zip [0..<length txs] txs)"

definition positions :: "FrontendTransaction option list \<Rightarrow> string \<Rightarrow> nat list" where
  "positions ts s = filter (\<lambda>i. tx_Sender (the (ts ! i)) = s) [0..<length ts]"

text \<open>Appending positions to a group that may not exist yet.\<close>

definition extend :: "nat list option \<Rightarrow> nat list \<Rightarrow> nat list option" where
  "extend g ps = (if ps = [] then g else Some ((case g of None \<Rightarrow> [] | Some qs \<Rightarrow> qs) @ ps))"

section \<open>Lemmas\<close>

lemma numbered_Cons:
  "numbered base price (tx # txs) =
     tx\<lparr>tx_Nonce := base, tx_GasPrice := max price (tx_GasPrice tx)\<rparr> # numbered (base + 1) price txs"
proof -
  have "zip [0..<Suc (length txs)] (tx # txs) = (0, tx) # map (\<lambda>(j, t). (Suc j, t)) (zip [0..<length txs] txs)"
    by (simp add: upt_conv_Cons zip_map1 map_Suc_upt [symmetric] del: upt_Suc)
  then show ?thesis
    by (simp add: numbered_def case_prod_beta add.assoc comp_def del: upt_Suc)
qed

lemma computeNonce_eq:
  "computeNonce px anh = (case first_nonce px anh of
     Inl e \<Rightarrow> (Inl (Errorf ''failed to fetch nonce: '' e []), anh)
   | Inr n \<Rightarrow> (Inr n, anh\<lparr>a3_nonce := n\<rparr>))"
  by (simp add: computeNonce_def first_nonce_def Let_def split: sum.split)

lemma applyGasPrice_eq:
  "applyGasPriceIfRequired px tx anh =
     map_option (\<lambda>g. (tx\<lparr>tx_GasPrice := max g (tx_GasPrice tx)\<rparr>, anh\<lparr>a3_gasPrice := g\<rparr>)) (batch_price px anh)"
  by (simp add: applyGasPriceIfRequired_def batch_price_def split: sum.split)

lemma batch_price_stable:
  "batch_price px anh = Some g \<Longrightarrow> batch_price px (anh\<lparr>a3_nonce := n, a3_gasPrice := g\<rparr>) = Some g"
  by (auto simp: batch_price_def split: if_splits sum.splits)

lemma batch_price_nonce [simp]: "batch_price px (anh\<lparr>a3_nonce := n\<rparr>) = batch_price px anh"
  by (simp add: batch_price_def)

lemma not_minus_one: "unat (base :: u64) + 1 < 2 ^ 64 \<Longrightarrow> base \<noteq> -1"
  by (auto simp: unsigned_minus_1_eq_mask mask_eq_exp_minus_1)

lemma a3_apply_eq:
  "txs \<noteq> [] \<Longrightarrow> first_nonce px anh = Inr base \<Longrightarrow> batch_price px anh = Some g \<Longrightarrow> unat base + length txs < 2 ^ 64 \<Longrightarrow>
     a3_ApplyNonceAndGasPrice px txs anh =
       Some ((None, numbered base g txs), anh\<lparr>a3_nonce := base + of_nat (length txs - 1), a3_gasPrice := g\<rparr>)"
proof (induction txs arbitrary: anh base)
  case (Cons tx txs)
  let ?anh = "anh\<lparr>a3_nonce := base, a3_gasPrice := g\<rparr>"
  have step: "a3_ApplyNonceAndGasPrice px (tx # txs) anh =
      map_option (\<lambda>((err, txs'), anh3). ((err, tx\<lparr>tx_Nonce := base, tx_GasPrice := max g (tx_GasPrice tx)\<rparr> # txs'), anh3))
        (a3_ApplyNonceAndGasPrice px txs ?anh)"
    using Cons.prems by (simp add: computeNonce_eq applyGasPrice_eq)
  show ?case
  proof (cases "txs = []")
    case True
    then show ?thesis using step by (simp add: numbered_Cons) (simp add: numbered_def)
  next
    case False
    then obtain n where n: "length txs = Suc n" by (cases txs) auto
    have "base \<noteq> -1" using Cons.prems(4) n by (intro not_minus_one) simp
    then have "first_nonce px ?anh = Inr (base + 1)" by (simp add: first_nonce_def)
    moreover have "unat (base + 1) = unat base + 1"
      using Cons.prems(4) n by (simp add: unat_word_ariths)
    ultimately have "a3_ApplyNonceAndGasPrice px txs ?anh =
       Some ((None, numbered (base + 1) g txs), ?anh\<lparr>a3_nonce := (base + 1) + of_nat (length txs - 1), a3_gasPrice := g\<rparr>)"
      using Cons.IH [OF False, of ?anh "base + 1"] batch_price_stable [OF Cons.prems(3)] Cons.prems(4) n by simp
    then show ?thesis using step n by (simp add: numbered_Cons add.assoc)
  qed
qed simp

lemma positions_Cons:
  "positions (t # ts) s = (if tx_Sender (the t) = s then [0] else []) @ map Suc (positions ts s)"
  by (simp add: positions_def upt_conv_Cons map_Suc_upt [symmetric] filter_map comp_def del: upt_Suc)

lemma filter_loop_spec:
  "filter_loop i ts m = (if None \<in> set ts then None
     else Some (\<lambda>s. extend (m s) (map ((+) i) (positions ts s))))"
proof (induction ts arbitrary: i m)
  case Nil
  show ?case by (simp add: positions_def extend_def)
next
  case (Cons t ts)
  show ?case
  proof (cases t)
    case (Some tx)
    have sh: "map ((+) i) (map Suc P) = map ((+) (Suc i)) P" for P by simp
    have "extend ((m(tx_Sender tx \<mapsto> (case m (tx_Sender tx) of None \<Rightarrow> [] | Some ps \<Rightarrow> ps) @ [i])) s) (map ((+) (Suc i)) (positions ts s))
        = extend (m s) (map ((+) i) (positions (t # ts) s))" for s
      unfolding positions_Cons map_append sh using Some by (auto simp: extend_def)
    with Some show ?thesis by (simp add: Cons)
  qed simp
qed

lemma filter_spec:
  "filterTransactionsBySenderAddress ts = (if None \<in> set ts then None
     else Some (\<lambda>s. if positions ts s = [] then None else Some (positions ts s)))"
proof -
  have z: "map ((+) 0) P = P" for P :: "nat list" by (induction P) simp_all
  show ?thesis
    unfolding filterTransactionsBySenderAddress_def filter_loop_spec z by (auto simp: extend_def fun_eq_iff)
qed

section \<open>Properties\<close>



text \<open>When the worker answers with an error, the cached nonce is invalidated: the next batch
  starts again at the nonce of the account.\<close>

lemma a3_error_resets_nonce:
  assumes "a3_SendTransaction evolve ctxFirst tx anh = ((h, Some e), anh')" and "e \<noteq> EContextDone"
    and "px_GetAccount px (a3_address anh) = Inr acc"
  shows "first_nonce px anh' = Inr (acc_Nonce acc)"
  using assms
  by (auto simp: a3_SendTransaction_def adaptNonceBasedOnResponse_def first_nonce_def Let_def split: prod.splits if_splits)

lemma a3_error_resets_nonce_example:
  "let anh = \<lparr>a3_address = \<lparr>addr_bytes = []\<rparr>, a3_nonce = 8, a3_gasPrice = 1,
        a3_transactionWorker = NewTransactionWorker\<lparr>tw_workerClosed := True\<rparr>, a3_cancelled = False\<rparr>
   in first_nonce (demo_proxy 4) (snd (a3_SendTransaction id False zero_tx anh)) = Inr 4"
proof -
  let ?anh = "\<lparr>a3_address = \<lparr>addr_bytes = []\<rparr>, a3_nonce = 8, a3_gasPrice = 1,
        a3_transactionWorker = NewTransactionWorker\<lparr>tw_workerClosed := True\<rparr>, a3_cancelled = False\<rparr>"
  let ?anh' = "snd (a3_SendTransaction id False zero_tx ?anh)"
  have "a3_SendTransaction id False zero_tx ?anh = (([], Some (EInteractors Interactors_ErrWorkerClosed)), ?anh')"
    by (simp add: a3_SendTransaction_def AddTransaction_def NewTransactionWorker_def Let_def)
  from a3_error_resets_nonce [OF this, of "demo_proxy 4" "demo_account_of 4"] show ?thesis
    unfolding Let_def by simp
qed

text \<open>Grouping a batch by sender panics exactly when it contains a nil transaction, and otherwise
  partitions it: the group of a sender lists the positions of its transactions in their order, and
  senders without transactions have no group.\<close>

lemma filter_partitions:
  "filterTransactionsBySenderAddress ts = (if None \<in> set ts then None
     else Some (\<lambda>s. if \<exists>tx. Some tx \<in> set ts \<and> tx_Sender tx = s
       then Some (filter (\<lambda>i. tx_Sender (the (ts ! i)) = s) [0..<length ts]) else None))"
proof (cases "None \<in> set ts")
  case False
  have "positions ts s = [] \<longleftrightarrow> \<not> (\<exists>tx. Some tx \<in> set ts \<and> tx_Sender tx = s)" for s
  proof -
    have "positions ts s = [] \<longleftrightarrow> (\<forall>i<length ts. tx_Sender (the (ts ! i)) \<noteq> s)"
      by (auto simp: positions_def filter_empty_conv)
    also have "\<dots> \<longleftrightarrow> (\<forall>t \<in> set ts. tx_Sender (the t) \<noteq> s)" by (auto simp: all_set_conv_all_nth)
    also have "\<dots> \<longleftrightarrow> \<not> (\<exists>tx. Some tx \<in> set ts \<and> tx_Sender tx = s)"
      using False by (metis option.exhaust_sel option.sel)
    finally show ?thesis .
  qed
  then show ?thesis
    using False by (simp add: filter_spec) (simp add: positions_def fun_eq_iff)
qed (simp add: filter_spec)

end
