(* ===== verification/Tx_Interactor.thy ===== *)
theory Tx_Interactor
  imports Interactors_Base
begin

text \<open>
  \<^verbatim>\<open>interactors/transaction.go\<close>: the accumulator of transactions and its sending in bunches. The
  proxy answers differently for every bunch, so the sending loop takes one proxy per bunch; it
  returns the bunches that were handed to the proxy beside its result.
\<close>

record transactionInteractor =
  ti_timeBetweenBunches :: int
  ti_txAccumulator :: "FrontendTransaction list"

definition NewTransactionInteractor :: "'p option \<Rightarrow> 'b option \<Rightarrow> transactionInteractor result" where
  "NewTransactionInteractor proxy txBuilder =
     (if Option.is_none proxy then Inl (EInteractors Interactors_ErrNilProxy)
      else if Option.is_none txBuilder then Inl (EInteractors Interactors_ErrNilTxBuilder)
      else Inr \<lparr>ti_timeBetweenBunches = 1000000000, ti_txAccumulator = []\<rparr>)"

definition SetTimeBetweenBunches :: "int \<Rightarrow> transactionInteractor \<Rightarrow> transactionInteractor" where
  "SetTimeBetweenBunches t ti = ti\<lparr>ti_timeBetweenBunches := t\<rparr>"

definition ti_AddTransaction :: "FrontendTransaction option \<Rightarrow> transactionInteractor \<Rightarrow> transactionInteractor" where
  "ti_AddTransaction tx ti = (case tx of
     None \<Rightarrow> ti
   | Some t \<Rightarrow> ti\<lparr>ti_txAccumulator := ti_txAccumulator ti @ [t]\<rparr>)"

definition PopAccumulatedTransactions :: "transactionInteractor \<Rightarrow> FrontendTransaction list \<times> transactionInteractor" where
  "PopAccumulatedTransactions ti = (ti_txAccumulator ti, ti\<lparr>ti_txAccumulator := []\<rparr>)"

text \<open>The loop of \<^verbatim>\<open>SendTransactionsAsBunch\<close>. The caller has excluded a bunch size of zero.\<close>

function bunch_loop ::
  "nat \<Rightarrow> (nat \<Rightarrow> Proxy) \<Rightarrow> nat \<Rightarrow> FrontendTransaction list \<Rightarrow> string list
     \<Rightarrow> string list result \<times> FrontendTransaction list list" where
  "bunch_loop bunchSize pxs bunchIndex txs allHashes =
     (if txs = [] \<or> bunchSize = 0 then (Inr allHashes, [])
      else
        let (bunch, rest) = (if length txs > bunchSize then (take bunchSize txs, drop bunchSize txs) else (txs, []))
        in case px_SendTransactions (pxs bunchIndex) bunch of
             Inl err \<Rightarrow> (Inl err, [bunch])
           | Inr hashes \<Rightarrow>
               let (r, bunches) = bunch_loop bunchSize pxs (Suc bunchIndex) rest (allHashes @ hashes)
               in (r, bunch # bunches))"
  by pat_completeness auto
termination
  by (relation "measure (\<lambda>(n, pxs, i, txs, hs). length txs)") (auto split: if_splits)

declare bunch_loop.simps [simp del]

definition SendTransactionsAsBunch ::
  "(nat \<Rightarrow> Proxy) \<Rightarrow> int \<Rightarrow> transactionInteractor \<Rightarrow>
     string list result \<times> FrontendTransaction list list \<times> transactionInteractor" where
  "SendTransactionsAsBunch pxs bunchSize ti =
     (if bunchSize \<le> 0 then (Inl (EInteractors Interactors_ErrInvalidValue), [], ti)
      else
        let (transactions, ti') = PopAccumulatedTransactions ti;
            (r, bunches) = bunch_loop (nat bunchSize) pxs 0 transactions []
        in (r, bunches, ti'))"

section \<open>Lemmas\<close>

lemma bunch_loop_ok:
  assumes "bunch_loop n pxs i txs hs = (Inr r, bs)" and "0 < n"
  shows "concat bs = txs \<and> (\<forall>b \<in> set bs. b \<noteq> [] \<and> length b \<le> n) \<and>
    (\<exists>rs. r = hs @ concat rs \<and> length rs = length bs \<and>
       (\<forall>k<length bs. px_SendTransactions (pxs (i + k)) (bs ! k) = Inr (rs ! k)))"
  using assms
proof (induction n pxs i txs hs arbitrary: bs rule: bunch_loop.induct)
  case (1 n pxs i txs hs)
  show ?case
  proof (cases "txs = []")
    case True
    with "1.prems" show ?thesis by (simp add: bunch_loop.simps [of n pxs i "[]" hs])
  next
    case False
    define bunch where "bunch = take n txs"
    define rest where "rest = drop n txs"
    have br: "(if length txs > n then (take n txs, drop n txs) else (txs, [])) = (bunch, rest)"
      by (simp add: bunch_def rest_def)
    from "1.prems" False br obtain hashes bs' where h: "px_SendTransactions (pxs i) bunch = Inr hashes"
      and l: "bunch_loop n pxs (Suc i) rest (hs @ hashes) = (Inr r, bs')" and bs: "bs = bunch # bs'"
      by (auto simp: bunch_loop.simps [of n pxs i txs hs] Let_def split: sum.splits prod.splits)
    have nd: "\<not> (txs = [] \<or> n = 0)" using False "1.prems"(2) by simp
    obtain rs where IH: "concat bs' = rest" "\<forall>b \<in> set bs'. b \<noteq> [] \<and> length b \<le> n" "r = (hs @ hashes) @ concat rs"
      "length rs = length bs'" "\<forall>k<length bs'. px_SendTransactions (pxs (Suc i + k)) (bs' ! k) = Inr (rs ! k)"
      using "1.IH" [OF nd br [symmetric] refl h l "1.prems"(2)] by auto
    have "\<forall>k<length bs. px_SendTransactions (pxs (i + k)) (bs ! k) = Inr ((hashes # rs) ! k)"
      using h IH(5) by (auto simp: bs nth_Cons split: nat.split)
    moreover have "bunch \<noteq> []" "length bunch \<le> n" "bunch @ rest = txs"
      using False "1.prems"(2) by (simp_all add: bunch_def rest_def)
    ultimately show ?thesis
      using IH by (auto simp: bs intro!: exI [of _ "hashes # rs"])
  qed
qed

lemma bunch_loop_prefix:
  assumes "bunch_loop n pxs i txs hs = (r, bs)" and "0 < n"
  shows "\<exists>rest. txs = concat bs @ rest \<and> (\<forall>h. r = Inr h \<longrightarrow> rest = [])"
  using assms
proof (induction n pxs i txs hs arbitrary: bs rule: bunch_loop.induct)
  case (1 n pxs i txs hs)
  show ?case
  proof (cases "txs = []")
    case True
    with "1.prems" show ?thesis by (simp add: bunch_loop.simps [of n pxs i "[]" hs])
  next
    case False
    have nd: "\<not> (txs = [] \<or> n = 0)" using False "1.prems"(2) by simp
    have br: "(if length txs > n then (take n txs, drop n txs) else (txs, [])) = (take n txs, drop n txs)" by simp
    show ?thesis
    proof (cases "px_SendTransactions (pxs i) (take n txs)")
      case (Inl e)
      with "1.prems" False br show ?thesis
        by (auto simp: bunch_loop.simps [of n pxs i txs hs] intro!: exI [of _ "drop n txs"])
    next
      case (Inr hashes)
      obtain r' bs' where l: "bunch_loop n pxs (Suc i) (drop n txs) (hs @ hashes) = (r', bs')" by fastforce
      have rb: "r = r'" "bs = take n txs # bs'"
        using "1.prems" False br Inr l by (auto simp: bunch_loop.simps [of n pxs i txs hs])
      from "1.IH" [OF nd br [symmetric] refl Inr _ "1.prems"(2)] l rb
      obtain rest where "drop n txs = concat bs' @ rest" "\<forall>h. r = Inr h \<longrightarrow> rest = []" by blast
      then show ?thesis using rb by (metis append.assoc append_take_drop_id concat.simps(2))
    qed
  qed
qed

section \<open>Properties\<close>

text \<open>A successful bunch send hands over exactly the accumulated transactions, in order, in
  non-empty bunches of at most the given size, returns the hashes of all bunches in order and
  leaves an empty accumulator.\<close>

lemma SendTransactionsAsBunch_ok:
  assumes "SendTransactionsAsBunch pxs bunchSize ti = (Inr hashes, bunches, ti')"
  shows "0 < bunchSize \<and> concat bunches = ti_txAccumulator ti \<and> ti_txAccumulator ti' = []
    \<and> (\<forall>b \<in> set bunches. b \<noteq> [] \<and> int (length b) \<le> bunchSize)
    \<and> (\<exists>rs. hashes = concat rs \<and> length rs = length bunches \<and>
         (\<forall>k<length bunches. px_SendTransactions (pxs k) (bunches ! k) = Inr (rs ! k)))"
proof -
  have bs: "0 < bunchSize" and l: "bunch_loop (nat bunchSize) pxs 0 (ti_txAccumulator ti) [] = (Inr hashes, bunches)"
    and t: "ti' = ti\<lparr>ti_txAccumulator := []\<rparr>"
    using assms
    by (auto simp: SendTransactionsAsBunch_def PopAccumulatedTransactions_def Let_def split: if_splits prod.splits)
  from bunch_loop_ok [OF l] bs t show ?thesis by auto
qed

lemma SendTransactionsAsBunch_ok_example:
  "\<exists>hashes bunches ti'. SendTransactionsAsBunch (\<lambda>_. demo_proxy 0) 2
       \<lparr>ti_timeBetweenBunches = 0, ti_txAccumulator = [zero_tx, zero_tx, zero_tx]\<rparr> = (Inr hashes, bunches, ti')
     \<and> concat bunches = [zero_tx, zero_tx, zero_tx]"
proof -
  let ?ti = "\<lparr>ti_timeBetweenBunches = 0, ti_txAccumulator = [zero_tx, zero_tx, zero_tx]\<rparr>"
  have "\<exists>hashes bunches ti'. SendTransactionsAsBunch (\<lambda>_. demo_proxy 0) 2 ?ti = (Inr hashes, bunches, ti')"
    by (simp add: SendTransactionsAsBunch_def PopAccumulatedTransactions_def bunch_loop.simps)
  then obtain hashes bunches ti' where r: "SendTransactionsAsBunch (\<lambda>_. demo_proxy 0) 2 ?ti = (Inr hashes, bunches, ti')"
    by blast
  with SendTransactionsAsBunch_ok [OF r] show ?thesis by simp
qed

text \<open>When a bunch fails, the transactions of the bunches before it and of the failing one were
  handed over and all remaining ones are lost: they are neither sent nor left in the accumulator,
  and the hashes already received are not returned.\<close>

lemma SendTransactionsAsBunch_failure_loses:
  assumes "SendTransactionsAsBunch pxs bunchSize ti = (Inl err, bunches, ti')" and "0 < bunchSize"
  shows "ti_txAccumulator ti' = [] \<and> (\<exists>lost. ti_txAccumulator ti = concat bunches @ lost)"
  using assms bunch_loop_prefix [of "nat bunchSize" pxs 0 "ti_txAccumulator ti" "[]"]
  by (auto simp: SendTransactionsAsBunch_def PopAccumulatedTransactions_def Let_def split: prod.splits)

lemma SendTransactionsAsBunch_failure_loses_example:
  "let ti = \<lparr>ti_timeBetweenBunches = 0, ti_txAccumulator = [zero_tx, zero_tx]\<rparr>;
       px = (demo_proxy 0)\<lparr>px_SendTransactions := (\<lambda>_. Inl (EExternal ''down''))\<rparr>;
       (r, bunches, ti') = SendTransactionsAsBunch (\<lambda>_. px) 1 ti
   in bunches = [[zero_tx]] \<and> ti_txAccumulator ti' = []"
proof -
  let ?ti = "\<lparr>ti_timeBetweenBunches = 0, ti_txAccumulator = [zero_tx, zero_tx]\<rparr>"
  let ?px = "(demo_proxy 0)\<lparr>px_SendTransactions := (\<lambda>_. Inl (EExternal ''down''))\<rparr>"
  have r: "SendTransactionsAsBunch (\<lambda>_. ?px) 1 ?ti = (Inl (EExternal ''down''), [[zero_tx]], ?ti\<lparr>ti_txAccumulator := []\<rparr>)"
    by (simp add: SendTransactionsAsBunch_def PopAccumulatedTransactions_def bunch_loop.simps)
  from SendTransactionsAsBunch_failure_loses [OF r] show ?thesis by (simp add: r)
qed

end
