(* ===== verification/Http_Base.thy ===== *)
theory Http_Base
  imports Go_Encoding
begin

text \<open>
  The HTTP client wrapper of \<^verbatim>\<open>core/http/clientWrapper.go\<close> and the status errors of the packages
  \<^verbatim>\<open>authentication\<close> and \<^verbatim>\<open>blockchain\<close>. The transport (\<^verbatim>\<open>http.Client.Do\<close>) and the validation of
  request URLs in \<^verbatim>\<open>http.NewRequestWithContext\<close> are fields of \<open>http_transport\<close>. A response carries
  its status and what reading its body gives: the bytes read and the error that stopped the read.
\<close>

section \<open>Transport\<close>

record http_request =
  rq_method :: string
  rq_url :: string
  rq_body :: "byte list option"
  rq_header :: "string \<rightharpoonup> string"

record http_response =
  rs_StatusCode :: int
  rs_body :: "byte list"
  rs_readErr :: "go_error option"

record http_transport =
  ht_CheckURL :: "string \<Rightarrow> go_error option"
  ht_Do :: "http_request \<Rightarrow> http_response result"

definition StatusOK :: int where "StatusOK = 200"
definition StatusBadRequest :: int where "StatusBadRequest = 400"

text \<open>\<^verbatim>\<open>http.StatusText\<close>, empty for an unknown code.\<close>

definition StatusText :: "int \<Rightarrow> string" where
  "StatusText code = (case map_of
     [(100, ''Continue''), (101, ''Switching Protocols''), (102, ''Processing''), (103, ''Early Hints''),
      (200, ''OK''), (201, ''Created''), (202, ''Accepted''), (203, ''Non-Authoritative Information''),
      (204, ''No Content''), (205, ''Reset Content''), (206, ''Partial Content''), (207, ''Multi-Status''),
      (208, ''Already Reported''), (226, ''IM Used''), (300, ''Multiple Choices''), (301, ''Moved Permanently''),
      (302, ''Found''), (303, ''See Other''), (304, ''Not Modified''), (305, ''Use Proxy''),
      (307, ''Temporary Redirect''), (308, ''Permanent Redirect''), (400, ''Bad Request''), (401, ''Unauthorized''),
      (402, ''Payment Required''), (403, ''Forbidden''), (404, ''Not Found''), (405, ''Method Not Allowed''),
      (406, ''Not Acceptable''), (407, ''Proxy Authentication Required''), (408, ''Request Timeout''),
      (409, ''Conflict''), (410, ''Gone''), (411, ''Length Required''), (412, ''Precondition Failed''),
      (413, ''Request Entity Too Large''), (414, ''Request URI Too Long''), (415, ''Unsupported Media Type''),
      (416, ''Requested Range Not Satisfiable''), (417, ''Expectation Failed''), (418, ''I'' @ [CHR 0x27] @ ''m a teapot''),
      (421, ''Misdirected Request''), (422, ''Unprocessable Entity''), (423, ''Locked''), (424, ''Failed Dependency''),
      (425, ''Too Early''), (426, ''Upgrade Required''), (428, ''Precondition Required''), (429, ''Too Many Requests''),
      (431, ''Request Header Fields Too Large''), (451, ''Unavailable For Legal Reasons''),
      (500, ''Internal Server Error''), (501, ''Not Implemented''), (502, ''Bad Gateway''), (503, ''Service Unavailable''),
      (504, ''Gateway Timeout''), (505, ''HTTP Version Not Supported''), (506, ''Variant Also Negotiates''),
      (507, ''Insufficient Storage''), (508, ''Loop Detected''), (510, ''Not Extended''),
      (511, ''Network Authentication Required'')] code of None \<Rightarrow> [] | Some t \<Rightarrow> t)"

section \<open>Status errors\<close>

definition http_error_suffix :: "int \<Rightarrow> string" where
  "http_error_suffix code = '', returned http status: '' @ dec_of_int code @ '', '' @ StatusText code"

definition auth_CreateHTTPStatusError :: "int \<Rightarrow> go_error option \<Rightarrow> go_error" where
  "auth_CreateHTTPStatusError code err =
     Errorf [] (case err of None \<Rightarrow> EAuthentication Authentication_ErrHTTPStatusCodeIsNotOK | Some e \<Rightarrow> e) (http_error_suffix code)"

definition createHTTPStatusError :: "int \<Rightarrow> go_error option \<Rightarrow> go_error" where
  "createHTTPStatusError code err =
     Errorf [] (case err of None \<Rightarrow> EBlockchain Blockchain_ErrHTTPStatusCodeIsNotOK | Some e \<Rightarrow> e) (http_error_suffix code)"

section \<open>Client wrapper\<close>

record clientWrapper =
  cw_url :: string
  cw_client :: http_transport

text \<open>The first argument is \<^verbatim>\<open>http.DefaultClient\<close>.\<close>

definition NewHttpClientWrapper :: "http_transport \<Rightarrow> http_transport option \<Rightarrow> string \<Rightarrow> clientWrapper" where
  "NewHttpClientWrapper defaultClient client url =
     \<lparr>cw_url = url, cw_client = (case client of None \<Rightarrow> defaultClient | Some c \<Rightarrow> c)\<rparr>"

definition applyGetHeaderParams :: "http_request \<Rightarrow> http_request" where
  "applyGetHeaderParams request = request\<lparr>rq_header := (rq_header request)
     (''Accept'' \<mapsto> ''application/json'', ''User-Agent'' \<mapsto> ''MultiversX/1.0.1 (GO SDK tools)'')\<rparr>"

definition applyPostHeaderParams :: "http_request \<Rightarrow> http_request" where
  "applyPostHeaderParams request =
     (let request' = applyGetHeaderParams request
      in request'\<lparr>rq_header := (rq_header request')(''Content-Type'' \<mapsto> ''application/json'')\<rparr>)"

type_synonym http_result = "byte list \<times> int \<times> go_error option"

definition GetHTTP :: "clientWrapper \<Rightarrow> string \<Rightarrow> http_result" where
  "GetHTTP w endpoint =
     (let url = cw_url w @ ''/'' @ endpoint
      in case ht_CheckURL (cw_client w) url of
           Some err \<Rightarrow> ([], StatusBadRequest, Some err)
         | None \<Rightarrow>
             (case ht_Do (cw_client w) (applyGetHeaderParams
                     \<lparr>rq_method = ''GET'', rq_url = url, rq_body = None, rq_header = Map.empty\<rparr>) of
                Inl err \<Rightarrow> ([], StatusBadRequest, Some err)
              | Inr response \<Rightarrow>
                  (case rs_readErr response of
                     Some err \<Rightarrow> ([], rs_StatusCode response, Some err)
                   | None \<Rightarrow> (rs_body response, rs_StatusCode response, None))))"

definition PostHTTP :: "clientWrapper \<Rightarrow> string \<Rightarrow> byte list \<Rightarrow> http_result" where
  "PostHTTP w endpoint payload =
     (let url = cw_url w @ ''/'' @ endpoint
      in case ht_CheckURL (cw_client w) url of
           Some err \<Rightarrow> ([], StatusBadRequest, Some err)
         | None \<Rightarrow>
             (case ht_Do (cw_client w) (applyPostHeaderParams
                     \<lparr>rq_method = ''POST'', rq_url = url, rq_body = Some payload, rq_header = Map.empty\<rparr>) of
                Inl err \<Rightarrow> ([], StatusBadRequest, Some err)
              | Inr response \<Rightarrow> (rs_body response, rs_StatusCode response, rs_readErr response)))"

text \<open>The interface that the proxies and the authentication server call.\<close>

record http_iface =
  hi_Get :: "string \<Rightarrow> http_result"
  hi_Post :: "string \<Rightarrow> byte list \<Rightarrow> http_result"

definition wrapper_iface :: "clientWrapper \<Rightarrow> http_iface" where
  "wrapper_iface w = \<lparr>hi_Get = GetHTTP w, hi_Post = PostHTTP w\<rparr>"

section \<open>Lemmas\<close>

lemma createHTTPStatusError_is:
  "errors_is (createHTTPStatusError code None) (EBlockchain Blockchain_ErrHTTPStatusCodeIsNotOK)"
  "errors_is (createHTTPStatusError code (Some e)) e"
  by (simp_all add: createHTTPStatusError_def)

lemma auth_CreateHTTPStatusError_is:
  "errors_is (auth_CreateHTTPStatusError code None) (EAuthentication Authentication_ErrHTTPStatusCodeIsNotOK)"
  "errors_is (auth_CreateHTTPStatusError code (Some e)) e"
  by (simp_all add: auth_CreateHTTPStatusError_def)

text \<open>Whatever the transport does, a body is returned without error only for a complete read.\<close>

lemma GetHTTP_ok:
  assumes "GetHTTP w endpoint = (body, code, None)"
  shows "\<exists>rq rs. ht_Do (cw_client w) rq = Inr rs \<and> rq_method rq = ''GET'' \<and> rq_url rq = cw_url w @ ''/'' @ endpoint
    \<and> rs_body rs = body \<and> rs_StatusCode rs = code \<and> rs_readErr rs = None"
  using assms
  by (auto simp: GetHTTP_def Let_def applyGetHeaderParams_def split: option.splits sum.splits
      intro!: exI [of _ "\<lparr>rq_method = ''GET'', rq_url = _, rq_body = None, rq_header = _\<rparr>"])

end
