(* ===== verification/Native_Auth.thy ===== *)
theory Native_Auth
  imports Tx_Builder Http_Base Map_Cacher
begin

text \<open>
  \<^verbatim>\<open>authentication/native\<close>: the token and its text format (\<^verbatim>\<open>token.go\<close>, \<^verbatim>\<open>tokenHandler.go\<close>), the
  client that creates signed tokens (\<^verbatim>\<open>client.go\<close>) and the server that validates them
  (\<^verbatim>\<open>server.go\<close>). Instants are integers, in nanoseconds; a run-time panic is \<open>None\<close>. The server
  works with any \<^verbatim>\<open>storage.Cacher\<close>: its operations are arguments, and the contract \<open>cacher\<close> of
  \<open>Map_Cacher\<close> says what it relies on. The key generator's \<^verbatim>\<open>PublicKeyFromByteArray\<close>, the JSON
  decoding of a block and the proxy are arguments as well.
\<close>

section \<open>Token\<close>

record AuthToken =
  at_ttl :: i64
  at_address :: "byte list"
  at_host :: "byte list"
  at_extraInfo :: "byte list"
  at_signature :: "byte list"
  at_blockHash :: string

section \<open>Token handler\<close>

definition decodeHandler :: "string \<Rightarrow> byte list result" where
  "decodeHandler source0 =
     (let source1 = replace_all source0 (CHR ''-'') (CHR ''+'');
          source2 = replace_all source1 (CHR ''_'') (CHR ''/'');
          source3 = trim_right source2 (CHR ''='')
      in b64_RawDecodeString source3)"

definition encodeHandler :: "byte list \<Rightarrow> string" where
  "encodeHandler source =
     (let encoded0 = b64_EncodeToString source;
          encoded1 = replace_all encoded0 (CHR ''+'') (CHR ''-'');
          encoded2 = replace_all encoded1 (CHR ''/'') (CHR ''_'')
      in trim_right encoded2 (CHR ''=''))"

definition GetUnsignedToken :: "AuthToken \<Rightarrow> byte list" where
  "GetUnsignedToken token =
     (let encodedExtraInfo = encodeHandler (at_extraInfo token);
          encodedHost = encodeHandler (at_host token)
      in bytes_of_string (encodedHost @ ''.'' @ at_blockHash token @ ''.'' @ dec_of_int (sint (at_ttl token)) @ ''.'' @ encodedExtraInfo))"

definition GetSignableMessage :: "byte list \<Rightarrow> byte list \<Rightarrow> byte list" where
  "GetSignableMessage addr unsignedToken = addr @ unsignedToken"

definition GetSignableMessageLegacy :: "byte list \<Rightarrow> byte list \<Rightarrow> byte list" where
  "GetSignableMessageLegacy addr unsignedToken = addr @ unsignedToken @ bytes_of_string ''{}''"

definition Encode :: "AuthToken \<Rightarrow> string result" where
  "Encode token =
     (if length (at_signature token) = 0 then Inl (EAuthentication Authentication_ErrNilSignature)
      else
        let encodedAddress = encodeHandler (at_address token)
        in if length encodedAddress = 0 then Inl (EAuthentication Authentication_ErrNilAddress)
           else
             let encodedToken = encodeHandler (GetUnsignedToken token)
             in if length encodedToken = 0 then Inl (EAuthentication Authentication_ErrNilBody)
                else Inr (encodedAddress @ ''.'' @ encodedToken @ ''.'' @ hex_EncodeToString (at_signature token)))"

text \<open>The indexed reads of the split strings panic when there are too few parts. An error ends the
  function with \<open>Some (Inl err)\<close>.\<close>

definition on_part :: "string list \<Rightarrow> nat \<Rightarrow> (string \<Rightarrow> 'a result) \<Rightarrow> ('a \<Rightarrow> 'b result option) \<Rightarrow> 'b result option" where
  "on_part strs i f k = (case go_index strs i of
     None \<Rightarrow> None
   | Some s \<Rightarrow> (case f s of Inl err \<Rightarrow> Some (Inl err) | Inr x \<Rightarrow> k x))"

definition Decode :: "string \<Rightarrow> AuthToken result option" where
  "Decode accessToken =
     (let strs = split_on (CHR ''.'') accessToken
      in on_part strs 0 decodeHandler (\<lambda>addr.
         on_part strs 1 decodeHandler (\<lambda>body.
         on_part strs 2 hex_DecodeString (\<lambda>signature.
         let strs' = split_on (CHR ''.'') (string_of_bytes body)
         in on_part strs' 0 decodeHandler (\<lambda>host.
            on_part strs' 1 Inr (\<lambda>blockHash.
            on_part strs' 2 parse_int64 (\<lambda>ttl.
            on_part strs' 3 decodeHandler (\<lambda>extraInfo.
            Some (Inr \<lparr>at_ttl = ttl, at_address = addr, at_host = host, at_extraInfo = extraInfo,
              at_signature = signature, at_blockHash = blockHash\<rparr>)))))))))"

section \<open>Client\<close>

record HyperBlockProxy =
  hbp_GetLatestHyperBlockNonce :: "u64 result"
  hbp_GetHyperBlockHashByNonce :: "u64 \<Rightarrow> string result"   \<comment> \<open>the field \<^verbatim>\<open>Hash\<close> of the hyper block\<close>

record ('sk, 'pk) authClient =
  nac_signer :: "('sk, 'pk) Signer"
  nac_extraInfo :: "byte list"
  nac_holder :: "('sk, 'pk) cryptoComponentsHolder"
  nac_tokenExpiryInSeconds :: i64
  nac_host :: "byte list"
  nac_token :: string
  nac_tokenExpire :: "int option"   \<comment> \<open>\<open>None\<close>: the zero time\<close>

definition NewNativeAuthClient ::
  "('sk, 'pk) Signer option \<Rightarrow> byte list result \<Rightarrow> 'p option \<Rightarrow> 'th option \<Rightarrow> ('sk, 'pk) cryptoComponentsHolder option
     \<Rightarrow> i64 \<Rightarrow> string \<Rightarrow> ('sk, 'pk) authClient result" where
  "NewNativeAuthClient signer extraInfoJson proxy tokenHandler holder expiry host =
     (case signer of
        None \<Rightarrow> Inl (EAuthentication Authentication_ErrNilSigner)
      | Some sg \<Rightarrow> (case extraInfoJson of
          Inl err \<Rightarrow> Inl (Errorf [] err '' while marshaling args.extraInfo'')
        | Inr extraInfoBytes \<Rightarrow>
            if Option.is_none proxy then Inl (EWorkflows Workflows_ErrNilProxy)
            else if Option.is_none tokenHandler then Inl (EAuthentication Authentication_ErrNilTokenHandler)
            else case holder of
              None \<Rightarrow> Inl (EAuthentication Authentication_ErrNilCryptoComponentsHolder)
            | Some h \<Rightarrow> Inr \<lparr>nac_signer = sg, nac_extraInfo = extraInfoBytes, nac_holder = h,
                nac_tokenExpiryInSeconds = expiry, nac_host = bytes_of_string host, nac_token = [], nac_tokenExpire = None\<rparr>))"

text \<open>\<open>now\<close> is the answer of the call of \<^verbatim>\<open>getTimeHandler\<close> at the end; the expiry is added to it as a
  \<^verbatim>\<open>time.Duration\<close>, that is in nanoseconds.\<close>

definition createNewToken ::
  "HyperBlockProxy \<Rightarrow> int \<Rightarrow> ('sk, 'pk) authClient \<Rightarrow> go_error option \<times> ('sk, 'pk) authClient" where
  "createNewToken hbp now nac = (case hbp_GetLatestHyperBlockNonce hbp of
     Inl err \<Rightarrow> (Some err, nac)
   | Inr nonce \<Rightarrow> (case hbp_GetHyperBlockHashByNonce hbp nonce of
       Inl err \<Rightarrow> (Some err, nac)
     | Inr blockHash \<Rightarrow>
         let token = \<lparr>at_ttl = nac_tokenExpiryInSeconds nac, at_address = bytes_of_string (cch_bech32Address (nac_holder nac)),
               at_host = nac_host nac, at_extraInfo = nac_extraInfo nac, at_signature = [], at_blockHash = blockHash\<rparr>;
             unsignedToken = GetUnsignedToken token;
             signableMessage = GetSignableMessage (at_address token) unsignedToken
         in case sg_SignMessage (nac_signer nac) signableMessage (cch_privateKey (nac_holder nac)) of
              Inl err \<Rightarrow> (Some err, nac)
            | Inr sig \<Rightarrow> (case Encode (token\<lparr>at_signature := sig\<rparr>) of
                Inl err \<Rightarrow> (Some err, nac\<lparr>nac_token := []\<rparr>)
              | Inr text \<Rightarrow> (None, nac\<lparr>nac_token := text, nac_tokenExpire := Some (now + sint (nac_tokenExpiryInSeconds nac))\<rparr>))))"

definition GetAccessToken ::
  "HyperBlockProxy \<Rightarrow> int \<Rightarrow> int \<Rightarrow> ('sk, 'pk) authClient \<Rightarrow> string result \<times> ('sk, 'pk) authClient" where
  "GetAccessToken hbp now now' nac =
     (if (case nac_tokenExpire nac of None \<Rightarrow> True | Some e \<Rightarrow> now > e) then
        (case createNewToken hbp now' nac of
           (Some err, nac') \<Rightarrow> (Inl err, nac')
         | (None, nac') \<Rightarrow> (Inr (nac_token nac'), nac'))
      else (Inr (nac_token nac), nac))"

section \<open>Server\<close>

datatype cached_value = CachedInt64 i64 | CachedOther string   \<comment> \<open>another type, with its \<^verbatim>\<open>%v\<close> form\<close>

record ('sk, 'pk, 'c) authServer =
  srv_http :: http_iface
  srv_signer :: "('sk, 'pk) Signer"
  srv_PublicKeyFromByteArray :: "byte list \<Rightarrow> 'pk result"
  srv_pkc :: pubkey_converter
  srv_cacher :: 'c

text \<open>The errors for a nil key generator and a nil converter come from libraries.\<close>

definition checkArgs ::
  "'h option \<Rightarrow> 'sg option \<Rightarrow> 'kg option \<Rightarrow> 'pkc option \<Rightarrow> 'th option \<Rightarrow> 'c option \<Rightarrow> go_error option" where
  "checkArgs httpClientWrapper signer keyGenerator pubKeyConverter tokenHandler timestampsCacher =
     (if Option.is_none httpClientWrapper then Some (EAuthentication Authentication_ErrNilHttpClientWrapper)
      else if Option.is_none signer then Some (EAuthentication Authentication_ErrNilSigner)
      else if Option.is_none keyGenerator then Some (EExternal ''crypto.ErrNilKeyGenerator'')
      else if Option.is_none pubKeyConverter then Some (EExternal ''core.ErrNilPubkeyConverter'')
      else if Option.is_none tokenHandler then Some (EAuthentication Authentication_ErrNilTokenHandler)
      else if Option.is_none timestampsCacher then Some (EAuthentication Authentication_ErrNilCacher)
      else None)"

definition NewNativeAuthServer ::
  "http_iface option \<Rightarrow> ('sk, 'pk) Signer option \<Rightarrow> (byte list \<Rightarrow> 'pk result) option \<Rightarrow> pubkey_converter option
     \<Rightarrow> 'th option \<Rightarrow> 'c option \<Rightarrow> ('sk, 'pk, 'c) authServer result" where
  "NewNativeAuthServer httpClientWrapper signer keyGenerator pubKeyConverter tokenHandler timestampsCacher =
     (case checkArgs httpClientWrapper signer keyGenerator pubKeyConverter tokenHandler timestampsCacher of
        Some err \<Rightarrow> Inl err
      | None \<Rightarrow> Inr \<lparr>srv_http = the httpClientWrapper, srv_signer = the signer,
          srv_PublicKeyFromByteArray = the keyGenerator, srv_pkc = the pubKeyConverter, srv_cacher = the timestampsCacher\<rparr>)"

text \<open>\<open>unmarshal\<close> is the timestamp that \<^verbatim>\<open>json.Unmarshal\<close> puts into the block.\<close>

definition getBlockByHash ::
  "(byte list \<Rightarrow> i64 result) \<Rightarrow> ('sk, 'pk, 'c) authServer \<Rightarrow> string \<Rightarrow> i64 result" where
  "getBlockByHash unmarshal srv hash =
     (let (buff, code, err) = hi_Get (srv_http srv) (''blocks/'' @ hash)
      in if err \<noteq> None \<or> code \<noteq> StatusOK then Inl (auth_CreateHTTPStatusError code err)
         else unmarshal buff)"

definition getBlockTimestamp ::
  "('c \<Rightarrow> byte list \<Rightarrow> cached_value option) \<Rightarrow> (byte list \<Rightarrow> cached_value \<Rightarrow> 'c \<Rightarrow> 'c) \<Rightarrow> (byte list \<Rightarrow> i64 result)
     \<Rightarrow> ('sk, 'pk, 'c) authServer \<Rightarrow> string \<Rightarrow> i64 result \<times> ('sk, 'pk, 'c) authServer" where
  "getBlockTimestamp cget cput unmarshal srv blockHash = (case cget (srv_cacher srv) (bytes_of_string blockHash) of
     Some (CachedInt64 timestamp) \<Rightarrow> (Inr timestamp, srv)
   | Some (CachedOther v) \<Rightarrow>
       (Inl (Errorf [] (EAuthentication Authentication_ErrInvalidValue) ('' while casting timestamp value: '' @ v)), srv)
   | None \<Rightarrow> (case getBlockByHash unmarshal srv blockHash of
       Inl err \<Rightarrow> (Inl err, srv)
     | Inr intTimestamp \<Rightarrow>
         (Inr intTimestamp, srv\<lparr>srv_cacher := cput (bytes_of_string blockHash) (CachedInt64 intTimestamp) (srv_cacher srv)\<rparr>)))"

definition validateExpiration ::
  "('c \<Rightarrow> byte list \<Rightarrow> cached_value option) \<Rightarrow> (byte list \<Rightarrow> cached_value \<Rightarrow> 'c \<Rightarrow> 'c) \<Rightarrow> (byte list \<Rightarrow> i64 result)
     \<Rightarrow> int \<Rightarrow> AuthToken \<Rightarrow> ('sk, 'pk, 'c) authServer \<Rightarrow> go_error option \<times> ('sk, 'pk, 'c) authServer" where
  "validateExpiration cget cput unmarshal now token srv =
     (case getBlockTimestamp cget cput unmarshal srv (at_blockHash token) of
        (Inl err, srv') \<Rightarrow> (Some err, srv')
      | (Inr timestamp, srv') \<Rightarrow>
          let expireTime = timestamp + at_ttl token;
              isTokenExpired = now > sint expireTime * 1000000000
          in if isTokenExpired then (Some (EAuthentication Authentication_ErrTokenExpired), srv') else (None, srv'))"

definition validateSignature :: "AuthToken \<Rightarrow> ('sk, 'pk, 'c) authServer \<Rightarrow> go_error option" where
  "validateSignature token srv = (case pkc_Decode (srv_pkc srv) (string_of_bytes (at_address token)) of
     Inl err \<Rightarrow> Some err
   | Inr addr \<Rightarrow> (case srv_PublicKeyFromByteArray srv addr of
       Inl err \<Rightarrow> Some err
     | Inr pubkey \<Rightarrow>
         let unsignedToken = GetUnsignedToken token;
             signableMessage = GetSignableMessage (at_address token) unsignedToken
         in case sg_VerifyMessage (srv_signer srv) signableMessage pubkey (at_signature token) of
              None \<Rightarrow> None
            | Some _ \<Rightarrow> sg_VerifyMessage (srv_signer srv) (GetSignableMessageLegacy (at_address token) unsignedToken) pubkey (at_signature token)))"

definition Validate ::
  "('c \<Rightarrow> byte list \<Rightarrow> cached_value option) \<Rightarrow> (byte list \<Rightarrow> cached_value \<Rightarrow> 'c \<Rightarrow> 'c) \<Rightarrow> (byte list \<Rightarrow> i64 result)
     \<Rightarrow> int \<Rightarrow> AuthToken \<Rightarrow> ('sk, 'pk, 'c) authServer \<Rightarrow> go_error option \<times> ('sk, 'pk, 'c) authServer" where
  "Validate cget cput unmarshal now token srv =
     (case validateExpiration cget cput unmarshal now token srv of
        (Some err, srv') \<Rightarrow> (Some err, srv')
      | (None, srv') \<Rightarrow> (validateSignature token srv', srv'))"

text \<open>A sequence of validations.\<close>

primrec validate_all ::
  "('c \<Rightarrow> byte list \<Rightarrow> cached_value option) \<Rightarrow> (byte list \<Rightarrow> cached_value \<Rightarrow> 'c \<Rightarrow> 'c) \<Rightarrow> (byte list \<Rightarrow> i64 result)
     \<Rightarrow> (int \<times> AuthToken) list \<Rightarrow> ('sk, 'pk, 'c) authServer \<Rightarrow> ('sk, 'pk, 'c) authServer" where
  "validate_all cget cput unmarshal [] srv = srv"
| "validate_all cget cput unmarshal (t # ts) srv =
     validate_all cget cput unmarshal ts (snd (Validate cget cput unmarshal (fst t) (snd t) srv))"

section \<open>A concrete client and server\<close>

definition demo_hbp :: HyperBlockProxy where
  "demo_hbp = \<lparr>hbp_GetLatestHyperBlockNonce = Inr 9, hbp_GetHyperBlockHashByNonce = (\<lambda>_. Inr ''ab'')\<rparr>"

definition demo_client :: "(byte list, byte list) authClient" where
  "demo_client = \<lparr>nac_signer = NewSigner demo_env, nac_extraInfo = [123, 125], nac_holder = demo_holder 7,
     nac_tokenExpiryInSeconds = 60, nac_host = [104], nac_token = [], nac_tokenExpire = None\<rparr>"

definition demo_http :: http_iface where
  "demo_http = \<lparr>hi_Get = (\<lambda>_. ([3, 232], StatusOK, None)), hi_Post = (\<lambda>_ _. ([], StatusOK, None))\<rparr>"

definition demo_unmarshal :: "byte list \<Rightarrow> i64 result" where
  "demo_unmarshal buff = (if buff = [3, 232] then Inr 1000 else Inl (EExternal ''json''))"

definition demo_server :: "(byte list, byte list, (cached_value, unit) mapCacher) authServer" where
  "demo_server = \<lparr>srv_http = demo_http, srv_signer = NewSigner demo_env, srv_PublicKeyFromByteArray = Inr,
     srv_pkc = hex_converter, srv_cacher = NewMapCacher\<rparr>"

lemma demo_parts:
  "nac_signer demo_client = NewSigner demo_env" "nac_holder demo_client = demo_holder 7"
  "hbp_GetLatestHyperBlockNonce demo_hbp = Inr 9" "hbp_GetHyperBlockHashByNonce demo_hbp 9 = Inr ''ab''"
  "srv_signer demo_server = NewSigner demo_env" "srv_pkc demo_server = env_pkc demo_env"
  by (simp_all add: demo_client_def demo_hbp_def demo_server_def demo_env_def)

section \<open>Lemmas: the text format\<close>

lemma b64_val_dash: "b64_val (CHR ''-'') = None" "b64_val (CHR ''_'') = None" "b64_val (CHR ''='') = None"
  "b64_val (CHR ''.'') = None"
  by (simp_all add: b64_val_def)

definition url_char :: "char \<Rightarrow> char" where
  "url_char c = (if c = CHR ''+'' then CHR ''-'' else if c = CHR ''/'' then CHR ''_'' else c)"

definition std_char :: "char \<Rightarrow> char" where
  "std_char c = (if c = CHR ''-'' then CHR ''+'' else if c = CHR ''_'' then CHR ''/'' else c)"

lemma trim_right_map:
  assumes "\<And>x. f x = c \<longleftrightarrow> x = c"
  shows "trim_right (map f s) c = map f (trim_right s c)"
proof -
  have "((\<lambda>x. x = c) \<circ> f) = (\<lambda>x. x = c)" using assms by (simp add: comp_def)
  then show ?thesis by (simp add: trim_right_def rev_map dropWhile_map)
qed

lemma encodeHandler_eq: "encodeHandler bs = map (url_char \<circ> b64_char) (b64_of_bytes bs)"
proof -
  have "replace_all (replace_all s (CHR ''+'') (CHR ''-'')) (CHR ''/'') (CHR ''_'') = map url_char s" for s
    by (simp add: replace_all_def comp_def url_char_def)
  moreover have "url_char x = CHR ''='' \<longleftrightarrow> x = CHR ''=''" for x by (simp add: url_char_def)
  ultimately show ?thesis
    by (simp add: encodeHandler_def Let_def trim_right_map trim_right_b64)
qed

lemma std_url_b64: "n < 64 \<Longrightarrow> std_char (url_char (b64_char n)) = b64_char n"
  using b64_val_dash(1,2) by (auto simp: std_char_def url_char_def)

lemma decode_encodeHandler [simp]: "decodeHandler (encodeHandler bs) = Inr bs"
proof -
  have "replace_all (replace_all s (CHR ''-'') (CHR ''+'')) (CHR ''_'') (CHR ''/'') = map std_char s" for s
    by (simp add: replace_all_def comp_def std_char_def)
  moreover have "map std_char (encodeHandler bs) = map b64_char (b64_of_bytes bs)"
    using b64_of_bytes_bound by (auto simp: encodeHandler_eq std_url_b64)
  moreover have "CHR ''='' \<notin> set (map b64_char (b64_of_bytes bs))"
    using b64_of_bytes_bound b64_val_dash(3) by fastforce
  then have "trim_right (map b64_char (b64_of_bytes bs)) (CHR ''='') = map b64_char (b64_of_bytes bs)"
    using trim_right_replicate [of _ _ 0] by fastforce
  ultimately show ?thesis
    by (simp add: decodeHandler_def Let_def b64_RawDecode_chars)
qed

lemma encodeHandler_no_dot [simp]: "CHR ''.'' \<notin> set (encodeHandler bs)"
proof
  assume "CHR ''.'' \<in> set (encodeHandler bs)"
  then obtain n where n: "n \<in> set (b64_of_bytes bs)" "CHR ''.'' = url_char (b64_char n)" by (auto simp: encodeHandler_eq)
  have "b64_char n \<noteq> CHR ''.''" using b64_of_bytes_bound [OF n(1)] b64_val_dash(4) by simp
  with n(2) show False by (auto simp: url_char_def split: if_splits)
qed

lemma dec_of_int_no_dot [simp]: "CHR ''.'' \<notin> set (dec_of_int i)"
proof -
  have "digit_val (CHR ''.'') = None" by (simp add: digit_val_def)
  then show ?thesis by (simp add: dec_of_int_def)
qed

lemma dot_not_hex [simp]: "hex_val (CHR ''.'') = None"
  by (simp add: hex_val_def)

lemma split_token:
  assumes "CHR ''.'' \<notin> set a" and "CHR ''.'' \<notin> set b" and "CHR ''.'' \<notin> set c"
  shows "split_on (CHR ''.'') (a @ ''.'' @ b @ ''.'' @ c) = [a, b, c]"
  using split_on_Join [of "[a, b, c]" "CHR ''.''"] assms by simp

lemma split_body:
  assumes "CHR ''.'' \<notin> set a" and "CHR ''.'' \<notin> set b" and "CHR ''.'' \<notin> set c" and "CHR ''.'' \<notin> set d"
  shows "split_on (CHR ''.'') (a @ ''.'' @ b @ ''.'' @ c @ ''.'' @ d) = [a, b, c, d]"
  using split_on_Join [of "[a, b, c, d]" "CHR ''.''"] assms by simp

lemma Decode_Encode:
  assumes "Encode token = Inr s" and "CHR ''.'' \<notin> set (at_blockHash token)"
  shows "Decode s = Some (Inr token)"
proof -
  have s: "s = encodeHandler (at_address token) @ ''.'' @ encodeHandler (GetUnsignedToken token) @ ''.'' @ hex_EncodeToString (at_signature token)"
    using assms(1) by (auto simp: Encode_def Let_def split: if_splits)
  have "split_on (CHR ''.'') s = [encodeHandler (at_address token), encodeHandler (GetUnsignedToken token), hex_EncodeToString (at_signature token)]"
    unfolding s by (rule split_token) simp_all
  moreover have "split_on (CHR ''.'') (string_of_bytes (GetUnsignedToken token)) =
      [encodeHandler (at_host token), at_blockHash token, dec_of_int (sint (at_ttl token)), encodeHandler (at_extraInfo token)]"
    using split_body [of "encodeHandler (at_host token)" "at_blockHash token" "dec_of_int (sint (at_ttl token))" "encodeHandler (at_extraInfo token)"] assms(2)
    by (simp add: GetUnsignedToken_def Let_def del: bytes_of_string_append)
  ultimately show ?thesis
    by (simp add: Decode_def on_part_def go_index_def Let_def)
qed

section \<open>Lemmas: client and server\<close>

lemma GetUnsignedToken_signature [simp]: "GetUnsignedToken (t\<lparr>at_signature := s\<rparr>) = GetUnsignedToken t"
  by (simp add: GetUnsignedToken_def)

lemma createNewToken_ok:
  assumes "createNewToken hbp now nac = (None, nac')"
  shows "\<exists>token sig. Encode token = Inr (nac_token nac') \<and> at_signature token = sig
    \<and> sg_SignMessage (nac_signer nac) (GetSignableMessage (at_address token) (GetUnsignedToken token)) (cch_privateKey (nac_holder nac)) = Inr sig
    \<and> at_address token = bytes_of_string (cch_bech32Address (nac_holder nac)) \<and> at_ttl token = nac_tokenExpiryInSeconds nac
    \<and> (\<exists>n. hbp_GetLatestHyperBlockNonce hbp = Inr n \<and> hbp_GetHyperBlockHashByNonce hbp n = Inr (at_blockHash token))
    \<and> nac_tokenExpire nac' = Some (now + sint (nac_tokenExpiryInSeconds nac))"
proof -
  obtain n bh where hb: "hbp_GetLatestHyperBlockNonce hbp = Inr n" "hbp_GetHyperBlockHashByNonce hbp n = Inr bh"
    using assms by (auto simp: createNewToken_def split: sum.splits)
  let ?t = "\<lparr>at_ttl = nac_tokenExpiryInSeconds nac, at_address = bytes_of_string (cch_bech32Address (nac_holder nac)),
     at_host = nac_host nac, at_extraInfo = nac_extraInfo nac, at_signature = [], at_blockHash = bh\<rparr>"
  obtain sig enc where st: "sg_SignMessage (nac_signer nac) (GetSignableMessage (at_address ?t) (GetUnsignedToken ?t)) (cch_privateKey (nac_holder nac)) = Inr sig"
    "Encode (?t\<lparr>at_signature := sig\<rparr>) = Inr enc"
    "nac' = nac\<lparr>nac_token := enc, nac_tokenExpire := Some (now + sint (nac_tokenExpiryInSeconds nac))\<rparr>"
    using assms hb by (auto simp: createNewToken_def Let_def split: sum.splits)
  have "GetUnsignedToken (?t\<lparr>at_signature := sig\<rparr>) = GetUnsignedToken ?t" by (rule GetUnsignedToken_signature)
  with st hb show ?thesis
    by (intro exI [of _ "?t\<lparr>at_signature := sig\<rparr>"] exI [of _ sig]) simp
qed

lemma SignMessage_verifies:
  "sig_law env \<Longrightarrow> SignMessage env msg sk = Inr s \<Longrightarrow> VerifyMessage env msg (sk_GeneratePublic env sk) s = None"
  by (simp add: SignMessage_def VerifyMessage_def SignByteSlice_def sig_law_def)

text \<open>The timestamp a server uses for a block, from the cache or fetched.\<close>

lemma getBlockTimestamp_srv:
  "getBlockTimestamp cget cput um srv h = (r, srv') \<Longrightarrow>
     srv_signer srv' = srv_signer srv \<and> srv_pkc srv' = srv_pkc srv \<and> srv_http srv' = srv_http srv
     \<and> srv_PublicKeyFromByteArray srv' = srv_PublicKeyFromByteArray srv"
  by (auto simp: getBlockTimestamp_def split: option.splits cached_value.splits sum.splits)

lemma validateExpiration_exact:
  assumes "getBlockTimestamp cget cput um srv (at_blockHash token) = (Inr ts, srv')"
  shows "validateExpiration cget cput um now token srv =
    (if now > sint (ts + at_ttl token) * 1000000000 then Some (EAuthentication Authentication_ErrTokenExpired) else None, srv')"
  using assms by (simp add: validateExpiration_def Let_def)

text \<open>With any cacher that satisfies the contract, the cache only holds timestamps that the service
  reported: this is shown once for the contract and then used for the map cacher.\<close>

definition reported :: "(byte list \<Rightarrow> i64 result) \<Rightarrow> http_iface \<Rightarrow> byte list \<Rightarrow> cached_value \<Rightarrow> bool" where
  "reported um http k v \<longleftrightarrow> (\<exists>buff ts. hi_Get http (''blocks/'' @ string_of_bytes k) = (buff, StatusOK, None)
     \<and> um buff = Inr ts \<and> v = CachedInt64 ts)"

lemma getBlockByHash_ok:
  "getBlockByHash um srv h = Inr ts \<Longrightarrow> reported um (srv_http srv) (bytes_of_string h) (CachedInt64 ts)"
  by (auto simp: getBlockByHash_def reported_def split: prod.splits if_splits)

lemma map_cacher_timestamp_sound:
  assumes "map_cacher.sound (reported um (srv_http srv)) (srv_cacher srv)"
    and "getBlockTimestamp mc_Get mc_store um srv h = (r, srv')"
  shows "map_cacher.sound (reported um (srv_http srv)) (srv_cacher srv')
    \<and> (\<forall>ts. r = Inr ts \<longrightarrow> reported um (srv_http srv) (bytes_of_string h) (CachedInt64 ts))"
proof (cases "mc_Get (srv_cacher srv) (bytes_of_string h)")
  case None
  show ?thesis
  proof (cases "getBlockByHash um srv h")
    case (Inl e)
    with None assms show ?thesis by (auto simp: getBlockTimestamp_def)
  next
    case (Inr ts)
    from map_cacher.sound_put [OF assms(1) getBlockByHash_ok [OF Inr]] getBlockByHash_ok [OF Inr] None Inr assms(2)
    show ?thesis by (auto simp: getBlockTimestamp_def)
  qed
next
  case (Some v)
  with assms map_cacher.sound_get [OF assms(1) Some] show ?thesis
    by (auto simp: getBlockTimestamp_def split: cached_value.splits)
qed

lemma Validate_srv:
  assumes "map_cacher.sound (reported um (srv_http srv)) (srv_cacher srv)"
  shows "map_cacher.sound (reported um (srv_http srv)) (srv_cacher (snd (Validate mc_Get mc_store um now t srv)))
    \<and> srv_http (snd (Validate mc_Get mc_store um now t srv)) = srv_http srv"
proof -
  obtain r srv' where g: "getBlockTimestamp mc_Get mc_store um srv (at_blockHash t) = (r, srv')" by fastforce
  have "snd (Validate mc_Get mc_store um now t srv) = srv'"
    using g by (auto simp: Validate_def validateExpiration_def Let_def split: sum.splits)
  with map_cacher_timestamp_sound [OF assms g] getBlockTimestamp_srv [OF g] show ?thesis by simp
qed

lemma validate_all_sound:
  "map_cacher.sound (reported um (srv_http srv)) (srv_cacher srv) \<Longrightarrow>
     map_cacher.sound (reported um (srv_http srv)) (srv_cacher (validate_all mc_Get mc_store um ts srv))
     \<and> srv_http (validate_all mc_Get mc_store um ts srv) = srv_http srv"
proof (induction ts arbitrary: srv)
  case (Cons t ts)
  let ?srv = "snd (Validate mc_Get mc_store um (fst t) (snd t) srv)"
  have h: "srv_http ?srv = srv_http srv" and s: "map_cacher.sound (reported um (srv_http ?srv)) (srv_cacher ?srv)"
    using Validate_srv [OF Cons.prems, of "fst t" "snd t"] by auto
  from Cons.IH [OF s] h show ?case by simp
qed simp

section \<open>Properties\<close>

text \<open>C18. Decoding inverts encoding: every token that can be encoded and whose block hash contains no
  separator is decoded to itself, including any bytes in the host and the extra information and
  negative times to live.\<close>

theorem token_roundtrip:
  assumes "Encode token = Inr s" and "CHR ''.'' \<notin> set (at_blockHash token)"
  shows "Decode s = Some (Inr token)"
  by (rule Decode_Encode [OF assms])

theorem token_roundtrip_witness:
  "let token = \<lparr>at_ttl = -5, at_address = [1, 2], at_host = [250], at_extraInfo = [], at_signature = [3], at_blockHash = ''ab''\<rparr>
   in \<exists>s. Encode token = Inr s \<and> Decode s = Some (Inr token)"
proof -
  let ?token = "\<lparr>at_ttl = -5, at_address = [1, 2], at_host = [250], at_extraInfo = [], at_signature = [3], at_blockHash = ''ab''\<rparr>"
  have "case Encode ?token of Inl _ \<Rightarrow> False | Inr _ \<Rightarrow> True" by code_simp
  then obtain s where "Encode ?token = Inr s" by (cases "Encode ?token") auto
  with token_roundtrip [OF this] show ?thesis by auto
qed

text \<open>\<^verbatim>\<open>Decode\<close> indexes the parts of the token without counting them: a text with fewer than three
  parts panics as soon as the parts it has are well formed.\<close>

lemma Decode_panics:
  assumes "CHR ''.'' \<notin> set a" and "decodeHandler a = Inr x"
  shows "Decode a = None \<and> (\<forall>b y. CHR ''.'' \<notin> set b \<and> decodeHandler b = Inr y \<longrightarrow> Decode (a @ ''.'' @ b) = None)"
proof -
  have "split_on (CHR ''.'') (a @ ''.'' @ b) = [a, b]" if "CHR ''.'' \<notin> set b" for b
    using split_on_append [OF assms(1), of b] split_on_none [OF that] by simp
  then show ?thesis
    using assms split_on_none [OF assms(1)] by (auto simp: Decode_def on_part_def go_index_def)
qed

lemma Decode_panics_example: "Decode ''YQ'' = None"
proof -
  have "decodeHandler ''YQ'' = Inr [97]" by code_simp
  with Decode_panics [of "''YQ''"] show ?thesis by simp
qed

text \<open>C17. A token that the client creates is accepted by the server: it decodes, its signature is
  verified for the key behind its address, and it is valid until its time to live after the
  timestamp of its block is over.\<close>

theorem client_token_accepted:
  assumes "sig_law env" and "pkc_law (env_pkc env)" and "NewCryptoComponentsHolder env skBytes = Inr h"
    and "nac_signer nac = NewSigner env" and "nac_holder nac = h" and "createNewToken hbp now nac = (None, nac')"
    and "hbp_GetLatestHyperBlockNonce hbp = Inr n" and "hbp_GetHyperBlockHashByNonce hbp n = Inr bh" and "CHR ''.'' \<notin> set bh"
    and "srv_signer srv = NewSigner env" and "srv_pkc srv = env_pkc env"
    and "\<And>pk b. pk_ToByteArray env pk = Inr b \<Longrightarrow> srv_PublicKeyFromByteArray srv b = Inr pk"
    and "getBlockTimestamp cget cput um srv bh = (Inr ts, srv')"
    and "now' \<le> sint (ts + nac_tokenExpiryInSeconds nac) * 1000000000"
  shows "\<exists>token. Decode (nac_token nac') = Some (Inr token) \<and> Validate cget cput um now' token srv = (None, srv')"
proof -
  obtain token where t: "Encode token = Inr (nac_token nac')"
    "SignMessage env (GetSignableMessage (at_address token) (GetUnsignedToken token)) (cch_privateKey h) = Inr (at_signature token)"
    "at_address token = bytes_of_string (cch_bech32Address h)" "at_ttl token = nac_tokenExpiryInSeconds nac"
    "at_blockHash token = bh"
    using createNewToken_ok [OF assms(6), unfolded assms(4,5,7)] assms(8) unfolding NewSigner_def Signer.simps by (metis sum.inject(2))
  have d: "Decode (nac_token nac') = Some (Inr token)"
    using Decode_Encode [OF t(1)] t(5) assms(9) by blast
  have e: "validateExpiration cget cput um now' token srv = (None, srv')"
    using validateExpiration_exact [of cget cput um srv token ts srv' now'] assms(13,14) t(4,5) by simp
  have "pkc_Decode (env_pkc env) (cch_bech32Address h) = Inr (AddressBytes (cch_addressHandler h))"
    using assms(2) NewCryptoComponentsHolder_keys(3) [OF assms(3)]
    by (simp add: pkc_law_def AddressAsBech32String_def AddressBytes_def)
  moreover have "srv_PublicKeyFromByteArray srv (AddressBytes (cch_addressHandler h)) = Inr (sk_GeneratePublic env (cch_privateKey h))"
    using assms(12) NewCryptoComponentsHolder_keys(1,2) [OF assms(3)] by simp
  moreover have "VerifyMessage env (GetSignableMessage (at_address token) (GetUnsignedToken token)) (sk_GeneratePublic env (cch_privateKey h)) (at_signature token) = None"
    using SignMessage_verifies [OF assms(1) t(2)] .
  ultimately have "validateSignature token srv' = None"
    using getBlockTimestamp_srv [OF assms(13)] assms(10,11) t(3) by (simp add: validateSignature_def NewSigner_def Let_def)
  with d e show ?thesis by (auto simp: Validate_def)
qed

theorem client_token_accepted_witness:
  "\<exists>nac' token srv'. createNewToken demo_hbp 0 demo_client = (None, nac') \<and> Decode (nac_token nac') = Some (Inr token)
     \<and> Validate mc_Get mc_store demo_unmarshal 1059000000000 token demo_server = (None, srv')"
proof -
  have h: "NewCryptoComponentsHolder demo_env [7] = Inr (demo_holder 7)" by code_simp
  have "fst (createNewToken demo_hbp 0 demo_client) = None" by code_simp
  then obtain nac' where n: "createNewToken demo_hbp 0 demo_client = (None, nac')" by (metis prod.collapse)
  obtain srv' where g: "getBlockTimestamp mc_Get mc_store demo_unmarshal demo_server ''ab'' = (Inr 1000, srv')"
    by (simp add: getBlockTimestamp_def getBlockByHash_def demo_server_def demo_http_def demo_unmarshal_def NewMapCacher_def mc_Get_def StatusOK_def)
  have "pkc_law (env_pkc demo_env)" by (simp add: demo_env_def hex_converter_law)
  moreover have "srv_PublicKeyFromByteArray demo_server b = Inr pk" if "pk_ToByteArray demo_env pk = Inr b" for pk b
    using that by (simp add: demo_env_def demo_server_def)
  moreover have "CHR ''.'' \<notin> set ''ab''" by simp
  moreover have "1059000000000 \<le> sint (1000 + nac_tokenExpiryInSeconds demo_client) * 1000000000"
    by (simp add: demo_client_def)
  ultimately obtain token where "Decode (nac_token nac') = Some (Inr token)"
    "Validate mc_Get mc_store demo_unmarshal 1059000000000 token demo_server = (None, srv')"
    using client_token_accepted [OF demo_env_law _ h demo_parts(1,2) n demo_parts(3,4) _ demo_parts(5,6) _ g] by blast
  with n show ?thesis by blast
qed

text \<open>The client renews its token too early: the expiry in seconds is added as nanoseconds, so
  whatever number of seconds below a billion the token was asked for, one second after its creation
  a new one is created although the present one is still valid for the server.\<close>

lemma client_renews_within_a_second:
  assumes "createNewToken hbp created nac = (None, nac')" and "0 \<le> sint (nac_tokenExpiryInSeconds nac)"
    and "sint (nac_tokenExpiryInSeconds nac) < 1000000000" and "created + 1000000000 \<le> now"
  shows "GetAccessToken hbp' now now' nac' = (case createNewToken hbp' now' nac' of
     (Some err, nac'') \<Rightarrow> (Inl err, nac'') | (None, nac'') \<Rightarrow> (Inr (nac_token nac''), nac''))"
  using createNewToken_ok [OF assms(1)] assms(2-4) by (auto simp: GetAccessToken_def)

lemma client_renews_within_a_second_example:
  "\<exists>nac'. createNewToken demo_hbp 5 demo_client = (None, nac')
     \<and> GetAccessToken demo_hbp 1000000005 1000000006 nac' = (case createNewToken demo_hbp 1000000006 nac' of
         (Some err, nac'') \<Rightarrow> (Inl err, nac'') | (None, nac'') \<Rightarrow> (Inr (nac_token nac''), nac''))"
proof -
  have "fst (createNewToken demo_hbp 5 demo_client) = None" by code_simp
  then obtain nac' where n: "createNewToken demo_hbp 5 demo_client = (None, nac')" by (metis prod.collapse)
  have "sint (nac_tokenExpiryInSeconds demo_client) = 60" by (simp add: demo_client_def)
  with client_renews_within_a_second [OF n, of 1000000005 demo_hbp 1000000006] n show ?thesis by auto
qed

text \<open>C39. Whatever sequence of tokens a server with a map cacher validates, its cache only contains
  timestamps that the block service reported for the very block hash, so a cached validation uses a
  reported timestamp; a token is refused as expired exactly when the current time is after that
  timestamp plus its time to live.\<close>

theorem server_expiry_sound:
  assumes "srv_cacher srv0 = NewMapCacher" and "srv = validate_all mc_Get mc_store um history srv0"
    and "getBlockTimestamp mc_Get mc_store um srv (at_blockHash token) = (Inr ts, srv')"
  shows "reported um (srv_http srv0) (bytes_of_string (at_blockHash token)) (CachedInt64 ts)
    \<and> fst (validateExpiration mc_Get mc_store um now token srv) =
        (if now > sint (ts + at_ttl token) * 1000000000 then Some (EAuthentication Authentication_ErrTokenExpired) else None)"
proof -
  have "map_cacher.sound (reported um (srv_http srv0)) (srv_cacher srv0)"
    by (simp add: assms(1) map_cacher.sound_def mc_Get_def NewMapCacher_def)
  from validate_all_sound [OF this, of history] have s: "map_cacher.sound (reported um (srv_http srv)) (srv_cacher srv)"
    "srv_http srv = srv_http srv0" by (simp_all add: assms(2))
  with map_cacher_timestamp_sound [OF s(1) assms(3)] validateExpiration_exact [OF assms(3), of now] show ?thesis by simp
qed

theorem server_expiry_sound_witness:
  "let token = \<lparr>at_ttl = 60, at_address = [], at_host = [], at_extraInfo = [], at_signature = [], at_blockHash = ''ab''\<rparr>;
       srv = validate_all mc_Get mc_store demo_unmarshal [(0, token)] demo_server
   in reported demo_unmarshal demo_http (bytes_of_string ''ab'') (CachedInt64 1000)
     \<and> fst (validateExpiration mc_Get mc_store demo_unmarshal 1060000000001 token srv) = Some (EAuthentication Authentication_ErrTokenExpired)"
proof -
  let ?token = "\<lparr>at_ttl = 60, at_address = [], at_host = [], at_extraInfo = [], at_signature = [], at_blockHash = ''ab''\<rparr>"
  let ?srv = "validate_all mc_Get mc_store demo_unmarshal [(0, ?token)] demo_server"
  obtain srv' where "getBlockTimestamp mc_Get mc_store demo_unmarshal ?srv (at_blockHash ?token) = (Inr 1000, srv')"
    by (simp add: Validate_def validateExpiration_def getBlockTimestamp_def getBlockByHash_def demo_server_def demo_http_def
        demo_unmarshal_def NewMapCacher_def mc_Get_def mc_store_def mc_Put_def StatusOK_def Let_def)
  from server_expiry_sound [OF _ refl this, of 1060000000001] show ?thesis
    by (simp add: Let_def demo_server_def)
qed

end
