(* ===== verification/Endpoints.thy ===== *)
theory Endpoints
  imports Go_Encoding Sdk_Data
begin

text \<open>
  The endpoint providers of \<^verbatim>\<open>blockchain/endpointProviders\<close>: the paths of the REST requests. The
  Go interface \<^verbatim>\<open>EndpointProvider\<close> has two implementations, one for an observer node and one for a
  proxy, which share the methods of \<^verbatim>\<open>baseEndpointProvider\<close>; the datatype \<open>EndpointProvider\<close> names
  the implementation and the methods that differ dispatch on it. The factory of
  \<^verbatim>\<open>blockchain/factory\<close> chooses the implementation.
\<close>

section \<open>Entity types and providers\<close>

text \<open>\<^verbatim>\<open>core.RestAPIEntityType\<close> is a string with two named constants.\<close>

type_synonym RestAPIEntityType = string

definition ObserverNode :: RestAPIEntityType where "ObserverNode = ''observer''"
definition ProxyEntity :: RestAPIEntityType where "ProxyEntity = ''proxy''"

datatype EndpointProvider = NodeEndpointProvider | ProxyEndpointProvider

text \<open>\<^verbatim>\<open>%d\<close> of an unsigned integer.\<close>

definition fmt_d :: "'a::len word \<Rightarrow> string" where
  "fmt_d n = dec_of_nat (unat n)"

section \<open>Shared endpoints\<close>

definition ep_GetNetworkConfig :: string where "ep_GetNetworkConfig = ''network/config''"
definition ep_GetNetworkEconomics :: string where "ep_GetNetworkEconomics = ''network/economics''"
definition ep_GetRatingsConfig :: string where "ep_GetRatingsConfig = ''network/ratings''"
definition ep_GetEnableEpochsConfig :: string where "ep_GetEnableEpochsConfig = ''network/enable-epochs''"

definition ep_GetAccount :: "string \<Rightarrow> string" where
  "ep_GetAccount addressAsBech32 = ''address/'' @ addressAsBech32"

definition ep_GetESDTTokenData :: "string \<Rightarrow> string \<Rightarrow> string" where
  "ep_GetESDTTokenData addressAsBech32 tokenIdentifier = ''address/'' @ addressAsBech32 @ ''/esdt/'' @ tokenIdentifier"

definition ep_GetNFTTokenData :: "string \<Rightarrow> string \<Rightarrow> u64 \<Rightarrow> string" where
  "ep_GetNFTTokenData addressAsBech32 tokenIdentifier nonce =
     ''address/'' @ addressAsBech32 @ ''/nft/'' @ tokenIdentifier @ ''/nonce/'' @ fmt_d nonce"

definition ep_GetCostTransaction :: string where "ep_GetCostTransaction = ''transaction/cost''"
definition ep_GetSendTransaction :: string where "ep_GetSendTransaction = ''transaction/send''"
definition ep_GetSendMultipleTransactions :: string where
  "ep_GetSendMultipleTransactions = ''transaction/send-multiple''"

definition ep_GetTransactionStatus :: "string \<Rightarrow> string" where
  "ep_GetTransactionStatus hexHash = ''transaction/'' @ hexHash @ ''/status''"

definition ep_GetProcessedTransactionStatus :: "string \<Rightarrow> string" where
  "ep_GetProcessedTransactionStatus hexHash = ''transaction/'' @ hexHash @ ''/process-status''"

definition ep_GetTransactionInfo :: "string \<Rightarrow> string" where
  "ep_GetTransactionInfo hexHash = ''transaction/'' @ hexHash"

definition ep_GetHyperBlockByNonce :: "u64 \<Rightarrow> string" where
  "ep_GetHyperBlockByNonce nonce = ''hyperblock/by-nonce/'' @ fmt_d nonce"

definition ep_GetHyperBlockByHash :: "string \<Rightarrow> string" where
  "ep_GetHyperBlockByHash hexHash = ''hyperblock/by-hash/'' @ hexHash"

definition ep_GetVmValues :: string where "ep_GetVmValues = ''vm-values/query''"
definition ep_GetGenesisNodesConfig :: string where "ep_GetGenesisNodesConfig = ''network/genesis-nodes''"

definition ep_GetGuardianData :: "string \<Rightarrow> string" where
  "ep_GetGuardianData addr = ''address/'' @ addr @ ''/guardian-data''"

definition ep_GetRawStartOfEpochMetaBlock :: "u32 \<Rightarrow> string" where
  "ep_GetRawStartOfEpochMetaBlock epoch = ''internal/raw/startofepoch/metablock/by-epoch/'' @ fmt_d epoch"

definition ep_GetValidatorsInfo :: "u32 \<Rightarrow> string" where
  "ep_GetValidatorsInfo epoch = ''internal/json/startofepoch/validators/by-epoch/'' @ fmt_d epoch"

definition ep_IsDataTrieMigrated :: "string \<Rightarrow> string" where
  "ep_IsDataTrieMigrated addressAsBech32 = ''address/'' @ addressAsBech32 @ ''/is-data-trie-migrated''"

section \<open>Endpoints of the observer node\<close>

definition node_GetNodeStatus :: "u32 \<Rightarrow> string" where "node_GetNodeStatus _ = ''node/status''"
definition node_ShouldCheckShardIDForNodeStatus :: bool where "node_ShouldCheckShardIDForNodeStatus = True"

definition node_GetRawBlockByHash :: "u32 \<Rightarrow> string \<Rightarrow> string" where
  "node_GetRawBlockByHash _ hexHash = ''internal/raw/block/by-hash/'' @ hexHash"

definition node_GetRawBlockByNonce :: "u32 \<Rightarrow> u64 \<Rightarrow> string" where
  "node_GetRawBlockByNonce _ nonce = ''internal/raw/block/by-nonce/'' @ fmt_d nonce"

definition node_GetRawMiniBlockByHash :: "u32 \<Rightarrow> string \<Rightarrow> u32 \<Rightarrow> string" where
  "node_GetRawMiniBlockByHash _ hexHash epoch = ''internal/raw/miniblock/by-hash/'' @ hexHash @ ''/epoch/'' @ fmt_d epoch"

definition node_GetRestAPIEntityType :: RestAPIEntityType where "node_GetRestAPIEntityType = ObserverNode"

definition node_GetBlockByNonce :: "u32 \<Rightarrow> u64 \<Rightarrow> string" where
  "node_GetBlockByNonce _ nonce = ''block/by-nonce/'' @ fmt_d nonce"

definition node_GetBlockByHash :: "u32 \<Rightarrow> string \<Rightarrow> string" where
  "node_GetBlockByHash _ hash = ''block/by-hash/'' @ hash"

section \<open>Endpoints of the proxy\<close>

definition proxy_GetNodeStatus :: "u32 \<Rightarrow> string" where
  "proxy_GetNodeStatus shardID = ''network/status/'' @ fmt_d shardID"

definition proxy_ShouldCheckShardIDForNodeStatus :: bool where "proxy_ShouldCheckShardIDForNodeStatus = False"

definition proxy_GetRawBlockByHash :: "u32 \<Rightarrow> string \<Rightarrow> string" where
  "proxy_GetRawBlockByHash shardID hexHash = ''internal/'' @ fmt_d shardID @ ''/raw/block/by-hash/'' @ hexHash"

definition proxy_GetRawBlockByNonce :: "u32 \<Rightarrow> u64 \<Rightarrow> string" where
  "proxy_GetRawBlockByNonce shardID nonce = ''internal/'' @ fmt_d shardID @ ''/raw/block/by-nonce/'' @ fmt_d nonce"

definition proxy_GetRawMiniBlockByHash :: "u32 \<Rightarrow> string \<Rightarrow> u32 \<Rightarrow> string" where
  "proxy_GetRawMiniBlockByHash shardID hexHash epoch =
     ''internal/'' @ fmt_d shardID @ ''/raw/miniblock/by-hash/'' @ hexHash @ ''/epoch/'' @ fmt_d epoch"

definition proxy_GetRestAPIEntityType :: RestAPIEntityType where "proxy_GetRestAPIEntityType = ProxyEntity"

definition proxy_GetBlockByNonce :: "u32 \<Rightarrow> u64 \<Rightarrow> string" where
  "proxy_GetBlockByNonce shardID nonce = ''block/'' @ fmt_d shardID @ ''/by-nonce/'' @ fmt_d nonce"

definition proxy_GetBlockByHash :: "u32 \<Rightarrow> string \<Rightarrow> string" where
  "proxy_GetBlockByHash shardID hash = ''block/'' @ fmt_d shardID @ ''/by-hash/'' @ hash"

section \<open>Dispatch\<close>

fun GetNodeStatus :: "EndpointProvider \<Rightarrow> u32 \<Rightarrow> string" where
  "GetNodeStatus NodeEndpointProvider = node_GetNodeStatus"
| "GetNodeStatus ProxyEndpointProvider = proxy_GetNodeStatus"

fun ShouldCheckShardIDForNodeStatus :: "EndpointProvider \<Rightarrow> bool" where
  "ShouldCheckShardIDForNodeStatus NodeEndpointProvider = node_ShouldCheckShardIDForNodeStatus"
| "ShouldCheckShardIDForNodeStatus ProxyEndpointProvider = proxy_ShouldCheckShardIDForNodeStatus"

fun GetRawBlockByHash_endpoint :: "EndpointProvider \<Rightarrow> u32 \<Rightarrow> string \<Rightarrow> string" where
  "GetRawBlockByHash_endpoint NodeEndpointProvider = node_GetRawBlockByHash"
| "GetRawBlockByHash_endpoint ProxyEndpointProvider = proxy_GetRawBlockByHash"

fun GetRawBlockByNonce_endpoint :: "EndpointProvider \<Rightarrow> u32 \<Rightarrow> u64 \<Rightarrow> string" where
  "GetRawBlockByNonce_endpoint NodeEndpointProvider = node_GetRawBlockByNonce"
| "GetRawBlockByNonce_endpoint ProxyEndpointProvider = proxy_GetRawBlockByNonce"

fun GetRawMiniBlockByHash_endpoint :: "EndpointProvider \<Rightarrow> u32 \<Rightarrow> string \<Rightarrow> u32 \<Rightarrow> string" where
  "GetRawMiniBlockByHash_endpoint NodeEndpointProvider = node_GetRawMiniBlockByHash"
| "GetRawMiniBlockByHash_endpoint ProxyEndpointProvider = proxy_GetRawMiniBlockByHash"

fun GetRestAPIEntityType :: "EndpointProvider \<Rightarrow> RestAPIEntityType" where
  "GetRestAPIEntityType NodeEndpointProvider = node_GetRestAPIEntityType"
| "GetRestAPIEntityType ProxyEndpointProvider = proxy_GetRestAPIEntityType"

fun GetBlockByNonce_endpoint :: "EndpointProvider \<Rightarrow> u32 \<Rightarrow> u64 \<Rightarrow> string" where
  "GetBlockByNonce_endpoint NodeEndpointProvider = node_GetBlockByNonce"
| "GetBlockByNonce_endpoint ProxyEndpointProvider = proxy_GetBlockByNonce"

fun GetBlockByHash_endpoint :: "EndpointProvider \<Rightarrow> u32 \<Rightarrow> string \<Rightarrow> string" where
  "GetBlockByHash_endpoint NodeEndpointProvider = node_GetBlockByHash"
| "GetBlockByHash_endpoint ProxyEndpointProvider = proxy_GetBlockByHash"

section \<open>Factory\<close>

definition CreateEndpointProvider :: "RestAPIEntityType \<Rightarrow> EndpointProvider result" where
  "CreateEndpointProvider entityType =
     (if entityType = ObserverNode then Inr NodeEndpointProvider
      else if entityType = ProxyEntity then Inr ProxyEndpointProvider
      else Inl (Errorf [] (EFactory Factory_ErrUnknownRestAPIEntityType) ('': '' @ entityType)))"

section \<open>Lemmas\<close>

lemma fmt_d_inject [simp]: "fmt_d m = fmt_d n \<longleftrightarrow> m = n"
  by (simp add: fmt_d_def word_unat_eq_iff)

lemma fmt_d_notin [simp]: "digit_val c = None \<Longrightarrow> c \<notin> set (fmt_d n)"
  by (simp add: fmt_d_def)

lemma CreateEndpointProvider_type:
  "CreateEndpointProvider (GetRestAPIEntityType p) = Inr p"
  by (cases p) (simp_all add: CreateEndpointProvider_def node_GetRestAPIEntityType_def
      proxy_GetRestAPIEntityType_def ObserverNode_def ProxyEntity_def)

lemma slash_not_digit [simp]: "digit_val (CHR ''/'') = None"
  by (simp add: digit_val_def)

lemma append_sep_inject:
  fixes a a' :: string
  assumes "c \<notin> set a" and "c \<notin> set a'"
  shows "a @ c # r = a' @ c # r' \<longleftrightarrow> a = a' \<and> r = r'"
  using split_on_append [OF assms(1), of r] split_on_append [OF assms(2), of r'] Join_split_on by (metis list.inject)

text \<open>Different blocks have different endpoints at a proxy; an observer only serves its own shard
  and ignores the shard.\<close>

lemma proxy_GetBlockByNonce_inject:
  "proxy_GetBlockByNonce s n = proxy_GetBlockByNonce s' n' \<longleftrightarrow> s = s' \<and> n = n'"
  using append_sep_inject [of "CHR ''/''" "fmt_d s" "fmt_d s'"] by (simp add: proxy_GetBlockByNonce_def)

lemma proxy_GetNodeStatus_inject: "proxy_GetNodeStatus s = proxy_GetNodeStatus s' \<longleftrightarrow> s = s'"
  by (simp add: proxy_GetNodeStatus_def)

end
