(* ===== verification/Finality.thy ===== *)
theory Finality
  imports Endpoints
begin

text \<open>
  The finality providers of \<^verbatim>\<open>blockchain/finalityProvider\<close> and their factory. The proxy that they
  query is the function \<open>getStatus\<close>, the answers of \<^verbatim>\<open>GetNetworkStatus\<close> during the check. Nonces
  are 64 bit words and their sums wrap.
\<close>

section \<open>Network status\<close>

record NetworkStatus =
  ns_Nonce :: u64
  ns_NonceAtEpochStart :: u64
  ns_CrossCheckBlockHeight :: string
  ns_HighestNonce :: u64
  ns_ProbableHighestNonce :: u64
  ns_ShardID :: u32

definition MinAllowedDeltaToFinal :: nat where "MinAllowedDeltaToFinal = 1"

definition invalid_delta :: "u64 \<Rightarrow> go_error" where
  "invalid_delta maxNoncesDelta = Errorf [] (EFinality Finality_ErrInvalidAllowedDeltaToFinal)
     ('', provided: '' @ fmt_d maxNoncesDelta @ '', minimum: '' @ dec_of_nat MinAllowedDeltaToFinal)"

section \<open>Disabled provider\<close>

definition disabled_CheckShardFinalization :: "u32 \<Rightarrow> u64 \<Rightarrow> go_error option" where
  "disabled_CheckShardFinalization _ _ = None"

section \<open>Node provider\<close>

record nonces =
  nn_current :: u64
  nn_highest :: u64
  nn_probable :: u64

definition getNonces :: "(u32 \<Rightarrow> NetworkStatus result) \<Rightarrow> u32 \<Rightarrow> nonces result" where
  "getNonces getStatus targetShardID = (case getStatus targetShardID of
     Inl err \<Rightarrow> Inl err
   | Inr networkStatusShard \<Rightarrow>
       let result = \<lparr>nn_current = ns_Nonce networkStatusShard, nn_highest = ns_HighestNonce networkStatusShard,
             nn_probable = ns_ProbableHighestNonce networkStatusShard\<rparr>;
           isEmpty = (nn_current result = 0 \<and> nn_highest result = 0 \<and> nn_probable result = 0)
       in if isEmpty then Inl (EFinality Finality_ErrNodeNotStarted) else Inr result)"

definition node_CheckShardFinalization ::
  "(u32 \<Rightarrow> NetworkStatus result) \<Rightarrow> u32 \<Rightarrow> u64 \<Rightarrow> go_error option" where
  "node_CheckShardFinalization getStatus targetShardID maxNoncesDelta =
     (if unat maxNoncesDelta < MinAllowedDeltaToFinal then Some (invalid_delta maxNoncesDelta)
      else case getNonces getStatus targetShardID of
        Inl err \<Rightarrow> Some err
      | Inr result \<Rightarrow>
          if nn_current result + maxNoncesDelta < nn_probable result then
            Some (ErrorsNew (''shardID '' @ fmt_d targetShardID @ '' is syncing, probable nonce is '' @ fmt_d (nn_probable result)
              @ '', current nonce is '' @ fmt_d (nn_current result) @ '', max delta: '' @ fmt_d maxNoncesDelta))
          else if nn_current result \<le> nn_highest result + maxNoncesDelta then None
          else Some (ErrorsNew (''shardID '' @ fmt_d targetShardID @ '' is stuck, highest nonce is '' @ fmt_d (nn_highest result)
              @ '', current nonce is '' @ fmt_d (nn_current result) @ '', max delta: '' @ fmt_d maxNoncesDelta)))"

section \<open>Proxy provider\<close>

text \<open>The loop over the parts of the cross check value; \<open>None\<close> when it ends without finding the shard.
  \<^verbatim>\<open>big.Int.Uint64\<close> takes the low 64 bits of the absolute value.\<close>

primrec extract_loop :: "string \<Rightarrow> string \<Rightarrow> string list \<Rightarrow> u64 result option" where
  "extract_loop crossCheckValue shardIdAsString [] = None"
| "extract_loop crossCheckValue shardIdAsString (shardData # shardsData) =
     (let shardNonce = split_on (CHR '':'') shardData
      in if length shardNonce \<noteq> 2 then extract_loop crossCheckValue shardIdAsString shardsData
         else
           let s0 = trim_space (shardNonce ! 0);
               s1 = trim_space (shardNonce ! 1)
           in if s0 \<noteq> shardIdAsString then extract_loop crossCheckValue shardIdAsString shardsData
              else case big_SetString s1 of
                None \<Rightarrow> Some (Inl (Errorf [] (EFinality Finality_ErrInvalidNonceCrossCheckValueFormat)
                   ('': '' @ s1 @ '' is not a valid number as found in this response: '' @ crossCheckValue)))
              | Some val \<Rightarrow> Some (Inr (of_nat (nat \<bar>val\<bar>))))"

definition extractNonceOfShardID :: "string \<Rightarrow> u32 \<Rightarrow> u64 result" where
  "extractNonceOfShardID crossCheckValue shardID =
     (if length crossCheckValue = 0 then
        Inl (Errorf [] (EFinality Finality_ErrInvalidNonceCrossCheckValueFormat) '': empty value, maybe bad observer version'')
      else case extract_loop crossCheckValue (fmt_d shardID) (split_on (CHR '','') crossCheckValue) of
        Some r \<Rightarrow> r
      | None \<Rightarrow> Inl (Errorf [] (EFinality Finality_ErrInvalidNonceCrossCheckValueFormat)
          ('': value not found for shard '' @ fmt_d shardID @ '' from this response: '' @ crossCheckValue)))"

definition getNoncesFromMetaAndShard :: "(u32 \<Rightarrow> NetworkStatus result) \<Rightarrow> u32 \<Rightarrow> (u64 \<times> u64) result" where
  "getNoncesFromMetaAndShard getStatus targetShardID =
     on_ok (getStatus MetachainShardId) (\<lambda>networkStatusMeta.
     on_ok (extractNonceOfShardID (ns_CrossCheckBlockHeight networkStatusMeta) targetShardID) (\<lambda>nonceFromMeta.
     on_ok (getStatus targetShardID) (\<lambda>networkStatusShard.
     Inr (nonceFromMeta, ns_Nonce networkStatusShard))))"

definition proxy_CheckShardFinalization ::
  "(u32 \<Rightarrow> NetworkStatus result) \<Rightarrow> u32 \<Rightarrow> u64 \<Rightarrow> go_error option" where
  "proxy_CheckShardFinalization getStatus targetShardID maxNoncesDelta =
     (if unat maxNoncesDelta < MinAllowedDeltaToFinal then Some (invalid_delta maxNoncesDelta)
      else if targetShardID = MetachainShardId then None
      else case getNoncesFromMetaAndShard getStatus targetShardID of
        Inl err \<Rightarrow> Some err
      | Inr (nonceFromMeta, nonceFromShard) \<Rightarrow>
          if nonceFromShard < nonceFromMeta then
            Some (ErrorsNew (''shardID '' @ fmt_d targetShardID @ '' is syncing, meta cross check nonce is '' @ fmt_d nonceFromMeta
              @ '', current nonce is '' @ fmt_d nonceFromShard @ '', max delta: '' @ fmt_d maxNoncesDelta))
          else if nonceFromShard \<le> nonceFromMeta + maxNoncesDelta then None
          else Some (ErrorsNew (''shardID '' @ fmt_d targetShardID @ '' is stuck, meta cross check nonce is '' @ fmt_d nonceFromMeta
              @ '', current nonce is '' @ fmt_d nonceFromShard @ '', max delta: '' @ fmt_d maxNoncesDelta)))"

section \<open>Factory\<close>

datatype FinalityProvider = DisabledFinalityProvider | NodeFinalityProvider | ProxyFinalityProvider

definition CreateFinalityProvider :: "RestAPIEntityType \<Rightarrow> bool \<Rightarrow> FinalityProvider result" where
  "CreateFinalityProvider entityType checkFinality =
     (if \<not> checkFinality then Inr DisabledFinalityProvider
      else if entityType = ObserverNode then Inr NodeFinalityProvider
      else if entityType = ProxyEntity then Inr ProxyFinalityProvider
      else Inl (Errorf [] (EFactory Factory_ErrUnknownRestAPIEntityType) ('': '' @ entityType)))"

fun CheckShardFinalization ::
  "FinalityProvider \<Rightarrow> (u32 \<Rightarrow> NetworkStatus result) \<Rightarrow> u32 \<Rightarrow> u64 \<Rightarrow> go_error option" where
  "CheckShardFinalization DisabledFinalityProvider getStatus = disabled_CheckShardFinalization"
| "CheckShardFinalization NodeFinalityProvider getStatus = node_CheckShardFinalization getStatus"
| "CheckShardFinalization ProxyFinalityProvider getStatus = proxy_CheckShardFinalization getStatus"

section \<open>The cross check value\<close>

text \<open>The text in the documented format, \<^verbatim>\<open>"0: 9169897, 1: 9166353, 2: 9170524, "\<close>.\<close>

definition cross_item :: "u32 \<times> u64 \<Rightarrow> string" where
  "cross_item p = fmt_d (fst p) @ '': '' @ fmt_d (snd p)"

definition cross_text :: "(u32 \<times> u64) list \<Rightarrow> string" where
  "cross_text ps = concat (map (\<lambda>p. cross_item p @ '', '') ps)"

definition demo_status :: "u64 \<Rightarrow> NetworkStatus" where
  "demo_status n = \<lparr>ns_Nonce = n, ns_NonceAtEpochStart = 1, ns_CrossCheckBlockHeight = cross_text [(0, 100), (1, 90)],
     ns_HighestNonce = n - 1, ns_ProbableHighestNonce = n, ns_ShardID = 1\<rparr>"

section \<open>Lemmas\<close>

lemma separators_not_digits [simp]:
  "digit_val (CHR '','') = None" "digit_val (CHR '':'') = None" "digit_val (CHR '' '') = None"
  by (simp_all add: digit_val_def)

lemma trim_space_fmt_d [simp]: "trim_space (fmt_d n) = fmt_d n" "trim_space (CHR '' '' # s) = trim_space s"
  unfolding fmt_d_def by (auto intro!: trim_space_digits simp: trim_space_blank dest: dec_of_nat_digits)

text \<open>The parts after the first one start with a blank.\<close>

lemma split_cross_text:
  "split_on (CHR '','') (cross_text (p # ps)) = cross_item p # map (Cons (CHR '' '')) (map cross_item ps @ [[]])"
proof (induction ps arbitrary: p)
  case Nil
  have "CHR '','' \<notin> set (cross_item p)" by (simp add: cross_item_def)
  from split_on_append [OF this, of "'' ''"] show ?case by (simp add: cross_text_def)
next
  case (Cons q qs)
  have "CHR '','' \<notin> set (cross_item p)" by (simp add: cross_item_def)
  from split_on_append [OF this, of "CHR '' '' # cross_text (q # qs)"] Cons [of q] show ?case by (simp add: cross_text_def)
qed

lemma extract_item:
  assumes "d = cross_item p \<or> d = CHR '' '' # cross_item p"
  shows "extract_loop cc (fmt_d s) (d # ds) = (if fst p = s then Some (Inr (snd p)) else extract_loop cc (fmt_d s) ds)"
proof -
  let ?b = "if d = cross_item p then [] else '' ''"
  have "CHR '':'' \<notin> set (?b @ fmt_d (fst p))" "CHR '':'' \<notin> set (CHR '' '' # fmt_d (snd p))" by auto
  with assms have "split_on (CHR '':'') d = [?b @ fmt_d (fst p), CHR '' '' # fmt_d (snd p)]"
    using split_on_append [of "CHR '':''" "?b @ fmt_d (fst p)" "CHR '' '' # fmt_d (snd p)"]
      split_on_none [of "CHR '':''" "CHR '' '' # fmt_d (snd p)"] by (auto simp: cross_item_def)
  moreover have "big_SetString (fmt_d (snd p)) = Some (int (unat (snd p)))" by (simp add: fmt_d_def)
  ultimately show ?thesis by simp
qed

lemmas extract_item_simps = extract_item [OF disjI1 [OF refl]] extract_item [OF disjI2 [OF refl]]

lemma extract_items:
  "extract_loop cc (fmt_d s) (map (Cons (CHR '' '')) (map cross_item ps @ [[]])) = map_option Inr (map_of ps s)"
proof (induction ps)
  case (Cons p ps)
  then show ?case by (cases p) (simp add: extract_item_simps del: extract_loop.simps)
qed simp

lemma extractNonceOfShardID_cross_text:
  "extractNonceOfShardID (cross_text ps) s = (case map_of ps s of
     Some n \<Rightarrow> Inr n
   | None \<Rightarrow> Inl (Errorf [] (EFinality Finality_ErrInvalidNonceCrossCheckValueFormat)
       (if ps = [] then '': empty value, maybe bad observer version''
        else '': value not found for shard '' @ fmt_d s @ '' from this response: '' @ cross_text ps)))"
proof (cases ps)
  case Nil
  then show ?thesis by (simp add: extractNonceOfShardID_def cross_text_def)
next
  case (Cons p qs)
  moreover have "cross_text (p # qs) \<noteq> []" by (simp add: cross_text_def)
  moreover have "extract_loop cc (fmt_d s) (split_on (CHR '','') (cross_text (p # qs))) = map_option Inr (map_of (p # qs) s)" for cc
    unfolding split_cross_text by (cases p) (simp add: extract_item_simps extract_items del: extract_loop.simps map_append)
  ultimately show ?thesis by (simp add: extractNonceOfShardID_def split: option.splits)
qed

lemma unat_add_no_wrap: "unat (a :: u64) + unat b < 2 ^ 64 \<Longrightarrow> unat (a + b) = unat a + unat b"
  by (simp add: unat_word_ariths(1))

section \<open>Properties\<close>

text \<open>Reading the nonce of a shard from a cross check value in the documented format gives the
  nonce listed first for that shard, and an error that is the format error exactly when the shard
  is not listed.\<close>

lemma extractNonceOfShardID_roundtrip:
  "extractNonceOfShardID (cross_text ps) s = (case map_of ps s of
     Some n \<Rightarrow> Inr n
   | None \<Rightarrow> Inl (Errorf [] (EFinality Finality_ErrInvalidNonceCrossCheckValueFormat)
       (if ps = [] then '': empty value, maybe bad observer version''
        else '': value not found for shard '' @ fmt_d s @ '' from this response: '' @ cross_text ps)))"
  by (rule extractNonceOfShardID_cross_text)



end
