(* ===== verification/Base_Proxy.thy ===== *)
theory Base_Proxy
  imports Finality Http_Base
begin

text \<open>
  \<^verbatim>\<open>blockchain/baseProxy.go\<close> and \<^verbatim>\<open>blockchain/shardCoordinator.go\<close>: the network configuration with its
  time based cache, the shard of an address, the network status of a shard, and the request pattern
  that all operations of the proxies share.

  The HTTP client wrapper is an argument of every operation, as it answers during that operation.
  \<^verbatim>\<open>json.Unmarshal\<close> into a response type is a decoder: it yields the field \<^verbatim>\<open>Error\<close> and the data of the
  response, or an error. The sharding library is the argument \<open>newCoord\<close>. Instants and durations
  are integers in nanoseconds; a nil dereference is \<open>None\<close>.
\<close>

section \<open>Durations\<close>

definition maxDuration :: int where "maxDuration = 2 ^ 63 - 1"

text \<open>\<^verbatim>\<open>time.Since\<close> saturates; since the zero time it is the maximal duration.\<close>

definition since :: "int \<Rightarrow> int option \<Rightarrow> int" where
  "since now t = (case t of None \<Rightarrow> maxDuration | Some t0 \<Rightarrow> max (- maxDuration - 1) (min maxDuration (now - t0)))"

section \<open>Requests\<close>

type_synonym 'a decoder = "byte list \<Rightarrow> (string \<times> 'a) result"

definition http_reply :: "http_result \<Rightarrow> byte list result" where
  "http_reply reply =
     (let (buff, code, err) = reply
      in if err \<noteq> None \<or> code \<noteq> StatusOK then Inl (createHTTPStatusError code err) else Inr buff)"

definition decode_reply :: "'a decoder \<Rightarrow> byte list \<Rightarrow> 'a result" where
  "decode_reply dec buff = on_ok (dec buff) (\<lambda>response.
     if fst response \<noteq> [] then Inl (ErrorsNew (fst response)) else Inr (snd response))"

definition get_reply :: "http_iface \<Rightarrow> 'a decoder \<Rightarrow> string \<Rightarrow> 'a result" where
  "get_reply http dec endpoint = on_ok (http_reply (hi_Get http endpoint)) (decode_reply dec)"

definition post_reply :: "http_iface \<Rightarrow> 'a decoder \<Rightarrow> string \<Rightarrow> byte list \<Rightarrow> 'a result" where
  "post_reply http dec endpoint payload = on_ok (http_reply (hi_Post http endpoint payload)) (decode_reply dec)"

section \<open>Shard coordinator\<close>

type_synonym shardCoordinator = "byte list \<Rightarrow> u32"

definition NewShardCoordinator ::
  "(u32 \<Rightarrow> u32 \<Rightarrow> shardCoordinator result) \<Rightarrow> u32 \<Rightarrow> u32 \<Rightarrow> shardCoordinator result" where
  "NewShardCoordinator newCoord numOfShardsWithoutMeta currentShard = newCoord numOfShardsWithoutMeta currentShard"

definition ComputeShardId :: "shardCoordinator \<Rightarrow> address option \<Rightarrow> u32 result" where
  "ComputeShardId coord addr = (case addr of
     None \<Rightarrow> Inl (EBlockchain Blockchain_ErrNilAddress)
   | Some a \<Rightarrow> if length (AddressBytes a) = 0 then Inl (EBlockchain Blockchain_ErrInvalidAddress)
       else Inr (coord (AddressBytes a)))"

section \<open>Base proxy\<close>

record baseProxy =
  bp_fetchedConfigs :: "NetworkConfig option"
  bp_lastFetchedTime :: "int option"
  bp_cacheExpiryDuration :: int
  bp_endpointProvider :: EndpointProvider

definition minimumCachingInterval :: int where "minimumCachingInterval = 1000000000"

definition checkArgsBaseProxy :: "int \<Rightarrow> 'h option \<Rightarrow> EndpointProvider option \<Rightarrow> go_error option" where
  "checkArgsBaseProxy expirationTime httpClientWrapper endpointProvider =
     (if expirationTime < minimumCachingInterval then
        Some (Errorf [] (EBlockchain Blockchain_ErrInvalidCacherDuration)
          ('', provided: '' @ dur_String expirationTime @ '', minimum: '' @ dur_String minimumCachingInterval))
      else if Option.is_none httpClientWrapper then Some (EBlockchain Blockchain_ErrNilHTTPClientWrapper)
      else if Option.is_none endpointProvider then Some (EBlockchain Blockchain_ErrNilEndpointProvider)
      else None)"

definition newBaseProxy :: "int \<Rightarrow> 'h option \<Rightarrow> EndpointProvider option \<Rightarrow> baseProxy result" where
  "newBaseProxy expirationTime httpClientWrapper endpointProvider =
     (case checkArgsBaseProxy expirationTime httpClientWrapper endpointProvider of
        Some err \<Rightarrow> Inl err
      | None \<Rightarrow> Inr \<lparr>bp_fetchedConfigs = None, bp_lastFetchedTime = None, bp_cacheExpiryDuration = expirationTime,
          bp_endpointProvider = the endpointProvider\<rparr>)"

subsection \<open>Network configuration\<close>

text \<open>One call of \<^verbatim>\<open>GetNetworkConfig\<close>: what the client wrapper answers, and the three readings of the
  clock, at the first look into the cache, at the second one and after the request.\<close>

record config_call =
  cc_http :: http_iface
  cc_now1 :: int
  cc_now2 :: int
  cc_now3 :: int

definition getCachedConfigs :: "int \<Rightarrow> baseProxy \<Rightarrow> NetworkConfig option" where
  "getCachedConfigs now bp =
     (if since now (bp_lastFetchedTime bp) > bp_cacheExpiryDuration bp then None else bp_fetchedConfigs bp)"

definition getNetworkConfigFromSource :: "NetworkConfig option decoder \<Rightarrow> http_iface \<Rightarrow> NetworkConfig option result" where
  "getNetworkConfigFromSource dec http = get_reply http dec ep_GetNetworkConfig"

definition cacheConfigs ::
  "NetworkConfig option decoder \<Rightarrow> config_call \<Rightarrow> baseProxy \<Rightarrow> NetworkConfig option result \<times> baseProxy" where
  "cacheConfigs dec call bp = (case getCachedConfigs (cc_now2 call) bp of
     Some cachedConfig \<Rightarrow> (Inr (Some cachedConfig), bp)
   | None \<Rightarrow> (case getNetworkConfigFromSource dec (cc_http call) of
       Inl err \<Rightarrow> (Inl err, bp)
     | Inr configs \<Rightarrow> (Inr configs, bp\<lparr>bp_lastFetchedTime := Some (cc_now3 call), bp_fetchedConfigs := configs\<rparr>)))"

definition GetNetworkConfig ::
  "NetworkConfig option decoder \<Rightarrow> config_call \<Rightarrow> baseProxy \<Rightarrow> NetworkConfig option result \<times> baseProxy" where
  "GetNetworkConfig dec call bp = (case getCachedConfigs (cc_now1 call) bp of
     Some cachedConfigs \<Rightarrow> (Inr (Some cachedConfigs), bp)
   | None \<Rightarrow> cacheConfigs dec call bp)"

text \<open>The configuration pointer is dereferenced without a check.\<close>

definition GetShardOfAddress ::
  "pubkey_converter \<Rightarrow> (u32 \<Rightarrow> u32 \<Rightarrow> shardCoordinator result) \<Rightarrow> NetworkConfig option decoder \<Rightarrow> config_call \<Rightarrow> string
     \<Rightarrow> baseProxy \<Rightarrow> u32 result option \<times> baseProxy" where
  "GetShardOfAddress pkc newCoord dec call bech32Address bp = (case NewAddressFromBech32String pkc bech32Address of
     Inl err \<Rightarrow> (Some (Inl err), bp)
   | Inr addr \<Rightarrow> (case GetNetworkConfig dec call bp of
       (Inl err, bp') \<Rightarrow> (Some (Inl err), bp')
     | (Inr None, bp') \<Rightarrow> (None, bp')
     | (Inr (Some networkConfigs), bp') \<Rightarrow>
         (Some (on_ok (NewShardCoordinator newCoord (nc_NumShardsWithoutMeta networkConfigs) 0)
            (\<lambda>coord. ComputeShardId coord (Some addr))), bp')))"

subsection \<open>Network status\<close>

definition checkReceivedNodeStatus :: "baseProxy \<Rightarrow> NetworkStatus option \<Rightarrow> u32 \<Rightarrow> go_error option" where
  "checkReceivedNodeStatus bp networkStatus shardID = (case networkStatus of
     None \<Rightarrow> Some (Errorf [] (EBlockchain Blockchain_ErrNilNetworkStatus) ('', requested from '' @ fmt_d shardID))
   | Some st \<Rightarrow>
       if \<not> ShouldCheckShardIDForNodeStatus (bp_endpointProvider bp) then None
       else if ns_ShardID st = shardID then None
       else Some (Errorf [] (EBlockchain Blockchain_ErrShardIDMismatch)
         ('', requested from '' @ fmt_d shardID @ '', got response from '' @ fmt_d (ns_ShardID st))))"

definition checked_status :: "baseProxy \<Rightarrow> NetworkStatus option decoder \<Rightarrow> byte list \<Rightarrow> u32 \<Rightarrow> NetworkStatus result" where
  "checked_status bp dec buff shardID = on_ok (decode_reply dec buff) (\<lambda>st.
     case checkReceivedNodeStatus bp st shardID of Some err \<Rightarrow> Inl err | None \<Rightarrow> Inr (the st))"

text \<open>The decoders of \<^verbatim>\<open>NetworkStatusResponse\<close> and \<^verbatim>\<open>NodeStatusResponse\<close>.\<close>

record status_decoders =
  sd_network :: "NetworkStatus option decoder"
  sd_node :: "NetworkStatus option decoder"

definition getNetworkStatus :: "baseProxy \<Rightarrow> status_decoders \<Rightarrow> byte list \<Rightarrow> u32 \<Rightarrow> NetworkStatus result" where
  "getNetworkStatus bp sd buff shardID = checked_status bp (sd_network sd) buff shardID"

definition getNodeStatus :: "baseProxy \<Rightarrow> status_decoders \<Rightarrow> byte list \<Rightarrow> u32 \<Rightarrow> NetworkStatus result" where
  "getNodeStatus bp sd buff shardID = checked_status bp (sd_node sd) buff shardID"

definition GetNetworkStatus :: "status_decoders \<Rightarrow> http_iface \<Rightarrow> baseProxy \<Rightarrow> u32 \<Rightarrow> NetworkStatus result" where
  "GetNetworkStatus sd http bp shardID =
     (let endpoint = GetNodeStatus (bp_endpointProvider bp) shardID
      in on_ok (http_reply (hi_Get http endpoint)) (\<lambda>buff.
           let endpointProviderType = GetRestAPIEntityType (bp_endpointProvider bp)
           in if endpointProviderType = ProxyEntity then getNetworkStatus bp sd buff shardID
              else if endpointProviderType = ObserverNode then getNodeStatus bp sd buff shardID
              else Inl (EBlockchain Blockchain_ErrInvalidEndpointProvider)))"

definition bp_GetRestAPIEntityType :: "baseProxy \<Rightarrow> RestAPIEntityType" where
  "bp_GetRestAPIEntityType bp = GetRestAPIEntityType (bp_endpointProvider bp)"

subsection \<open>Processed transaction status\<close>

definition TxStatusFail :: string where "TxStatusFail = ''fail''"

text \<open>The error is wrapped before the status error is made; wrapping a nil error with \<^verbatim>\<open>%w\<close> gives a
  fresh error.\<close>

definition proxy_version_hint :: string where
  "proxy_version_hint = '', please make sure you run the proxy version v1.1.38 or higher''"

definition ProcessTransactionStatus :: "string decoder \<Rightarrow> http_iface \<Rightarrow> string \<Rightarrow> string \<times> go_error option" where
  "ProcessTransactionStatus dec http hexTxHash =
     (let (buff, code, err) = hi_Get http (ep_GetProcessedTransactionStatus hexTxHash)
      in if err \<noteq> None \<or> code \<noteq> StatusOK then
           let wrappedErr = (case err of
                 None \<Rightarrow> ErrorsNew (''%!w(<nil>)'' @ proxy_version_hint)
               | Some e \<Rightarrow> Errorf [] e proxy_version_hint)
           in (TxStatusFail, Some (createHTTPStatusError code (Some wrappedErr)))
         else case decode_reply dec buff of
           Inl err \<Rightarrow> (TxStatusFail, Some err)
         | Inr processedStatus \<Rightarrow> (processedStatus, None))"

section \<open>Runs\<close>

primrec config_run ::
  "NetworkConfig option decoder \<Rightarrow> config_call list \<Rightarrow> baseProxy \<Rightarrow> NetworkConfig option result list \<times> baseProxy" where
  "config_run dec [] bp = ([], bp)"
| "config_run dec (call # calls) bp =
     (let (r, bp') = GetNetworkConfig dec call bp; (rs, bp'') = config_run dec calls bp' in (r # rs, bp''))"

section \<open>A concrete configuration source\<close>

definition demo_cfg :: NetworkConfig where
  "demo_cfg = \<lparr>nc_ChainID = ''T'', nc_Denomination = 18, nc_GasPerDataByte = 1500, nc_MinGasLimit = 50000, nc_MinGasPrice = 10,
     nc_MinTransactionVersion = 1, nc_NumShardsWithoutMeta = 3\<rparr>"

text \<open>The body's first byte is the gas price of the configuration.\<close>

definition demo_cfg_decoder :: "NetworkConfig option decoder" where
  "demo_cfg_decoder buff = Inr ([], Some (demo_cfg\<lparr>nc_MinGasPrice := ucast (hd buff)\<rparr>))"

definition demo_call :: "byte \<Rightarrow> int \<Rightarrow> config_call" where
  "demo_call b t = \<lparr>cc_http = \<lparr>hi_Get = (\<lambda>_. ([b], StatusOK, None)), hi_Post = (\<lambda>_ _. ([], StatusOK, None))\<rparr>,
     cc_now1 = t, cc_now2 = t + 1, cc_now3 = t + 2\<rparr>"

definition demo_base :: baseProxy where
  "demo_base = \<lparr>bp_fetchedConfigs = None, bp_lastFetchedTime = None, bp_cacheExpiryDuration = 2000000000,
     bp_endpointProvider = ProxyEndpointProvider\<rparr>"

section \<open>Lemmas\<close>

lemma http_reply_Inr [simp]: "http_reply reply = Inr buff \<longleftrightarrow> reply = (buff, StatusOK, None)"
  by (cases reply) (auto simp: http_reply_def)

lemma decode_reply_Inr [simp]: "decode_reply dec buff = Inr d \<longleftrightarrow> dec buff = Inr ([], d)"
  by (auto simp: decode_reply_def split: if_splits)

lemma get_reply_Inr: "get_reply http dec endpoint = Inr d \<longleftrightarrow>
    (\<exists>buff. hi_Get http endpoint = (buff, StatusOK, None) \<and> dec buff = Inr ([], d))"
  by (auto simp: get_reply_def)

lemma since_le: "e < maxDuration \<Longrightarrow> since now t \<le> e \<Longrightarrow> \<exists>t0. t = Some t0 \<and> now - t0 \<le> e"
  by (cases t) (auto simp: since_def)

text \<open>The cached configuration satisfies \<open>P\<close> together with the instant it was fetched at.\<close>

definition cfg_inv :: "(NetworkConfig \<Rightarrow> int \<Rightarrow> bool) \<Rightarrow> baseProxy \<Rightarrow> bool" where
  "cfg_inv P bp \<longleftrightarrow> (\<forall>c t. bp_fetchedConfigs bp = Some c \<and> bp_lastFetchedTime bp = Some t \<longrightarrow> P c t)"

lemma GetNetworkConfig_inv:
  assumes "cfg_inv P bp" and "\<And>c. getNetworkConfigFromSource dec (cc_http call) = Inr (Some c) \<Longrightarrow> P c (cc_now3 call)"
  shows "cfg_inv P (snd (GetNetworkConfig dec call bp))
    \<and> bp_cacheExpiryDuration (snd (GetNetworkConfig dec call bp)) = bp_cacheExpiryDuration bp"
  using assms by (auto simp: GetNetworkConfig_def cacheConfigs_def cfg_inv_def split: option.splits sum.splits)

lemma config_run_inv:
  assumes "cfg_inv P bp" and "\<And>call c. call \<in> set calls \<Longrightarrow> getNetworkConfigFromSource dec (cc_http call) = Inr (Some c) \<Longrightarrow> P c (cc_now3 call)"
  shows "cfg_inv P (snd (config_run dec calls bp)) \<and> bp_cacheExpiryDuration (snd (config_run dec calls bp)) = bp_cacheExpiryDuration bp"
  using assms
proof (induction calls arbitrary: bp)
  case (Cons call calls)
  let ?bp = "snd (GetNetworkConfig dec call bp)"
  have "cfg_inv P ?bp \<and> bp_cacheExpiryDuration ?bp = bp_cacheExpiryDuration bp"
    by (rule GetNetworkConfig_inv) (use Cons.prems in auto)
  moreover from this have "cfg_inv P (snd (config_run dec calls ?bp)) \<and> bp_cacheExpiryDuration (snd (config_run dec calls ?bp)) = bp_cacheExpiryDuration ?bp"
    by (intro Cons.IH) (use Cons.prems in auto)
  ultimately show ?case by (simp add: split_beta Let_def)
qed simp

lemma config_run_length [simp]: "length (fst (config_run dec calls bp)) = length calls"
  by (induction calls arbitrary: bp) (simp_all add: split_beta Let_def)

lemma config_run_nth:
  "i < length calls \<Longrightarrow> fst (config_run dec calls bp) ! i = fst (GetNetworkConfig dec (calls ! i) (snd (config_run dec (take i calls) bp)))"
proof (induction calls arbitrary: bp i)
  case (Cons call calls)
  then show ?case by (cases i) (simp_all add: split_beta Let_def)
qed simp

lemma GetNetworkConfig_answer:
  assumes "fst (GetNetworkConfig dec call bp) = Inr (Some c)" and "bp_cacheExpiryDuration bp < maxDuration" and "cfg_inv P bp"
  shows "getNetworkConfigFromSource dec (cc_http call) = Inr (Some c) \<or>
    (\<exists>t. P c t \<and> (cc_now1 call - t \<le> bp_cacheExpiryDuration bp \<or> cc_now2 call - t \<le> bp_cacheExpiryDuration bp))"
  using assms since_le [OF assms(2), of "cc_now1 call" "bp_lastFetchedTime bp"] since_le [OF assms(2), of "cc_now2 call" "bp_lastFetchedTime bp"]
  by (auto simp: GetNetworkConfig_def cacheConfigs_def getCachedConfigs_def cfg_inv_def split: option.splits sum.splits if_splits)

text \<open>An unsuccessful answer of the status service without a transport error is not reported as a bad
  status: the wrapped nil error hides it.\<close>

lemma ProcessTransactionStatus_hides_status:
  assumes "hi_Get http (ep_GetProcessedTransactionStatus h) = (buff, code, None)" and "code \<noteq> StatusOK"
  shows "\<exists>e. ProcessTransactionStatus dec http h = (TxStatusFail, Some e)
    \<and> \<not> errors_is e (EBlockchain Blockchain_ErrHTTPStatusCodeIsNotOK)"
  using assms by (simp add: ProcessTransactionStatus_def createHTTPStatusError_def Let_def)

section \<open>Properties\<close>

text \<open>C26. The configuration cache never serves a stale or made up configuration: whatever the requests
  answer and whatever the clock shows, a configuration returned by some call was reported by the
  network to this or to an earlier call, and in the latter case at most the caching duration before
  the clock readings of this call.\<close>

theorem GetNetworkConfig_fresh:
  assumes "newBaseProxy expiry h ep = Inr bp" and "expiry < maxDuration"
    and "config_run dec calls bp = (rs, bp')" and "i < length calls" and "rs ! i = Inr (Some c)"
  shows "\<exists>j\<le>i. getNetworkConfigFromSource dec (cc_http (calls ! j)) = Inr (Some c)
    \<and> (j = i \<or> cc_now1 (calls ! i) - cc_now3 (calls ! j) \<le> expiry \<or> cc_now2 (calls ! i) - cc_now3 (calls ! j) \<le> expiry)"
proof -
  let ?P = "\<lambda>c t. \<exists>j<i. getNetworkConfigFromSource dec (cc_http (calls ! j)) = Inr (Some c) \<and> t = cc_now3 (calls ! j)"
  let ?bp = "snd (config_run dec (take i calls) bp)"
  have new: "bp_fetchedConfigs bp = None" "bp_cacheExpiryDuration bp = expiry"
    using assms(1) by (auto simp: newBaseProxy_def split: option.splits)
  have inv: "cfg_inv ?P ?bp \<and> bp_cacheExpiryDuration ?bp = bp_cacheExpiryDuration bp"
    by (rule config_run_inv) (use new assms(4) in \<open>auto simp: cfg_inv_def in_set_conv_nth\<close>)
  have "fst (GetNetworkConfig dec (calls ! i) ?bp) = Inr (Some c)"
    using config_run_nth [OF assms(4), of dec bp] assms(3,5) by simp
  from GetNetworkConfig_answer [OF this _ conjunct1 [OF inv]] inv new(2) assms(2)
  have "getNetworkConfigFromSource dec (cc_http (calls ! i)) = Inr (Some c) \<or>
      (\<exists>j<i. getNetworkConfigFromSource dec (cc_http (calls ! j)) = Inr (Some c)
        \<and> (cc_now1 (calls ! i) - cc_now3 (calls ! j) \<le> expiry \<or> cc_now2 (calls ! i) - cc_now3 (calls ! j) \<le> expiry))"
    by auto
  then show ?thesis
  proof
    assume "getNetworkConfigFromSource dec (cc_http (calls ! i)) = Inr (Some c)"
    then show ?thesis by (intro exI [of _ i]) simp
  qed (meson less_imp_le)
qed

theorem GetNetworkConfig_fresh_witness:
  "fst (config_run demo_cfg_decoder [demo_call 7 0, demo_call 9 1000000000] demo_base) ! 1 = Inr (Some (demo_cfg\<lparr>nc_MinGasPrice := 7\<rparr>))
   \<and> (\<exists>j\<le>1. getNetworkConfigFromSource demo_cfg_decoder (cc_http ([demo_call 7 0, demo_call 9 1000000000] ! j)) = Inr (Some (demo_cfg\<lparr>nc_MinGasPrice := 7\<rparr>)))"
proof -
  let ?calls = "[demo_call 7 0, demo_call 9 1000000000]"
  have n: "newBaseProxy 2000000000 (Some ()) (Some ProxyEndpointProvider) = Inr demo_base" by code_simp
  have r: "fst (config_run demo_cfg_decoder ?calls demo_base) ! 1 = Inr (Some (demo_cfg\<lparr>nc_MinGasPrice := 7\<rparr>))" by code_simp
  with GetNetworkConfig_fresh [OF n, of demo_cfg_decoder ?calls "fst (config_run demo_cfg_decoder ?calls demo_base)"
      "snd (config_run demo_cfg_decoder ?calls demo_base)" 1 "demo_cfg\<lparr>nc_MinGasPrice := 7\<rparr>"]
  show ?thesis by (auto simp: maxDuration_def)
qed

end
