(* ===== verification/Account_Query.thy ===== *)
theory Account_Query
  imports Endpoints
begin

text \<open>
  \<^verbatim>\<open>core/api.go\<close>: the URL of an account request with its query options. The parts of \<^verbatim>\<open>net/url\<close> that
  it uses are modelled here: \<^verbatim>\<open>URL{Path: p}.String()\<close> escapes the path and protects a colon in its
  first segment, and \<^verbatim>\<open>Values.Encode\<close> lists the parameters in the order of their names. The values that
  are set consist of letters and digits, which are not escaped.
\<close>

section \<open>Escaping\<close>

definition is_letter :: "char \<Rightarrow> bool" where
  "is_letter c \<longleftrightarrow> (let n = of_char c :: nat in 65 \<le> n \<and> n \<le> 90 \<or> 97 \<le> n \<and> n \<le> 122)"

text \<open>\<^verbatim>\<open>shouldEscape(c, encodePath)\<close>, negated.\<close>

definition path_char :: "char \<Rightarrow> bool" where
  "path_char c \<longleftrightarrow> is_letter c \<or> digit_val c \<noteq> None \<or> c \<in> set ''-_.~$&+,/:;=@''"

definition upper_hex :: "nat \<Rightarrow> char" where
  "upper_hex n = (if n < 10 then digit_char n else char_of (n + 55))"

definition escape_path :: "string \<Rightarrow> string" where
  "escape_path p = concat (map (\<lambda>c. if path_char c then [c]
     else [CHR ''%'', upper_hex (of_char c div 16), upper_hex (of_char c mod 16)]) p)"

definition url_String :: "string \<Rightarrow> string \<Rightarrow> string" where
  "url_String path rawQuery =
     (let p = (if path = ''*'' then ''*'' else escape_path path);
          first_segment = takeWhile (\<lambda>c. c \<noteq> CHR ''/'') p
      in (if CHR '':'' \<in> set first_segment then ''./'' else []) @ p @ (if rawQuery = [] then [] else CHR ''?'' # rawQuery))"

definition query_Encode :: "(string \<times> string) list \<Rightarrow> string" where
  "query_Encode params = strings_Join (map (\<lambda>(k, v). k @ ''='' @ v) params) (CHR ''&'')"

section \<open>Query options\<close>

record AccountQueryOptions =
  aq_OnFinalBlock :: bool
  aq_OnStartOfEpoch :: "u32 option"
  aq_BlockNonce :: "u64 option"
  aq_BlockHash :: "byte list"
  aq_BlockRootHash :: "byte list"
  aq_HintEpoch :: "u32 option"

definition opt_param :: "string \<Rightarrow> string option \<Rightarrow> (string \<times> string) list" where
  "opt_param k v = (case v of None \<Rightarrow> [] | Some s \<Rightarrow> [(k, s)])"

definition nonempty_hex :: "byte list \<Rightarrow> string option" where
  "nonempty_hex bs = (if length bs > 0 then Some (hex_EncodeToString bs) else None)"

text \<open>The parameters in the order in which \<^verbatim>\<open>Encode\<close> writes them.\<close>

definition query_params :: "AccountQueryOptions \<Rightarrow> (string \<times> string) list" where
  "query_params options =
     opt_param ''blockHash'' (nonempty_hex (aq_BlockHash options))
     @ opt_param ''blockNonce'' (map_option fmt_d (aq_BlockNonce options))
     @ opt_param ''blockRootHash'' (nonempty_hex (aq_BlockRootHash options))
     @ opt_param ''hintEpoch'' (map_option fmt_d (aq_HintEpoch options))
     @ opt_param ''onFinalBlock'' (if aq_OnFinalBlock options then Some ''true'' else None)
     @ opt_param ''onStartOfEpoch'' (map_option fmt_d (aq_OnStartOfEpoch options))"

definition BuildUrlWithAccountQueryOptions :: "string \<Rightarrow> AccountQueryOptions \<Rightarrow> string" where
  "BuildUrlWithAccountQueryOptions path options = url_String path (query_Encode (query_params options))"

section \<open>Lemmas\<close>

definition no_options :: AccountQueryOptions where
  "no_options = \<lparr>aq_OnFinalBlock = False, aq_OnStartOfEpoch = None, aq_BlockNonce = None, aq_BlockHash = [],
     aq_BlockRootHash = [], aq_HintEpoch = None\<rparr>"

text \<open>Without options a path of plain characters is unchanged.\<close>

lemma escape_path_plain: "\<forall>c\<in>set p. path_char c \<Longrightarrow> escape_path p = p"
  by (induction p) (auto simp: escape_path_def)

lemma BuildUrl_no_options:
  assumes "\<forall>c\<in>set p. path_char c" and "CHR '':'' \<notin> set p"
  shows "BuildUrlWithAccountQueryOptions p no_options = p"
proof -
  have "CHR '':'' \<notin> set (takeWhile (\<lambda>c. c \<noteq> CHR ''/'') p)" using assms(2) by (auto dest: set_takeWhileD)
  then show ?thesis
    using escape_path_plain [OF assms(1)]
    by (simp add: BuildUrlWithAccountQueryOptions_def url_String_def query_Encode_def query_params_def opt_param_def
        nonempty_hex_def no_options_def Let_def)
qed

text \<open>The query names each parameter at most once.\<close>

lemma query_params_distinct: "distinct (map fst (query_params options))"
  by (simp add: query_params_def opt_param_def nonempty_hex_def split: option.splits)

end
