(* ===== verification/Block_Proxy.thy ===== *)
theory Block_Proxy
  imports Base_Proxy Account_Query Map_Cacher
begin

text \<open>
  \<^verbatim>\<open>blockchain/proxy.go\<close>: the REST operations of the proxy. The log filter, which it also
  contains, is in \<open>Log_Filter\<close>. Every operation takes the client wrapper as it answers during the
  operation, or, where the network configuration may be requested, a \<open>config_call\<close>; the decoders
  of the responses and \<^verbatim>\<open>json.Marshal\<close> of the payloads are arguments. Where the source
  dereferences a pointer that a response may leave nil, the result is an option and \<open>None\<close> is the
  panic.
\<close>

section \<open>The proxy\<close>

text \<open>What the proxy takes from libraries: the address converter, the sharding library and the
  decoders of the configuration and status responses.\<close>

record proxy_env =
  pe_pkc :: pubkey_converter
  pe_newCoord :: "u32 \<Rightarrow> u32 \<Rightarrow> shardCoordinator result"
  pe_config :: "NetworkConfig option decoder"
  pe_status :: status_decoders

record 'c proxy =
  pr_base :: baseProxy
  pr_sameScState :: bool
  pr_shouldBeSynced :: bool
  pr_finalityCheck :: bool
  pr_allowedDeltaToFinal :: i64
  pr_finalityProvider :: FinalityProvider
  pr_filterQueryBlockCacher :: 'c

record 'c ArgsProxy =
  ap_SameScState :: bool
  ap_ShouldBeSynced :: bool
  ap_FinalityCheck :: bool
  ap_AllowedDeltaToFinal :: i64
  ap_CacheExpirationTime :: int
  ap_EntityType :: RestAPIEntityType
  ap_FilterQueryBlockCacher :: "'c option"

definition checkArgsProxy :: "'c ArgsProxy \<Rightarrow> go_error option" where
  "checkArgsProxy args =
     (if ap_FinalityCheck args then
        if sint (ap_AllowedDeltaToFinal args) < int MinAllowedDeltaToFinal then
          Some (Errorf [] (EBlockchain Blockchain_ErrInvalidAllowedDeltaToFinal)
            ('', provided: '' @ dec_of_int (sint (ap_AllowedDeltaToFinal args)) @ '', minimum: '' @ dec_of_nat MinAllowedDeltaToFinal))
        else None
      else None)"

text \<open>\<open>disabled\<close> is \<^verbatim>\<open>&DisabledBlockDataCache{}\<close>; the client wrapper is never nil.\<close>

definition NewProxy :: "'c \<Rightarrow> 'c ArgsProxy \<Rightarrow> 'c proxy result" where
  "NewProxy disabled args = (case checkArgsProxy args of
     Some err \<Rightarrow> Inl err
   | None \<Rightarrow>
       on_ok (CreateEndpointProvider (ap_EntityType args)) (\<lambda>endpointProvider.
       on_ok (newBaseProxy (ap_CacheExpirationTime args) (Some ()) (Some endpointProvider)) (\<lambda>baseProxyInstance.
       on_ok (CreateFinalityProvider (bp_GetRestAPIEntityType baseProxyInstance) (ap_FinalityCheck args)) (\<lambda>finalityProvider.
       Inr \<lparr>pr_base = baseProxyInstance, pr_sameScState = ap_SameScState args, pr_shouldBeSynced = ap_ShouldBeSynced args,
         pr_finalityCheck = ap_FinalityCheck args, pr_allowedDeltaToFinal = ap_AllowedDeltaToFinal args,
         pr_finalityProvider = finalityProvider,
         pr_filterQueryBlockCacher = (case ap_FilterQueryBlockCacher args of None \<Rightarrow> disabled | Some c \<Rightarrow> c)\<rparr>))))"

section \<open>Finality\<close>

definition p_GetShardOfAddress :: "proxy_env \<Rightarrow> config_call \<Rightarrow> string \<Rightarrow> 'c proxy \<Rightarrow> u32 result option \<times> 'c proxy" where
  "p_GetShardOfAddress env call bech32Address p =
     (let (r, bp) = GetShardOfAddress (pe_pkc env) (pe_newCoord env) (pe_config env) call bech32Address (pr_base p)
      in (r, p\<lparr>pr_base := bp\<rparr>))"

definition p_GetNetworkStatus :: "proxy_env \<Rightarrow> http_iface \<Rightarrow> 'c proxy \<Rightarrow> u32 \<Rightarrow> NetworkStatus result" where
  "p_GetNetworkStatus env http p shardID = GetNetworkStatus (pe_status env) http (pr_base p) shardID"

definition checkFinalState :: "proxy_env \<Rightarrow> config_call \<Rightarrow> string \<Rightarrow> 'c proxy \<Rightarrow> go_error option option \<times> 'c proxy" where
  "checkFinalState env call bech32Address p =
     (if \<not> pr_finalityCheck p then (Some None, p)
      else case p_GetShardOfAddress env call bech32Address p of
        (None, p') \<Rightarrow> (None, p')
      | (Some (Inl err), p') \<Rightarrow> (Some (Some err), p')
      | (Some (Inr targetShardID), p') \<Rightarrow>
          (Some (CheckShardFinalization (pr_finalityProvider p') (p_GetNetworkStatus env (cc_http call) p')
             targetShardID (pr_allowedDeltaToFinal p')), p'))"

text \<open>\<^verbatim>\<open>if err := ep.checkFinalState(...); err != nil { return nil, err }; ...\<close>\<close>

definition after_final_state ::
  "proxy_env \<Rightarrow> config_call \<Rightarrow> string \<Rightarrow> 'c proxy \<Rightarrow> 'a result \<Rightarrow> 'a result option \<times> 'c proxy" where
  "after_final_state env call bech32Address p k = (case checkFinalState env call bech32Address p of
     (None, p') \<Rightarrow> (None, p')
   | (Some (Some err), p') \<Rightarrow> (Some (Inl err), p')
   | (Some None, p') \<Rightarrow> (Some k, p'))"

section \<open>Accounts\<close>

text \<open>The checks of an address argument: nil, length, conversion.\<close>

definition checked_address :: "proxy_env \<Rightarrow> address option \<Rightarrow> string result" where
  "checked_address env addr = (case addr of
     None \<Rightarrow> Inl (EBlockchain Blockchain_ErrNilAddress)
   | Some a \<Rightarrow> if \<not> addr_IsValid a then Inl (EBlockchain Blockchain_ErrInvalidAddress)
       else AddressAsBech32String (pe_pkc env) a)"

definition GetAccount ::
  "proxy_env \<Rightarrow> Account option decoder \<Rightarrow> config_call \<Rightarrow> address option \<Rightarrow> 'c proxy \<Rightarrow> Account option result option \<times> 'c proxy" where
  "GetAccount env dec call addr p = (case checked_address env addr of
     Inl err \<Rightarrow> (Some (Inl err), p)
   | Inr addressAsBech32 \<Rightarrow>
       after_final_state env call addressAsBech32 p (get_reply (cc_http call) dec (ep_GetAccount addressAsBech32)))"

definition GetDefaultTransactionArguments ::
  "proxy_env \<Rightarrow> Account option decoder \<Rightarrow> config_call \<Rightarrow> address option \<Rightarrow> NetworkConfig option \<Rightarrow> 'c proxy
     \<Rightarrow> (FrontendTransaction \<times> string) result option \<times> 'c proxy" where
  "GetDefaultTransactionArguments env dec call addr networkConfigs p = (case networkConfigs of
     None \<Rightarrow> (Some (Inl (EBlockchain Blockchain_ErrNilNetworkConfigs)), p)
   | Some cfg \<Rightarrow> (case addr of
       None \<Rightarrow> (Some (Inl (EBlockchain Blockchain_ErrNilAddress)), p)
     | Some a \<Rightarrow> (case GetAccount env dec call (Some a) p of
         (None, p') \<Rightarrow> (None, p')
       | (Some (Inl err), p') \<Rightarrow> (Some (Inl err), p')
       | (Some (Inr account), p') \<Rightarrow>
           (case AddressAsBech32String (pe_pkc env) a of
              Inl err \<Rightarrow> (Some (Inl err), p')
            | Inr addressAsBech32String \<Rightarrow>
                (case account of
                   None \<Rightarrow> (None, p')
                 | Some acc \<Rightarrow>
                     (Some (Inr (zero_tx\<lparr>tx_Nonce := acc_Nonce acc, tx_Value := [], tx_Receiver := [],
                        tx_Sender := addressAsBech32String, tx_GasPrice := nc_MinGasPrice cfg, tx_GasLimit := nc_MinGasLimit cfg,
                        tx_Data := [], tx_Signature := [], tx_ChainID := nc_ChainID cfg,
                        tx_Version := nc_MinTransactionVersion cfg, tx_Options := 0\<rparr>, acc_Balance acc)), p'))))))"

definition GetESDTTokenData ::
  "proxy_env \<Rightarrow> 't decoder \<Rightarrow> http_iface \<Rightarrow> address option \<Rightarrow> string \<Rightarrow> AccountQueryOptions \<Rightarrow> 't result" where
  "GetESDTTokenData env dec http addr tokenIdentifier queryOptions =
     on_ok (checked_address env addr) (\<lambda>addressAsBech32String.
       let endpoint = ep_GetESDTTokenData addressAsBech32String tokenIdentifier;
           endpoint' = BuildUrlWithAccountQueryOptions endpoint queryOptions
       in get_reply http dec endpoint')"

definition GetNFTTokenData ::
  "proxy_env \<Rightarrow> 't decoder \<Rightarrow> http_iface \<Rightarrow> address option \<Rightarrow> string \<Rightarrow> u64 \<Rightarrow> AccountQueryOptions \<Rightarrow> 't result" where
  "GetNFTTokenData env dec http addr tokenIdentifier nonce queryOptions =
     on_ok (checked_address env addr) (\<lambda>addressAsBech32String.
       let endpoint = ep_GetNFTTokenData addressAsBech32String tokenIdentifier nonce;
           endpoint' = BuildUrlWithAccountQueryOptions endpoint queryOptions
       in get_reply http dec endpoint')"

definition GetGuardianData ::
  "proxy_env \<Rightarrow> 'g decoder \<Rightarrow> config_call \<Rightarrow> address option \<Rightarrow> 'c proxy \<Rightarrow> 'g result option \<times> 'c proxy" where
  "GetGuardianData env dec call addr p = (case checked_address env addr of
     Inl err \<Rightarrow> (Some (Inl err), p)
   | Inr bech32Address \<Rightarrow>
       after_final_state env call bech32Address p (get_reply (cc_http call) dec (ep_GetGuardianData bech32Address)))"

definition IsDataTrieMigrated ::
  "proxy_env \<Rightarrow> (string \<rightharpoonup> bool) decoder \<Rightarrow> http_iface \<Rightarrow> address option \<Rightarrow> bool result" where
  "IsDataTrieMigrated env dec http addr = (case addr of
     None \<Rightarrow> Inl (EBlockchain Blockchain_ErrNilAddress)
   | Some a \<Rightarrow>
       on_ok (AddressAsBech32String (pe_pkc env) a) (\<lambda>bech32Address.
       on_ok (get_reply http dec (ep_IsDataTrieMigrated bech32Address)) (\<lambda>response.
       or_err (response ''isMigrated'') (ErrorsNew ''isMigrated key not found in response map''))))"

section \<open>Transactions\<close>

text \<open>\<^verbatim>\<open>SendTransaction\<close> looks at the error of the request only, not at the status code.\<close>

definition SendTransaction ::
  "(FrontendTransaction \<Rightarrow> byte list result) \<Rightarrow> string decoder \<Rightarrow> http_iface \<Rightarrow> FrontendTransaction \<Rightarrow> string result" where
  "SendTransaction marshal dec http tx =
     on_ok (marshal tx) (\<lambda>jsonTx.
       let (buff, code, err) = hi_Post http ep_GetSendTransaction jsonTx
       in if err \<noteq> None then Inl (createHTTPStatusError code err) else decode_reply dec buff)"

text \<open>The loop over the map of hashes visits the indices in the order \<open>ks\<close>.\<close>

definition postProcessSendMultipleTxsResult :: "int list \<Rightarrow> (int \<rightharpoonup> string) \<Rightarrow> string list" where
  "postProcessSendMultipleTxsResult ks txsHashes = (let indexes = sort ks in map (\<lambda>idx. the (txsHashes idx)) indexes)"

definition SendTransactions ::
  "(FrontendTransaction list \<Rightarrow> byte list result) \<Rightarrow> (int \<rightharpoonup> string) decoder \<Rightarrow> http_iface \<Rightarrow> int list
     \<Rightarrow> FrontendTransaction list \<Rightarrow> string list result" where
  "SendTransactions marshal dec http ks txs =
     on_ok (marshal txs) (\<lambda>jsonTx.
     on_ok (post_reply http dec ep_GetSendMultipleTransactions jsonTx) (\<lambda>txsHashes.
     Inr (postProcessSendMultipleTxsResult ks txsHashes)))"

definition GetTransactionStatus :: "string decoder \<Rightarrow> http_iface \<Rightarrow> string \<Rightarrow> string result" where
  "GetTransactionStatus dec http hash = get_reply http dec (ep_GetTransactionStatus hash)"

definition getTransactionInfo :: "'i decoder \<Rightarrow> http_iface \<Rightarrow> string \<Rightarrow> bool \<Rightarrow> 'i result" where
  "getTransactionInfo dec http hash withResults =
     (let endpoint = ep_GetTransactionInfo hash;
          endpoint' = (if withResults then endpoint @ ''?withResults=true'' else endpoint)
      in get_reply http dec endpoint')"

definition GetTransactionInfo :: "'i decoder \<Rightarrow> http_iface \<Rightarrow> string \<Rightarrow> 'i result" where
  "GetTransactionInfo dec http hash = getTransactionInfo dec http hash False"

definition GetTransactionInfoWithResults :: "'i decoder \<Rightarrow> http_iface \<Rightarrow> string \<Rightarrow> 'i result" where
  "GetTransactionInfoWithResults dec http hash = getTransactionInfo dec http hash True"

definition RequestTransactionCost ::
  "(FrontendTransaction \<Rightarrow> byte list result) \<Rightarrow> 'k decoder \<Rightarrow> http_iface \<Rightarrow> FrontendTransaction \<Rightarrow> 'k result" where
  "RequestTransactionCost marshal dec http tx = on_ok (marshal tx) (post_reply http dec ep_GetCostTransaction)"

section \<open>Blocks\<close>

definition GetLatestHyperBlockNonce :: "proxy_env \<Rightarrow> http_iface \<Rightarrow> 'c proxy \<Rightarrow> u64 result" where
  "GetLatestHyperBlockNonce env http p = on_ok (p_GetNetworkStatus env http p MetachainShardId) (\<lambda>response. Inr (ns_Nonce response))"

definition getHyperBlock :: "'b decoder \<Rightarrow> http_iface \<Rightarrow> string \<Rightarrow> 'b result" where
  "getHyperBlock dec http endpoint = get_reply http dec endpoint"

definition GetHyperBlockByNonce :: "'b decoder \<Rightarrow> http_iface \<Rightarrow> u64 \<Rightarrow> 'b result" where
  "GetHyperBlockByNonce dec http nonce = getHyperBlock dec http (ep_GetHyperBlockByNonce nonce)"

definition GetHyperBlockByHash :: "'b decoder \<Rightarrow> http_iface \<Rightarrow> string \<Rightarrow> 'b result" where
  "GetHyperBlockByHash dec http hash = getHyperBlock dec http (ep_GetHyperBlockByHash hash)"

definition getRawBlock :: "byte list decoder \<Rightarrow> http_iface \<Rightarrow> string \<Rightarrow> byte list result" where
  "getRawBlock dec http endpoint = get_reply http dec endpoint"

definition GetRawBlockByHash :: "byte list decoder \<Rightarrow> http_iface \<Rightarrow> 'c proxy \<Rightarrow> u32 \<Rightarrow> string \<Rightarrow> byte list result" where
  "GetRawBlockByHash dec http p shardId hash =
     getRawBlock dec http (GetRawBlockByHash_endpoint (bp_endpointProvider (pr_base p)) shardId hash)"

definition GetRawBlockByNonce :: "byte list decoder \<Rightarrow> http_iface \<Rightarrow> 'c proxy \<Rightarrow> u32 \<Rightarrow> u64 \<Rightarrow> byte list result" where
  "GetRawBlockByNonce dec http p shardId nonce =
     getRawBlock dec http (GetRawBlockByNonce_endpoint (bp_endpointProvider (pr_base p)) shardId nonce)"

definition GetRawStartOfEpochMetaBlock :: "byte list decoder \<Rightarrow> http_iface \<Rightarrow> u32 \<Rightarrow> byte list result" where
  "GetRawStartOfEpochMetaBlock dec http epoch = getRawBlock dec http (ep_GetRawStartOfEpochMetaBlock epoch)"

definition getRawMiniBlock :: "byte list decoder \<Rightarrow> http_iface \<Rightarrow> string \<Rightarrow> byte list result" where
  "getRawMiniBlock dec http endpoint = get_reply http dec endpoint"

definition GetRawMiniBlockByHash ::
  "byte list decoder \<Rightarrow> http_iface \<Rightarrow> 'c proxy \<Rightarrow> u32 \<Rightarrow> string \<Rightarrow> u32 \<Rightarrow> byte list result" where
  "GetRawMiniBlockByHash dec http p shardId hash epoch =
     getRawMiniBlock dec http (GetRawMiniBlockByHash_endpoint (bp_endpointProvider (pr_base p)) shardId hash epoch)"

definition GetNonceAtEpochStart :: "proxy_env \<Rightarrow> http_iface \<Rightarrow> 'c proxy \<Rightarrow> u32 \<Rightarrow> u64 result" where
  "GetNonceAtEpochStart env http p shardId =
     on_ok (p_GetNetworkStatus env http p shardId) (\<lambda>response. Inr (ns_NonceAtEpochStart response))"

section \<open>Network data\<close>

definition GetNetworkEconomics :: "'e decoder \<Rightarrow> http_iface \<Rightarrow> 'e result" where
  "GetNetworkEconomics dec http = get_reply http dec ep_GetNetworkEconomics"

definition GetRatingsConfig :: "'e decoder \<Rightarrow> http_iface \<Rightarrow> 'e result" where
  "GetRatingsConfig dec http = get_reply http dec ep_GetRatingsConfig"

definition GetEnableEpochsConfig :: "'e decoder \<Rightarrow> http_iface \<Rightarrow> 'e result" where
  "GetEnableEpochsConfig dec http = get_reply http dec ep_GetEnableEpochsConfig"

definition GetGenesisNodesPubKeys :: "'e decoder \<Rightarrow> http_iface \<Rightarrow> 'e result" where
  "GetGenesisNodesPubKeys dec http = get_reply http dec ep_GetGenesisNodesConfig"

definition GetValidatorsInfoByEpoch :: "'e decoder \<Rightarrow> http_iface \<Rightarrow> u32 \<Rightarrow> 'e result" where
  "GetValidatorsInfoByEpoch dec http epoch = get_reply http dec (ep_GetValidatorsInfo epoch)"

section \<open>VM queries\<close>

definition ExecuteVMQuery ::
  "proxy_env \<Rightarrow> (VmValueRequest \<Rightarrow> bool \<Rightarrow> bool \<Rightarrow> byte list result) \<Rightarrow> 'v decoder \<Rightarrow> config_call \<Rightarrow> VmValueRequest \<Rightarrow> 'c proxy
     \<Rightarrow> 'v result option \<times> 'c proxy" where
  "ExecuteVMQuery env marshal dec call vmRequest p =
     (case checkFinalState env call (vq_Address vmRequest) p of
        (None, p') \<Rightarrow> (None, p')
      | (Some (Some err), p') \<Rightarrow> (Some (Inl err), p')
      | (Some None, p') \<Rightarrow>
          (Some (on_ok (marshal vmRequest (pr_sameScState p') (pr_shouldBeSynced p'))
             (post_reply (cc_http call) dec ep_GetVmValues)), p'))"

section \<open>A concrete network\<close>

definition demo_proxy_env :: proxy_env where
  "demo_proxy_env = \<lparr>pe_pkc = hex_converter, pe_newCoord = (\<lambda>_ _. Inr (\<lambda>_. 1)), pe_config = demo_cfg_decoder,
     pe_status = \<lparr>sd_network = (\<lambda>_. Inr ([], Some (demo_status 92))), sd_node = (\<lambda>_. Inr ([], Some (demo_status 92)))\<rparr>\<rparr>"

definition demo_node_proxy :: "unit proxy" where
  "demo_node_proxy = \<lparr>pr_base = demo_base\<lparr>bp_endpointProvider := NodeEndpointProvider\<rparr>, pr_sameScState = False,
     pr_shouldBeSynced = False, pr_finalityCheck = True, pr_allowedDeltaToFinal = 2,
     pr_finalityProvider = NodeFinalityProvider, pr_filterQueryBlockCacher = ()\<rparr>"

definition demo_address :: address where
  "demo_address = \<lparr>addr_bytes = replicate 32 1\<rparr>"

section \<open>Lemmas\<close>

lemma after_final_state_ok:
  assumes "after_final_state env call bech32 p k = (Some (Inr x), p')" and "pr_finalityCheck p"
  shows "k = Inr x \<and> (\<exists>s. p_GetShardOfAddress env call bech32 p = (Some (Inr s), p')
    \<and> CheckShardFinalization (pr_finalityProvider p) (p_GetNetworkStatus env (cc_http call) p') s (pr_allowedDeltaToFinal p) = None)"
proof -
  have "pr_finalityProvider p'' = pr_finalityProvider p \<and> pr_allowedDeltaToFinal p'' = pr_allowedDeltaToFinal p"
    if "p_GetShardOfAddress env call bech32 p = (r, p'')" for r p''
    using that by (auto simp: p_GetShardOfAddress_def split_beta Let_def)
  with assms show ?thesis
    by (auto simp: after_final_state_def checkFinalState_def split: prod.splits option.splits sum.splits if_splits)
qed

lemma ExecuteVMQuery_after:
  "ExecuteVMQuery env marshal dec call req p = after_final_state env call (vq_Address req) p
     (on_ok (marshal req (pr_sameScState p) (pr_shouldBeSynced p)) (post_reply (cc_http call) dec ep_GetVmValues))"
  by (auto simp: ExecuteVMQuery_def after_final_state_def checkFinalState_def p_GetShardOfAddress_def Let_def
      split: prod.splits option.splits sum.splits)

lemma sort_go_range: "go_range m ks \<Longrightarrow> sort ks = sorted_list_of_set (dom m)"
  by (metis go_range_def sorted_list_of_set_sort_remdups distinct_remdups_id)

section \<open>Properties\<close>

text \<open>C24. With the finality check switched on, account and VM query data are only returned when the
  shard of the address was found final by the configured provider in the same operation, and the
  data are the answer of the network for exactly that address or request.\<close>

theorem finality_guards_reads:
  assumes "pr_finalityCheck p"
  shows "(GetAccount env adec call (Some a) p = (Some (Inr acc), p') \<longrightarrow>
      (\<exists>bech32 s. AddressAsBech32String (pe_pkc env) a = Inr bech32 \<and> addr_IsValid a
        \<and> p_GetShardOfAddress env call bech32 p = (Some (Inr s), p')
        \<and> CheckShardFinalization (pr_finalityProvider p) (p_GetNetworkStatus env (cc_http call) p') s (pr_allowedDeltaToFinal p) = None
        \<and> (\<exists>buff. hi_Get (cc_http call) (ep_GetAccount bech32) = (buff, StatusOK, None) \<and> adec buff = Inr ([], acc))))
    \<and> (ExecuteVMQuery env marshal vdec call req p = (Some (Inr v), p'') \<longrightarrow>
      (\<exists>s. p_GetShardOfAddress env call (vq_Address req) p = (Some (Inr s), p'')
        \<and> CheckShardFinalization (pr_finalityProvider p) (p_GetNetworkStatus env (cc_http call) p'') s (pr_allowedDeltaToFinal p) = None
        \<and> (\<exists>payload buff. marshal req (pr_sameScState p) (pr_shouldBeSynced p) = Inr payload
             \<and> hi_Post (cc_http call) ep_GetVmValues payload = (buff, StatusOK, None) \<and> vdec buff = Inr ([], v))))"
proof (intro conjI impI)
  assume g: "GetAccount env adec call (Some a) p = (Some (Inr acc), p')"
  then obtain bech32 where b: "AddressAsBech32String (pe_pkc env) a = Inr bech32" "addr_IsValid a"
    by (auto simp: GetAccount_def checked_address_def split: sum.splits if_splits)
  then have "after_final_state env call bech32 p (get_reply (cc_http call) adec (ep_GetAccount bech32)) = (Some (Inr acc), p')"
    using g by (simp add: GetAccount_def checked_address_def)
  from after_final_state_ok [OF this assms] b show "\<exists>bech32 s. AddressAsBech32String (pe_pkc env) a = Inr bech32 \<and> addr_IsValid a
        \<and> p_GetShardOfAddress env call bech32 p = (Some (Inr s), p')
        \<and> CheckShardFinalization (pr_finalityProvider p) (p_GetNetworkStatus env (cc_http call) p') s (pr_allowedDeltaToFinal p) = None
        \<and> (\<exists>buff. hi_Get (cc_http call) (ep_GetAccount bech32) = (buff, StatusOK, None) \<and> adec buff = Inr ([], acc))"
    by (auto simp: get_reply_Inr)
next
  assume "ExecuteVMQuery env marshal vdec call req p = (Some (Inr v), p'')"
  from after_final_state_ok [OF this [unfolded ExecuteVMQuery_after] assms]
  show "\<exists>s. p_GetShardOfAddress env call (vq_Address req) p = (Some (Inr s), p'')
        \<and> CheckShardFinalization (pr_finalityProvider p) (p_GetNetworkStatus env (cc_http call) p'') s (pr_allowedDeltaToFinal p) = None
        \<and> (\<exists>payload buff. marshal req (pr_sameScState p) (pr_shouldBeSynced p) = Inr payload
             \<and> hi_Post (cc_http call) ep_GetVmValues payload = (buff, StatusOK, None) \<and> vdec buff = Inr ([], v))"
    by (auto simp: post_reply_def)
qed

theorem finality_guards_reads_witness:
  "fst (GetAccount demo_proxy_env (\<lambda>_. Inr ([], None)) (demo_call 7 0) (Some demo_address) demo_node_proxy) = Some (Inr None)
   \<and> (\<exists>s (p' :: unit proxy). CheckShardFinalization NodeFinalityProvider (p_GetNetworkStatus demo_proxy_env (cc_http (demo_call 7 0)) p') s 2 = None)"
proof -
  let ?g = "GetAccount demo_proxy_env (\<lambda>_. Inr ([], None)) (demo_call 7 0) (Some demo_address) demo_node_proxy"
  have f: "pr_finalityCheck demo_node_proxy" by (simp add: demo_node_proxy_def)
  have g: "fst ?g = Some (Inr None)" by code_simp
  then have e: "?g = (Some (Inr None), snd ?g)" by (simp add: prod_eq_iff)
  have "pr_finalityProvider demo_node_proxy = NodeFinalityProvider" "pr_allowedDeltaToFinal demo_node_proxy = 2"
    by (simp_all add: demo_node_proxy_def)
  with finality_guards_reads [OF f, THEN conjunct1, THEN mp, OF e] g show ?thesis by metis
qed

text \<open>The hashes of a multiple send are returned in ascending order of the transaction indices
  whatever order the map is visited in, so that the result does not depend on it.\<close>

lemma SendTransactions_ordered:
  assumes "marshal txs = Inr payload" and "hi_Post http ep_GetSendMultipleTransactions payload = (buff, StatusOK, None)"
    and "dec buff = Inr ([], hashes)" and "go_range hashes ks"
  shows "SendTransactions marshal dec http ks txs = Inr (map (\<lambda>i. the (hashes i)) (sorted_list_of_set (dom hashes)))"
proof -
  have "post_reply http dec ep_GetSendMultipleTransactions payload = Inr hashes"
    using assms(2,3) by (simp add: post_reply_def)
  with assms(1) show ?thesis
    by (simp add: SendTransactions_def postProcessSendMultipleTxsResult_def sort_go_range [OF assms(4)])
qed

lemma SendTransactions_ordered_example:
  "let http = \<lparr>hi_Get = (\<lambda>_. ([], StatusOK, None)), hi_Post = (\<lambda>_ _. ([1], StatusOK, None))\<rparr>
   in SendTransactions (\<lambda>_. Inr []) (\<lambda>_. Inr ([], [1 \<mapsto> ''b'', 0 \<mapsto> ''a''])) http [1, 0] [zero_tx, zero_tx] = Inr [''a'', ''b'']"
proof -
  let ?http = "\<lparr>hi_Get = (\<lambda>_. ([], StatusOK, None)), hi_Post = (\<lambda>_ _. ([1], StatusOK, None))\<rparr>"
  have "sorted_list_of_set {1, 0 :: int} = [0, 1]" by simp
  moreover have "go_range [1 \<mapsto> ''b'', 0 \<mapsto> ''a''] [1, 0 :: int]" by (auto simp: go_range_def)
  ultimately show ?thesis
    using SendTransactions_ordered [of "\<lambda>_. Inr []" "[zero_tx, zero_tx]" "[]" ?http "[1]" "\<lambda>_. Inr ([], [1 \<mapsto> ''b'', 0 \<mapsto> ''a''])"]
    by (simp add: insert_commute)
qed

end
