(* ===== verification/Log_Filter.thy ===== *)
theory Log_Filter
  imports Block_Proxy
begin

text \<open>
  The log filter of \<^verbatim>\<open>blockchain/proxy.go\<close>: the shard and the block range of a filter, the block cache
  and the selection of the events. The block cache is any \<^verbatim>\<open>BlockDataCache\<close>: its operations
  are arguments, and the contract \<open>cacher\<close> says what is relied on. \<open>None\<close> stands for a call that does
  not return: a nil dereference, or a loop that does not end because the block number wraps.
\<close>

section \<open>Data\<close>

record FilterQuery =
  fq_BlockHash :: "byte list option"
  fq_FromBlock :: "u64 option"
  fq_ToBlock :: "u64 option"
  fq_Addresses :: "string list"
  fq_ShardID :: "u32 option"
  fq_Topics :: "byte list list"

text \<open>The parts of an API block that the filter reads; null entries of the JSON lists are \<open>None\<close>.\<close>

record Events =
  ev_Address :: string
  ev_Identifier :: string
  ev_Topics :: "byte list list"
  ev_Data :: "byte list"

record ApiTransaction =
  atx_Logs :: "Events option list option"

record ApiBlock =
  ab_Nonce :: u64
  ab_MiniBlocks :: "ApiTransaction option list option list"

datatype block_cached = CachedBuff "byte list" | CachedNonBytes

definition MaximumBlocksDelta :: u64 where "MaximumBlocksDelta = 500"

section \<open>The disabled block cache\<close>

record DisabledBlockDataCache = dbc_unit :: unit

definition dbc_Get :: "DisabledBlockDataCache \<Rightarrow> byte list \<Rightarrow> block_cached option" where
  "dbc_Get _ _ = None"

definition dbc_Put :: "byte list \<Rightarrow> block_cached \<Rightarrow> DisabledBlockDataCache \<Rightarrow> DisabledBlockDataCache" where
  "dbc_Put _ _ n = n"

interpretation disabled_block_cache: cacher dbc_Get dbc_Put
  by unfold_locales (simp_all add: dbc_Get_def)

section \<open>Shard of a filter\<close>

text \<open>\<open>calls i\<close> is the environment of the \<open>i\<close>-th request of the configuration.\<close>

primrec same_shard_loop ::
  "proxy_env \<Rightarrow> (nat \<Rightarrow> config_call) \<Rightarrow> nat \<Rightarrow> u32 \<Rightarrow> string list \<Rightarrow> 'c proxy \<Rightarrow> (u32 result \<times> 'c proxy) option" where
  "same_shard_loop env calls i shardId [] p = Some (Inr shardId, p)"
| "same_shard_loop env calls i shardId (addr # addrs) p = (case p_GetShardOfAddress env (calls i) addr p of
     (None, _) \<Rightarrow> None
   | (Some (Inl err), p') \<Rightarrow> Some (Inl err, p')
   | (Some (Inr addressShardId), p') \<Rightarrow>
       if addressShardId \<noteq> shardId then Some (Inl (EBlockchain Blockchain_ErrAddressesFromDifferentShards), p')
       else same_shard_loop env calls (Suc i) shardId addrs p')"

definition computeShardIdFromAddresses ::
  "proxy_env \<Rightarrow> (nat \<Rightarrow> config_call) \<Rightarrow> string list \<Rightarrow> 'c proxy \<Rightarrow> (u32 result \<times> 'c proxy) option" where
  "computeShardIdFromAddresses env calls addresses p = (case addresses of
     [] \<Rightarrow> None
   | addr0 # _ \<Rightarrow> (case p_GetShardOfAddress env (calls 0) addr0 p of
       (None, _) \<Rightarrow> None
     | (Some (Inl err), p') \<Rightarrow> Some (Inl err, p')
     | (Some (Inr shardId), p') \<Rightarrow> same_shard_loop env calls 1 shardId addresses p'))"

definition computeShardId ::
  "proxy_env \<Rightarrow> (nat \<Rightarrow> config_call) \<Rightarrow> FilterQuery \<Rightarrow> 'c proxy \<Rightarrow> (u32 result \<times> 'c proxy) option" where
  "computeShardId env calls flt p =
     (if length (fq_Addresses flt) \<noteq> 0 then
        (case computeShardIdFromAddresses env calls (fq_Addresses flt) p of
           None \<Rightarrow> None
         | Some (Inl err, p') \<Rightarrow> Some (Inl err, p')
         | Some (Inr shardIdFromAddresses, p') \<Rightarrow>
             (case fq_ShardID flt of
                Some s \<Rightarrow>
                  if s \<noteq> shardIdFromAddresses then
                    Some (Inl (Errorf [] (EBlockchain Blockchain_ErrShardIDMismatch)
                      ('', computed '' @ fmt_d shardIdFromAddresses @ '', provided '' @ fmt_d s)), p')
                  else Some (Inr s, p')
              | None \<Rightarrow> Some (Inr shardIdFromAddresses, p')))
      else case fq_ShardID flt of
        Some s \<Rightarrow> Some (Inr s, p)
      | None \<Rightarrow> Some (Inl (EBlockchain Blockchain_ErrNoShardOrAddressesProvided), p))"

section \<open>Block range\<close>

definition too_many_blocks :: go_error where
  "too_many_blocks = ErrorsNew ''invalid block range: too many blocks to process''"

definition resolveBlockRange :: "FilterQuery \<Rightarrow> u64 \<Rightarrow> (u64 \<times> u64) result" where
  "resolveBlockRange flt latestBlock =
     (let genesisBlock = 0 in
      if (case fq_ToBlock flt of Some t \<Rightarrow> t > latestBlock | None \<Rightarrow> False) then
        Inl (ErrorsNew ''toBlock is greater than the latest block'')
      else case (fq_FromBlock flt, fq_ToBlock flt) of
        (Some fromBlock, Some toBlock) \<Rightarrow>
          if toBlock - fromBlock \<le> MaximumBlocksDelta then Inr (fromBlock, toBlock) else Inl too_many_blocks
      | (Some fromBlock, None) \<Rightarrow>
          let toBlock = latestBlock
          in if toBlock - fromBlock \<le> MaximumBlocksDelta then Inr (fromBlock, toBlock) else Inl too_many_blocks
      | (None, Some toBlock) \<Rightarrow>
          let fromBlock = genesisBlock
          in if toBlock - fromBlock \<le> MaximumBlocksDelta then Inr (fromBlock, toBlock) else Inl too_many_blocks
      | (None, None) \<Rightarrow> Inl (ErrorsNew ''no block range specified''))"

section \<open>Blocks and their cache\<close>

definition block_key :: "u64 \<Rightarrow> byte list" where
  "block_key nonce = be_bytes 8 (unat nonce)"

definition block_url :: "'c proxy \<Rightarrow> u32 \<Rightarrow> u64 \<Rightarrow> string" where
  "block_url p shardID nonce =
     GetBlockByNonce_endpoint (bp_endpointProvider (pr_base p)) shardID nonce @ ''?withTxs=true&withLogs=true''"

definition getBlockBytesByNonceWithTxsAndLogs :: "http_iface \<Rightarrow> 'c proxy \<Rightarrow> u32 \<Rightarrow> u64 \<Rightarrow> byte list result" where
  "getBlockBytesByNonceWithTxsAndLogs http p shardID nonce = http_reply (hi_Get http (block_url p shardID nonce))"

definition getBlockBytesByHashWithTxsAndLogs :: "http_iface \<Rightarrow> 'c proxy \<Rightarrow> u32 \<Rightarrow> string \<Rightarrow> byte list result" where
  "getBlockBytesByHashWithTxsAndLogs http p shardID hash = http_reply (hi_Get http
     (GetBlockByHash_endpoint (bp_endpointProvider (pr_base p)) shardID hash @ ''?withTxs=true&withLogs=true''))"

text \<open>The error field of the response is not looked at, and the block pointer is dereferenced.\<close>

definition getBlockNumberByHash ::
  "ApiBlock option decoder \<Rightarrow> (byte list \<Rightarrow> block_cached \<Rightarrow> 'c \<Rightarrow> 'c) \<Rightarrow> http_iface \<Rightarrow> u32 \<Rightarrow> byte list \<Rightarrow> 'c proxy
     \<Rightarrow> (u64 result \<times> 'c proxy) option" where
  "getBlockNumberByHash dec cput http shardID blockHash p =
     (let blockHashStr = hex_EncodeToString blockHash
      in case getBlockBytesByHashWithTxsAndLogs http p shardID blockHashStr of
           Inl err \<Rightarrow> Some (Inl err, p)
         | Inr buff \<Rightarrow> (case dec buff of
             Inl err \<Rightarrow> Some (Inl err, p)
           | Inr (_, None) \<Rightarrow> None
           | Inr (_, Some block) \<Rightarrow>
               let blockNonce = ab_Nonce block;
                   p' = (if length buff > 0 then
                       p\<lparr>pr_filterQueryBlockCacher := cput (block_key blockNonce) (CachedBuff buff) (pr_filterQueryBlockCacher p)\<rparr>
                     else p)
               in Some (Inr blockNonce, p')))"

definition computeFromToBlocksForFilter ::
  "ApiBlock option decoder \<Rightarrow> (byte list \<Rightarrow> block_cached \<Rightarrow> 'c \<Rightarrow> 'c) \<Rightarrow> http_iface \<Rightarrow> FilterQuery \<Rightarrow> u32 \<Rightarrow> u64 \<Rightarrow> 'c proxy
     \<Rightarrow> ((u64 \<times> u64) result \<times> 'c proxy) option" where
  "computeFromToBlocksForFilter dec cput http flt shardID latestBlock p = (case fq_BlockHash flt of
     Some blockHash \<Rightarrow> (case getBlockNumberByHash dec cput http shardID blockHash p of
         None \<Rightarrow> None
       | Some (Inl err, p') \<Rightarrow> Some (Inl err, p')
       | Some (Inr blockNum, p') \<Rightarrow> Some (Inr (blockNum, blockNum), p'))
   | None \<Rightarrow> Some (resolveBlockRange flt latestBlock, p))"

definition fetch_block ::
  "(byte list \<Rightarrow> block_cached \<Rightarrow> 'c \<Rightarrow> 'c) \<Rightarrow> http_iface \<Rightarrow> 'c proxy \<Rightarrow> u32 \<Rightarrow> u64 \<Rightarrow> byte list result \<times> 'c proxy" where
  "fetch_block cput http p shardID nonce = (case getBlockBytesByNonceWithTxsAndLogs http p shardID nonce of
     Inl err \<Rightarrow> (Inl err, p)
   | Inr buff \<Rightarrow> (Inr buff,
       p\<lparr>pr_filterQueryBlockCacher := cput (block_key nonce) (CachedBuff buff) (pr_filterQueryBlockCacher p)\<rparr>))"

definition getBlockBytesByNonce ::
  "('c \<Rightarrow> byte list \<Rightarrow> block_cached option) \<Rightarrow> (byte list \<Rightarrow> block_cached \<Rightarrow> 'c \<Rightarrow> 'c) \<Rightarrow> http_iface \<Rightarrow> 'c proxy \<Rightarrow> u32 \<Rightarrow> u64
     \<Rightarrow> byte list result \<times> 'c proxy" where
  "getBlockBytesByNonce cget cput http p shardID nonce = (case cget (pr_filterQueryBlockCacher p) (block_key nonce) of
     Some (CachedBuff cachedBuff) \<Rightarrow>
       if length cachedBuff > 0 then (Inr cachedBuff, p) else fetch_block cput http p shardID nonce
   | Some CachedNonBytes \<Rightarrow> fetch_block cput http p shardID nonce
   | None \<Rightarrow> fetch_block cput http p shardID nonce)"

section \<open>Selection of events\<close>

definition address_contained :: "string list \<Rightarrow> string \<Rightarrow> bool" where
  "address_contained addresses addr = (if length addresses = 0 then True else list_ex (\<lambda>a. a = addr) addresses)"

fun topics_loop :: "byte list list \<Rightarrow> byte list list \<Rightarrow> bool" where
  "topics_loop [] _ = True"
| "topics_loop (f # fs) (e # es) = (if f \<noteq> e then False else topics_loop fs es)"
| "topics_loop (f # fs) [] = False"

definition topicsMatch :: "byte list list \<Rightarrow> byte list list \<Rightarrow> bool" where
  "topicsMatch filterTopics eventTopics =
     (if length filterTopics > length eventTopics then False else topics_loop filterTopics eventTopics)"

definition matchesFilter :: "FilterQuery \<Rightarrow> Events \<Rightarrow> bool" where
  "matchesFilter flt event =
     (if \<not> address_contained (fq_Addresses flt) (ev_Address event) then False
      else if length (fq_Topics flt) > 0 \<and> \<not> topicsMatch (fq_Topics flt) (ev_Topics event) then False
      else True)"

text \<open>A \<^verbatim>\<open>range\<close> loop that appends to a slice and may panic.\<close>

primrec collect :: "('a \<Rightarrow> 'b list option) \<Rightarrow> 'a list \<Rightarrow> 'b list option" where
  "collect f [] = Some []"
| "collect f (x # xs) = (case f x of None \<Rightarrow> None | Some ys \<Rightarrow> map_option (\<lambda>zs. ys @ zs) (collect f xs))"

definition extractMatchingEvents :: "ApiBlock option \<Rightarrow> FilterQuery \<Rightarrow> Events list option" where
  "extractMatchingEvents block flt =
     Option.bind block (\<lambda>b.
     collect (\<lambda>miniblock. Option.bind miniblock (collect (\<lambda>tx. Option.bind tx (\<lambda>t.
       case atx_Logs t of
         None \<Rightarrow> Some []
       | Some events \<Rightarrow> collect (\<lambda>event. map_option (\<lambda>e. if matchesFilter flt e then [e] else []) event) events))))
       (ab_MiniBlocks b))"

definition getLogsFromBlock ::
  "ApiBlock option decoder \<Rightarrow> ('c \<Rightarrow> byte list \<Rightarrow> block_cached option) \<Rightarrow> (byte list \<Rightarrow> block_cached \<Rightarrow> 'c \<Rightarrow> 'c) \<Rightarrow> http_iface
     \<Rightarrow> u32 \<Rightarrow> FilterQuery \<Rightarrow> u64 \<Rightarrow> 'c proxy \<Rightarrow> (Events list result \<times> 'c proxy) option" where
  "getLogsFromBlock dec cget cput http shardID flt blockNum p =
     (case getBlockBytesByNonce cget cput http p shardID blockNum of
        (Inl err, p') \<Rightarrow> Some (Inl err, p')
      | (Inr buff, p') \<Rightarrow> (case dec buff of
          Inl err \<Rightarrow> Some (Inl err, p')
        | Inr (error, block) \<Rightarrow>
            if error \<noteq> [] then Some (Inl (ErrorsNew error), p')
            else map_option (\<lambda>events. (Inr events, p')) (extractMatchingEvents block flt)))"

section \<open>FilterLogs\<close>

partial_function (option) filter_loop ::
  "ApiBlock option decoder \<Rightarrow> ('c \<Rightarrow> byte list \<Rightarrow> block_cached option) \<Rightarrow> (byte list \<Rightarrow> block_cached \<Rightarrow> 'c \<Rightarrow> 'c) \<Rightarrow> http_iface
     \<Rightarrow> u32 \<Rightarrow> FilterQuery \<Rightarrow> u64 \<Rightarrow> u64 \<Rightarrow> Events list \<Rightarrow> 'c proxy \<Rightarrow> (Events list result \<times> 'c proxy) option" where
  [code]: "filter_loop dec cget cput http shardID flt toBlock blockNum matchingEvents p =
     (if blockNum \<le> toBlock then
        (case getLogsFromBlock dec cget cput http shardID flt blockNum p of
           None \<Rightarrow> None
         | Some (Inl err, p') \<Rightarrow> Some (Inl err, p')
         | Some (Inr blockLogs, p') \<Rightarrow>
             filter_loop dec cget cput http shardID flt toBlock (blockNum + 1) (matchingEvents @ blockLogs) p')
      else Some (Inr matchingEvents, p))"

definition FilterLogs ::
  "proxy_env \<Rightarrow> ApiBlock option decoder \<Rightarrow> ('c \<Rightarrow> byte list \<Rightarrow> block_cached option) \<Rightarrow> (byte list \<Rightarrow> block_cached \<Rightarrow> 'c \<Rightarrow> 'c)
     \<Rightarrow> (nat \<Rightarrow> config_call) \<Rightarrow> http_iface \<Rightarrow> FilterQuery \<Rightarrow> 'c proxy \<Rightarrow> (Events list result \<times> 'c proxy) option" where
  "FilterLogs env dec cget cput calls http flt p = (case computeShardId env calls flt p of
     None \<Rightarrow> None
   | Some (Inl err, p1) \<Rightarrow> Some (Inl err, p1)
   | Some (Inr shardID, p1) \<Rightarrow> (case p_GetNetworkStatus env http p1 shardID of
       Inl err \<Rightarrow> Some (Inl err, p1)
     | Inr status \<Rightarrow> (case computeFromToBlocksForFilter dec cput http flt shardID (ns_Nonce status) p1 of
         None \<Rightarrow> None
       | Some (Inl err, p2) \<Rightarrow> Some (Inl err, p2)
       | Some (Inr (fromBlock, toBlock), p2) \<Rightarrow>
           filter_loop dec cget cput http shardID flt toBlock fromBlock [] p2)))"

section \<open>Reference\<close>

text \<open>A block without null entries, from the logs of its transactions, its events in order, and when
  an event matches.\<close>

definition mk_block :: "u64 \<Rightarrow> Events list option list list \<Rightarrow> ApiBlock" where
  "mk_block n mbs = \<lparr>ab_Nonce = n,
     ab_MiniBlocks = map (\<lambda>txs. Some (map (\<lambda>logs. Some \<lparr>atx_Logs = map_option (map Some) logs\<rparr>) txs)) mbs\<rparr>"

definition block_events :: "Events list option list list \<Rightarrow> Events list" where
  "block_events mbs = concat (map (\<lambda>txs. concat (map (case_option [] id) txs)) mbs)"

definition event_matches :: "FilterQuery \<Rightarrow> Events \<Rightarrow> bool" where
  "event_matches flt e \<longleftrightarrow>
     (fq_Addresses flt = [] \<or> ev_Address e \<in> set (fq_Addresses flt)) \<and> prefix (fq_Topics flt) (ev_Topics e)"

text \<open>What a cache may hold for the blocks of a shard.\<close>

definition block_rel :: "http_iface \<Rightarrow> EndpointProvider \<Rightarrow> u32 \<Rightarrow> byte list \<Rightarrow> block_cached \<Rightarrow> bool" where
  "block_rel http prov shardID k v \<longleftrightarrow> (\<forall>n buff. k = block_key n \<and> v = CachedBuff buff \<longrightarrow>
     hi_Get http (GetBlockByNonce_endpoint prov shardID n @ ''?withTxs=true&withLogs=true'') = (buff, StatusOK, None))"

section \<open>A concrete chain\<close>

definition demo_event :: "u64 \<Rightarrow> Events" where
  "demo_event n = \<lparr>ev_Address = ''sc'', ev_Identifier = ''swap'', ev_Topics = [[7], [8]], ev_Data = nat_bytes (unat n)\<rparr>"

definition demo_filter :: FilterQuery where
  "demo_filter = \<lparr>fq_BlockHash = None, fq_FromBlock = Some 90, fq_ToBlock = Some 91, fq_Addresses = [], fq_ShardID = Some 1,
     fq_Topics = [[7]]\<rparr>"

definition demo_log_proxy :: "(block_cached, unit) mapCacher proxy" where
  "demo_log_proxy = \<lparr>pr_base = demo_base, pr_sameScState = False, pr_shouldBeSynced = False, pr_finalityCheck = False,
     pr_allowedDeltaToFinal = 0, pr_finalityProvider = DisabledFinalityProvider, pr_filterQueryBlockCacher = NewMapCacher\<rparr>"

text \<open>The body of a block is its shard and its nonce.\<close>

definition demo_blocks_http :: http_iface where
  "demo_blocks_http = \<lparr>hi_Get = (\<lambda>url. (case List.find (\<lambda>(s, n). url = block_url demo_log_proxy s n) [(1, 90), (1, 91), (0, 5)] of
       None \<Rightarrow> [] | Some (s, n) \<Rightarrow> [ucast s, ucast n], StatusOK, None)), hi_Post = (\<lambda>_ _. ([], StatusOK, None))\<rparr>"

definition demo_block_logs :: "u64 \<Rightarrow> Events list option list list" where
  "demo_block_logs n = [[Some [demo_event n, (demo_event n)\<lparr>ev_Topics := [[9]]\<rparr>], None]]"

definition demo_block_decoder :: "ApiBlock option decoder" where
  "demo_block_decoder buff = (case buff of
     [s, n] \<Rightarrow> Inr ([], Some (mk_block (ucast n) (demo_block_logs (ucast n))))
   | _ \<Rightarrow> Inl (EExternal ''json''))"

section \<open>Lemmas\<close>

lemma address_contained_iff: "address_contained as a \<longleftrightarrow> as = [] \<or> a \<in> set as"
  by (auto simp: address_contained_def list_ex_iff)

lemma topics_loop_iff: "topics_loop fs es \<longleftrightarrow> prefix fs es"
  by (induction fs es rule: topics_loop.induct) auto

lemma topicsMatch_iff: "topicsMatch fs es \<longleftrightarrow> prefix fs es"
  by (auto simp: topicsMatch_def topics_loop_iff dest: prefix_length_le)

lemma matchesFilter_iff: "matchesFilter flt e \<longleftrightarrow> event_matches flt e"
  by (auto simp: matchesFilter_def event_matches_def address_contained_iff topicsMatch_iff)

lemma collect_map: "(\<And>x. x \<in> set xs \<Longrightarrow> f (g x) = Some (h x)) \<Longrightarrow> collect f (map g xs) = Some (concat (map h xs))"
  by (induction xs) auto

lemma concat_filter: "concat (map (\<lambda>e. if P e then [e] else []) es) = filter P es"
  by (induction es) auto

lemma extractMatchingEvents_mk_block:
  "extractMatchingEvents (Some (mk_block n mbs)) flt = Some (filter (event_matches flt) (block_events mbs))"
proof -
  let ?sel = "\<lambda>e. if event_matches flt e then [e] else []"
  have tx: "(case map_option (map Some) logs of None \<Rightarrow> Some []
       | Some events \<Rightarrow> collect (map_option (\<lambda>e. if matchesFilter flt e then [e] else [])) events)
      = Some (filter (event_matches flt) (case_option [] id logs))" for logs
    by (cases logs) (simp_all add: matchesFilter_iff collect_map [where h = ?sel] concat_filter)
  have mb: "collect (\<lambda>tx. Option.bind tx (\<lambda>t. case atx_Logs t of None \<Rightarrow> Some []
        | Some events \<Rightarrow> collect (map_option (\<lambda>e. if matchesFilter flt e then [e] else [])) events))
      (map (\<lambda>logs. Some \<lparr>atx_Logs = map_option (map Some) logs\<rparr>) txs)
      = Some (concat (map (\<lambda>logs. filter (event_matches flt) (case_option [] id logs)) txs))" for txs
    by (rule collect_map) (use tx in simp)
  have "extractMatchingEvents (Some (mk_block n mbs)) flt =
      Some (concat (map (\<lambda>txs. concat (map (\<lambda>logs. filter (event_matches flt) (case_option [] id logs)) txs)) mbs))"
    unfolding extractMatchingEvents_def mk_block_def by (simp, rule collect_map) (use mb in simp)
  then show ?thesis by (simp add: block_events_def filter_concat comp_def)
qed

lemma block_key_inject: "block_key m = block_key n \<longleftrightarrow> m = n"
proof
  assume "block_key m = block_key n"
  then have "unat m mod 256 ^ 8 = unat n mod 256 ^ 8" unfolding block_key_def by (metis be_val_be_bytes)
  moreover have "unat m < 256 ^ 8" "unat n < 256 ^ 8" using unsigned_less [of m, where ?'a = nat] unsigned_less [of n, where ?'a = nat] by simp_all
  ultimately show "m = n" by (simp add: word_unat_eq_iff)
qed simp


locale block_cache = cacher cget cput
  for cget :: "'c \<Rightarrow> byte list \<Rightarrow> block_cached option" and cput :: "byte list \<Rightarrow> block_cached \<Rightarrow> 'c \<Rightarrow> 'c"
begin

definition holds_blocks :: "http_iface \<Rightarrow> u32 \<Rightarrow> 'c proxy \<Rightarrow> bool" where
  "holds_blocks http s p \<longleftrightarrow> sound (block_rel http (bp_endpointProvider (pr_base p)) s) (pr_filterQueryBlockCacher p)"

lemma getBlockBytesByNonce_sound:
  assumes "holds_blocks http s p" and "hi_Get http (block_url p s n) = (buff, StatusOK, None)"
  shows "\<exists>p'. getBlockBytesByNonce cget cput http p s n = (Inr buff, p') \<and> holds_blocks http s p' \<and> pr_base p' = pr_base p"
proof -
  have "block_rel http (bp_endpointProvider (pr_base p)) s (block_key n) (CachedBuff buff)"
    using assms(2) by (auto simp: block_rel_def block_key_inject block_url_def)
  then have f: "\<exists>p'. fetch_block cput http p s n = (Inr buff, p') \<and> holds_blocks http s p' \<and> pr_base p' = pr_base p"
    using assms sound_put by (simp add: fetch_block_def getBlockBytesByNonceWithTxsAndLogs_def http_reply_def holds_blocks_def)
  show ?thesis
  proof (cases "cget (pr_filterQueryBlockCacher p) (block_key n)")
    case (Some v)
    with assms(1) have "block_rel http (bp_endpointProvider (pr_base p)) s (block_key n) v"
      unfolding holds_blocks_def by (rule sound_get)
    with assms Some f show ?thesis
      by (cases v) (auto simp: getBlockBytesByNonce_def block_rel_def block_url_def)
  qed (use f in \<open>simp add: getBlockBytesByNonce_def\<close>)
qed

lemma getLogsFromBlock_sound:
  assumes "holds_blocks http s p" and "hi_Get http (block_url p s n) = (buff, StatusOK, None)"
    and "dec buff = Inr ([], Some (mk_block m mbs))"
  shows "\<exists>p'. getLogsFromBlock dec cget cput http s flt n p = Some (Inr (filter (event_matches flt) (block_events mbs)), p')
     \<and> holds_blocks http s p' \<and> pr_base p' = pr_base p"
  using getBlockBytesByNonce_sound [OF assms(1,2)] assms(3)
  by (auto simp: getLogsFromBlock_def extractMatchingEvents_mk_block)

lemma filter_loop_exact:
  assumes "holds_blocks http s p" and "unat toBlock < 2 ^ 64 - 1"
    and "\<And>i. unat n \<le> i \<Longrightarrow> i \<le> unat toBlock \<Longrightarrow> \<exists>buff. hi_Get http (block_url p s (of_nat i)) = (buff, StatusOK, None)
        \<and> dec buff = Inr ([], Some (mk_block (of_nat i) (blocks i)))"
  shows "\<exists>p'. filter_loop dec cget cput http s flt toBlock n acc p =
      Some (Inr (acc @ concat (map (\<lambda>i. filter (event_matches flt) (block_events (blocks i))) [unat n..<Suc (unat toBlock)])), p')
      \<and> holds_blocks http s p'"
  using assms(1,3)
proof (induction "Suc (unat toBlock) - unat n" arbitrary: n acc p)
  case 0
  then have "\<not> n \<le> toBlock" by (simp add: word_le_nat_alt)
  with 0 show ?case by (subst filter_loop.simps) (simp add: word_le_nat_alt)
next
  case (Suc k)
  then have le: "n \<le> toBlock" "unat n \<le> unat toBlock" by (simp_all add: word_le_nat_alt)
  have "unat (n + 1) = Suc (unat n)"
    using le(2) assms(2) unat_add_no_wrap [of n 1] by simp
  obtain buff where b: "hi_Get http (block_url p s n) = (buff, StatusOK, None)" "dec buff = Inr ([], Some (mk_block n (blocks (unat n))))"
    using Suc.prems(2) [of "unat n"] le(2) by auto
  from getLogsFromBlock_sound [where dec = dec and flt = flt, OF Suc.prems(1) b] obtain p' where
    l: "getLogsFromBlock dec cget cput http s flt n p = Some (Inr (filter (event_matches flt) (block_events (blocks (unat n)))), p')"
      "holds_blocks http s p'" "pr_base p' = pr_base p" by auto
  have "\<exists>p''. filter_loop dec cget cput http s flt toBlock (n + 1) (acc @ filter (event_matches flt) (block_events (blocks (unat n)))) p' =
      Some (Inr ((acc @ filter (event_matches flt) (block_events (blocks (unat n)))) @ concat (map (\<lambda>i. filter (event_matches flt) (block_events (blocks i))) [unat (n + 1)..<Suc (unat toBlock)])), p'')
      \<and> holds_blocks http s p''"
    by (rule Suc.hyps(1)) (use Suc.hyps(2) Suc.prems(2) l \<open>unat (n + 1) = Suc (unat n)\<close> in \<open>auto simp: block_url_def\<close>)
  moreover have "[unat n..<Suc (unat toBlock)] = unat n # [Suc (unat n)..<Suc (unat toBlock)]"
    using le(2) by (simp add: upt_conv_Cons del: upt_Suc)
  ultimately show ?case
    using le(1) l(1) \<open>unat (n + 1) = Suc (unat n)\<close> by (subst filter_loop.simps) (simp del: upt_Suc)
qed

end

interpretation disabled_blocks: block_cache dbc_Get dbc_Put
  by unfold_locales

interpretation map_blocks: block_cache mc_Get mc_store
  by unfold_locales

lemma p_GetShardOfAddress_keeps:
  "p_GetShardOfAddress env call a p = (r, p') \<Longrightarrow>
     pr_filterQueryBlockCacher p' = pr_filterQueryBlockCacher p \<and> bp_endpointProvider (pr_base p') = bp_endpointProvider (pr_base p)"
  by (auto simp: p_GetShardOfAddress_def GetShardOfAddress_def GetNetworkConfig_def cacheConfigs_def Let_def
      split: prod.splits sum.splits option.splits)

lemma same_shard_loop_keeps:
  "same_shard_loop env calls i s as p = Some (r, p') \<Longrightarrow>
     pr_filterQueryBlockCacher p' = pr_filterQueryBlockCacher p \<and> bp_endpointProvider (pr_base p') = bp_endpointProvider (pr_base p)"
proof (induction as arbitrary: i p)
  case (Cons a as)
  obtain q p1 where g: "p_GetShardOfAddress env (calls i) a p = (q, p1)" by fastforce
  with p_GetShardOfAddress_keeps [OF g] Cons.prems Cons.IH [of "Suc i" p1] show ?case
    by (auto split: option.splits sum.splits if_splits)
qed simp

lemma computeShardId_keeps:
  assumes "computeShardId env calls flt p = Some (r, p')"
  shows "pr_filterQueryBlockCacher p' = pr_filterQueryBlockCacher p \<and> bp_endpointProvider (pr_base p') = bp_endpointProvider (pr_base p)"
proof (cases "fq_Addresses flt")
  case (Cons a as)
  obtain q p1 where g: "p_GetShardOfAddress env (calls 0) a p = (q, p1)" by fastforce
  with p_GetShardOfAddress_keeps [OF g] assms Cons same_shard_loop_keeps [of env calls 1 _ "a # as" p1] show ?thesis
    by (fastforce simp: computeShardId_def computeShardIdFromAddresses_def simp del: same_shard_loop.simps
        split: option.splits sum.splits if_splits prod.splits)
qed (use assms in \<open>auto simp: computeShardId_def split: option.splits\<close>)

lemma word_delta_le:
  "(t - f :: u64) \<le> MaximumBlocksDelta \<longleftrightarrow>
     (f \<le> t \<and> unat t - unat f \<le> 500) \<or> (t < f \<and> unat t + 2 ^ 64 - unat f \<le> 500)"
proof (cases "f \<le> t")
  case True
  then show ?thesis by (auto simp: MaximumBlocksDelta_def word_le_nat_alt unat_sub)
next
  case False
  then have "unat (t - f) = unat t + 2 ^ 64 - unat f"
    by (simp add: unat_sub_if' word_le_nat_alt)
  with False show ?thesis by (simp add: MaximumBlocksDelta_def word_le_nat_alt word_less_nat_alt)
qed

text \<open>A service that reports an error for an unknown hash with status 200 makes the call panic.\<close>

lemma getBlockNumberByHash_panics:
  assumes "getBlockBytesByHashWithTxsAndLogs http p s (hex_EncodeToString h) = Inr buff" and "dec buff = Inr (e, None)"
  shows "getBlockNumberByHash dec cput http s h p = None"
  using assms by (simp add: getBlockNumberByHash_def)

section \<open>Properties\<close>



text \<open>Exactly which block ranges are accepted: at least one bound has to be given, a missing lower
  bound is the genesis block and a missing upper bound the latest one, the upper bound must not be
  above the latest block, and the two bounds are at most 500 blocks apart in 64 bit arithmetic. So
  at most 501 blocks are visited, and an inverted range only passes near the overflow.\<close>

lemma resolveBlockRange_bounds:
  "(resolveBlockRange flt latest = Inr (f, t) \<longleftrightarrow>
      \<not> (fq_FromBlock flt = None \<and> fq_ToBlock flt = None)
      \<and> f = (case fq_FromBlock flt of None \<Rightarrow> 0 | Some x \<Rightarrow> x) \<and> t = (case fq_ToBlock flt of None \<Rightarrow> latest | Some x \<Rightarrow> x)
      \<and> t \<le> latest
      \<and> ((f \<le> t \<and> unat t - unat f \<le> 500) \<or> (t < f \<and> unat t + 2 ^ 64 - unat f \<le> 500)))"
  unfolding word_delta_le [symmetric]
  by (cases "fq_FromBlock flt"; cases "fq_ToBlock flt") (auto simp: resolveBlockRange_def Let_def too_many_blocks_def)

text \<open>The block cache is keyed by the block nonce alone: once a block was fetched for some shard, the
  same bytes are served for that nonce in every other shard, whatever the network would answer.\<close>

lemma block_cache_ignores_shard:
  assumes "getBlockBytesByNonce mc_Get mc_store http p s n = (Inr buff, p')" and "buff \<noteq> []"
  shows "getBlockBytesByNonce mc_Get mc_store http' p' s' n = (Inr buff, p')"
proof -
  have "mc_Get (pr_filterQueryBlockCacher p') (block_key n) = Some (CachedBuff buff)"
    using assms by (auto simp: getBlockBytesByNonce_def fetch_block_def map_cacher.cget_cput
        split: option.splits block_cached.splits if_splits sum.splits)
  with assms(2) show ?thesis by (simp add: getBlockBytesByNonce_def)
qed

lemma block_cache_ignores_shard_example:
  "\<exists>p'. getBlockBytesByNonce mc_Get mc_store demo_blocks_http demo_log_proxy 0 5 = (Inr [0, 5], p')
     \<and> getBlockBytesByNonce mc_Get mc_store \<lparr>hi_Get = (\<lambda>_. ([9], StatusOK, None)), hi_Post = (\<lambda>_ _. ([], StatusOK, None))\<rparr> p' 1 5 = (Inr [0, 5], p')"
proof -
  have "fst (getBlockBytesByNonce mc_Get mc_store demo_blocks_http demo_log_proxy 0 5) = Inr [0, 5]" by code_simp
  then obtain p' where "getBlockBytesByNonce mc_Get mc_store demo_blocks_http demo_log_proxy 0 5 = (Inr [0, 5], p')"
    by (metis prod.collapse)
  with block_cache_ignores_shard [OF this] show ?thesis by blast
qed

end
