(* ===== verification/Vm_Query.thy ===== *)
theory Vm_Query
  imports Builders Go_Encoding
begin

text \<open>
  \<^verbatim>\<open>blockchain/vmQueryGetter.go\<close> and \<^verbatim>\<open>queryResponseError.go\<close>: queries of smart contract views whose
  results are read as bytes, booleans or unsigned integers. The proxy is the argument
  \<open>executeVMQuery\<close>; the output pointer of its response may be nil, whose dereference is the
  panic \<open>None\<close>. A query response error is rendered as the text of its \<^verbatim>\<open>Error\<close> method.
\<close>

section \<open>Errors\<close>

text \<open>\<^verbatim>\<open>%v\<close> of a slice of strings.\<close>

definition fmt_strings :: "string list \<Rightarrow> string" where
  "fmt_strings xs = ''['' @ strings_Join xs (CHR '' '') @ '']''"

record queryResponseError =
  qre_code :: string
  qre_message :: string
  qre_function :: string
  qre_arguments :: "string list"
  qre_address :: string

definition NewQueryResponseError :: "string \<Rightarrow> string \<Rightarrow> string \<Rightarrow> string \<Rightarrow> string list \<Rightarrow> queryResponseError" where
  "NewQueryResponseError code message funcName addr arguments =
     \<lparr>qre_code = code, qre_message = message, qre_function = funcName, qre_arguments = arguments, qre_address = addr\<rparr>"

definition qre_Error :: "queryResponseError \<Rightarrow> string" where
  "qre_Error err =
     (let q = [CHR 0x27]
      in ''got response code '' @ q @ qre_code err @ q @ '' and message '' @ q @ qre_message err @ q
         @ '' while querying function '' @ q @ qre_function err @ q @ '' with arguments '' @ fmt_strings (qre_arguments err)
         @ '' and address '' @ qre_address err)"

definition query_error :: "string \<Rightarrow> string \<Rightarrow> VmValueRequest \<Rightarrow> go_error" where
  "query_error code message request =
     ErrorsNew (qre_Error (NewQueryResponseError code message (vq_FuncName request) (vq_Address request) (vq_Args request)))"

section \<open>The getter\<close>

record VMOutputApi =
  vo_ReturnData :: "byte list list"
  vo_ReturnCode :: string
  vo_ReturnMessage :: string

type_synonym vm_proxy = "VmValueRequest \<Rightarrow> VMOutputApi option result"

definition NewVmQueryGetter :: "vm_proxy option \<Rightarrow> 'log option \<Rightarrow> vm_proxy result" where
  "NewVmQueryGetter proxy logger = (case proxy of
     None \<Rightarrow> Inl (EBlockchain Blockchain_ErrNilProxy)
   | Some p \<Rightarrow> if Option.is_none logger then Inl (EExternal ''core.ErrNilLogger'') else Inr p)"

definition okCodeAfterExecution :: string where "okCodeAfterExecution = ''ok''"
definition internalError :: string where "internalError = ''internal error''"

definition ExecuteQueryReturningBytes :: "vm_proxy \<Rightarrow> VmValueRequest option \<Rightarrow> byte list list result option" where
  "ExecuteQueryReturningBytes executeVMQuery request = (case request of
     None \<Rightarrow> Some (Inl (EBlockchain Blockchain_ErrNilRequest))
   | Some req \<Rightarrow> (case executeVMQuery req of
       Inl err \<Rightarrow> Some (Inl err)
     | Inr None \<Rightarrow> None
     | Inr (Some out) \<Rightarrow>
         if vo_ReturnCode out \<noteq> okCodeAfterExecution then
           Some (Inl (query_error (vo_ReturnCode out) (vo_ReturnMessage out) req))
         else Some (Inr (vo_ReturnData out))))"

text \<open>\<^verbatim>\<open>strconv.ParseBool\<close> of the decimal text of a byte: \<^verbatim>\<open>0\<close> and \<^verbatim>\<open>1\<close> are booleans; the other accepted
  texts (\<^verbatim>\<open>t\<close>, \<^verbatim>\<open>true\<close>, ...) are not decimal.\<close>

definition ParseBool_d :: "byte \<Rightarrow> bool result" where
  "ParseBool_d b =
     (let s = dec_of_nat (unat b)
      in if s = ''1'' then Inr True else if s = ''0'' then Inr False
         else Inl (ErrorsNew (''strconv.ParseBool: parsing '' @ [CHR 0x22] @ s @ [CHR 0x22] @ '': invalid syntax'')))"

fun error_text :: "go_error \<Rightarrow> string" where
  "error_text (ErrorsNew s) = s"
| "error_text (EBlockchain Blockchain_ErrNotUint64Bytes) = ''provided bytes do not represent a valid uint64 number''"
| "error_text _ = []"

definition parseBool :: "byte list \<Rightarrow> VmValueRequest \<Rightarrow> bool result" where
  "parseBool buff request = (case buff of
     [] \<Rightarrow> Inr False
   | b # _ \<Rightarrow> (case ParseBool_d b of
       Inl err \<Rightarrow> Inl (query_error internalError (''error converting the received bytes to bool, '' @ error_text err) request)
     | Inr result \<Rightarrow> Inr result))"

definition ExecuteQueryReturningBool :: "vm_proxy \<Rightarrow> VmValueRequest option \<Rightarrow> bool result option" where
  "ExecuteQueryReturningBool executeVMQuery request = (case ExecuteQueryReturningBytes executeVMQuery request of
     None \<Rightarrow> None
   | Some (Inl err) \<Rightarrow> Some (Inl err)
   | Some (Inr response) \<Rightarrow> (case response of
       [] \<Rightarrow> Some (Inr False)
     | r # _ \<Rightarrow> Some (parseBool r (the request))))"

definition parseUInt64FromByteSlice :: "byte list \<Rightarrow> u64 result" where
  "parseUInt64FromByteSlice bs =
     (let num = be_val bs in if \<not> num < 2 ^ 64 then Inl (EBlockchain Blockchain_ErrNotUint64Bytes) else Inr (of_nat num))"

definition ExecuteQueryReturningUint64 :: "vm_proxy \<Rightarrow> VmValueRequest option \<Rightarrow> u64 result option" where
  "ExecuteQueryReturningUint64 executeVMQuery request = (case ExecuteQueryReturningBytes executeVMQuery request of
     None \<Rightarrow> None
   | Some (Inl err) \<Rightarrow> Some (Inl err)
   | Some (Inr response) \<Rightarrow> (case response of
       [] \<Rightarrow> Some (Inr 0)
     | r # _ \<Rightarrow>
         if length r = 0 then Some (Inr 0)
         else case parseUInt64FromByteSlice r of
           Inl err \<Rightarrow> Some (Inl (query_error internalError (error_text err) (the request)))
         | Inr num \<Rightarrow> Some (Inr num)))"

definition ExecuteQueryFromBuilder :: "vm_proxy \<Rightarrow> VmValueRequest result \<Rightarrow> byte list list result option" where
  "ExecuteQueryFromBuilder executeVMQuery built = (case built of
     Inl err \<Rightarrow> Some (Inl err)
   | Inr vmValuesRequest \<Rightarrow> ExecuteQueryReturningBytes executeVMQuery (Some vmValuesRequest))"

definition ExecuteQueryUint64FromBuilder :: "vm_proxy \<Rightarrow> VmValueRequest result \<Rightarrow> u64 result option" where
  "ExecuteQueryUint64FromBuilder executeVMQuery built = (case built of
     Inl err \<Rightarrow> Some (Inl err)
   | Inr vmValuesRequest \<Rightarrow> ExecuteQueryReturningUint64 executeVMQuery (Some vmValuesRequest))"

definition ExecuteQueryBoolFromBuilder :: "vm_proxy \<Rightarrow> VmValueRequest result \<Rightarrow> bool result option" where
  "ExecuteQueryBoolFromBuilder executeVMQuery built = (case built of
     Inl err \<Rightarrow> Some (Inl err)
   | Inr vmValuesRequest \<Rightarrow> ExecuteQueryReturningBool executeVMQuery (Some vmValuesRequest))"

section \<open>Lemmas\<close>

lemma parseUInt64_roundtrip: "parseUInt64FromByteSlice (nat_bytes (unat n)) = Inr n"
  using unsigned_less [of n, where ?'a = nat] by (simp add: parseUInt64FromByteSlice_def)

lemma parseUInt64_exact: "parseUInt64FromByteSlice bs = (if be_val bs < 2 ^ 64 then Inr (of_nat (be_val bs))
   else Inl (EBlockchain Blockchain_ErrNotUint64Bytes))"
  by (simp add: parseUInt64FromByteSlice_def)

lemma ParseBool_d_exact: "ParseBool_d b = Inr v \<longleftrightarrow> (b = 1 \<and> v) \<or> (b = 0 \<and> \<not> v)"
proof -
  have ones: "dec_of_nat 1 = ''1''" "dec_of_nat 0 = ''0''" by code_simp+
  have "dec_of_nat (unat b) = ''1'' \<longleftrightarrow> unat b = 1" "dec_of_nat (unat b) = ''0'' \<longleftrightarrow> unat b = 0"
    using dec_of_nat_inject ones by metis+
  moreover have "unat b = 1 \<longleftrightarrow> b = 1" "unat b = 0 \<longleftrightarrow> b = 0" by (simp_all add: word_unat_eq_iff)
  ultimately show ?thesis by (auto simp: ParseBool_d_def Let_def)
qed


text \<open>A view that returns an unsigned integer in its minimal big endian encoding is read back exactly,
  whatever the builder chain was; the zero value is the empty encoding.\<close>

lemma query_uint64_roundtrip:
  assumes "ToVmValueRequest b = Inr req" and "executeVMQuery req = Inr (Some out)"
    and "vo_ReturnCode out = okCodeAfterExecution" and "vo_ReturnData out = nat_bytes (unat n) # rest"
  shows "ExecuteQueryUint64FromBuilder executeVMQuery (ToVmValueRequest b) = Some (Inr n)"
  using assms by (simp add: ExecuteQueryUint64FromBuilder_def ExecuteQueryReturningUint64_def ExecuteQueryReturningBytes_def
      parseUInt64_roundtrip unsigned_eq_0_iff)

lemma query_bool_exact:
  assumes "executeVMQuery req = Inr (Some out)" and "vo_ReturnCode out = okCodeAfterExecution"
  shows "ExecuteQueryReturningBool executeVMQuery (Some req) = Some (Inr v) \<longleftrightarrow>
    (case vo_ReturnData out of (b # _) # _ \<Rightarrow> b = (if v then 1 else 0) | _ \<Rightarrow> \<not> v)"
proof -
  have "parseBool r req = Inr v \<longleftrightarrow> (case r of [] \<Rightarrow> \<not> v | b # _ \<Rightarrow> ParseBool_d b = Inr v)" for r
    by (cases r) (auto simp: parseBool_def split: sum.splits)
  moreover have "ExecuteQueryReturningBool executeVMQuery (Some req) =
      Some (case vo_ReturnData out of [] \<Rightarrow> Inr False | r # _ \<Rightarrow> parseBool r req)"
    using assms by (simp add: ExecuteQueryReturningBool_def ExecuteQueryReturningBytes_def split: list.splits)
  ultimately show ?thesis by (auto simp: ParseBool_d_exact split: list.splits)
qed

end
