(* ===== verification/Polling.thy ===== *)
theory Polling
  imports Sdk_Errors
begin

text \<open>
  \<^verbatim>\<open>core/polling/pollingHandler.go\<close> as a state machine. \<^verbatim>\<open>StartProcessingLoop\<close> starts a goroutine with
  its own context; the handler keeps its goroutines in the order of their start, each with its
  program counter and whether its context was cancelled. \<open>ph_cancel\<close> is the index of the goroutine
  that the stored cancel function belongs to. The steps are atomic where the source holds the
  mutex. The timer may fire at any moment, which covers every interval, and the executor may answer
  anything. Durations are integers in nanoseconds.
\<close>

section \<open>State\<close>

datatype loop_pc =
    PcExecute          \<comment> \<open>before \<^verbatim>\<open>executor.Execute\<close>\<close>
  | PcWait int         \<comment> \<open>in the \<^verbatim>\<open>select\<close>, with the interval the timer was reset to\<close>
  | PcCleanup          \<comment> \<open>after the loop, before the deferred \<^verbatim>\<open>cleanup\<close>\<close>
  | PcDone

record poll_loop =
  pl_pc :: loop_pc
  pl_cancelled :: bool

record pollingHandler =
  ph_pollingInterval :: int
  ph_pollingWhenError :: int
  ph_cancel :: "nat option"
  ph_loops :: "poll_loop list"

section \<open>Operations\<close>

definition minimumPollingInterval :: int where "minimumPollingInterval = 1000000"

definition poll_checkArgs :: "'l option \<Rightarrow> int \<Rightarrow> int \<Rightarrow> 'e option \<Rightarrow> go_error option" where
  "poll_checkArgs logger pollingInterval pollingWhenError executor =
     (if Option.is_none logger then Some (EPolling Polling_ErrNilLogger)
      else if pollingInterval < minimumPollingInterval then Some (Errorf [] (EPolling Polling_ErrInvalidValue) '' for PollingInterval'')
      else if pollingWhenError < minimumPollingInterval then Some (Errorf [] (EPolling Polling_ErrInvalidValue) '' for PollingWhenError'')
      else if Option.is_none executor then Some (EPolling Polling_ErrNilExecutor)
      else None)"

definition NewPollingHandler :: "'l option \<Rightarrow> int \<Rightarrow> int \<Rightarrow> 'e option \<Rightarrow> pollingHandler result" where
  "NewPollingHandler logger pollingInterval pollingWhenError executor =
     (case poll_checkArgs logger pollingInterval pollingWhenError executor of
        Some err \<Rightarrow> Inl err
      | None \<Rightarrow> Inr \<lparr>ph_pollingInterval = pollingInterval, ph_pollingWhenError = pollingWhenError, ph_cancel = None, ph_loops = []\<rparr>)"

definition StartProcessingLoop :: "pollingHandler \<Rightarrow> go_error option \<times> pollingHandler" where
  "StartProcessingLoop ph =
     (if ph_cancel ph \<noteq> None then (Some (EPolling Polling_ErrLoopAlreadyStarted), ph)
      else (None, ph\<lparr>ph_cancel := Some (length (ph_loops ph)),
        ph_loops := ph_loops ph @ [\<lparr>pl_pc = PcExecute, pl_cancelled = False\<rparr>]\<rparr>))"

definition IsRunning :: "pollingHandler \<Rightarrow> bool" where
  "IsRunning ph \<longleftrightarrow> ph_cancel ph \<noteq> None"

definition poll_Close :: "pollingHandler \<Rightarrow> pollingHandler" where
  "poll_Close ph = (case ph_cancel ph of
     None \<Rightarrow> ph
   | Some k \<Rightarrow> ph\<lparr>ph_loops := (ph_loops ph)[k := (ph_loops ph ! k)\<lparr>pl_cancelled := True\<rparr>]\<rparr>)"

definition set_pc :: "nat \<Rightarrow> loop_pc \<Rightarrow> pollingHandler \<Rightarrow> pollingHandler" where
  "set_pc k pc ph = ph\<lparr>ph_loops := (ph_loops ph)[k := (ph_loops ph ! k)\<lparr>pl_pc := pc\<rparr>]\<rparr>"

definition cleanup :: "pollingHandler \<Rightarrow> pollingHandler" where
  "cleanup ph = ph\<lparr>ph_cancel := None\<rparr>"

text \<open>The steps: the three operations and, for the goroutine \<open>k\<close>, one round of the loop: execute and
  reset the timer; leave the \<^verbatim>\<open>select\<close> by the timer or, when the context is cancelled, by it; run
  the deferred \<^verbatim>\<open>cleanup\<close>.\<close>

inductive poll_step :: "pollingHandler \<Rightarrow> pollingHandler \<Rightarrow> bool" where
  start: "poll_step ph (snd (StartProcessingLoop ph))"
| close: "poll_step ph (poll_Close ph)"
| execute: "k < length (ph_loops ph) \<Longrightarrow> pl_pc (ph_loops ph ! k) = PcExecute \<Longrightarrow>
    interval = (case err of None \<Rightarrow> ph_pollingInterval ph | Some (_ :: go_error) \<Rightarrow> ph_pollingWhenError ph) \<Longrightarrow>
    poll_step ph (set_pc k (PcWait interval) ph)"
| timer: "k < length (ph_loops ph) \<Longrightarrow> pl_pc (ph_loops ph ! k) = PcWait i \<Longrightarrow> poll_step ph (set_pc k PcExecute ph)"
| ctx_done: "k < length (ph_loops ph) \<Longrightarrow> pl_pc (ph_loops ph ! k) = PcWait i \<Longrightarrow> pl_cancelled (ph_loops ph ! k) \<Longrightarrow>
    poll_step ph (set_pc k PcCleanup ph)"
| cleanup_step: "k < length (ph_loops ph) \<Longrightarrow> pl_pc (ph_loops ph ! k) = PcCleanup \<Longrightarrow>
    poll_step ph (cleanup (set_pc k PcDone ph))"

inductive poll_reachable :: "pollingHandler \<Rightarrow> bool" where
  init: "NewPollingHandler (Some ()) i j (Some ()) = Inr ph \<Longrightarrow> poll_reachable ph"
| step: "poll_reachable ph \<Longrightarrow> poll_step ph ph' \<Longrightarrow> poll_reachable ph'"

inductive_cases poll_stepE: "poll_step ph ph'"

section \<open>Invariant\<close>

text \<open>Only the newest goroutine may be alive; it is alive exactly while the cancel function is stored,
  which is its own; every waiting interval is one of the two configured ones.\<close>

definition poll_inv :: "pollingHandler \<Rightarrow> bool" where
  "poll_inv ph \<longleftrightarrow>
     minimumPollingInterval \<le> ph_pollingInterval ph \<and> minimumPollingInterval \<le> ph_pollingWhenError ph
     \<and> (\<forall>k<length (ph_loops ph). pl_pc (ph_loops ph ! k) \<noteq> PcDone \<longleftrightarrow> ph_cancel ph = Some k)
     \<and> (\<forall>k. ph_cancel ph = Some k \<longrightarrow> Suc k = length (ph_loops ph))
     \<and> (\<forall>k<length (ph_loops ph). \<forall>i. pl_pc (ph_loops ph ! k) = PcWait i \<longrightarrow> i \<in> {ph_pollingInterval ph, ph_pollingWhenError ph})"

lemma poll_inv_init: "NewPollingHandler (Some ()) i j (Some ()) = Inr ph \<Longrightarrow> poll_inv ph"
  by (auto simp: NewPollingHandler_def poll_checkArgs_def poll_inv_def split: if_splits)

lemma poll_inv_alive:
  assumes "poll_inv ph" and "ph_cancel ph = Some k"
  shows "k < length (ph_loops ph)" and "pl_pc (ph_loops ph ! k) \<noteq> PcDone"
    and "pl_pc (ph_loops ph ! k) = PcWait i \<Longrightarrow> i \<in> {ph_pollingInterval ph, ph_pollingWhenError ph}"
proof -
  show k: "k < length (ph_loops ph)" using assms unfolding poll_inv_def by (metis lessI)
  with assms show "pl_pc (ph_loops ph ! k) \<noteq> PcDone"
    "pl_pc (ph_loops ph ! k) = PcWait i \<Longrightarrow> i \<in> {ph_pollingInterval ph, ph_pollingWhenError ph}"
    unfolding poll_inv_def by blast+
qed

lemma poll_inv_set_pc:
  assumes "poll_inv ph" and "k < length (ph_loops ph)" and "pl_pc (ph_loops ph ! k) \<noteq> PcDone" and "pc \<noteq> PcDone"
    and "\<And>i. pc = PcWait i \<Longrightarrow> i \<in> {ph_pollingInterval ph, ph_pollingWhenError ph}"
  shows "poll_inv (set_pc k pc ph)"
  using assms unfolding poll_inv_def set_pc_def by (auto simp: nth_list_update)

lemma poll_inv_step:
  assumes "poll_inv ph" and "poll_step ph ph'"
  shows "poll_inv ph'"
  using assms(2,1)
proof cases
  case start
  with assms(1) show ?thesis
    by (auto simp: StartProcessingLoop_def poll_inv_def nth_append less_Suc_eq)
next
  case close
  show ?thesis
  proof (cases "ph_cancel ph")
    case None
    with close assms(1) show ?thesis by (simp add: poll_Close_def)
  next
    case (Some k)
    from poll_inv_alive [OF assms(1) Some] Some close assms(1) show ?thesis by (auto simp: poll_Close_def poll_inv_def nth_list_update)
  qed
next
  case (execute k interval err)
  with assms(1) show ?thesis by (auto intro!: poll_inv_set_pc split: option.splits)
next
  case (timer k i)
  with assms(1) show ?thesis by (auto intro!: poll_inv_set_pc)
next
  case (ctx_done k i)
  with assms(1) show ?thesis by (auto intro!: poll_inv_set_pc)
next
  case (cleanup_step k)
  then have "ph_cancel ph = Some k" using assms(1) unfolding poll_inv_def by auto
  with cleanup_step assms(1) show ?thesis
    unfolding poll_inv_def cleanup_def set_pc_def by (auto simp: nth_list_update)
qed

lemma poll_inv_reachable: "poll_reachable ph \<Longrightarrow> poll_inv ph"
  by (induction rule: poll_reachable.induct) (auto intro: poll_inv_init poll_inv_step)

section \<open>A concrete handler\<close>

definition demo_poll :: pollingHandler where
  "demo_poll = \<lparr>ph_pollingInterval = 1000000, ph_pollingWhenError = 2000000, ph_cancel = None, ph_loops = []\<rparr>"

lemma demo_poll_started: "poll_reachable (snd (StartProcessingLoop demo_poll))"
proof (rule poll_reachable.step [OF poll_reachable.init poll_step.start])
  show "NewPollingHandler (Some ()) 1000000 2000000 (Some ()) = Inr demo_poll" by code_simp
qed

section \<open>Stopping\<close>

text \<open>The rounds that a cancelled goroutine still needs: the running execution, the \<^verbatim>\<open>select\<close> and the
  cleanup.\<close>

lemma steps_to_done:
  assumes "poll_inv ph" and "ph_cancel ph = Some k" and "pl_cancelled (ph_loops ph ! k)"
  shows "\<exists>ph'. poll_step\<^sup>*\<^sup>* ph ph' \<and> ph_cancel ph' = None \<and> length (ph_loops ph') = length (ph_loops ph)"
proof -
  have k: "k < length (ph_loops ph)" and alive: "pl_pc (ph_loops ph ! k) \<noteq> PcDone"
    by (rule poll_inv_alive [OF assms(1,2)])+
  have cl: "\<exists>ph'. poll_step\<^sup>*\<^sup>* q ph' \<and> ph_cancel ph' = None \<and> length (ph_loops ph') = length (ph_loops q)"
    if "k < length (ph_loops q)" "pl_pc (ph_loops q ! k) = PcCleanup" for q
    using poll_step.cleanup_step [OF that]
    by (intro exI [of _ "cleanup (set_pc k PcDone q)"]) (auto simp: cleanup_def set_pc_def)
  have wt: "\<exists>ph'. poll_step\<^sup>*\<^sup>* q ph' \<and> ph_cancel ph' = None \<and> length (ph_loops ph') = length (ph_loops q)"
    if "k < length (ph_loops q)" "pl_pc (ph_loops q ! k) = PcWait i" "pl_cancelled (ph_loops q ! k)" for q i
    using poll_step.ctx_done [OF that] cl [of "set_pc k PcCleanup q"] that(1)
    by (auto simp: set_pc_def intro: converse_rtranclp_into_rtranclp)
  have ex: "poll_step ph (set_pc k (PcWait (ph_pollingInterval ph)) ph)" if "pl_pc (ph_loops ph ! k) = PcExecute"
    by (rule poll_step.execute [OF k that, where err = None]) simp
  show ?thesis
  proof (cases "pl_pc (ph_loops ph ! k)")
    case PcExecute
    with wt [of "set_pc k (PcWait (ph_pollingInterval ph)) ph" "ph_pollingInterval ph"] k assms(3) ex show ?thesis
      by (auto simp: set_pc_def intro: converse_rtranclp_into_rtranclp)
  qed (use alive cl [OF k] wt [OF k _ assms(3)] in auto)
qed

lemma poll_Close_cancelled:
  assumes "poll_inv ph" and "ph_cancel ph = Some k"
  shows "ph_cancel (poll_Close ph) = Some k \<and> pl_cancelled (ph_loops (poll_Close ph) ! k)
    \<and> length (ph_loops (poll_Close ph)) = length (ph_loops ph)"
  using assms by (auto simp: poll_Close_def poll_inv_def)

section \<open>Properties\<close>

text \<open>C22. In every reachable state, whatever the interleaving of starts, closes and goroutine steps: at
  most one loop is alive, the handler reports running exactly while one is, and a start is refused
  exactly then; a waiting loop waits for one of the two configured intervals, both of at least a
  millisecond.\<close>

theorem polling_single_loop:
  assumes "poll_reachable ph"
  shows "card {k. k < length (ph_loops ph) \<and> pl_pc (ph_loops ph ! k) \<noteq> PcDone} = (if IsRunning ph then 1 else 0)
    \<and> (fst (StartProcessingLoop ph) = None \<longleftrightarrow> \<not> IsRunning ph)
    \<and> (\<forall>k<length (ph_loops ph). \<forall>i. pl_pc (ph_loops ph ! k) = PcWait i \<longrightarrow>
         i \<in> {ph_pollingInterval ph, ph_pollingWhenError ph} \<and> minimumPollingInterval \<le> i)"
proof -
  have inv: "poll_inv ph" by (rule poll_inv_reachable [OF assms])
  have "{k. k < length (ph_loops ph) \<and> pl_pc (ph_loops ph ! k) \<noteq> PcDone} = (case ph_cancel ph of None \<Rightarrow> {} | Some k \<Rightarrow> {k})"
    using inv poll_inv_alive(1,2) [OF inv] unfolding poll_inv_def by (auto split: option.splits)
  with inv show ?thesis
    by (auto simp: IsRunning_def StartProcessingLoop_def poll_inv_def split: option.splits)
qed

theorem polling_single_loop_witness:
  "card {k. k < 1 \<and> pl_pc (ph_loops (snd (StartProcessingLoop demo_poll)) ! k) \<noteq> PcDone} = 1"
  using polling_single_loop [OF demo_poll_started] by (simp add: StartProcessingLoop_def demo_poll_def IsRunning_def)



end
