(* ===== verification/Wallet_Tracker.thy ===== *)
theory Wallet_Tracker
  imports Go_Encoding
begin

text \<open>
  \<^verbatim>\<open>workflows/addressesAccumulator.go\<close> and \<^verbatim>\<open>workflows/walletsTracker.go\<close>. The tracker state contains the
  last nonce that was handed to the \<^verbatim>\<open>LastProcessedNonceHandler\<close>, which is documented to return it, and
  the calls of the deposit handler in order. The proxy is a record, as it answers during one round;
  \<open>isTrackable\<close> is the \<^verbatim>\<open>TrackableAddressesProvider\<close>. The processing loop calls
  \<^verbatim>\<open>fetchAndProcessHyperBlocks\<close> once per tick of its timer and logs the error, so a run of the tracker is
  a sequence of ticks interleaved with pops of the accumulated addresses. A round that does not
  return (the nonce wraps at the largest hyper block nonce) is \<open>None\<close>.

  The abstract specification \<open>tracker_spec\<close> only knows how far the chain was scanned, which deposits
  were found and which receivers are still to be reported.
\<close>

section \<open>Addresses accumulator\<close>

record addressesAccumulator =
  aa_addressesMap :: "string \<rightharpoonup> unit"

definition newAddressesAccumulator :: addressesAccumulator where
  "newAddressesAccumulator = \<lparr>aa_addressesMap = Map.empty\<rparr>"

definition aa_push :: "string \<Rightarrow> addressesAccumulator \<Rightarrow> addressesAccumulator" where
  "aa_push addr aa = aa\<lparr>aa_addressesMap := (aa_addressesMap aa)(addr \<mapsto> ())\<rparr>"

text \<open>\<open>ks\<close> is the order in which the map is visited.\<close>

definition aa_pop :: "string list \<Rightarrow> addressesAccumulator \<Rightarrow> string list \<times> addressesAccumulator" where
  "aa_pop ks aa = (ks, aa\<lparr>aa_addressesMap := Map.empty\<rparr>)"

section \<open>Hyper blocks and the proxy\<close>

text \<open>The notarization fields, the smart contract results and the logs, which nothing here reads, are left
  out.\<close>

record TransactionOnNetwork =
  ton_Type :: string
  ton_ProcessingTypeOnSource :: string
  ton_ProcessingTypeOnDestination :: string
  ton_Hash :: string
  ton_Nonce :: u64
  ton_Value :: string
  ton_Receiver :: string
  ton_Sender :: string
  ton_GasPrice :: u64
  ton_GasLimit :: u64
  ton_Data :: "byte list"
  ton_Signature :: string
  ton_SourceShard :: u32
  ton_DestinationShard :: u32
  ton_BlockNonce :: u64
  ton_BlockHash :: string
  ton_MiniblockType :: string
  ton_MiniblockHash :: string
  ton_Timestamp :: u64
  ton_Status :: string
  ton_HyperBlockNonce :: u64
  ton_HyperBlockHash :: string

record HyperBlock =
  hb_Nonce :: u64
  hb_Round :: u64
  hb_Hash :: string
  hb_PrevBlockHash :: string
  hb_Epoch :: u64
  hb_NumTxs :: u64
  hb_ShardBlocks :: "(string \<times> u64 \<times> u32) list"
  hb_Timestamp :: u64
  hb_Transactions :: "TransactionOnNetwork list"

record tracker_proxy =
  tp_GetLatestHyperBlockNonce :: "u64 result"
  tp_GetHyperBlockByNonce :: "u64 \<Rightarrow> HyperBlock result"

section \<open>Tracker\<close>

record walletTracker =
  wt_accumulator :: addressesAccumulator
  wt_minimumBalance :: int
  wt_lastProcessedNonce :: u64
  wt_hasHandler :: bool
  wt_notified :: "TransactionOnNetwork list"

text \<open>\<open>lastNonce\<close> is what the given nonce handler returns.\<close>

definition NewWalletTracker :: "'t option \<Rightarrow> 'p option \<Rightarrow> u64 option \<Rightarrow> int option \<Rightarrow> walletTracker result" where
  "NewWalletTracker trackableAddressesProvider proxy lastNonce minimumBalance =
     (if Option.is_none trackableAddressesProvider then Inl (EWorkflows Workflows_ErrNilTrackableAddressesProvider)
      else if Option.is_none proxy then Inl (EWorkflows Workflows_ErrNilProxy)
      else case lastNonce of
        None \<Rightarrow> Inl (EWorkflows Workflows_ErrNilLastProcessedNonceHandler)
      | Some n \<Rightarrow> (case minimumBalance of
          None \<Rightarrow> Inl (EWorkflows Workflows_ErrNilMinimumBalance)
        | Some b \<Rightarrow> Inr \<lparr>wt_accumulator = newAddressesAccumulator, wt_minimumBalance = b, wt_lastProcessedNonce = n,
            wt_hasHandler = False, wt_notified = []\<rparr>))"

definition SetHandlerForNewDepositTransactionFound :: "'h option \<Rightarrow> walletTracker \<Rightarrow> walletTracker" where
  "SetHandlerForNewDepositTransactionFound handler wt = (case handler of None \<Rightarrow> wt | Some _ \<Rightarrow> wt\<lparr>wt_hasHandler := True\<rparr>)"

definition notifyNewDepositTransactionFound :: "TransactionOnNetwork \<Rightarrow> walletTracker \<Rightarrow> walletTracker" where
  "notifyNewDepositTransactionFound tx wt = (if wt_hasHandler wt then wt\<lparr>wt_notified := wt_notified wt @ [tx]\<rparr> else wt)"

definition processTransaction ::
  "(string \<Rightarrow> bool) \<Rightarrow> TransactionOnNetwork \<Rightarrow> walletTracker \<Rightarrow> go_error option \<times> walletTracker" where
  "processTransaction isTrackable tx wt = (case big_SetString (ton_Value tx) of
     None \<Rightarrow> (Some (EWorkflows Workflows_ErrInvalidTransactionValue), wt)
   | Some v \<Rightarrow>
       if \<not> isTrackable (ton_Receiver tx) then (None, wt)
       else if v < wt_minimumBalance wt then (None, wt)
       else
         let wt1 = notifyNewDepositTransactionFound tx wt;
             wt2 = wt1\<lparr>wt_accumulator := aa_push (ton_Receiver tx) (wt_accumulator wt1)\<rparr>
         in (None, wt2))"

text \<open>An error of a transaction is logged and ignored.\<close>

definition processHyperBlock :: "(string \<Rightarrow> bool) \<Rightarrow> HyperBlock \<Rightarrow> walletTracker \<Rightarrow> walletTracker" where
  "processHyperBlock isTrackable block wt = fold (\<lambda>tx w. snd (processTransaction isTrackable tx w)) (hb_Transactions block) wt"

definition fetchAndProcessHyperBlock ::
  "(string \<Rightarrow> bool) \<Rightarrow> tracker_proxy \<Rightarrow> u64 \<Rightarrow> walletTracker \<Rightarrow> go_error option \<times> walletTracker" where
  "fetchAndProcessHyperBlock isTrackable px nonce wt = (case tp_GetHyperBlockByNonce px nonce of
     Inl err \<Rightarrow> (Some err, wt)
   | Inr block \<Rightarrow> (None, processHyperBlock isTrackable block wt))"

definition ProcessedNonce :: "u64 \<Rightarrow> walletTracker \<Rightarrow> walletTracker" where
  "ProcessedNonce nonce wt = wt\<lparr>wt_lastProcessedNonce := nonce\<rparr>"

partial_function (option) hyper_blocks_loop ::
  "(string \<Rightarrow> bool) \<Rightarrow> tracker_proxy \<Rightarrow> u64 \<Rightarrow> u64 \<Rightarrow> walletTracker \<Rightarrow> (go_error option \<times> walletTracker) option" where
  [code]: "hyper_blocks_loop isTrackable px networkNonce nonce wt =
     (if nonce \<le> networkNonce then
        (case fetchAndProcessHyperBlock isTrackable px nonce wt of
           (Some err, wt') \<Rightarrow> Some (Some err, wt')
         | (None, wt') \<Rightarrow> hyper_blocks_loop isTrackable px networkNonce (nonce + 1) (ProcessedNonce nonce wt'))
      else Some (None, wt))"

definition fetchAndProcessHyperBlocks ::
  "(string \<Rightarrow> bool) \<Rightarrow> tracker_proxy \<Rightarrow> walletTracker \<Rightarrow> (go_error option \<times> walletTracker) option" where
  "fetchAndProcessHyperBlocks isTrackable px wt =
     (let lastProcessedNonce = wt_lastProcessedNonce wt
      in case tp_GetLatestHyperBlockNonce px of
           Inl err \<Rightarrow> Some (Some err, wt)
         | Inr networkNonce \<Rightarrow> hyper_blocks_loop isTrackable px networkNonce (lastProcessedNonce + 1) wt)"

definition GetLatestTrackedAddresses :: "string list \<Rightarrow> walletTracker \<Rightarrow> string list \<times> walletTracker" where
  "GetLatestTrackedAddresses ks wt =
     (let (addresses, aa) = aa_pop ks (wt_accumulator wt) in (addresses, wt\<lparr>wt_accumulator := aa\<rparr>))"

text \<open>The processing goroutine and its callers: ticks of the timer and pops, each with the order in which
  it visits the map.\<close>

datatype tracker_op = Tick tracker_proxy | PopAddresses "(string \<rightharpoonup> unit) \<Rightarrow> string list"

fun tracker_step :: "(string \<Rightarrow> bool) \<Rightarrow> tracker_op \<Rightarrow> walletTracker \<Rightarrow> (string list \<times> walletTracker) option" where
  "tracker_step isTrackable (Tick px) wt = map_option (\<lambda>r. ([], snd r)) (fetchAndProcessHyperBlocks isTrackable px wt)"
| "tracker_step isTrackable (PopAddresses order) wt =
     Some (GetLatestTrackedAddresses (order (aa_addressesMap (wt_accumulator wt))) wt)"

primrec tracker_run :: "(string \<Rightarrow> bool) \<Rightarrow> tracker_op list \<Rightarrow> walletTracker \<Rightarrow> (string list \<times> walletTracker) option" where
  "tracker_run isTrackable [] wt = Some ([], wt)"
| "tracker_run isTrackable (op # ops) wt = (case tracker_step isTrackable op wt of
     None \<Rightarrow> None
   | Some (out, wt') \<Rightarrow> map_option (\<lambda>r. (out @ fst r, snd r)) (tracker_run isTrackable ops wt'))"

section \<open>Specification\<close>

definition is_deposit :: "(string \<Rightarrow> bool) \<Rightarrow> int \<Rightarrow> TransactionOnNetwork \<Rightarrow> bool" where
  "is_deposit isTrackable minBalance tx \<longleftrightarrow> isTrackable (ton_Receiver tx) \<and>
     (case big_SetString (ton_Value tx) of None \<Rightarrow> False | Some v \<Rightarrow> minBalance \<le> v)"

record tracker_spec =
  ts_scanned :: nat
  ts_found :: "TransactionOnNetwork list"
  ts_pending :: "string set"

text \<open>The deposits of the blocks after \<open>m\<close> up to \<open>n\<close>.\<close>

definition deposits_between ::
  "(string \<Rightarrow> bool) \<Rightarrow> int \<Rightarrow> (nat \<Rightarrow> TransactionOnNetwork list) \<Rightarrow> nat \<Rightarrow> nat \<Rightarrow> TransactionOnNetwork list" where
  "deposits_between isTrackable minBalance chain m n = concat (map (\<lambda>i. filter (is_deposit isTrackable minBalance) (chain i)) [Suc m..<Suc n])"

definition spec_advance ::
  "(string \<Rightarrow> bool) \<Rightarrow> int \<Rightarrow> (nat \<Rightarrow> TransactionOnNetwork list) \<Rightarrow> nat \<Rightarrow> tracker_spec \<Rightarrow> tracker_spec" where
  "spec_advance isTrackable minBalance chain n s =
     (let new = deposits_between isTrackable minBalance chain (ts_scanned s) n
      in s\<lparr>ts_scanned := n, ts_found := ts_found s @ new, ts_pending := ts_pending s \<union> ton_Receiver ` set new\<rparr>)"

definition tracker_abs :: "walletTracker \<Rightarrow> tracker_spec" where
  "tracker_abs wt = \<lparr>ts_scanned = unat (wt_lastProcessedNonce wt), ts_found = wt_notified wt,
     ts_pending = dom (aa_addressesMap (wt_accumulator wt))\<rparr>"

text \<open>A proxy that never contradicts the chain, and whose latest nonce is not the largest one.\<close>

definition honest_proxy :: "(nat \<Rightarrow> TransactionOnNetwork list) \<Rightarrow> tracker_proxy \<Rightarrow> bool" where
  "honest_proxy chain px \<longleftrightarrow> (\<forall>n b. tp_GetHyperBlockByNonce px n = Inr b \<longrightarrow> hb_Transactions b = chain (unat n))
     \<and> (\<forall>n. tp_GetLatestHyperBlockNonce px = Inr n \<longrightarrow> unat n < 2 ^ 64 - 1)"

fun honest_op :: "(nat \<Rightarrow> TransactionOnNetwork list) \<Rightarrow> tracker_op \<Rightarrow> bool" where
  "honest_op chain (Tick px) = honest_proxy chain px"
| "honest_op chain (PopAddresses order) \<longleftrightarrow> (\<forall>m. finite (dom m) \<longrightarrow> go_range m (order m))"

section \<open>A concrete chain\<close>

definition demo_deposit :: "string \<Rightarrow> string \<Rightarrow> TransactionOnNetwork" where
  "demo_deposit hash val = \<lparr>ton_Type = ''normal'', ton_ProcessingTypeOnSource = [],
     ton_ProcessingTypeOnDestination = [], ton_Hash = hash, ton_Nonce = 0, ton_Value = val,
     ton_Receiver = ''bob'', ton_Sender = ''alice'', ton_GasPrice = 0, ton_GasLimit = 0,
     ton_Data = [], ton_Signature = [], ton_SourceShard = 0, ton_DestinationShard = 0,
     ton_BlockNonce = 0, ton_BlockHash = [], ton_MiniblockType = [], ton_MiniblockHash = [],
     ton_Timestamp = 0, ton_Status = [], ton_HyperBlockNonce = 0, ton_HyperBlockHash = []\<rparr>"

definition demo_chain :: "nat \<Rightarrow> TransactionOnNetwork list" where
  "demo_chain n = [demo_deposit (dec_of_nat n) (dec_of_nat (10 * n)), demo_deposit [] ''bad'']"

definition demo_hyper_proxy :: tracker_proxy where
  "demo_hyper_proxy = \<lparr>tp_GetLatestHyperBlockNonce = Inr 3, tp_GetHyperBlockByNonce =
     (\<lambda>n. Inr \<lparr>hb_Nonce = n, hb_Round = n, hb_Hash = [], hb_PrevBlockHash = [], hb_Epoch = 0, hb_NumTxs = 2,
       hb_ShardBlocks = [], hb_Timestamp = 0, hb_Transactions = demo_chain (unat n)\<rparr>)\<rparr>"

definition demo_tracker :: walletTracker where
  "demo_tracker = \<lparr>wt_accumulator = newAddressesAccumulator, wt_minimumBalance = 15, wt_lastProcessedNonce = 0,
     wt_hasHandler = True, wt_notified = []\<rparr>"

section \<open>Lemmas\<close>

lemma spec_advance_trans:
  assumes "ts_scanned s \<le> m" and "m \<le> n"
  shows "spec_advance t b chain n (spec_advance t b chain m s) = spec_advance t b chain n s"
proof -
  have "[Suc (ts_scanned s)..<Suc n] = [Suc (ts_scanned s)..<Suc m] @ [Suc m..<Suc n]"
    using assms by (metis Suc_le_mono le_Suc_ex upt_add_eq_append)
  then show ?thesis by (simp add: spec_advance_def deposits_between_def Let_def Un_assoc image_Un)
qed

lemma spec_advance_same [simp]: "spec_advance t b chain (ts_scanned s) s = s"
  by (simp add: spec_advance_def deposits_between_def)

lemma processTransaction_keeps:
  "wt_hasHandler (snd (processTransaction t tx wt)) = wt_hasHandler wt \<and> wt_minimumBalance (snd (processTransaction t tx wt)) = wt_minimumBalance wt
   \<and> wt_lastProcessedNonce (snd (processTransaction t tx wt)) = wt_lastProcessedNonce wt"
  by (simp add: processTransaction_def notifyNewDepositTransactionFound_def Let_def split: option.splits)

text \<open>One block: the abstraction gains exactly the deposits of the block.\<close>

lemma process_txs:
  assumes "wt_hasHandler wt"
  shows "let wt' = fold (\<lambda>tx w. snd (processTransaction t tx w)) txs wt; new = filter (is_deposit t (wt_minimumBalance wt)) txs
    in wt_hasHandler wt' \<and> wt_minimumBalance wt' = wt_minimumBalance wt \<and> wt_lastProcessedNonce wt' = wt_lastProcessedNonce wt
     \<and> wt_notified wt' = wt_notified wt @ new
     \<and> dom (aa_addressesMap (wt_accumulator wt')) = dom (aa_addressesMap (wt_accumulator wt)) \<union> ton_Receiver ` set new"
  using assms
proof (induction txs arbitrary: wt)
  case (Cons tx txs)
  let ?wt = "snd (processTransaction t tx wt)"
  have "wt_hasHandler ?wt" using Cons.prems processTransaction_keeps by simp
  from Cons.IH [OF this] Cons.prems processTransaction_keeps [of t tx wt] show ?case
    by (auto simp: processTransaction_def notifyNewDepositTransactionFound_def is_deposit_def aa_push_def Let_def
        split: option.splits if_splits)
qed simp

lemma processHyperBlock_abs:
  assumes "wt_hasHandler wt" and "hb_Transactions block = chain (unat n)" and "unat n = Suc (unat (wt_lastProcessedNonce wt))"
  shows "tracker_abs (ProcessedNonce n (processHyperBlock t block wt)) = spec_advance t (wt_minimumBalance wt) chain (unat n) (tracker_abs wt)
    \<and> wt_hasHandler (processHyperBlock t block wt) \<and> wt_minimumBalance (processHyperBlock t block wt) = wt_minimumBalance wt"
  using process_txs [OF assms(1), of t "hb_Transactions block"] assms(2,3)
  by (auto simp: tracker_abs_def ProcessedNonce_def processHyperBlock_def spec_advance_def deposits_between_def Let_def)

lemma unat_Suc_word: "unat (n :: u64) < 2 ^ 64 - 1 \<Longrightarrow> unat (n + 1) = Suc (unat n)"
  by (simp add: unat_word_ariths(1))

text \<open>What the loop does between two states, in terms of the specification.\<close>

definition advances_to ::
  "(string \<Rightarrow> bool) \<Rightarrow> (nat \<Rightarrow> TransactionOnNetwork list) \<Rightarrow> tracker_proxy \<Rightarrow> nat \<Rightarrow> walletTracker \<Rightarrow> go_error option \<Rightarrow> walletTracker \<Rightarrow> bool" where
  "advances_to t chain px net wt err wt' \<longleftrightarrow>
     (let m = unat (wt_lastProcessedNonce wt')
      in unat (wt_lastProcessedNonce wt) \<le> m \<and> m \<le> max (unat (wt_lastProcessedNonce wt)) net
       \<and> tracker_abs wt' = spec_advance t (wt_minimumBalance wt) chain m (tracker_abs wt)
       \<and> wt_hasHandler wt' \<and> wt_minimumBalance wt' = wt_minimumBalance wt
       \<and> (case err of None \<Rightarrow> net \<le> m | Some e \<Rightarrow> tp_GetHyperBlockByNonce px (of_nat (Suc m)) = Inl e))"

lemma hyper_blocks_loop_advances:
  assumes "wt_hasHandler wt" and "honest_proxy chain px" and "unat net < 2 ^ 64 - 1"
    and "unat (wt_lastProcessedNonce wt) < 2 ^ 64 - 1"
  shows "\<exists>err wt'. hyper_blocks_loop t px net (wt_lastProcessedNonce wt + 1) wt = Some (err, wt') \<and> advances_to t chain px (unat net) wt err wt'"
  using assms(1,4)
proof (induction "unat net - unat (wt_lastProcessedNonce wt)" arbitrary: wt)
  case 0
  then have "\<not> wt_lastProcessedNonce wt + 1 \<le> net" using unat_Suc_word by (simp add: word_le_nat_alt)
  with 0 show ?case
    by (subst hyper_blocks_loop.simps) (simp add: advances_to_def Let_def tracker_abs_def spec_advance_def deposits_between_def)
next
  case (Suc k)
  let ?n = "wt_lastProcessedNonce wt + 1"
  have n: "unat ?n = Suc (unat (wt_lastProcessedNonce wt))" using Suc.prems(2) by (rule unat_Suc_word)
  with Suc.hyps(2) have le: "?n \<le> net" by (simp add: word_le_nat_alt)
  show ?case
  proof (cases "tp_GetHyperBlockByNonce px ?n")
    case (Inl e)
    moreover have "of_nat (Suc (unat (wt_lastProcessedNonce wt))) = ?n" by (simp add: n [symmetric])
    ultimately have "hyper_blocks_loop t px net ?n wt = Some (Some e, wt) \<and> advances_to t chain px (unat net) wt (Some e) wt"
      using le Suc.prems
      by (subst hyper_blocks_loop.simps)
        (simp add: fetchAndProcessHyperBlock_def advances_to_def spec_advance_def deposits_between_def tracker_abs_def Let_def add.commute)
    then show ?thesis by blast
  next
    case (Inr block)
    let ?wt = "ProcessedNonce ?n (processHyperBlock t block wt)"
    have "hb_Transactions block = chain (unat ?n)" using assms(2) Inr by (simp add: honest_proxy_def)
    note b = processHyperBlock_abs [where chain = chain and t = t, OF Suc.prems(1) this n]
    have l: "wt_lastProcessedNonce ?wt = ?n" by (simp add: ProcessedNonce_def)
    have h: "wt_hasHandler ?wt" "wt_minimumBalance ?wt = wt_minimumBalance wt" using b by (simp_all add: ProcessedNonce_def)
    have "\<exists>err wt'. hyper_blocks_loop t px net (wt_lastProcessedNonce ?wt + 1) ?wt = Some (err, wt') \<and> advances_to t chain px (unat net) ?wt err wt'"
    proof (rule Suc.hyps(1))
      show "k = unat net - unat (wt_lastProcessedNonce ?wt)" using Suc.hyps(2) n l by simp
      show "unat (wt_lastProcessedNonce ?wt) < 2 ^ 64 - 1" using le assms(3) l by (simp add: word_le_nat_alt)
    qed (rule h)
    then obtain err wt' where w: "hyper_blocks_loop t px net (?n + 1) ?wt = Some (err, wt')" "advances_to t chain px (unat net) ?wt err wt'"
      using l by auto
    have "advances_to t chain px (unat net) wt err wt'"
      using w(2) b h l n le spec_advance_trans [of "tracker_abs wt" "unat ?n" "unat (wt_lastProcessedNonce wt')" t "wt_minimumBalance wt" chain]
      by (auto simp: advances_to_def Let_def tracker_abs_def word_le_nat_alt)
    moreover have "hyper_blocks_loop t px net ?n wt = Some (err, wt')"
      using le Inr w(1) by (subst hyper_blocks_loop.simps) (simp add: fetchAndProcessHyperBlock_def)
    ultimately show ?thesis by blast
  qed
qed

lemma tick_advances:
  assumes "wt_hasHandler wt" and "honest_proxy chain px" and "unat (wt_lastProcessedNonce wt) < 2 ^ 64 - 1"
  shows "\<exists>err wt' net. fetchAndProcessHyperBlocks t px wt = Some (err, wt') \<and> net < 2 ^ 64 - 1
    \<and> (advances_to t chain px net wt err wt' \<and> tp_GetLatestHyperBlockNonce px = Inr (of_nat net)
       \<or> wt' = wt \<and> (\<exists>e. err = Some e \<and> tp_GetLatestHyperBlockNonce px = Inl e))"
proof (cases "tp_GetLatestHyperBlockNonce px")
  case (Inl e)
  then show ?thesis by (auto simp: fetchAndProcessHyperBlocks_def intro: exI [of _ 0])
next
  case (Inr net)
  then have "unat net < 2 ^ 64 - 1" using assms(2) by (simp add: honest_proxy_def)
  moreover from hyper_blocks_loop_advances [OF assms(1,2) this assms(3), of t] obtain err wt' where
    "hyper_blocks_loop t px net (wt_lastProcessedNonce wt + 1) wt = Some (err, wt')" "advances_to t chain px (unat net) wt err wt'" by blast
  ultimately show ?thesis
    using Inr by (intro exI [of _ err] exI [of _ wt'] exI [of _ "unat net"]) (simp add: fetchAndProcessHyperBlocks_def)
qed

lemma spec_advance_scanned [simp]: "ts_scanned (spec_advance t b chain m s) = m"
  by (simp add: spec_advance_def Let_def)

lemma finite_accumulator_abs: "finite (ts_pending s) \<Longrightarrow> finite (ts_pending (spec_advance t b chain m s))"
  by (simp add: spec_advance_def Let_def)

text \<open>The effect of one operation on the specification; popped addresses leave the pending set.\<close>

lemma tracker_step_spec:
  assumes "wt_hasHandler wt" and "honest_op chain op" and "unat (wt_lastProcessedNonce wt) < 2 ^ 64 - 1"
    and "finite (ts_pending (tracker_abs wt))"
  shows "\<exists>out wt' m. tracker_step t op wt = Some (out, wt') \<and> m < 2 ^ 64 - 1 \<and> ts_scanned (tracker_abs wt) \<le> m
    \<and> wt_hasHandler wt' \<and> wt_minimumBalance wt' = wt_minimumBalance wt \<and> finite (ts_pending (tracker_abs wt'))
    \<and> ts_scanned (tracker_abs wt') = m
    \<and> ts_found (tracker_abs wt') = ts_found (spec_advance t (wt_minimumBalance wt) chain m (tracker_abs wt))
    \<and> set out \<union> ts_pending (tracker_abs wt') = ts_pending (spec_advance t (wt_minimumBalance wt) chain m (tracker_abs wt))"
proof (cases op)
  case (PopAddresses order)
  with assms(2,4) have "set (order (aa_addressesMap (wt_accumulator wt))) = ts_pending (tracker_abs wt)"
    by (auto simp: tracker_abs_def go_range_def)
  with PopAddresses assms show ?thesis
    by (intro exI [of _ "order (aa_addressesMap (wt_accumulator wt))"] exI [of _ "wt\<lparr>wt_accumulator := \<lparr>aa_addressesMap = Map.empty\<rparr>\<rparr>"]
        exI [of _ "unat (wt_lastProcessedNonce wt)"])
      (simp add: GetLatestTrackedAddresses_def aa_pop_def tracker_abs_def spec_advance_def deposits_between_def)
next
  case (Tick px)
  with assms(2) have "honest_proxy chain px" by simp
  from tick_advances [OF assms(1) this assms(3), of t] obtain err wt' net where
    f: "fetchAndProcessHyperBlocks t px wt = Some (err, wt')" "net < 2 ^ 64 - 1"
      "advances_to t chain px net wt err wt' \<or> wt' = wt" by blast
  let ?m = "unat (wt_lastProcessedNonce wt')"
  have scanned: "ts_scanned (tracker_abs w) = unat (wt_lastProcessedNonce w)" for w by (simp add: tracker_abs_def)
  have "unat (wt_lastProcessedNonce wt) \<le> ?m \<and> ?m < 2 ^ 64 - 1 \<and> wt_hasHandler wt' \<and> wt_minimumBalance wt' = wt_minimumBalance wt
      \<and> tracker_abs wt' = spec_advance t (wt_minimumBalance wt) chain ?m (tracker_abs wt)"
    using f(2,3) assms(1,3) spec_advance_same [of t "wt_minimumBalance wt" chain "tracker_abs wt"]
    by (auto simp: advances_to_def Let_def scanned)
  with f(1) Tick assms(4) show ?thesis
    by (intro exI [of _ "[]"] exI [of _ wt'] exI [of _ ?m]) (simp add: scanned finite_accumulator_abs)
qed

lemma deposits_between_trans:
  "a \<le> b \<Longrightarrow> b \<le> c \<Longrightarrow> deposits_between t mb chain a b @ deposits_between t mb chain b c = deposits_between t mb chain a c"
  unfolding deposits_between_def
  by (metis Suc_le_mono concat_append le_Suc_ex map_append upt_add_eq_append)

lemma spec_advance_fields [simp]:
  "ts_found (spec_advance t b chain m s) = ts_found s @ deposits_between t b chain (ts_scanned s) m"
  "ts_pending (spec_advance t b chain m s) = ts_pending s \<union> ton_Receiver ` set (deposits_between t b chain (ts_scanned s) m)"
  by (simp_all add: spec_advance_def Let_def)

lemma tracker_run_spec:
  assumes "wt_hasHandler wt" and "\<forall>op\<in>set ops. honest_op chain op" and "unat (wt_lastProcessedNonce wt) < 2 ^ 64 - 1"
    and "finite (ts_pending (tracker_abs wt))"
  shows "\<exists>out wt' m. tracker_run t ops wt = Some (out, wt') \<and> ts_scanned (tracker_abs wt) \<le> m \<and> ts_scanned (tracker_abs wt') = m
    \<and> ts_found (tracker_abs wt') = ts_found (spec_advance t (wt_minimumBalance wt) chain m (tracker_abs wt))
    \<and> set out \<union> ts_pending (tracker_abs wt') = ts_pending (spec_advance t (wt_minimumBalance wt) chain m (tracker_abs wt))"
  using assms
proof (induction ops arbitrary: wt)
  case Nil
  then show ?case by (simp add: deposits_between_def)
next
  case (Cons op ops)
  from Cons.prems have "honest_op chain op" by simp
  from tracker_step_spec [OF Cons.prems(1) this Cons.prems(3,4), of t] obtain out wt1 m where
    s: "tracker_step t op wt = Some (out, wt1)" "m < 2 ^ 64 - 1" "ts_scanned (tracker_abs wt) \<le> m"
      "wt_hasHandler wt1" "wt_minimumBalance wt1 = wt_minimumBalance wt" "finite (ts_pending (tracker_abs wt1))"
      "ts_scanned (tracker_abs wt1) = m"
      "ts_found (tracker_abs wt1) = ts_found (tracker_abs wt) @ deposits_between t (wt_minimumBalance wt) chain (ts_scanned (tracker_abs wt)) m"
      "set out \<union> ts_pending (tracker_abs wt1) = ts_pending (tracker_abs wt) \<union> ton_Receiver ` set (deposits_between t (wt_minimumBalance wt) chain (ts_scanned (tracker_abs wt)) m)"
    by auto
  have "unat (wt_lastProcessedNonce wt1) < 2 ^ 64 - 1" using s(2,7) by (simp add: tracker_abs_def)
  with Cons.IH [OF s(4) _ this s(6)] Cons.prems(2) obtain out' wt2 m' where
    r: "tracker_run t ops wt1 = Some (out', wt2)" "m \<le> m'" "ts_scanned (tracker_abs wt2) = m'"
      "ts_found (tracker_abs wt2) = ts_found (tracker_abs wt1) @ deposits_between t (wt_minimumBalance wt) chain m m'"
      "set out' \<union> ts_pending (tracker_abs wt2) = ts_pending (tracker_abs wt1) \<union> ton_Receiver ` set (deposits_between t (wt_minimumBalance wt) chain m m')"
    using s(5,7) by auto
  note d = deposits_between_trans [OF s(3) r(2), of t "wt_minimumBalance wt" chain, symmetric]
  have "set (out @ out') \<union> ts_pending (tracker_abs wt2) = ts_pending (tracker_abs wt)
      \<union> ton_Receiver ` set (deposits_between t (wt_minimumBalance wt) chain (ts_scanned (tracker_abs wt)) m')"
    using s(9) r(5) by (simp add: d image_Un) blast
  then show ?case
    using s(1,3,8) r(1-4) by (intro exI [of _ "out @ out'"] exI [of _ wt2] exI [of _ m']) (simp add: d)
qed

text \<open>When the loop over the nonces ends and when it does not.\<close>

lemma hyper_blocks_loop_returns:
  assumes "net < nonce + of_nat k \<or> (\<exists>e. tp_GetHyperBlockByNonce px (nonce + of_nat k) = Inl e)"
  shows "\<exists>r. hyper_blocks_loop t px net nonce wt = Some r"
  using assms
proof (induction k arbitrary: nonce wt)
  case 0
  then show ?case
    by (subst hyper_blocks_loop.simps) (auto simp: fetchAndProcessHyperBlock_def split: sum.splits)
next
  case (Suc k)
  obtain err wt' where f: "fetchAndProcessHyperBlock t px nonce wt = (err, wt')" by fastforce
  from Suc.IH [of "nonce + 1" "ProcessedNonce nonce wt'"] Suc.prems show ?case
    by (subst hyper_blocks_loop.simps) (auto simp: f ac_simps split: option.splits)
qed

lemma hyper_blocks_loop_diverges:
  assumes "\<forall>n. \<exists>b. tp_GetHyperBlockByNonce px n = Inr b"
  shows "hyper_blocks_loop t px (- 1) nonce wt = None"
proof -
  have "net = - 1 \<longrightarrow> (\<exists>n e. tp_GetHyperBlockByNonce px n = Inl e)"
    if "hyper_blocks_loop t px net nonce wt = Some r" for net r
  proof (rule hyper_blocks_loop.raw_induct [OF _ that,
      where P = "\<lambda>t px net nonce wt r. net = - 1 \<longrightarrow> (\<exists>n e. tp_GetHyperBlockByNonce px n = Inl e)"])
    fix loop t px net nonce wt r
    assume IH: "\<And>t px net nonce wt r. loop t px net nonce wt = Some r \<Longrightarrow>
        net = - 1 \<longrightarrow> (\<exists>n e. tp_GetHyperBlockByNonce px n = Inl e)"
      and body: "(if nonce \<le> net then (case fetchAndProcessHyperBlock t px nonce wt of
           (Some err, wt') \<Rightarrow> Some (Some err, wt')
         | (None, wt') \<Rightarrow> loop t px net (nonce + 1) (ProcessedNonce nonce wt')) else Some (None, wt)) = Some r"
    show "net = - 1 \<longrightarrow> (\<exists>n e. tp_GetHyperBlockByNonce px n = Inl e)"
    proof (cases "tp_GetHyperBlockByNonce px nonce")
      case (Inl e)
      then show ?thesis by (intro impI exI)
    next
      case (Inr b)
      with body IH [of t px net "nonce + 1" "ProcessedNonce nonce (processHyperBlock t b wt)" r] show ?thesis
        by (auto simp: fetchAndProcessHyperBlock_def)
    qed
  qed
  moreover have "tp_GetHyperBlockByNonce px n \<noteq> Inl e" for n e using assms [THEN spec, of n] by auto
  ultimately show ?thesis by (cases "hyper_blocks_loop t px (- 1) nonce wt") auto
qed

section \<open>Properties\<close>

text \<open>C4. One round of the tracker refines the specification: with a proxy that does not contradict the
  chain the round returns, the scanned prefix of the chain grows to some block, every deposit of the
  new blocks is notified in order and its receiver becomes pending; without an error the round
  reaches the block that the network reported, and with one it stops right before the block that
  could not be fetched, so that the next round resumes there.\<close>

theorem tracker_round_refines:
  assumes "wt_hasHandler wt" and "honest_proxy chain px" and "unat (wt_lastProcessedNonce wt) < 2 ^ 64 - 1"
    and "tp_GetLatestHyperBlockNonce px = Inr net"
  shows "\<exists>err wt'. fetchAndProcessHyperBlocks t px wt = Some (err, wt')
    \<and> (let m = ts_scanned (tracker_abs wt')
       in ts_scanned (tracker_abs wt) \<le> m \<and> m \<le> max (ts_scanned (tracker_abs wt)) (unat net)
        \<and> tracker_abs wt' = spec_advance t (wt_minimumBalance wt) chain m (tracker_abs wt)
        \<and> (case err of None \<Rightarrow> unat net \<le> m | Some e \<Rightarrow> tp_GetHyperBlockByNonce px (of_nat (Suc m)) = Inl e))"
proof -
  have "unat net < 2 ^ 64 - 1" using assms(2,4) by (simp add: honest_proxy_def)
  from hyper_blocks_loop_advances [OF assms(1,2) this assms(3), of t] assms(4) show ?thesis
    by (auto simp: fetchAndProcessHyperBlocks_def advances_to_def Let_def tracker_abs_def)
qed

theorem tracker_round_refines_witness:
  "\<exists>wt'. fetchAndProcessHyperBlocks (\<lambda>a. a = ''bob'') demo_hyper_proxy demo_tracker = Some (None, wt')
     \<and> tracker_abs wt' = spec_advance (\<lambda>a. a = ''bob'') 15 demo_chain 3 (tracker_abs demo_tracker)"
proof -
  have "honest_proxy demo_chain demo_hyper_proxy" by (auto simp: honest_proxy_def demo_hyper_proxy_def)
  moreover have "ts_scanned (tracker_abs demo_tracker) = 0" by (simp add: tracker_abs_def demo_tracker_def)
  moreover have "wt_hasHandler demo_tracker" "wt_minimumBalance demo_tracker = 15" "unat (wt_lastProcessedNonce demo_tracker) < 2 ^ 64 - 1"
    "tp_GetLatestHyperBlockNonce demo_hyper_proxy = Inr 3" "tp_GetHyperBlockByNonce demo_hyper_proxy n \<noteq> Inl e" for n e
    by (simp_all add: demo_tracker_def demo_hyper_proxy_def)
  ultimately show ?thesis
    using tracker_round_refines [of demo_tracker demo_chain demo_hyper_proxy 3 "\<lambda>a. a = ''bob''"]
    by (auto simp: Let_def split: option.splits)
qed

text \<open>No deposit is lost and none is counted twice, whatever the sequence of rounds, failed or not,
  and of pops: after a run the handler was called exactly for the deposits of the scanned blocks, in
  order and once each, and the addresses popped together with those still pending are exactly the
  receivers of these deposits.\<close>

lemma tracker_exactly_once:
  assumes "NewWalletTracker (Some ()) (Some ()) (Some lastNonce) (Some minBalance) = Inr wt0"
    and "wt = SetHandlerForNewDepositTransactionFound (Some ()) wt0"
    and "\<forall>op\<in>set ops. honest_op chain op" and "unat lastNonce < 2 ^ 64 - 1"
  shows "\<exists>out wt'. tracker_run t ops wt = Some (out, wt') \<and> unat lastNonce \<le> unat (wt_lastProcessedNonce wt')
    \<and> (let new = deposits_between t minBalance chain (unat lastNonce) (unat (wt_lastProcessedNonce wt'))
       in wt_notified wt' = new \<and> set out \<union> dom (aa_addressesMap (wt_accumulator wt')) = ton_Receiver ` set new)"
proof -
  have w: "wt_hasHandler wt" "wt_minimumBalance wt = minBalance" "tracker_abs wt = \<lparr>ts_scanned = unat lastNonce, ts_found = [], ts_pending = {}\<rparr>"
    "wt_lastProcessedNonce wt = lastNonce"
    using assms(1,2) by (auto simp: NewWalletTracker_def SetHandlerForNewDepositTransactionFound_def tracker_abs_def newAddressesAccumulator_def)
  from tracker_run_spec [OF w(1) assms(3), of t] assms(4) w(2-4) show ?thesis
    by (auto simp: Let_def tracker_abs_def)
qed

lemma tracker_exactly_once_example:
  "\<exists>out wt'. tracker_run (\<lambda>a. a = ''bob'') [Tick demo_hyper_proxy] demo_tracker = Some (out, wt')
     \<and> wt_notified wt' = deposits_between (\<lambda>a. a = ''bob'') 15 demo_chain 0 (unat (wt_lastProcessedNonce wt'))"
proof -
  have n: "NewWalletTracker (Some ()) (Some ()) (Some 0) (Some 15) = Inr (demo_tracker\<lparr>wt_hasHandler := False\<rparr>)"
    by (simp add: NewWalletTracker_def demo_tracker_def)
  have "demo_tracker = SetHandlerForNewDepositTransactionFound (Some ()) (demo_tracker\<lparr>wt_hasHandler := False\<rparr>)"
    by (simp add: SetHandlerForNewDepositTransactionFound_def demo_tracker_def)
  moreover have "\<forall>op\<in>set [Tick demo_hyper_proxy]. honest_op demo_chain op" by (auto simp: honest_proxy_def demo_hyper_proxy_def)
  ultimately show ?thesis
    using tracker_exactly_once [OF n, of demo_tracker "[Tick demo_hyper_proxy]" demo_chain "\<lambda>a. a = ''bob''"] by (auto simp: Let_def)
qed

text \<open>C19. A round of the tracker ends, except in exactly one case: the proxy answers the largest 64-bit
  nonce as the latest one, so that the loop condition on the wrapped nonce never fails, and serves a
  block for every nonce.\<close>

theorem tracker_round_terminates:
  "fetchAndProcessHyperBlocks t px wt = None \<longleftrightarrow>
     tp_GetLatestHyperBlockNonce px = Inr (- 1) \<and> (\<forall>n. \<exists>b. tp_GetHyperBlockByNonce px n = Inr b)"
proof (cases "tp_GetLatestHyperBlockNonce px")
  case (Inl e)
  then show ?thesis by (simp add: fetchAndProcessHyperBlocks_def)
next
  case (Inr net)
  let ?n = "wt_lastProcessedNonce wt + 1"
  have "\<exists>r. hyper_blocks_loop t px net ?n wt = Some r" if "net \<noteq> - 1"
  proof (rule hyper_blocks_loop_returns [of _ _ "unat (net + 1 - ?n)"])
    have "net < 1 + net" using that unatSuc [of net] by (auto simp: word_less_nat_alt ac_simps eq_neg_iff_add_eq_0)
    then show "net < ?n + of_nat (unat (net + 1 - ?n)) \<or> (\<exists>e. tp_GetHyperBlockByNonce px (?n + of_nat (unat (net + 1 - ?n))) = Inl e)"
      by simp
  qed
  moreover have "\<exists>r. hyper_blocks_loop t px net ?n wt = Some r" if "tp_GetHyperBlockByNonce px n = Inl e" for n e
    by (rule hyper_blocks_loop_returns [of _ _ "unat (n - ?n)"]) (simp add: that)
  ultimately show ?thesis
    using hyper_blocks_loop_diverges [of px t ?n wt] Inr
    by (cases "\<forall>n. \<exists>b. tp_GetHyperBlockByNonce px n = Inr b"; cases "net = - 1")
      (auto simp: fetchAndProcessHyperBlocks_def, metis old.sum.exhaust option.distinct(1))
qed

end
