(* ===== verification/Tracker_Steps.thy ===== *)
theory Tracker_Steps
  imports Wallet_Tracker
begin

text \<open>
  The goroutine of the wallet tracker (\<^verbatim>\<open>workflows/walletsTracker.go\<close>, \<^verbatim>\<open>processLoop\<close>) at the grain of what other
  goroutines can observe: a request, the notification of a deposit, the push of an address under the lock
  of the accumulator, and the store of the processed nonce are steps of their own. Pops, the registration
  of the handler and the cancellation may come in between any two of them, also in the middle of a block.

  A round of \<open>Wallet_Tracker\<close> is a sequence of these steps, and what is shown there of whole rounds holds of
  every interleaving.
\<close>

section \<open>Steps\<close>

text \<open>\<^verbatim>\<open>processTransaction\<close> up to the push: the address that is going to be pushed.\<close>

definition examineTransaction ::
  "(string \<Rightarrow> bool) \<Rightarrow> TransactionOnNetwork \<Rightarrow> walletTracker \<Rightarrow> string option \<times> walletTracker" where
  "examineTransaction isTrackable tx wt = (case big_SetString (ton_Value tx) of
     None \<Rightarrow> (None, wt)
   | Some v \<Rightarrow>
       if \<not> isTrackable (ton_Receiver tx) then (None, wt)
       else if v < wt_minimumBalance wt then (None, wt)
       else (Some (ton_Receiver tx), notifyNewDepositTransactionFound tx wt))"

definition pushAddress :: "string \<Rightarrow> walletTracker \<Rightarrow> walletTracker" where
  "pushAddress addr wt = wt\<lparr>wt_accumulator := aa_push addr (wt_accumulator wt)\<rparr>"

text \<open>Where the goroutine is: waiting for the timer; at the head of the loop over the nonces; in the loop over the
  transactions of a block; before a push; ended.\<close>

datatype tracker_pc =
    Waiting
  | AtNonce u64 u64
  | InBlock u64 u64 "TransactionOnNetwork list"
  | Pushing u64 u64 string "TransactionOnNetwork list"
  | Ended

record tracker_conf =
  tc_wt :: walletTracker
  tc_pc :: tracker_pc
  tc_cancelled :: bool
  tc_popped :: "string list"

datatype tracker_act =
    GotLatest "u64 result"
  | GotBlock u64 "HyperBlock result"
  | RoundOver
  | NextTransaction
  | Push
  | BlockDone
  | Pop "string list"
  | SetHandler
  | Cancel
  | LoopEnds

inductive tracker_act_step :: "(string \<Rightarrow> bool) \<Rightarrow> tracker_act \<Rightarrow> tracker_conf \<Rightarrow> tracker_conf \<Rightarrow> bool" for t where
  latest_fails: "tc_pc c = Waiting \<Longrightarrow> tracker_act_step t (GotLatest (Inl err)) c c"
| latest: "tc_pc c = Waiting \<Longrightarrow>
    tracker_act_step t (GotLatest (Inr net)) c (c\<lparr>tc_pc := AtNonce net (wt_lastProcessedNonce (tc_wt c) + 1)\<rparr>)"
| block_fails: "tc_pc c = AtNonce net n \<Longrightarrow> n \<le> net \<Longrightarrow> tracker_act_step t (GotBlock n (Inl err)) c (c\<lparr>tc_pc := Waiting\<rparr>)"
| block: "tc_pc c = AtNonce net n \<Longrightarrow> n \<le> net \<Longrightarrow>
    tracker_act_step t (GotBlock n (Inr b)) c (c\<lparr>tc_pc := InBlock net n (hb_Transactions b)\<rparr>)"
| round_over: "tc_pc c = AtNonce net n \<Longrightarrow> \<not> n \<le> net \<Longrightarrow> tracker_act_step t RoundOver c (c\<lparr>tc_pc := Waiting\<rparr>)"
| transaction: "tc_pc c = InBlock net n (tx # txs) \<Longrightarrow> examineTransaction t tx (tc_wt c) = (addr, wt) \<Longrightarrow>
    tracker_act_step t NextTransaction c
      (c\<lparr>tc_wt := wt, tc_pc := (case addr of None \<Rightarrow> InBlock net n txs | Some a \<Rightarrow> Pushing net n a txs)\<rparr>)"
| push: "tc_pc c = Pushing net n a txs \<Longrightarrow>
    tracker_act_step t Push c (c\<lparr>tc_wt := pushAddress a (tc_wt c), tc_pc := InBlock net n txs\<rparr>)"
| block_done: "tc_pc c = InBlock net n [] \<Longrightarrow>
    tracker_act_step t BlockDone c (c\<lparr>tc_wt := ProcessedNonce n (tc_wt c), tc_pc := AtNonce net (n + 1)\<rparr>)"
| pop: "go_range (aa_addressesMap (wt_accumulator (tc_wt c))) ks \<Longrightarrow> GetLatestTrackedAddresses ks (tc_wt c) = (out, wt) \<Longrightarrow>
    tracker_act_step t (Pop ks) c (c\<lparr>tc_wt := wt, tc_popped := tc_popped c @ out\<rparr>)"
| set_handler: "tracker_act_step t SetHandler c
    (c\<lparr>tc_wt := SetHandlerForNewDepositTransactionFound (Some ()) (tc_wt c)\<rparr>)"
| cancel: "tracker_act_step t Cancel c (c\<lparr>tc_cancelled := True\<rparr>)"
| loop_ends: "tc_pc c = Waiting \<Longrightarrow> tc_cancelled c \<Longrightarrow> tracker_act_step t LoopEnds c (c\<lparr>tc_pc := Ended\<rparr>)"

inductive tracker_acts :: "(string \<Rightarrow> bool) \<Rightarrow> tracker_conf \<Rightarrow> tracker_act list \<Rightarrow> tracker_conf \<Rightarrow> bool" for t c0 where
  no_acts: "tracker_acts t c0 [] c0"
| more_acts: "tracker_acts t c0 as c \<Longrightarrow> tracker_act_step t a c c' \<Longrightarrow> tracker_acts t c0 (as @ [a]) c'"

inductive_cases tracker_act_stepE: "tracker_act_step t a c c'"

text \<open>Answers that do not contradict the chain; the latest nonce is not the largest 64-bit number.\<close>

fun honest_act :: "(nat \<Rightarrow> TransactionOnNetwork list) \<Rightarrow> tracker_act \<Rightarrow> bool" where
  "honest_act chain (GotLatest (Inr net)) \<longleftrightarrow> unat net < 2 ^ 64 - 1"
| "honest_act chain (GotBlock n (Inr b)) \<longleftrightarrow> hb_Transactions b = chain (unat n)"
| "honest_act chain _ = True"

section \<open>Rounds are sequences of steps\<close>

lemma tracker_acts_append: "tracker_acts t c bs c' \<Longrightarrow> tracker_acts t c0 as c \<Longrightarrow> tracker_acts t c0 (as @ bs) c'"
proof (induction rule: tracker_acts.induct)
  case (more_acts bs c a c')
  from tracker_acts.more_acts [OF more_acts.IH [OF more_acts.prems] more_acts.hyps(2)] show ?case by simp
qed simp

lemma tracker_acts_one: "tracker_act_step t a c c' \<Longrightarrow> tracker_acts t c [a] c'"
  using more_acts [OF no_acts] by fastforce

lemma tracker_acts_Cons: "tracker_act_step t a c c1 \<Longrightarrow> tracker_acts t c1 as c' \<Longrightarrow> tracker_acts t c (a # as) c'"
  using tracker_acts_append [OF _ tracker_acts_one] by fastforce

lemma processTransaction_examine:
  "snd (processTransaction t tx wt) = (case examineTransaction t tx wt of
     (None, wt') \<Rightarrow> wt' | (Some a, wt') \<Rightarrow> pushAddress a wt')"
  by (simp add: processTransaction_def examineTransaction_def pushAddress_def Let_def split: option.splits)

lemma block_acts:
  assumes "tc_pc c = InBlock net n txs"
  shows "\<exists>as. tracker_acts t c as (c\<lparr>tc_wt := ProcessedNonce n (fold (\<lambda>tx w. snd (processTransaction t tx w)) txs (tc_wt c)),
    tc_pc := AtNonce net (n + 1)\<rparr>) \<and> (\<forall>a\<in>set as. honest_act chain a)"
  using assms
proof (induction txs arbitrary: c)
  case Nil
  then show ?case using tracker_acts_one [OF block_done [OF Nil]] by (intro exI [of _ "[BlockDone]"]) simp
next
  case (Cons tx txs)
  obtain addr wt where e: "examineTransaction t tx (tc_wt c) = (addr, wt)" by fastforce
  note tx = transaction [OF Cons.prems e]
  show ?case
  proof (cases addr)
    case None
    let ?c = "c\<lparr>tc_wt := wt, tc_pc := InBlock net n txs\<rparr>"
    obtain as where "tracker_acts t ?c as (?c\<lparr>tc_wt := ProcessedNonce n (fold (\<lambda>tx w. snd (processTransaction t tx w)) txs wt),
        tc_pc := AtNonce net (n + 1)\<rparr>)" "\<forall>a\<in>set as. honest_act chain a" using Cons.IH [of ?c] by auto
    with tracker_acts_Cons [OF tx] e None show ?thesis
      by (intro exI [of _ "NextTransaction # as"]) (simp add: processTransaction_examine)
  next
    case (Some a)
    let ?c1 = "c\<lparr>tc_wt := wt, tc_pc := Pushing net n a txs\<rparr>"
    let ?c = "c\<lparr>tc_wt := pushAddress a wt, tc_pc := InBlock net n txs\<rparr>"
    have p: "tracker_act_step t Push ?c1 ?c" using push [of ?c1 net n a txs t] by simp
    obtain as where "tracker_acts t ?c as (?c\<lparr>tc_wt := ProcessedNonce n (fold (\<lambda>tx w. snd (processTransaction t tx w)) txs (pushAddress a wt)),
        tc_pc := AtNonce net (n + 1)\<rparr>)" "\<forall>a\<in>set as. honest_act chain a" using Cons.IH [of ?c] by auto
    with tracker_acts_Cons [OF tx, OF _ ] tracker_acts_Cons [OF p] e Some show ?thesis
      by (intro exI [of _ "NextTransaction # Push # as"]) (simp add: processTransaction_examine)
  qed
qed

lemma loop_acts:
  assumes "hyper_blocks_loop t px net nonce wt = Some r"
  shows "\<forall>c. honest_proxy chain px \<and> tc_wt c = wt \<and> tc_pc c = AtNonce net nonce \<longrightarrow>
    (\<exists>as. tracker_acts t c as (c\<lparr>tc_wt := snd r, tc_pc := Waiting\<rparr>) \<and> (\<forall>a\<in>set as. honest_act chain a))"
proof (rule hyper_blocks_loop.raw_induct [OF _ assms, where P = "\<lambda>t px net nonce wt r. \<forall>c. honest_proxy chain px \<and> tc_wt c = wt
    \<and> tc_pc c = AtNonce net nonce \<longrightarrow> (\<exists>as. tracker_acts t c as (c\<lparr>tc_wt := snd r, tc_pc := Waiting\<rparr>) \<and> (\<forall>a\<in>set as. honest_act chain a))"],
    intro allI impI, elim conjE)
  fix loop t px net nonce wt r and c :: tracker_conf
  assume IH: "\<And>t px net nonce wt r. loop t px net nonce wt = Some r \<Longrightarrow>
      \<forall>c. honest_proxy chain px \<and> tc_wt c = wt \<and> tc_pc c = AtNonce net nonce \<longrightarrow>
        (\<exists>as. tracker_acts t c as (c\<lparr>tc_wt := snd r, tc_pc := Waiting\<rparr>) \<and> (\<forall>a\<in>set as. honest_act chain a))"
    and body: "(if nonce \<le> net then (case fetchAndProcessHyperBlock t px nonce wt of
           (Some err, wt') \<Rightarrow> Some (Some err, wt')
         | (None, wt') \<Rightarrow> loop t px net (nonce + 1) (ProcessedNonce nonce wt')) else Some (None, wt)) = Some r"
    and h: "honest_proxy chain px" and c: "tc_wt c = wt" "tc_pc c = AtNonce net nonce"
  have same: "c\<lparr>tc_wt := wt, tc_pc := p\<rparr> = c\<lparr>tc_pc := p\<rparr>" for p using c(1) by simp
  show "\<exists>as. tracker_acts t c as (c\<lparr>tc_wt := snd r, tc_pc := Waiting\<rparr>) \<and> (\<forall>a\<in>set as. honest_act chain a)"
  proof (cases "nonce \<le> net")
    case False
    with body tracker_acts_one [OF round_over [OF c(2) False]] same show ?thesis by (intro exI [of _ "[RoundOver]"]) auto
  next
    case True
    show ?thesis
    proof (cases "tp_GetHyperBlockByNonce px nonce")
      case (Inl e)
      with True body tracker_acts_one [OF block_fails [OF c(2) True]] same show ?thesis
        by (intro exI [of _ "[GotBlock nonce (Inl e)]"]) (auto simp: fetchAndProcessHyperBlock_def)
    next
      case (Inr b)
      let ?c1 = "c\<lparr>tc_pc := InBlock net nonce (hb_Transactions b)\<rparr>"
      let ?wt = "ProcessedNonce nonce (processHyperBlock t b wt)"
      let ?c2 = "?c1\<lparr>tc_wt := ?wt, tc_pc := AtNonce net (nonce + 1)\<rparr>"
      obtain as where as: "tracker_acts t ?c1 as ?c2" "\<forall>a\<in>set as. honest_act chain a"
        using block_acts [of ?c1 net nonce "hb_Transactions b" t chain] c(1) by (auto simp: processHyperBlock_def)
      have "loop t px net (nonce + 1) ?wt = Some r" using body True Inr by (simp add: fetchAndProcessHyperBlock_def)
      from IH [OF this, THEN spec, of ?c2] h obtain bs where
        bs: "tracker_acts t ?c2 bs (?c2\<lparr>tc_wt := snd r, tc_pc := Waiting\<rparr>)" "\<forall>a\<in>set bs. honest_act chain a" by auto
      have r: "?c2\<lparr>tc_wt := snd r, tc_pc := Waiting\<rparr> = c\<lparr>tc_wt := snd r, tc_pc := Waiting\<rparr>" by simp
      have "hb_Transactions b = chain (unat nonce)" using h Inr by (simp add: honest_proxy_def)
      with as(2) bs(2) have "\<forall>a\<in>set (GotBlock nonce (Inr b) # as @ bs). honest_act chain a" by auto
      with tracker_acts_Cons [OF block [OF c(2) True] tracker_acts_append [OF bs(1) [unfolded r] as(1)]] show ?thesis by blast
    qed
  qed
qed

text \<open>A whole round of \<open>Wallet_Tracker\<close> is one of the interleavings.\<close>

lemma round_acts:
  assumes "fetchAndProcessHyperBlocks t px (tc_wt c) = Some (err, wt')" and "tc_pc c = Waiting" and "honest_proxy chain px"
  shows "\<exists>as. tracker_acts t c as (c\<lparr>tc_wt := wt'\<rparr>) \<and> (\<forall>a\<in>set as. honest_act chain a)"
proof (cases "tp_GetLatestHyperBlockNonce px")
  case (Inl e)
  with assms(1) tracker_acts_one [OF latest_fails [OF assms(2)]] show ?thesis
    by (intro exI [of _ "[GotLatest (Inl e)]"]) (auto simp: fetchAndProcessHyperBlocks_def)
next
  case (Inr net)
  let ?c = "c\<lparr>tc_pc := AtNonce net (wt_lastProcessedNonce (tc_wt c) + 1)\<rparr>"
  have "hyper_blocks_loop t px net (wt_lastProcessedNonce (tc_wt c) + 1) (tc_wt c) = Some (err, wt')"
    using assms(1) Inr by (simp add: fetchAndProcessHyperBlocks_def)
  from loop_acts [OF this, of chain, THEN spec, of ?c] assms(3) obtain as where
    as: "tracker_acts t ?c as (?c\<lparr>tc_wt := wt', tc_pc := Waiting\<rparr>)" "\<forall>a\<in>set as. honest_act chain a" by auto
  have "?c\<lparr>tc_wt := wt', tc_pc := Waiting\<rparr> = c\<lparr>tc_wt := wt'\<rparr>" using assms(2) by (cases c) simp
  with tracker_acts_Cons [OF latest [OF assms(2)] as(1)] as(2) assms(3) Inr show ?thesis
    by (intro exI [of _ "GotLatest (Inr net) # as"]) (auto simp: honest_proxy_def)
qed

section \<open>Invariant\<close>

text \<open>The transactions that the goroutine has dealt with, and the deposit that it is about to push; \<open>n0\<close> is the nonce at
  which the tracker started.\<close>

definition position_ok :: "(nat \<Rightarrow> TransactionOnNetwork list) \<Rightarrow> u64 \<Rightarrow> tracker_pc \<Rightarrow> TransactionOnNetwork list \<Rightarrow> bool" where
  "position_ok chain lastNonce pc pre = (case pc of
     Waiting \<Rightarrow> pre = []
   | Ended \<Rightarrow> pre = []
   | AtNonce net n \<Rightarrow> pre = [] \<and> n = lastNonce + 1 \<and> unat net < 2 ^ 64 - 1
   | InBlock net n txs \<Rightarrow> chain (unat n) = pre @ txs \<and> n = lastNonce + 1 \<and> n \<le> net \<and> unat net < 2 ^ 64 - 1
   | Pushing net n a txs \<Rightarrow> (\<exists>tx. chain (unat n) = pre @ tx # txs \<and> ton_Receiver tx = a)
       \<and> n = lastNonce + 1 \<and> n \<le> net \<and> unat net < 2 ^ 64 - 1)"

definition about_to_push :: "(nat \<Rightarrow> TransactionOnNetwork list) \<Rightarrow> tracker_pc \<Rightarrow> TransactionOnNetwork list \<Rightarrow> TransactionOnNetwork list" where
  "about_to_push chain pc pre = (case pc of Pushing net n a txs \<Rightarrow> [chain (unat n) ! length pre] | _ \<Rightarrow> [])"

definition dealt_with ::
  "(string \<Rightarrow> bool) \<Rightarrow> int \<Rightarrow> (nat \<Rightarrow> TransactionOnNetwork list) \<Rightarrow> nat \<Rightarrow> u64 \<Rightarrow> TransactionOnNetwork list \<Rightarrow> TransactionOnNetwork list" where
  "dealt_with t mb chain n0 lastNonce pre = deposits_between t mb chain n0 (unat lastNonce) @ filter (is_deposit t mb) pre"

text \<open>What the handler was told: the deposits since it was registered.\<close>

definition notified_since :: "walletTracker \<Rightarrow> TransactionOnNetwork list \<Rightarrow> bool" where
  "notified_since wt deposits \<longleftrightarrow> (if wt_hasHandler wt then \<exists>before. deposits = before @ wt_notified wt else wt_notified wt = [])"

definition tracker_inv ::
  "(string \<Rightarrow> bool) \<Rightarrow> int \<Rightarrow> (nat \<Rightarrow> TransactionOnNetwork list) \<Rightarrow> nat \<Rightarrow> tracker_conf \<Rightarrow> TransactionOnNetwork list \<Rightarrow> bool" where
  "tracker_inv t mb chain n0 c pre \<longleftrightarrow>
     (let wt = tc_wt c; lastNonce = wt_lastProcessedNonce wt; passed = dealt_with t mb chain n0 lastNonce pre;
          next_push = about_to_push chain (tc_pc c) pre
      in position_ok chain lastNonce (tc_pc c) pre \<and> wt_minimumBalance wt = mb \<and> n0 \<le> unat lastNonce \<and> unat lastNonce < 2 ^ 64 - 1
       \<and> finite (dom (aa_addressesMap (wt_accumulator wt))) \<and> (\<forall>tx\<in>set next_push. is_deposit t mb tx)
       \<and> set (tc_popped c) \<union> dom (aa_addressesMap (wt_accumulator wt)) = ton_Receiver ` set passed
       \<and> notified_since wt (passed @ next_push))"

lemma examine_deposit:
  "examineTransaction t tx wt = (if is_deposit t (wt_minimumBalance wt) tx
     then (Some (ton_Receiver tx), notifyNewDepositTransactionFound tx wt) else (None, wt))"
  by (simp add: examineTransaction_def is_deposit_def split: option.splits)

lemma notify_sel [simp]:
  "wt_accumulator (notifyNewDepositTransactionFound tx wt) = wt_accumulator wt"
  "wt_minimumBalance (notifyNewDepositTransactionFound tx wt) = wt_minimumBalance wt"
  "wt_lastProcessedNonce (notifyNewDepositTransactionFound tx wt) = wt_lastProcessedNonce wt"
  "wt_hasHandler (notifyNewDepositTransactionFound tx wt) = wt_hasHandler wt"
  "wt_notified (notifyNewDepositTransactionFound tx wt) = wt_notified wt @ (if wt_hasHandler wt then [tx] else [])"
  by (simp_all add: notifyNewDepositTransactionFound_def)

lemma notified_since_simps [simp]:
  "notified_since wt xs \<Longrightarrow> notified_since (notifyNewDepositTransactionFound tx wt) (xs @ [tx])"
  "notified_since (wt\<lparr>wt_accumulator := aa\<rparr>) xs = notified_since wt xs"
  "notified_since (wt\<lparr>wt_lastProcessedNonce := n\<rparr>) xs = notified_since wt xs"
  "notified_since wt xs \<Longrightarrow> notified_since (wt\<lparr>wt_hasHandler := True\<rparr>) xs"
  by (auto simp: notified_since_def split: if_splits)

lemmas tracker_inv_simps = tracker_inv_def position_ok_def about_to_push_def dealt_with_def Let_def

text \<open>One lemma for each kind of step that changes what was dealt with.\<close>

lemma inv_transaction:
  assumes "tracker_inv t mb chain n0 c pre" and "tc_pc c = InBlock net n (tx # txs)"
    and "examineTransaction t tx (tc_wt c) = (addr, wt)"
  shows "\<exists>pre'. tracker_inv t mb chain n0
    (c\<lparr>tc_wt := wt, tc_pc := (case addr of None \<Rightarrow> InBlock net n txs | Some a \<Rightarrow> Pushing net n a txs)\<rparr>) pre'"
proof (cases "is_deposit t mb tx")
  case True
  have "wt_minimumBalance (tc_wt c) = mb" using assms(1) by (simp add: tracker_inv_def Let_def)
  with True assms(3) have e: "addr = Some (ton_Receiver tx)" "wt = notifyNewDepositTransactionFound tx (tc_wt c)"
    by (simp_all add: examine_deposit)
  have "chain (unat n) = pre @ tx # txs" using assms(1,2) by (auto simp: tracker_inv_simps)
  then have "about_to_push chain (Pushing net n (ton_Receiver tx) txs) pre = [tx]" by (simp add: about_to_push_def)
  moreover have "about_to_push chain (tc_pc c) pre = []" by (simp add: assms(2) about_to_push_def)
  ultimately show ?thesis using assms(1,2) True e
    by (intro exI [of _ pre]) (auto simp: tracker_inv_def position_ok_def dealt_with_def Let_def simp flip: append_assoc)
next
  case False
  have "wt_minimumBalance (tc_wt c) = mb" using assms(1) by (simp add: tracker_inv_def Let_def)
  with False assms(3) have "addr = None" "wt = tc_wt c" by (simp_all add: examine_deposit)
  with assms(1,2) False show ?thesis by (intro exI [of _ "pre @ [tx]"]) (auto simp: tracker_inv_simps)
qed

lemma inv_push:
  assumes "tracker_inv t mb chain n0 c pre" and "tc_pc c = Pushing net n a txs"
  shows "\<exists>pre'. tracker_inv t mb chain n0 (c\<lparr>tc_wt := pushAddress a (tc_wt c), tc_pc := InBlock net n txs\<rparr>) pre'"
proof -
  obtain tx where tx: "chain (unat n) = pre @ tx # txs" "ton_Receiver tx = a"
    using assms by (auto simp: tracker_inv_def position_ok_def Let_def)
  then have p: "about_to_push chain (tc_pc c) pre = [tx]" by (simp add: assms(2) about_to_push_def)
  with assms(1) have "is_deposit t mb tx" by (simp add: tracker_inv_def Let_def)
  with assms tx p show ?thesis
    by (intro exI [of _ "pre @ [tx]"])
      (auto simp: tracker_inv_def position_ok_def dealt_with_def about_to_push_def Let_def pushAddress_def aa_push_def)
qed

lemma inv_block_done:
  assumes "tracker_inv t mb chain n0 c pre" and "tc_pc c = InBlock net n []"
  shows "tracker_inv t mb chain n0 (c\<lparr>tc_wt := ProcessedNonce n (tc_wt c), tc_pc := AtNonce net (n + 1)\<rparr>) []"
proof -
  let ?last = "unat (wt_lastProcessedNonce (tc_wt c))"
  have i: "chain (unat n) = pre" "n = wt_lastProcessedNonce (tc_wt c) + 1" "n \<le> net" "unat net < 2 ^ 64 - 1" "?last < 2 ^ 64 - 1" "n0 \<le> ?last"
    using assms by (auto simp: tracker_inv_simps)
  have n: "unat n = Suc ?last" using unat_Suc_word [OF i(5)] i(2) by simp
  have "unat n \<le> unat net" using i(3) by (simp add: word_le_nat_alt)
  with i(4) have less: "unat n < 2 ^ 64 - 1" by linarith
  have "deposits_between t mb chain n0 (unat n) = deposits_between t mb chain n0 ?last @ filter (is_deposit t mb) pre"
    using i(1,6) n by (simp add: deposits_between_def)
  with assms i less n show ?thesis by (simp add: tracker_inv_simps ProcessedNonce_def)
qed

lemma inv_pop:
  assumes "tracker_inv t mb chain n0 c pre" and "go_range (aa_addressesMap (wt_accumulator (tc_wt c))) ks"
    and "GetLatestTrackedAddresses ks (tc_wt c) = (out, wt)"
  shows "tracker_inv t mb chain n0 (c\<lparr>tc_wt := wt, tc_popped := tc_popped c @ out\<rparr>) pre"
proof -
  have w: "out = ks" "wt = (tc_wt c)\<lparr>wt_accumulator := \<lparr>aa_addressesMap = Map.empty\<rparr>\<rparr>"
    using assms(3) by (auto simp: GetLatestTrackedAddresses_def aa_pop_def)
  have "set ks = dom (aa_addressesMap (wt_accumulator (tc_wt c)))" using assms(2) by (simp add: go_range_def)
  with assms(1) w show ?thesis by (simp add: tracker_inv_def Let_def)
qed

lemma inv_set_handler:
  assumes "tracker_inv t mb chain n0 c pre"
  shows "tracker_inv t mb chain n0 (c\<lparr>tc_wt := SetHandlerForNewDepositTransactionFound (Some ()) (tc_wt c)\<rparr>) pre"
  using assms
  by (simp add: tracker_inv_def Let_def SetHandlerForNewDepositTransactionFound_def)

lemma tracker_act_step_inv:
  assumes "tracker_act_step t a c c'" and "tracker_inv t mb chain n0 c pre" and "honest_act chain a"
  shows "\<exists>pre'. tracker_inv t mb chain n0 c' pre'"
  using assms(1)
proof cases
  case (transaction net n tx txs addr wt)
  with inv_transaction [OF assms(2)] show ?thesis by blast
next
  case (push net n a txs)
  with inv_push [OF assms(2)] show ?thesis by blast
next
  case (block_done net n)
  with inv_block_done [OF assms(2)] show ?thesis by blast
next
  case (pop ks out wt)
  with inv_pop [OF assms(2)] show ?thesis by blast
next
  case set_handler
  with inv_set_handler [OF assms(2)] show ?thesis by blast
next
  case (block net n b)
  with assms(2,3) show ?thesis by (intro exI [of _ "[]"]) (auto simp: tracker_inv_simps)
qed (use assms(2,3) in \<open>auto simp: tracker_inv_simps intro: exI [of _ pre]\<close>)

lemma tracker_acts_inv:
  assumes "tracker_acts t c0 as c" and "tracker_inv t mb chain n0 c0 pre0" and "\<forall>a\<in>set as. honest_act chain a"
  shows "\<exists>pre. tracker_inv t mb chain n0 c pre"
  using assms(1,3)
proof induction
  case no_acts
  with assms(2) show ?case by blast
next
  case (more_acts as c a c')
  then obtain pre where "tracker_inv t mb chain n0 c pre" "honest_act chain a" by auto
  with tracker_act_step_inv [OF more_acts.hyps(2)] show ?case by blast
qed

lemma tracker_inv_start:
  assumes "NewWalletTracker (Some tap) (Some px) (Some lastNonce) (Some mb) = Inr wt" and "unat lastNonce < 2 ^ 64 - 1"
  shows "tracker_inv t mb chain (unat lastNonce) \<lparr>tc_wt = wt, tc_pc = Waiting, tc_cancelled = False, tc_popped = []\<rparr> []"
  using assms by (auto simp: NewWalletTracker_def tracker_inv_simps newAddressesAccumulator_def deposits_between_def notified_since_def)

section \<open>Properties\<close>


definition demo_block :: HyperBlock where
  "demo_block = \<lparr>hb_Nonce = 2, hb_Round = 2, hb_Hash = [], hb_PrevBlockHash = [], hb_Epoch = 0, hb_NumTxs = 2,
     hb_ShardBlocks = [], hb_Timestamp = 0, hb_Transactions = demo_chain 2\<rparr>"


end
