(* ===== verification/Move_Balance.thy ===== *)
theory Move_Balance
  imports Tx_Builder Tx_Interactor
begin

text \<open>
  \<^verbatim>\<open>workflows/moveBalanceHandler.go\<close>: the handler that empties the balances of tracked accounts. It signs
  with the transaction builder and adds the transactions to the transaction interactor, so both of
  those components appear here: the interactor's state is threaded through. The proxy's
  \<^verbatim>\<open>GetDefaultTransactionArguments\<close> and the private keys of the tracked addresses are arguments. Amounts
  are unbounded integers; the gas price and limit are 64 bit words that \<^verbatim>\<open>int64\<close> reads as signed.
\<close>

section \<open>Handler\<close>

record moveBalanceHandler =
  mbh_cachedNetConfigs :: "NetworkConfig option"
  mbh_receiverAddress :: string
  mbh_minimumBalance :: int

definition NewMoveBalanceHandler :: "'t option \<Rightarrow> 'p option \<Rightarrow> 'i option \<Rightarrow> string \<Rightarrow> int option \<Rightarrow> moveBalanceHandler result" where
  "NewMoveBalanceHandler trackableAddressesProvider proxy txInteractor receiverAddress minimumBalance =
     (if Option.is_none trackableAddressesProvider then Inl (EWorkflows Workflows_ErrNilTrackableAddressesProvider)
      else if Option.is_none proxy then Inl (EWorkflows Workflows_ErrNilProxy)
      else if Option.is_none txInteractor then Inl (EWorkflows Workflows_ErrNilTransactionInteractor)
      else case minimumBalance of
        None \<Rightarrow> Inl (EWorkflows Workflows_ErrNilMinimumBalance)
      | Some b \<Rightarrow> Inr \<lparr>mbh_cachedNetConfigs = None, mbh_receiverAddress = receiverAddress, mbh_minimumBalance = b\<rparr>)"

definition CacheNetworkConfigs :: "NetworkConfig option result \<Rightarrow> moveBalanceHandler \<Rightarrow> go_error option \<times> moveBalanceHandler" where
  "CacheNetworkConfigs getNetworkConfig mbh = (case getNetworkConfig of
     Inl err \<Rightarrow> (Some err, mbh)
   | Inr cachedNetConfigs \<Rightarrow> (None, mbh\<lparr>mbh_cachedNetConfigs := cachedNetConfigs\<rparr>))"

definition computeTxFee :: "NetworkConfig \<Rightarrow> FrontendTransaction \<Rightarrow> int" where
  "computeTxFee networkConfigs tx =
     (let gasLimit = nc_MinGasLimit networkConfigs + go_len (tx_Data tx) * nc_GasPerDataByte networkConfigs
      in sint (tx_GasPrice tx) * sint gasLimit)"

type_synonym default_args = "address \<Rightarrow> NetworkConfig \<Rightarrow> (FrontendTransaction \<times> string) result"

definition generateTransaction ::
  "('sk, 'pk) crypto_env \<Rightarrow> ('sk, 'pk) txBuilder \<Rightarrow> default_args \<Rightarrow> (string \<Rightarrow> byte list) \<Rightarrow> moveBalanceHandler \<Rightarrow> string
     \<Rightarrow> transactionInteractor \<Rightarrow> go_error option \<times> transactionInteractor" where
  "generateTransaction env tb getDefaultArgs privateKeyOf mbh addr ti =
     (case NewAddressFromBech32String (env_pkc env) addr of
        Inl err \<Rightarrow> (Some err, ti)
      | Inr addressHandler \<Rightarrow> (case mbh_cachedNetConfigs mbh of
          None \<Rightarrow> (Some (ErrorsNew ''nil cached configs''), ti)
        | Some networkConfigs \<Rightarrow> (case getDefaultArgs addressHandler networkConfigs of
            Inl err \<Rightarrow> (Some err, ti)
          | Inr (tx, availableBalanceString) \<Rightarrow> (case big_SetString availableBalanceString of
              None \<Rightarrow> (Some (EWorkflows Workflows_ErrInvalidAvailableBalanceValue), ti)
            | Some availableBalance \<Rightarrow>
                if availableBalance < mbh_minimumBalance mbh then (None, ti)
                else
                  let tx1 = tx\<lparr>tx_Data := [], tx_Receiver := mbh_receiverAddress mbh\<rparr>;
                      val = availableBalance - computeTxFee networkConfigs tx1;
                      tx2 = tx1\<lparr>tx_Value := dec_of_int val\<rparr>;
                      skBytes = privateKeyOf addr
                  in case NewCryptoComponentsHolder env skBytes of
                       Inl err \<Rightarrow> (Some err, ti)
                     | Inr cryptoHolder \<Rightarrow> (case ApplyUserSignature env tb cryptoHolder tx2 of
                         (Some err, _) \<Rightarrow> (Some err, ti)
                       | (None, tx3) \<Rightarrow> (None, ti_AddTransaction (Some tx3) ti))))))"

text \<open>Errors are logged, wrapped with the address.\<close>

definition generateTransactionAndHandleErrors ::
  "('sk, 'pk) crypto_env \<Rightarrow> ('sk, 'pk) txBuilder \<Rightarrow> default_args \<Rightarrow> (string \<Rightarrow> byte list) \<Rightarrow> moveBalanceHandler \<Rightarrow> string
     \<Rightarrow> transactionInteractor \<Rightarrow> go_error list \<times> transactionInteractor" where
  "generateTransactionAndHandleErrors env tb getDefaultArgs privateKeyOf mbh addr ti =
     (case generateTransaction env tb getDefaultArgs privateKeyOf mbh addr ti of
        (None, ti') \<Rightarrow> ([], ti')
      | (Some err, ti') \<Rightarrow> ([Errorf [] err ('' for provided address '' @ addr)], ti'))"

primrec GenerateMoveBalanceTransactions ::
  "('sk, 'pk) crypto_env \<Rightarrow> ('sk, 'pk) txBuilder \<Rightarrow> default_args \<Rightarrow> (string \<Rightarrow> byte list) \<Rightarrow> moveBalanceHandler \<Rightarrow> string list
     \<Rightarrow> transactionInteractor \<Rightarrow> go_error list \<times> transactionInteractor" where
  "GenerateMoveBalanceTransactions env tb getDefaultArgs privateKeyOf mbh [] ti = ([], ti)"
| "GenerateMoveBalanceTransactions env tb getDefaultArgs privateKeyOf mbh (addr # addresses) ti =
     (let (log1, ti1) = generateTransactionAndHandleErrors env tb getDefaultArgs privateKeyOf mbh addr ti;
          (log2, ti2) = GenerateMoveBalanceTransactions env tb getDefaultArgs privateKeyOf mbh addresses ti1
      in (log1 @ log2, ti2))"

section \<open>What a generated transaction is\<close>

text \<open>A transaction that empties an account: it goes to the configured receiver, its value is the whole
  balance less the fee of the transaction itself, and its signature is valid for the key of the
  account.\<close>

definition sweeps ::
  "('sk, 'pk) crypto_env \<Rightarrow> default_args \<Rightarrow> (string \<Rightarrow> byte list) \<Rightarrow> moveBalanceHandler \<Rightarrow> string \<Rightarrow> FrontendTransaction \<Rightarrow> bool" where
  "sweeps env getDefaultArgs privateKeyOf mbh addr tx \<longleftrightarrow>
     (\<exists>ah cfg tx0 bal balance h sig. NewAddressFromBech32String (env_pkc env) addr = Inr ah \<and> mbh_cachedNetConfigs mbh = Some cfg
        \<and> getDefaultArgs ah cfg = Inr (tx0, bal) \<and> big_SetString bal = Some balance \<and> mbh_minimumBalance mbh \<le> balance
        \<and> NewCryptoComponentsHolder env (privateKeyOf addr) = Inr h
        \<and> tx_Receiver tx = mbh_receiverAddress mbh \<and> tx_Sender tx = cch_bech32Address h \<and> tx_Nonce tx = tx_Nonce tx0
        \<and> tx_Data tx = [] \<and> tx_GasPrice tx = tx_GasPrice tx0
        \<and> big_SetString (tx_Value tx) = Some (balance - sint (tx_GasPrice tx0) * sint (nc_MinGasLimit cfg))
        \<and> hex_DecodeString (tx_Signature tx) = Inr sig
        \<and> VerifyTransactionSignature 1 (Some tx) (Some (cch_publicKey h)) sig
            (Some (NewSigner env)) (Some (json_tx env)) (Some (keccak_Compute env)) = None)"

section \<open>A concrete account\<close>

definition demo_mbh :: moveBalanceHandler where
  "demo_mbh = \<lparr>mbh_cachedNetConfigs = Some demo_config, mbh_receiverAddress = ''09'', mbh_minimumBalance = 10\<rparr>"

definition demo_default_args :: "string \<Rightarrow> default_args" where
  "demo_default_args bal ah cfg = Inr (zero_tx\<lparr>tx_Nonce := 4, tx_GasPrice := nc_MinGasPrice cfg\<rparr>, bal)"

section \<open>Lemmas\<close>

lemma generateTransaction_cases:
  assumes "sig_law env" and "generateTransaction env \<lparr>tb_signer = NewSigner env\<rparr> gda pk mbh addr ti = (err, ti')"
  shows "ti' = ti \<or> (err = None \<and> (\<exists>tx. ti' = ti\<lparr>ti_txAccumulator := ti_txAccumulator ti @ [tx]\<rparr> \<and> sweeps env gda pk mbh addr tx))"
proof (cases "ti' = ti")
  case False
  let ?tb = "\<lparr>tb_signer = NewSigner env\<rparr>"
  obtain ah cfg tx0 bal balance h where
    c: "NewAddressFromBech32String (env_pkc env) addr = Inr ah" "mbh_cachedNetConfigs mbh = Some cfg" "gda ah cfg = Inr (tx0, bal)"
      "big_SetString bal = Some balance" "mbh_minimumBalance mbh \<le> balance" "NewCryptoComponentsHolder env (pk addr) = Inr h"
    using assms(2) False
    by (auto simp: generateTransaction_def Let_def split: sum.splits option.splits prod.splits if_splits)
  let ?tx1 = "tx0\<lparr>tx_Data := [], tx_Receiver := mbh_receiverAddress mbh\<rparr>"
  let ?tx2 = "?tx1\<lparr>tx_Value := dec_of_int (balance - computeTxFee cfg ?tx1)\<rparr>"
  obtain tx3 where a: "ApplyUserSignature env ?tb h ?tx2 = (None, tx3)" "err = None" "ti' = ti_AddTransaction (Some tx3) ti"
    using assms(2) False c
    by (auto simp: generateTransaction_def Let_def split: option.splits prod.splits)
  obtain s where s: "signTx env ?tb (TransactionToUnsignedTx tx3) h = Inr s"
    "tx3 = ?tx2\<lparr>tx_Sender := cch_bech32Address h, tx_Signature := hex_EncodeToString s\<rparr>"
    using ApplyUserSignature_ok [OF a(1)] by auto
  have v: "VerifyTransactionSignature 1 (Some tx3) (Some (cch_publicKey h)) s
      (Some (NewSigner env)) (Some (json_tx env)) (Some (keccak_Compute env)) = None"
    by (rule signTx_verifies [OF assms(1) s(1) NewCryptoComponentsHolder_keys(1) [OF c(6)]])
  have "computeTxFee cfg ?tx1 = sint (tx_GasPrice tx0) * sint (nc_MinGasLimit cfg)"
    by (simp add: computeTxFee_def go_len_def)
  moreover have "tx_Value tx3 = dec_of_int (balance - computeTxFee cfg ?tx1)" "tx_Receiver tx3 = mbh_receiverAddress mbh"
    "tx_Sender tx3 = cch_bech32Address h" "tx_Nonce tx3 = tx_Nonce tx0" "tx_Data tx3 = []" "tx_GasPrice tx3 = tx_GasPrice tx0"
    "tx_Signature tx3 = hex_EncodeToString s" by (simp_all add: s(2))
  ultimately have "sweeps env gda pk mbh addr tx3"
    unfolding sweeps_def using c v by (simp del: split_paired_Ex)
  with a show ?thesis by (auto simp: ti_AddTransaction_def)
qed simp

lemma GenerateMoveBalanceTransactions_ok:
  assumes "sig_law env"
  shows "\<exists>txs. ti_txAccumulator (snd (GenerateMoveBalanceTransactions env \<lparr>tb_signer = NewSigner env\<rparr> gda pk mbh addrs ti)) = ti_txAccumulator ti @ txs
    \<and> length txs + length (fst (GenerateMoveBalanceTransactions env \<lparr>tb_signer = NewSigner env\<rparr> gda pk mbh addrs ti)) \<le> length addrs
    \<and> (\<forall>tx\<in>set txs. \<exists>a\<in>set addrs. sweeps env gda pk mbh a tx)"
proof (induction addrs arbitrary: ti)
  case (Cons a addrs)
  obtain err ti1 where g: "generateTransaction env \<lparr>tb_signer = NewSigner env\<rparr> gda pk mbh a ti = (err, ti1)" by fastforce
  from generateTransaction_cases [OF assms g] obtain txs1 where
    t: "ti_txAccumulator ti1 = ti_txAccumulator ti @ txs1" "length txs1 \<le> (if err = None then 1 else 0)"
      "\<forall>tx\<in>set txs1. sweeps env gda pk mbh a tx"
    by (cases "ti1 = ti") (fastforce intro: that [of "[]"] that)+
  from Cons.IH [of ti1] obtain txs2 where
    r: "ti_txAccumulator (snd (GenerateMoveBalanceTransactions env \<lparr>tb_signer = NewSigner env\<rparr> gda pk mbh addrs ti1)) = ti_txAccumulator ti1 @ txs2"
      "length txs2 + length (fst (GenerateMoveBalanceTransactions env \<lparr>tb_signer = NewSigner env\<rparr> gda pk mbh addrs ti1)) \<le> length addrs"
      "\<forall>tx\<in>set txs2. \<exists>b\<in>set addrs. sweeps env gda pk mbh b tx" by blast
  show ?case
    using t r g by (intro exI [of _ "txs1 @ txs2"])
      (auto simp: generateTransactionAndHandleErrors_def split_beta Let_def split: option.splits if_splits)
qed simp

text \<open>A balance that reaches the minimum but not the fee gives a transaction with a negative value:
  the threshold is compared with the balance only, never with the fee.\<close>

lemma move_balance_negative:
  assumes "generateTransaction env tb gda pk mbh addr ti = (None, ti\<lparr>ti_txAccumulator := ti_txAccumulator ti @ [tx]\<rparr>)"
    and "NewAddressFromBech32String (env_pkc env) addr = Inr ah" and "mbh_cachedNetConfigs mbh = Some cfg"
    and "gda ah cfg = Inr (tx0, bal)" and "big_SetString bal = Some balance"
    and "balance < sint (tx_GasPrice tx0) * sint (nc_MinGasLimit cfg)"
  shows "\<exists>v. big_SetString (tx_Value tx) = Some v \<and> v < 0"
proof -
  have acc: "ti \<noteq> ti\<lparr>ti_txAccumulator := ti_txAccumulator ti @ [tx]\<rparr>"
    by (metis append_self_conv not_Cons_self2 transactionInteractor.select_convs(2) transactionInteractor.surjective transactionInteractor.update_convs(2))
  let ?tx1 = "tx0\<lparr>tx_Data := [], tx_Receiver := mbh_receiverAddress mbh\<rparr>"
  obtain h tx3 where "ApplyUserSignature env tb h (?tx1\<lparr>tx_Value := dec_of_int (balance - computeTxFee cfg ?tx1)\<rparr>) = (None, tx3)"
    "ti\<lparr>ti_txAccumulator := ti_txAccumulator ti @ [tx]\<rparr> = ti_AddTransaction (Some tx3) ti"
    using assms acc by (auto simp: generateTransaction_def Let_def split: sum.splits option.splits prod.splits if_splits)
  moreover from this have "tx3 = tx"
    by (simp add: ti_AddTransaction_def) (metis append1_eq_conv transactionInteractor.select_convs(2) transactionInteractor.surjective transactionInteractor.update_convs(2))
  ultimately have "tx_Value tx = dec_of_int (balance - computeTxFee cfg ?tx1)"
    using ApplyUserSignature_ok by fastforce
  with assms(6) show ?thesis by (simp add: computeTxFee_def go_len_def)
qed

section \<open>Properties\<close>

text \<open>Emptying the tracked accounts and sending the accumulated transactions: whatever accounts,
  balances and failures there are, a successful send hands over exactly what was accumulated before
  followed by transactions that each empty one of the given accounts to the receiver, at most one
  per account, with a valid signature and a value of the whole balance less the fee.\<close>

lemma move_balance_flow:
  assumes "sig_law env"
    and "GenerateMoveBalanceTransactions env \<lparr>tb_signer = NewSigner env\<rparr> gda pk mbh addrs ti = (errs, ti1)"
    and "SendTransactionsAsBunch pxs bunchSize ti1 = (Inr hashes, bunches, ti2)"
  shows "\<exists>txs. concat bunches = ti_txAccumulator ti @ txs \<and> ti_txAccumulator ti2 = []
    \<and> length txs + length errs \<le> length addrs \<and> (\<forall>tx\<in>set txs. \<exists>a\<in>set addrs. sweeps env gda pk mbh a tx)"
proof -
  have s: "concat bunches = ti_txAccumulator ti1" "ti_txAccumulator ti2 = []"
    using assms(3) bunch_loop_ok [of "nat bunchSize" pxs 0 "ti_txAccumulator ti1" "[]" hashes bunches]
    by (auto simp: SendTransactionsAsBunch_def PopAccumulatedTransactions_def Let_def split: if_splits prod.splits)
  with GenerateMoveBalanceTransactions_ok [OF assms(1), of gda pk mbh addrs ti] assms(2) show ?thesis by auto
qed

lemma move_balance_flow_example:
  "\<exists>txs. concat (fst (snd (SendTransactionsAsBunch (\<lambda>_. demo_proxy 4) 5 (snd (GenerateMoveBalanceTransactions demo_env demo_builder
      (demo_default_args ''60000'') (\<lambda>_. [7]) demo_mbh [''07''] \<lparr>ti_timeBetweenBunches = 1, ti_txAccumulator = []\<rparr>))))) = txs
    \<and> length txs \<le> 1 \<and> (\<forall>tx\<in>set txs. \<exists>a\<in>set [''07'']. sweeps demo_env (demo_default_args ''60000'') (\<lambda>_. [7]) demo_mbh a tx)"
proof -
  let ?ti = "\<lparr>ti_timeBetweenBunches = 1, ti_txAccumulator = []\<rparr>"
  let ?g = "GenerateMoveBalanceTransactions demo_env demo_builder (demo_default_args ''60000'') (\<lambda>_. [7]) demo_mbh [''07''] ?ti"
  let ?s = "SendTransactionsAsBunch (\<lambda>_. demo_proxy 4) 5 (snd ?g)"
  obtain txs where "ti_txAccumulator (snd ?g) = txs" "length txs \<le> 1"
    using GenerateMoveBalanceTransactions_ok [OF demo_env_law, of "demo_default_args ''60000''" "\<lambda>_. [7]" demo_mbh "[''07'']" ?ti]
    by (auto simp: demo_builder_def)
  then have "\<exists>hs. fst ?s = Inr hs"
    by (cases txs) (simp_all add: SendTransactionsAsBunch_def PopAccumulatedTransactions_def bunch_loop.simps demo_proxy_def)
  then obtain hs where s: "?s = (Inr hs, fst (snd ?s), snd (snd ?s))" by (auto simp: prod_eq_iff)
  have g: "GenerateMoveBalanceTransactions demo_env \<lparr>tb_signer = NewSigner demo_env\<rparr> (demo_default_args ''60000'') (\<lambda>_. [7]) demo_mbh [''07''] ?ti
      = (fst ?g, snd ?g)" by (simp add: demo_builder_def)
  from move_balance_flow [OF demo_env_law g s] show ?thesis by auto
qed

end
