(* ===== verification/Wallet.thy ===== *)
theory Wallet
  imports Tx_Builder
begin

text \<open>
  \<^verbatim>\<open>interactors/wallet.go\<close>: derivation of private keys from a mnemonic, password encrypted JSON key
  files and PEM key files. HMAC and the CTR mode of \<^verbatim>\<open>crypto/cipher\<close> are defined from the hash function
  and the block cipher, which are fields of \<open>wallet_lib\<close> together with the key derivation function
  \<^verbatim>\<open>scrypt\<close>, the random source, \<^verbatim>\<open>bip39\<close>, \<^verbatim>\<open>uuid\<close> and the JSON and PEM codecs. \<open>keystore_law\<close> and
  \<open>pem_law\<close> are what is documented of the codecs: decoding what was encoded gives it back, for text of
  ASCII characters in the case of JSON, and whatever follows the block in the case of PEM.

  \<^verbatim>\<open>scrypt.Key\<close> returns a slice of a larger array and the code slices it up to index 32, which Go
  allows up to the capacity. The field \<open>wl_scrypt\<close> therefore gives the array up to its capacity. A
  panic (a slice bound, an initialisation vector of the wrong size) is \<open>None\<close>. The file system is a map
  from names to contents; opening a file for writing may fail.
\<close>

section \<open>Constants and data\<close>

definition mnemonicBitSize :: nat where "mnemonicBitSize = 256"
definition egldCoinType :: u32 where "egldCoinType = 508"
definition hardened :: u32 where "hardened = 0x80000000"
definition keystoreVersion :: int where "keystoreVersion = 4"
definition keyHeaderKDF :: string where "keyHeaderKDF = ''scrypt''"
definition scryptN :: int where "scryptN = 4096"
definition scryptR :: int where "scryptR = 8"
definition scryptP :: int where "scryptP = 1"
definition scryptDKLen :: int where "scryptDKLen = 32"
definition addressLen :: nat where "addressLen = 32"
definition mnemonicKind :: string where "mnemonicKind = ''mnemonic''"

record bip32 =
  bip_Key :: "byte list"
  bip_ChainCode :: "byte list"

record encryptedKeyJSONV4 =
  ek_Address :: string
  ek_Bech32 :: string
  ek_Kind :: string
  ek_Cipher :: string
  ek_CipherText :: string
  ek_IV :: string
  ek_KDF :: string
  ek_DkLen :: int
  ek_Salt :: string
  ek_N :: int
  ek_R :: int
  ek_P :: int
  ek_MAC :: string
  ek_Id :: string
  ek_Version :: int

record wallet_lib =
  wl_scrypt :: "byte list \<Rightarrow> byte list \<Rightarrow> int \<Rightarrow> int \<Rightarrow> int \<Rightarrow> int \<Rightarrow> byte list result"
  wl_aes :: "byte list \<Rightarrow> byte list \<Rightarrow> byte list"
  wl_sha256 :: "byte list \<Rightarrow> byte list"
  wl_sha512 :: "byte list \<Rightarrow> byte list"
  wl_NewEntropy :: "nat \<Rightarrow> byte list result"
  wl_NewMnemonic :: "byte list \<Rightarrow> string result"
  wl_NewSeed :: "string \<Rightarrow> string \<Rightarrow> byte list"
  wl_ReadFull :: "nat \<Rightarrow> byte list result"
  wl_uuid :: string
  wl_Marshal :: "encryptedKeyJSONV4 \<Rightarrow> byte list result"
  wl_Unmarshal :: "byte list \<Rightarrow> encryptedKeyJSONV4 result"
  wl_pemEncode :: "string \<Rightarrow> byte list \<Rightarrow> byte list"
  wl_pemDecode :: "byte list \<Rightarrow> byte list option"
  wl_openErr :: "string \<Rightarrow> go_error option"

type_synonym filesystem = "string \<rightharpoonup> byte list"

section \<open>Standard library\<close>

text \<open>\<^verbatim>\<open>hmac.New(h, key)\<close>, \<^verbatim>\<open>Write\<close>, \<^verbatim>\<open>Sum\<close>, for a hash function with the given block size.\<close>

definition hmac_Sum :: "(byte list \<Rightarrow> byte list) \<Rightarrow> nat \<Rightarrow> byte list \<Rightarrow> byte list \<Rightarrow> byte list" where
  "hmac_Sum h blocksize key msg =
     (let k0 = (if length key > blocksize then h key else key);
          k = k0 @ replicate (blocksize - length k0) 0
      in h (map (\<lambda>b. b XOR 0x5c) k @ h (map (\<lambda>b. b XOR 0x36) k @ msg)))"

definition hmac_sha256 :: "wallet_lib \<Rightarrow> byte list \<Rightarrow> byte list \<Rightarrow> byte list" where
  "hmac_sha256 wl = hmac_Sum (wl_sha256 wl) 64"

definition hmac_sha512 :: "wallet_lib \<Rightarrow> byte list \<Rightarrow> byte list \<Rightarrow> byte list" where
  "hmac_sha512 wl = hmac_Sum (wl_sha512 wl) 128"

text \<open>\<^verbatim>\<open>aes.NewCipher(key)\<close>; \<^verbatim>\<open>cipher.NewCTR(block, iv)\<close> panics unless the vector has the block size.\<close>

definition aes_NewCipher :: "wallet_lib \<Rightarrow> byte list \<Rightarrow> (byte list \<Rightarrow> byte list) result" where
  "aes_NewCipher wl key =
     (if length key \<in> {16, 24, 32} then Inr (wl_aes wl key) else Inl (EExternal ''crypto/aes: invalid key size''))"

definition NewCTR :: "byte list \<Rightarrow> byte list option" where
  "NewCTR iv = (if length iv = 16 then Some iv else None)"

text \<open>\<^verbatim>\<open>XORKeyStream\<close> of a fresh stream: the counter is the vector read as a big endian number, increased
  once per block of sixteen bytes and wrapping at its width.\<close>

definition XORKeyStream :: "(byte list \<Rightarrow> byte list) \<Rightarrow> byte list \<Rightarrow> byte list \<Rightarrow> byte list" where
  "XORKeyStream block iv src =
     map (\<lambda>i. src ! i XOR block (be_bytes 16 (be_val iv + i div 16)) ! (i mod 16)) [0..<length src]"

definition os_ReadFile :: "filesystem \<Rightarrow> string \<Rightarrow> byte list result" where
  "os_ReadFile fs name = or_err (fs name) (EExternal (''open '' @ name))"

text \<open>\<^verbatim>\<open>os.WriteFile\<close> truncates the file; writing through \<^verbatim>\<open>os.OpenFile(O_CREATE|O_WRONLY)\<close> overwrites its
  beginning and leaves the rest.\<close>

definition os_WriteFile :: "wallet_lib \<Rightarrow> string \<Rightarrow> byte list \<Rightarrow> filesystem \<Rightarrow> go_error option \<times> filesystem" where
  "os_WriteFile wl name buff fs = (case wl_openErr wl name of
     Some err \<Rightarrow> (Some err, fs)
   | None \<Rightarrow> (None, fs(name \<mapsto> buff)))"

definition os_Overwrite :: "wallet_lib \<Rightarrow> string \<Rightarrow> byte list \<Rightarrow> filesystem \<Rightarrow> go_error option \<times> filesystem" where
  "os_Overwrite wl name buff fs = (case wl_openErr wl name of
     Some err \<Rightarrow> (Some err, fs)
   | None \<Rightarrow> (None, fs(name \<mapsto> buff @ drop (length buff) (case fs name of None \<Rightarrow> [] | Some old \<Rightarrow> old))))"

section \<open>Key derivation\<close>

definition GenerateMnemonic :: "wallet_lib \<Rightarrow> string result" where
  "GenerateMnemonic wl = on_ok (wl_NewEntropy wl mnemonicBitSize) (wl_NewMnemonic wl)"

definition ToSplitMnemonicWords :: "string \<Rightarrow> string list" where
  "ToSplitMnemonicWords m = split_on (CHR '' '') m"

definition CreateSeedFromMnemonic :: "wallet_lib \<Rightarrow> string \<Rightarrow> byte list" where
  "CreateSeedFromMnemonic wl mnemonic = wl_NewSeed wl mnemonic []"

text \<open>\<^verbatim>\<open>copy\<close> into the zeroed buffer, then the child index in big endian. Slicing the digest at 32 does
  not panic: a SHA-512 digest has 64 bytes.\<close>

definition derive_child :: "wallet_lib \<Rightarrow> u32 \<Rightarrow> bip32 \<Rightarrow> bip32" where
  "derive_child wl childIdx b =
     (let buff = 0 # take 32 (bip_Key b @ replicate 32 0) @ be_bytes 4 (unat childIdx);
          intermediary = hmac_sha512 wl (bip_ChainCode b) buff
      in b\<lparr>bip_Key := take 32 intermediary, bip_ChainCode := drop 32 intermediary\<rparr>)"

definition derivePrivateKey :: "wallet_lib \<Rightarrow> byte list \<Rightarrow> u32 list \<Rightarrow> bip32" where
  "derivePrivateKey wl seed path =
     (let intermediary = hmac_sha512 wl (bytes_of_string ''ed25519 seed'') seed
      in fold (derive_child wl) path \<lparr>bip_Key = take 32 intermediary, bip_ChainCode = drop 32 intermediary\<rparr>)"

definition GetPrivateKeyFromSeed :: "wallet_lib \<Rightarrow> byte list \<Rightarrow> u32 \<Rightarrow> u32 \<Rightarrow> byte list" where
  "GetPrivateKeyFromSeed wl seed account addressIndex =
     (let path0 = [44 OR hardened, egldCoinType OR hardened, hardened, hardened, hardened];
          path1 = path0[2 := account OR hardened];
          egldPath = path1[4 := addressIndex OR hardened]
      in bip_Key (derivePrivateKey wl seed egldPath))"

definition GetPrivateKeyFromMnemonic :: "wallet_lib \<Rightarrow> string \<Rightarrow> u32 \<Rightarrow> u32 \<Rightarrow> byte list" where
  "GetPrivateKeyFromMnemonic wl mnemonic account addressIndex =
     GetPrivateKeyFromSeed wl (CreateSeedFromMnemonic wl mnemonic) account addressIndex"

definition GetAddressFromPrivateKey :: "('sk, 'pk) crypto_env \<Rightarrow> byte list \<Rightarrow> address result" where
  "GetAddressFromPrivateKey env privateKeyBytes =
     on_ok (sk_FromByteArray env privateKeyBytes) (\<lambda>privateKey.
     on_ok (pk_ToByteArray env (sk_GeneratePublic env privateKey)) (\<lambda>publicKeyBytes.
     Inr (NewAddressFromBytes publicKeyBytes)))"

section \<open>JSON key files\<close>

text \<open>An error returns, a panic does not.\<close>

definition or_return :: "'a result \<Rightarrow> ('a \<Rightarrow> 'b result option) \<Rightarrow> 'b result option" where
  "or_return r f = (case r of Inl err \<Rightarrow> Some (Inl err) | Inr x \<Rightarrow> f x)"

definition secretKeyAfterChecks :: "('sk, 'pk) crypto_env \<Rightarrow> encryptedKeyJSONV4 \<Rightarrow> byte list \<Rightarrow> byte list result" where
  "secretKeyAfterChecks env key secretKey0 =
     (let secretKey = (if length secretKey0 > 32 then take 32 secretKey0 else secretKey0)
      in on_ok (GetAddressFromPrivateKey env secretKey) (\<lambda>addr.
         on_ok (AddressAsBech32String (env_pkc env) addr) (\<lambda>addressAsBech32String.
         let isSameAccount = hex_EncodeToString (AddressBytes addr) = ek_Address key \<and> addressAsBech32String = ek_Bech32 key
         in if \<not> isSameAccount then Inl (EInteractors Interactors_ErrDifferentAccountRecovered)
            else Inr secretKey)))"

definition secretKeyFromMnemonic :: "wallet_lib \<Rightarrow> byte list \<Rightarrow> byte list" where
  "secretKeyFromMnemonic wl mnemonic = GetPrivateKeyFromMnemonic wl (string_of_bytes mnemonic) 0 0"

definition LoadPrivateKeyFromJsonFile ::
  "('sk, 'pk) crypto_env \<Rightarrow> wallet_lib \<Rightarrow> filesystem \<Rightarrow> string \<Rightarrow> string \<Rightarrow> byte list result option" where
  "LoadPrivateKeyFromJsonFile env wl fs filename password =
     or_return (os_ReadFile fs filename) (\<lambda>buff.
     or_return (wl_Unmarshal wl buff) (\<lambda>key.
     or_return (hex_DecodeString (ek_MAC key)) (\<lambda>mac.
     or_return (hex_DecodeString (ek_IV key)) (\<lambda>iv.
     or_return (hex_DecodeString (ek_CipherText key)) (\<lambda>cipherText.
     or_return (hex_DecodeString (ek_Salt key)) (\<lambda>salt.
     or_return (wl_scrypt wl (bytes_of_string password) salt (ek_N key) (ek_R key) (ek_P key) (ek_DkLen key)) (\<lambda>derivedKey.
     do {
       macKey \<leftarrow> go_slice derivedKey 16 32;
       (if hmac_sha256 wl macKey cipherText \<noteq> mac then Some (Inl (EInteractors Interactors_ErrWrongPassword))
        else do {
          cipherKey \<leftarrow> go_slice derivedKey 0 16;
          or_return (aes_NewCipher wl cipherKey) (\<lambda>aesBlock. do {
            ctr \<leftarrow> NewCTR iv;
            let decryptedData = XORKeyStream aesBlock ctr cipherText;
            Some (if ek_Kind key \<noteq> mnemonicKind then secretKeyAfterChecks env key decryptedData
                  else Inr (secretKeyFromMnemonic wl decryptedData))
          })
        })
     })))))))"

text \<open>The record that is written for a key, in the order in which the code computes its parts.\<close>

definition keystore_of ::
  "('sk, 'pk) crypto_env \<Rightarrow> wallet_lib \<Rightarrow> byte list \<Rightarrow> string \<Rightarrow> encryptedKeyJSONV4 result option" where
  "keystore_of env wl privateKey password =
     or_return (wl_ReadFull wl 32) (\<lambda>salt.
     or_return (wl_scrypt wl (bytes_of_string password) salt scryptN scryptR scryptP scryptDKLen) (\<lambda>derivedKey. do {
       encryptKey \<leftarrow> go_slice derivedKey 0 16;
       or_return (wl_ReadFull wl 16) (\<lambda>iv.
       or_return (aes_NewCipher wl encryptKey) (\<lambda>aesBlock. do {
         ctr \<leftarrow> NewCTR iv;
         let cipherText = XORKeyStream aesBlock ctr privateKey;
         macKey \<leftarrow> go_slice derivedKey 16 32;
         let mac = hmac_sha256 wl macKey cipherText;
         Some (on_ok (GetAddressFromPrivateKey env privateKey) (\<lambda>addr.
           on_ok (AddressAsBech32String (env_pkc env) addr) (\<lambda>addressAsBech32String.
           Inr \<lparr>ek_Address = hex_EncodeToString (AddressBytes addr), ek_Bech32 = addressAsBech32String, ek_Kind = [],
             ek_Cipher = ''aes-128-ctr'', ek_CipherText = hex_EncodeToString cipherText, ek_IV = hex_EncodeToString iv,
             ek_KDF = keyHeaderKDF, ek_DkLen = scryptDKLen, ek_Salt = hex_EncodeToString salt, ek_N = scryptN,
             ek_R = scryptR, ek_P = scryptP, ek_MAC = hex_EncodeToString mac, ek_Id = wl_uuid wl,
             ek_Version = keystoreVersion\<rparr>)))
       }))
     }))"

definition SavePrivateKeyToJsonFile ::
  "('sk, 'pk) crypto_env \<Rightarrow> wallet_lib \<Rightarrow> byte list \<Rightarrow> string \<Rightarrow> string \<Rightarrow> filesystem \<Rightarrow> (go_error option \<times> filesystem) option" where
  "SavePrivateKeyToJsonFile env wl privateKey password filename fs = (case keystore_of env wl privateKey password of
     None \<Rightarrow> None
   | Some (Inl err) \<Rightarrow> Some (Some err, fs)
   | Some (Inr keystoreJson) \<Rightarrow> (case wl_Marshal wl keystoreJson of
       Inl err \<Rightarrow> Some (Some err, fs)
     | Inr buff \<Rightarrow> Some (os_WriteFile wl filename buff fs)))"

section \<open>PEM key files\<close>

definition LoadPrivateKeyFromPemData :: "wallet_lib \<Rightarrow> byte list \<Rightarrow> byte list result" where
  "LoadPrivateKeyFromPemData wl buff = (case wl_pemDecode wl buff of
     None \<Rightarrow> Inl (EInteractors Interactors_ErrInvalidPemFile)
   | Some blkBytes \<Rightarrow>
       let privKey = (if length blkBytes > addressLen * 2 then take (addressLen * 2) blkBytes else blkBytes)
       in hex_DecodeString (string_of_bytes privKey))"

definition LoadPrivateKeyFromPemFile :: "wallet_lib \<Rightarrow> filesystem \<Rightarrow> string \<Rightarrow> byte list result" where
  "LoadPrivateKeyFromPemFile wl fs filename = on_ok (os_ReadFile fs filename) (LoadPrivateKeyFromPemData wl)"

definition SavePrivateKeyToPemFile ::
  "('sk, 'pk) crypto_env \<Rightarrow> wallet_lib \<Rightarrow> byte list \<Rightarrow> string \<Rightarrow> filesystem \<Rightarrow> go_error option \<times> filesystem" where
  "SavePrivateKeyToPemFile env wl privateKey0 filename fs = (case GetAddressFromPrivateKey env privateKey0 of
     Inl err \<Rightarrow> (Some err, fs)
   | Inr addr \<Rightarrow>
       let privateKey = (if length privateKey0 = addressLen then privateKey0 @ AddressBytes addr else privateKey0)
       in case AddressAsBech32String (env_pkc env) addr of
            Inl err \<Rightarrow> (Some err, fs)
          | Inr addressAsBech32String \<Rightarrow>
              let blk = wl_pemEncode wl (''PRIVATE KEY for '' @ addressAsBech32String)
                    (bytes_of_string (hex_EncodeToString privateKey))
              in os_Overwrite wl filename blk fs)"

section \<open>Documented behaviour of the codecs\<close>

definition ascii :: "string \<Rightarrow> bool" where
  "ascii s \<longleftrightarrow> (\<forall>c\<in>set s. of_char c < (128 :: nat))"

definition ascii_keystore :: "encryptedKeyJSONV4 \<Rightarrow> bool" where
  "ascii_keystore k \<longleftrightarrow> list_all ascii [ek_Address k, ek_Bech32 k, ek_Kind k, ek_Cipher k, ek_CipherText k, ek_IV k, ek_KDF k,
     ek_Salt k, ek_MAC k, ek_Id k]"

definition keystore_law :: "('sk, 'pk) crypto_env \<Rightarrow> wallet_lib \<Rightarrow> bool" where
  "keystore_law env wl \<longleftrightarrow> (\<forall>k b. ascii_keystore k \<longrightarrow> wl_Marshal wl k = Inr b \<longrightarrow> wl_Unmarshal wl b = Inr k)
     \<and> ascii (wl_uuid wl) \<and> (\<forall>b s. pkc_Encode (env_pkc env) b = Inr s \<longrightarrow> ascii s)"

definition pem_law :: "('sk, 'pk) crypto_env \<Rightarrow> wallet_lib \<Rightarrow> bool" where
  "pem_law env wl \<longleftrightarrow> (\<forall>t b rest. CHR 0x0A \<notin> set t \<longrightarrow> wl_pemDecode wl (wl_pemEncode wl t b @ rest) = Some b)
     \<and> (\<forall>b s. pkc_Encode (env_pkc env) b = Inr s \<longrightarrow> CHR 0x0A \<notin> set s)"

definition sha512_law :: "wallet_lib \<Rightarrow> bool" where
  "sha512_law wl \<longleftrightarrow> (\<forall>m. length (wl_sha512 wl m) = 64)"

section \<open>Reference derivation\<close>

text \<open>The key tree of SLIP-0010 for ed25519: a node is the pair of key and chain code at the end of a
  path, given here from its last index to its first.\<close>

definition split_digest :: "byte list \<Rightarrow> byte list \<times> byte list" where
  "split_digest i = (take 32 i, drop 32 i)"

primrec slip10_node :: "wallet_lib \<Rightarrow> byte list \<Rightarrow> u32 list \<Rightarrow> byte list \<times> byte list" where
  "slip10_node wl seed [] = split_digest (hmac_sha512 wl (bytes_of_string ''ed25519 seed'') seed)"
| "slip10_node wl seed (i # parents) =
     (case slip10_node wl seed parents of
        (k, c) \<Rightarrow> split_digest (hmac_sha512 wl c (0 # k @ be_bytes 4 (unat i))))"

text \<open>Hardened indices are the upper half of the 32 bit range.\<close>

definition hardened_index :: "nat \<Rightarrow> u32" where
  "hardened_index n = of_nat (n mod 2 ^ 31 + 2 ^ 31)"

section \<open>A concrete library\<close>

definition demo_fields :: "encryptedKeyJSONV4 \<Rightarrow> string list" where
  "demo_fields k = [ek_Address k, ek_Bech32 k, ek_Kind k, ek_Cipher k, ek_CipherText k, ek_IV k, ek_KDF k, dec_of_int (ek_DkLen k),
     ek_Salt k, dec_of_int (ek_N k), dec_of_int (ek_R k), dec_of_int (ek_P k), ek_MAC k, ek_Id k, dec_of_int (ek_Version k)]"

definition demo_Marshal :: "encryptedKeyJSONV4 \<Rightarrow> byte list result" where
  "demo_Marshal k = Inr (bytes_of_string (strings_Join (map (hex_EncodeToString \<circ> bytes_of_string) (demo_fields k)) (CHR '','')))"

definition demo_field :: "string \<Rightarrow> string" where
  "demo_field s = (case hex_DecodeString s of Inl _ \<Rightarrow> [] | Inr b \<Rightarrow> string_of_bytes b)"

definition demo_number :: "string \<Rightarrow> int" where
  "demo_number s = (case big_SetString s of None \<Rightarrow> 0 | Some i \<Rightarrow> i)"

definition demo_Unmarshal :: "byte list \<Rightarrow> encryptedKeyJSONV4 result" where
  "demo_Unmarshal b = (case map demo_field (split_on (CHR '','') (string_of_bytes b)) of
     [a, be, k, c, ct, iv, kdf, dk, salt, n, r, p, mac, i, v] \<Rightarrow>
       Inr \<lparr>ek_Address = a, ek_Bech32 = be, ek_Kind = k, ek_Cipher = c, ek_CipherText = ct, ek_IV = iv, ek_KDF = kdf,
         ek_DkLen = demo_number dk, ek_Salt = salt, ek_N = demo_number n, ek_R = demo_number r, ek_P = demo_number p,
         ek_MAC = mac, ek_Id = i, ek_Version = demo_number v\<rparr>
   | _ \<Rightarrow> Inl (EExternal ''json''))"

text \<open>A self-delimiting block: every byte is announced by 1, the end by 0.\<close>

fun demo_block :: "byte list \<Rightarrow> byte list" where
  "demo_block [] = [0]"
| "demo_block (b # bs) = 1 # b # demo_block bs"

fun demo_unblock :: "byte list \<Rightarrow> byte list option" where
  "demo_unblock (m # b # bs) = (if m = 1 then map_option ((#) b) (demo_unblock bs) else Some [])"
| "demo_unblock [m] = (if m = 1 then None else Some [])"
| "demo_unblock [] = None"

definition demo_lib :: wallet_lib where
  "demo_lib = \<lparr>wl_scrypt = (\<lambda>pw salt n r p dk. Inr (take 32 (pw @ salt @ replicate 32 0))),
     wl_aes = (\<lambda>key blk. map (\<lambda>b. b XOR 0x5a) blk), wl_sha256 = (\<lambda>m. take 32 (rev m @ replicate 32 0)),
     wl_sha512 = (\<lambda>m. take 64 (rev m @ replicate 64 0)), wl_NewEntropy = (\<lambda>n. Inr (replicate (n div 8) 1)),
     wl_NewMnemonic = (\<lambda>e. Inr ''moral volcano''), wl_NewSeed = (\<lambda>m p. bytes_of_string (m @ p)),
     wl_ReadFull = (\<lambda>n. Inr (replicate n 3)), wl_uuid = ''id'', wl_Marshal = demo_Marshal, wl_Unmarshal = demo_Unmarshal,
     wl_pemEncode = (\<lambda>t b. demo_block b), wl_pemDecode = demo_unblock, wl_openErr = (\<lambda>_. None)\<rparr>"

section \<open>Lemmas\<close>

subsection \<open>Stream ciphers\<close>

text \<open>What the key files need of a cipher: applying the stream twice gives the text back and the
  length does not change.\<close>

locale stream_cipher =
  fixes stream :: "byte list \<Rightarrow> byte list \<Rightarrow> byte list"
  assumes stream_length: "length (stream iv src) = length src"
    and stream_twice: "stream iv (stream iv src) = src"
begin

lemma stream_inj: "stream iv a = stream iv b \<longleftrightarrow> a = b"
  by (metis stream_twice)

lemma decrypts: "hex_DecodeString (hex_EncodeToString (stream iv src)) = Inr c \<Longrightarrow> stream iv c = src"
  by (auto simp: stream_twice)

end

interpretation ctr: stream_cipher "XORKeyStream block" for block
proof
  show len: "length (XORKeyStream block iv src) = length src" for iv src
    by (simp add: XORKeyStream_def)
  show "XORKeyStream block iv (XORKeyStream block iv src) = src" for iv src
    by (rule nth_equalityI) (simp_all add: XORKeyStream_def xor.assoc)
qed

subsection \<open>Text\<close>

lemma ascii_simps [simp]: "ascii []" "ascii (c # s) \<longleftrightarrow> of_char c < (128 :: nat) \<and> ascii s"
  by (simp_all add: ascii_def)

lemma ascii_hex_char: "n < 16 \<Longrightarrow> of_char (hex_char n) < (128 :: nat)"
proof -
  have "\<forall>n\<in>set [0..<16]. of_char (hex_char n) < (128 :: nat)" by code_simp
  then show "n < 16 \<Longrightarrow> ?thesis" by auto
qed

lemma ascii_hex [simp]: "ascii (hex_EncodeToString bs)"
proof (induction bs)
  case (Cons b bs)
  have "unat b div 16 < 16" using unat_byte [of b] by linarith
  with Cons show ?case by (simp add: ascii_hex_char)
qed simp

lemma take_hex: "take (2 * n) (hex_EncodeToString bs) = hex_EncodeToString (take n bs)"
proof (induction bs arbitrary: n)
  case (Cons b bs)
  then show ?case by (cases n) simp_all
qed simp

lemma take_string_of_bytes: "string_of_bytes (take n bs) = take n (string_of_bytes bs)"
  by (simp add: string_of_bytes_def take_map)

lemma or_return_Inr [simp]: "or_return (Inr x) f = f x"
  by (simp add: or_return_def)

lemma or_return_ok: "or_return r f = Some (Inr y) \<longleftrightarrow> (\<exists>x. r = Inr x \<and> f x = Some (Inr y))"
  by (cases r) (simp_all add: or_return_def)

subsection \<open>Key files\<close>

lemma keystore_of_ok:
  assumes "keystore_of env wl sk password = Some (Inr k)"
  obtains salt dk iv addr bech where "wl_scrypt wl (bytes_of_string password) salt scryptN scryptR scryptP scryptDKLen = Inr dk"
    "32 \<le> length dk" "length iv = 16" "GetAddressFromPrivateKey env sk = Inr addr" "AddressAsBech32String (env_pkc env) addr = Inr bech"
    "k = \<lparr>ek_Address = hex_EncodeToString (AddressBytes addr), ek_Bech32 = bech, ek_Kind = [], ek_Cipher = ''aes-128-ctr'',
       ek_CipherText = hex_EncodeToString (XORKeyStream (wl_aes wl (take 16 dk)) iv sk), ek_IV = hex_EncodeToString iv,
       ek_KDF = keyHeaderKDF, ek_DkLen = scryptDKLen, ek_Salt = hex_EncodeToString salt, ek_N = scryptN, ek_R = scryptR, ek_P = scryptP,
       ek_MAC = hex_EncodeToString (hmac_sha256 wl (take 16 (drop 16 dk)) (XORKeyStream (wl_aes wl (take 16 dk)) iv sk)),
       ek_Id = wl_uuid wl, ek_Version = keystoreVersion\<rparr>"
  using assms
  by (auto simp: keystore_of_def or_return_ok bind_eq_Some_conv Let_def go_slice_def NewCTR_def aes_NewCipher_def
      split: if_splits)

lemma keystore_ascii:
  assumes "keystore_law env wl" and "keystore_of env wl sk password = Some (Inr k)"
  shows "ascii_keystore k"
  using assms(2)
  by (rule keystore_of_ok)
    (use assms(1) in \<open>auto simp: ascii_keystore_def keystore_law_def AddressAsBech32String_def keyHeaderKDF_def\<close>)

lemma SavePrivateKeyToJsonFile_ok:
  assumes "SavePrivateKeyToJsonFile env wl sk password filename fs = Some (None, fs')"
  obtains k buff where "keystore_of env wl sk password = Some (Inr k)" "wl_Marshal wl k = Inr buff" "fs' = fs(filename \<mapsto> buff)"
  using assms by (auto simp: SavePrivateKeyToJsonFile_def os_WriteFile_def split: option.splits sum.splits)

lemma secretKeyAfterChecks_same:
  assumes "GetAddressFromPrivateKey env sk = Inr addr" and "AddressAsBech32String (env_pkc env) addr = Inr bech"
    and "GetAddressFromPrivateKey env (take 32 sk) = GetAddressFromPrivateKey env sk"
    and "ek_Address k = hex_EncodeToString (AddressBytes addr)" and "ek_Bech32 k = bech"
  shows "secretKeyAfterChecks env k sk = Inr (take 32 sk)"
proof -
  have "(if length sk > 32 then take 32 sk else sk) = take 32 sk" by simp
  with assms show ?thesis unfolding secretKeyAfterChecks_def Let_def by simp
qed

lemma LoadPrivateKeyFromJsonFile_ok:
  assumes "LoadPrivateKeyFromJsonFile env wl fs filename password = Some (Inr sk)"
  obtains buff key iv salt dk c where "fs filename = Some buff" "wl_Unmarshal wl buff = Inr key"
    "hex_DecodeString (ek_Salt key) = Inr salt" "hex_DecodeString (ek_CipherText key) = Inr c"
    "wl_scrypt wl (bytes_of_string password) salt (ek_N key) (ek_R key) (ek_P key) (ek_DkLen key) = Inr dk"
    "hex_DecodeString (ek_MAC key) = Inr (hmac_sha256 wl (take 16 (drop 16 dk)) c)"
    "(if ek_Kind key \<noteq> mnemonicKind then secretKeyAfterChecks env key (XORKeyStream (wl_aes wl (take 16 dk)) iv c)
      else Inr (secretKeyFromMnemonic wl (XORKeyStream (wl_aes wl (take 16 dk)) iv c))) = Inr sk"
proof -
  from assms obtain buff key mac iv c salt dk ctr where b: "os_ReadFile fs filename = Inr buff" "wl_Unmarshal wl buff = Inr key"
    "hex_DecodeString (ek_MAC key) = Inr mac" "hex_DecodeString (ek_IV key) = Inr iv" "hex_DecodeString (ek_CipherText key) = Inr c"
    "hex_DecodeString (ek_Salt key) = Inr salt"
    "wl_scrypt wl (bytes_of_string password) salt (ek_N key) (ek_R key) (ek_P key) (ek_DkLen key) = Inr dk"
    "hmac_sha256 wl (take 16 (drop 16 dk)) c = mac" "NewCTR iv = Some ctr"
    "(if ek_Kind key \<noteq> mnemonicKind then secretKeyAfterChecks env key (XORKeyStream (wl_aes wl (take 16 dk)) ctr c)
      else Inr (secretKeyFromMnemonic wl (XORKeyStream (wl_aes wl (take 16 dk)) ctr c))) = Inr sk"
    unfolding LoadPrivateKeyFromJsonFile_def or_return_ok bind_eq_Some_conv Let_def go_slice_def aes_NewCipher_def
    by (auto simp: or_return_ok bind_eq_Some_conv split: if_splits)
  then show thesis by (intro that [of buff key salt c dk ctr]) (auto simp: os_ReadFile_def)
qed

lemma demo_field_hex [simp]: "demo_field (hex_EncodeToString (bytes_of_string s)) = s"
  by (simp add: demo_field_def)

lemma demo_number_dec [simp]: "demo_number (dec_of_int i) = i"
  by (simp add: demo_number_def)

lemma demo_Unmarshal_Marshal: "demo_Marshal k = Inr b \<Longrightarrow> demo_Unmarshal b = Inr k"
proof -
  have h: "hex_val (CHR '','') = None" by code_simp
  then have "CHR '','' \<notin> set (hex_EncodeToString bs)" for bs
    using hex_DecodeString_digits [OF hex_roundtrip] by blast
  then have "split_on (CHR '','') (strings_Join (map (hex_EncodeToString \<circ> bytes_of_string) (demo_fields k)) (CHR '',''))
      = map (hex_EncodeToString \<circ> bytes_of_string) (demo_fields k)"
    by (intro split_on_Join) (auto simp: demo_fields_def)
  then show "demo_Marshal k = Inr b \<Longrightarrow> ?thesis"
    by (auto simp: demo_Marshal_def demo_Unmarshal_def demo_fields_def simp del: split_on.simps strings_Join.simps)
qed

lemma demo_unblock_block [simp]: "demo_unblock (demo_block b @ rest) = Some b"
proof (induction b)
  case Nil
  then show ?case by (cases rest) simp_all
qed simp

lemma demo_lib_laws [simp]: "keystore_law demo_env demo_lib" "pem_law demo_env demo_lib" "sha512_law demo_lib"
proof -
  show "keystore_law demo_env demo_lib"
    by (auto simp: keystore_law_def demo_lib_def demo_env_def hex_converter_def demo_Unmarshal_Marshal)
  have "hex_val (CHR 0x0A) = None" by code_simp
  then have "CHR 0x0A \<notin> set (hex_EncodeToString bs)" for bs
    using hex_DecodeString_digits [OF hex_roundtrip] by blast
  then show "pem_law demo_env demo_lib"
    by (auto simp: pem_law_def demo_lib_def demo_env_def hex_converter_def)
  show "sha512_law demo_lib" by (auto simp: sha512_law_def demo_lib_def)
qed

lemma json_load_saved:
  assumes "keystore_law env wl"
    and "SavePrivateKeyToJsonFile env wl sk password filename fs = Some (None, fs')"
    and "GetAddressFromPrivateKey env (take 32 sk) = GetAddressFromPrivateKey env sk"
  shows "LoadPrivateKeyFromJsonFile env wl fs' filename password = Some (Inr (take 32 sk))"
proof -
  obtain k buff where k: "keystore_of env wl sk password = Some (Inr k)" "wl_Marshal wl k = Inr buff" "fs' = fs(filename \<mapsto> buff)"
    using assms(2) by (rule SavePrivateKeyToJsonFile_ok)
  have u: "wl_Unmarshal wl buff = Inr k"
    using assms(1) keystore_ascii [OF assms(1) k(1)] k(2) by (simp add: keystore_law_def)
  show ?thesis
    using k(1)
  proof (rule keystore_of_ok)
    fix salt dk iv addr bech
    assume dk: "wl_scrypt wl (bytes_of_string password) salt scryptN scryptR scryptP scryptDKLen = Inr dk"
      "32 \<le> length dk" "length iv = 16"
      and a: "GetAddressFromPrivateKey env sk = Inr addr" "AddressAsBech32String (env_pkc env) addr = Inr bech"
      and eq: "k = \<lparr>ek_Address = hex_EncodeToString (AddressBytes addr), ek_Bech32 = bech, ek_Kind = [], ek_Cipher = ''aes-128-ctr'',
         ek_CipherText = hex_EncodeToString (XORKeyStream (wl_aes wl (take 16 dk)) iv sk), ek_IV = hex_EncodeToString iv,
         ek_KDF = keyHeaderKDF, ek_DkLen = scryptDKLen, ek_Salt = hex_EncodeToString salt, ek_N = scryptN, ek_R = scryptR, ek_P = scryptP,
         ek_MAC = hex_EncodeToString (hmac_sha256 wl (take 16 (drop 16 dk)) (XORKeyStream (wl_aes wl (take 16 dk)) iv sk)),
         ek_Id = wl_uuid wl, ek_Version = keystoreVersion\<rparr>"
    have "secretKeyAfterChecks env k sk = Inr (take 32 sk)"
      by (rule secretKeyAfterChecks_same [OF a assms(3)]) (simp_all add: eq)
    then show ?thesis
      using dk by (simp add: LoadPrivateKeyFromJsonFile_def os_ReadFile_def k(3) u eq aes_NewCipher_def NewCTR_def ctr.stream_twice mnemonicKind_def)
  qed
qed

lemma demo_save: "\<exists>fs'. SavePrivateKeyToJsonFile demo_env demo_lib [1, 2, 3] ''pass'' ''key.json'' Map.empty = Some (None, fs')"
  by (simp add: SavePrivateKeyToJsonFile_def keystore_of_def os_WriteFile_def demo_lib_def demo_env_def aes_NewCipher_def NewCTR_def
      GetAddressFromPrivateKey_def AddressAsBech32String_def hex_converter_def bytes_of_string_def demo_Marshal_def Let_def)

subsection \<open>Derivation\<close>

text \<open>Splitting a mnemonic loses nothing and undoes the joining of words without spaces.\<close>

lemma ToSplitMnemonicWords_Join:
  "strings_Join (ToSplitMnemonicWords m) (CHR '' '') = m"
  "ws \<noteq> [] \<Longrightarrow> \<forall>w\<in>set ws. CHR '' '' \<notin> set w \<Longrightarrow> ToSplitMnemonicWords (strings_Join ws (CHR '' '')) = ws"
  by (simp_all add: ToSplitMnemonicWords_def Join_split_on split_on_Join)

lemma derivePrivateKey_snoc:
  "derivePrivateKey wl seed (path @ [i]) = derive_child wl i (derivePrivateKey wl seed path)"
  by (simp add: derivePrivateKey_def Let_def)

lemma derivePrivateKey_node:
  assumes "sha512_law wl"
  shows "length (bip_Key (derivePrivateKey wl seed path)) = 32
    \<and> (bip_Key (derivePrivateKey wl seed path), bip_ChainCode (derivePrivateKey wl seed path)) = slip10_node wl seed (rev path)"
proof (induction path rule: rev_induct)
  case Nil
  then show ?case using assms
    by (simp add: derivePrivateKey_def split_digest_def hmac_sha512_def hmac_Sum_def sha512_law_def Let_def)
next
  case (snoc i path)
  then have k: "take 32 (bip_Key (derivePrivateKey wl seed path) @ replicate 32 0) = bip_Key (derivePrivateKey wl seed path)"
    by simp
  from snoc have n: "slip10_node wl seed (rev path)
      = (bip_Key (derivePrivateKey wl seed path), bip_ChainCode (derivePrivateKey wl seed path))" by simp
  show ?case using assms
    by (simp only: derivePrivateKey_snoc derive_child_def k)
      (simp add: n split_digest_def hmac_sha512_def hmac_Sum_def sha512_law_def Let_def)
qed

lemma or_hardened: "n OR hardened = hardened_index (unat n)"
proof -
  let ?h = "push_bit 31 1 :: u32"
  have h: "bit ?h i \<longleftrightarrow> i = 31" for i
    by (subst bit_push_bit_iff) auto
  have "(of_nat (unat n mod 2 ^ 31) :: u32) = take_bit 31 n"
    by (simp only: take_bit_eq_mod [symmetric] unsigned_take_bit_eq [symmetric]) simp
  then have "hardened_index (unat n) = take_bit 31 n + ?h"
    by (simp add: hardened_index_def)
  also have "\<dots> = take_bit 31 n OR ?h"
    by (rule disjunctive_add_eq_or, rule bit_word_eqI) (simp only: bit_and_iff bit_take_bit_iff h, simp)
  also have "\<dots> = n OR ?h"
    by (rule bit_word_eqI) (simp only: bit_or_iff bit_take_bit_iff h, auto)
  finally show ?thesis by (simp add: hardened_def)
qed

lemma GetPrivateKeyFromSeed_path:
  "GetPrivateKeyFromSeed wl seed account addressIndex = bip_Key (derivePrivateKey wl seed
     [hardened_index 44, hardened_index 508, hardened_index (unat account), hardened_index 0, hardened_index (unat addressIndex)])"
proof -
  have "hardened = hardened_index 0" by (simp add: hardened_def hardened_index_def)
  then show ?thesis
    by (simp add: GetPrivateKeyFromSeed_def Let_def or_hardened egldCoinType_def)
qed

subsection \<open>Limits of the integrity check\<close>

text \<open>The authentication code covers the cipher text only. A mnemonic key file whose vector was
  changed still authenticates and a key that nothing ties to the account is returned.\<close>

lemma mnemonic_iv_unauthenticated:
  assumes "fs filename = Some buff" and "wl_Unmarshal wl buff = Inr key" and "ek_Kind key = mnemonicKind"
    and "LoadPrivateKeyFromJsonFile env wl fs filename password = Some (Inr sk)"
    and "wl_Unmarshal wl buff' = Inr (key\<lparr>ek_IV := hex_EncodeToString iv\<rparr>)" and "length iv = 16"
  shows "\<exists>sk'. LoadPrivateKeyFromJsonFile env wl (fs(filename \<mapsto> buff')) filename password = Some (Inr sk')"
  using assms
  by (auto simp: LoadPrivateKeyFromJsonFile_def os_ReadFile_def or_return_ok bind_eq_Some_conv NewCTR_def Let_def
      split: if_splits)

text \<open>A key file with a vector of the wrong size or a derived key that is too short panics.\<close>

lemma json_bad_iv_panics:
  assumes "fs filename = Some buff" and "wl_Unmarshal wl buff = Inr key"
    and "LoadPrivateKeyFromJsonFile env wl fs filename password = Some (Inr sk)"
    and "wl_Unmarshal wl buff' = Inr (key\<lparr>ek_IV := hex_EncodeToString iv\<rparr>)" and "length iv \<noteq> 16"
  shows "LoadPrivateKeyFromJsonFile env wl (fs(filename \<mapsto> buff')) filename password = None"
  using assms
  by (auto simp: LoadPrivateKeyFromJsonFile_def os_ReadFile_def or_return_ok bind_eq_Some_conv NewCTR_def Let_def
      split: if_splits)

text \<open>Writing a shorter PEM file over a longer one leaves the end of the old file in place.\<close>

lemma pem_keeps_old_tail:
  assumes "SavePrivateKeyToPemFile env wl sk filename fs = (None, fs')" and "fs filename = Some old"
  shows "\<exists>new. fs' filename = Some (new @ drop (length new) old)"
  using assms by (auto simp: SavePrivateKeyToPemFile_def os_Overwrite_def Let_def split: sum.splits option.splits)

section \<open>Properties\<close>

text \<open>C6. A private key saved to a password protected JSON file is the key that the same password loads
  from it (its first 32 bytes, when the key has the long form of 64 bytes whose first half is the
  seed), and no other file changes. The vector, the salt and the id are whatever the random source
  gives, the block cipher is any function.\<close>

theorem keystore_roundtrip:
  assumes "keystore_law env wl"
    and "SavePrivateKeyToJsonFile env wl sk password filename fs = Some (None, fs')"
    and "GetAddressFromPrivateKey env (take 32 sk) = GetAddressFromPrivateKey env sk"
  shows "LoadPrivateKeyFromJsonFile env wl fs' filename password = Some (Inr (take 32 sk))
    \<and> fs' |` (- {filename}) = fs |` (- {filename})"
  using json_load_saved [OF assms] assms(2) by (auto elim: SavePrivateKeyToJsonFile_ok)

theorem keystore_roundtrip_witness:
  "\<exists>fs'. SavePrivateKeyToJsonFile demo_env demo_lib [1, 2, 3] ''pass'' ''key.json'' Map.empty = Some (None, fs')
    \<and> LoadPrivateKeyFromJsonFile demo_env demo_lib fs' ''key.json'' ''pass'' = Some (Inr [1, 2, 3])"
proof -
  obtain fs' where s: "SavePrivateKeyToJsonFile demo_env demo_lib [1, 2, 3] ''pass'' ''key.json'' Map.empty = Some (None, fs')"
    using demo_save by blast
  have "GetAddressFromPrivateKey demo_env (take 32 [1, 2, 3]) = GetAddressFromPrivateKey demo_env [1, 2, 3]" by simp
  from keystore_roundtrip [OF demo_lib_laws(1) s this] s show ?thesis by auto
qed

text \<open>A key that loading a JSON file returns, for whatever file and password, has at most 32 bytes
  and is the key of the account named in the file, except for mnemonic files, where it is the first
  key of the decrypted mnemonic; the authentication code of the file matches the password.\<close>

lemma LoadPrivateKeyFromJsonFile_sound:
  assumes "LoadPrivateKeyFromJsonFile env wl fs filename password = Some (Inr sk)"
  shows "\<exists>buff key salt dk c. fs filename = Some buff \<and> wl_Unmarshal wl buff = Inr key
    \<and> hex_DecodeString (ek_Salt key) = Inr salt \<and> hex_DecodeString (ek_CipherText key) = Inr c
    \<and> wl_scrypt wl (bytes_of_string password) salt (ek_N key) (ek_R key) (ek_P key) (ek_DkLen key) = Inr dk
    \<and> hex_DecodeString (ek_MAC key) = Inr (hmac_sha256 wl (take 16 (drop 16 dk)) c)
    \<and> (if ek_Kind key = mnemonicKind then \<exists>m. length m = length c \<and> sk = GetPrivateKeyFromMnemonic wl m 0 0
       else length sk \<le> 32 \<and> (\<exists>addr. GetAddressFromPrivateKey env sk = Inr addr \<and> ek_Address key = hex_EncodeToString (AddressBytes addr)
         \<and> AddressAsBech32String (env_pkc env) addr = Inr (ek_Bech32 key)))"
  using assms
proof (rule LoadPrivateKeyFromJsonFile_ok)
  fix buff key iv salt dk c
  assume h: "fs filename = Some buff" "wl_Unmarshal wl buff = Inr key"
    "hex_DecodeString (ek_Salt key) = Inr salt" "hex_DecodeString (ek_CipherText key) = Inr c"
    "wl_scrypt wl (bytes_of_string password) salt (ek_N key) (ek_R key) (ek_P key) (ek_DkLen key) = Inr dk"
    "hex_DecodeString (ek_MAC key) = Inr (hmac_sha256 wl (take 16 (drop 16 dk)) c)"
    and r: "(if ek_Kind key \<noteq> mnemonicKind then secretKeyAfterChecks env key (XORKeyStream (wl_aes wl (take 16 dk)) iv c)
      else Inr (secretKeyFromMnemonic wl (XORKeyStream (wl_aes wl (take 16 dk)) iv c))) = Inr sk"
  have "if ek_Kind key = mnemonicKind then \<exists>m. length m = length c \<and> sk = GetPrivateKeyFromMnemonic wl m 0 0
       else length sk \<le> 32 \<and> (\<exists>addr. GetAddressFromPrivateKey env sk = Inr addr \<and> ek_Address key = hex_EncodeToString (AddressBytes addr)
         \<and> AddressAsBech32String (env_pkc env) addr = Inr (ek_Bech32 key))"
  proof (cases "ek_Kind key = mnemonicKind")
    case True
    with r have "sk = GetPrivateKeyFromMnemonic wl (string_of_bytes (XORKeyStream (wl_aes wl (take 16 dk)) iv c)) 0 0"
      by (simp add: secretKeyFromMnemonic_def)
    moreover have "length (string_of_bytes (XORKeyStream (wl_aes wl (take 16 dk)) iv c)) = length c"
      by (simp add: ctr.stream_length)
    ultimately show ?thesis using True by metis
  next
    case False
    with r show ?thesis by (auto simp: secretKeyAfterChecks_def Let_def split: if_splits)
  qed
  with h show ?thesis by (metis (no_types, lifting))
qed

lemma LoadPrivateKeyFromJsonFile_sound_example:
  "\<exists>fs' key. LoadPrivateKeyFromJsonFile demo_env demo_lib fs' ''key.json'' ''pass'' = Some (Inr [1, 2, 3])
    \<and> ek_Kind key \<noteq> mnemonicKind \<and> (\<exists>buff. fs' ''key.json'' = Some buff \<and> wl_Unmarshal demo_lib buff = Inr key)
    \<and> (\<exists>addr. GetAddressFromPrivateKey demo_env [1, 2, 3] = Inr addr \<and> ek_Address key = hex_EncodeToString (AddressBytes addr))"
proof -
  obtain fs' where s: "SavePrivateKeyToJsonFile demo_env demo_lib [1, 2, 3] ''pass'' ''key.json'' Map.empty = Some (None, fs')"
    using demo_save by blast
  obtain k buff where k: "keystore_of demo_env demo_lib [1, 2, 3] ''pass'' = Some (Inr k)" "wl_Marshal demo_lib k = Inr buff"
    "fs' = [''key.json'' \<mapsto> buff]" using s by (rule SavePrivateKeyToJsonFile_ok)
  have u: "wl_Unmarshal demo_lib buff = Inr k"
    using k(2) by (simp add: demo_lib_def demo_Unmarshal_Marshal)
  have m: "ek_Kind k \<noteq> mnemonicKind" using k(1) by (rule keystore_of_ok) (simp add: mnemonicKind_def)
  have l: "LoadPrivateKeyFromJsonFile demo_env demo_lib fs' ''key.json'' ''pass'' = Some (Inr [1, 2, 3])"
    using json_load_saved [OF demo_lib_laws(1) s] by simp
  from LoadPrivateKeyFromJsonFile_sound [OF l] u m l k(3) show ?thesis by auto
qed

text \<open>A private key saved to a PEM file loads as its first 32 bytes, whatever the file contained
  before.\<close>

lemma pem_roundtrip:
  assumes "pem_law env wl" and "SavePrivateKeyToPemFile env wl sk filename fs = (None, fs')"
  shows "LoadPrivateKeyFromPemFile wl fs' filename = Inr (take 32 sk)"
proof -
  obtain addr bech rest where a: "AddressAsBech32String (env_pkc env) addr = Inr bech"
    and f: "fs' filename = Some (wl_pemEncode wl (''PRIVATE KEY for '' @ bech)
      (bytes_of_string (hex_EncodeToString (if length sk = 32 then sk @ AddressBytes addr else sk))) @ rest)"
    using assms(2)
    by (auto simp: SavePrivateKeyToPemFile_def os_Overwrite_def addressLen_def Let_def split: sum.splits option.splits if_splits)
  let ?k = "if length sk = 32 then sk @ AddressBytes addr else sk"
  let ?b = "bytes_of_string (hex_EncodeToString ?k)"
  have "CHR 0x0A \<notin> set (''PRIVATE KEY for '' @ bech)"
    using assms(1) a by (auto simp: pem_law_def AddressAsBech32String_def)
  then have "wl_pemDecode wl (wl_pemEncode wl (''PRIVATE KEY for '' @ bech) ?b @ rest) = Some ?b"
    using assms(1) unfolding pem_law_def by blast
  moreover have "(if length ?b > addressLen * 2 then take (addressLen * 2) ?b else ?b) = take (2 * 32) ?b"
    by (simp add: addressLen_def)
  moreover have "string_of_bytes (take (2 * 32) ?b) = hex_EncodeToString (take 32 sk)"
    by (simp only: take_string_of_bytes string_of_bytes_of_string take_hex) simp
  ultimately show ?thesis
    unfolding LoadPrivateKeyFromPemFile_def LoadPrivateKeyFromPemData_def os_ReadFile_def f Let_def by simp
qed

lemma pem_roundtrip_example:
  "LoadPrivateKeyFromPemFile demo_lib (snd (SavePrivateKeyToPemFile demo_env demo_lib [1, 2, 3] ''key.pem''
     [''key.pem'' \<mapsto> replicate 40 9])) ''key.pem'' = Inr [1, 2, 3]"
proof -
  let ?s = "SavePrivateKeyToPemFile demo_env demo_lib [1, 2, 3] ''key.pem'' [''key.pem'' \<mapsto> replicate 40 9]"
  have "fst ?s = None"
    by (simp add: SavePrivateKeyToPemFile_def os_Overwrite_def demo_lib_def demo_env_def GetAddressFromPrivateKey_def
        AddressAsBech32String_def hex_converter_def Let_def)
  then have "?s = (None, snd ?s)" by (simp add: prod_eq_iff)
  from pem_roundtrip [OF demo_lib_laws(2) this] show ?thesis by simp
qed

text \<open>C20. The private key of an account and address index is the key of the SLIP-0010 node
  \<^verbatim>\<open>m/44'/508'/account'/0'/index'\<close>: the loop over the path computes the reference recursion, and the
  bitwise or with the constant is the hardened index, so that indices differing only in their highest
  bit give the same key.\<close>

theorem GetPrivateKeyFromSeed_slip10:
  assumes "sha512_law wl"
  shows "GetPrivateKeyFromSeed wl seed account addressIndex = fst (slip10_node wl seed
     [hardened_index (unat addressIndex), hardened_index 0, hardened_index (unat account), hardened_index 508, hardened_index 44])
   \<and> length (GetPrivateKeyFromSeed wl seed account addressIndex) = 32"
proof -
  let ?path = "[hardened_index 44, hardened_index 508, hardened_index (unat account), hardened_index 0, hardened_index (unat addressIndex)]"
  from derivePrivateKey_node [OF assms, of seed ?path]
  have "length (bip_Key (derivePrivateKey wl seed ?path)) = 32"
    "bip_Key (derivePrivateKey wl seed ?path) = fst (slip10_node wl seed (rev ?path))"
    by (auto simp del: slip10_node.simps dest: arg_cong [where f = fst])
  then show ?thesis by (simp add: GetPrivateKeyFromSeed_path del: slip10_node.simps)
qed

theorem GetPrivateKeyFromSeed_slip10_witness:
  "GetPrivateKeyFromSeed demo_lib [1] 1 2 = fst (slip10_node demo_lib [1]
     [hardened_index (unat (2 :: u32)), hardened_index 0, hardened_index (unat (1 :: u32)), hardened_index 508, hardened_index 44])"
  using GetPrivateKeyFromSeed_slip10 [OF demo_lib_laws(3), of "[1]" 1 2] by blast

end
