(* ===== verification/Float64.thy ===== *)
theory Float64
  imports Complex_Main "HOL-Library.Log_Nat"
begin

text \<open>
  Go's \<^verbatim>\<open>float64\<close> as the aggregator uses it. A finite value is the rational number it stands for, and an
  arithmetic operation is the exact operation followed by \<open>rnd\<close>: round to nearest, ties to even, with a
  significand of 53 bits, or to the multiples of \<open>2 powi (- 1074)\<close> in the subnormal range. A result of
  \<open>2 ^ 1024\<close> or more overflows to an infinity; the infinities and NaN are values of their own. There is
  one zero: the sign of a zero would only be visible to a division by it.
  \<^verbatim>\<open>math.Round\<close> rounds halves away from zero. The order of \<^verbatim>\<open>sort.Float64s\<close>, with NaN before every other
  value, makes the type an instance of \<open>linorder\<close>.

  The lemmas are the facts of floating point analysis that the price computations need: rounding is
  monotone, changes a value outside the subnormal range by at most one part in \<open>2 ^ 53\<close>, and keeps every
  number with a significand of at most 53 bits.
\<close>

section \<open>Definitions\<close>

text \<open>The exponent of the leading bit of a positive number.\<close>

definition exp2 :: "rat \<Rightarrow> int" where
  "exp2 x = (case quotient_of x of (p, q) \<Rightarrow>
     let e = bitlen p - bitlen q in if 2 powi e \<le> x then e else e - 1)"

definition round_even :: "rat \<Rightarrow> int" where
  "round_even x = (let n = \<lfloor>x\<rfloor>; d = x - of_int n in
     if d < 1 / 2 then n else if d > 1 / 2 then n + 1 else if even n then n else n + 1)"

text \<open>The exponent of the last place of a number: 52 below the leading bit, but not below the smallest
  subnormal number.\<close>

definition ulp2 :: "rat \<Rightarrow> int" where
  "ulp2 x = max (exp2 \<bar>x\<bar> - 52) (- 1074)"

definition rnd :: "rat \<Rightarrow> rat" where
  "rnd x = (if x = 0 then 0 else of_int (round_even (x / 2 powi ulp2 x)) * 2 powi ulp2 x)"

definition is_float :: "rat \<Rightarrow> bool" where
  "is_float x \<longleftrightarrow> rnd x = x"

definition round_away :: "rat \<Rightarrow> rat" where
  "round_away x = (if x < 0 then - of_int \<lfloor>1 / 2 - x\<rfloor> else of_int \<lfloor>x + 1 / 2\<rfloor>)"

subsection \<open>Values and operations\<close>

datatype float64 = NaN | NInf | Fin rat | PInf

text \<open>The value of a rounded result, with overflow.\<close>

definition f64_of :: "rat \<Rightarrow> float64" where
  "f64_of x = (let r = rnd x in if \<bar>r\<bar> < 2 ^ 1024 then Fin r else if r > 0 then PInf else NInf)"

definition f64_inf :: "rat \<Rightarrow> float64" where
  "f64_inf sign = (if sign = 0 then NaN else if sign > 0 then PInf else NInf)"

definition f64_sgn :: "float64 \<Rightarrow> rat" where
  "f64_sgn x = (case x of NaN \<Rightarrow> 0 | NInf \<Rightarrow> - 1 | Fin q \<Rightarrow> sgn q | PInf \<Rightarrow> 1)"

fun f64_neg :: "float64 \<Rightarrow> float64" where
  "f64_neg (Fin x) = Fin (- x)"
| "f64_neg NaN = NaN"
| "f64_neg NInf = PInf"
| "f64_neg PInf = NInf"

definition f64_add :: "float64 \<Rightarrow> float64 \<Rightarrow> float64" where
  "f64_add a b = (case (a, b) of
     (Fin x, Fin y) \<Rightarrow> f64_of (x + y)
   | (NaN, _) \<Rightarrow> NaN | (_, NaN) \<Rightarrow> NaN
   | (Fin _, y) \<Rightarrow> y | (x, Fin _) \<Rightarrow> x
   | (x, y) \<Rightarrow> if x = y then x else NaN)"

definition f64_sub :: "float64 \<Rightarrow> float64 \<Rightarrow> float64" where
  "f64_sub a b = f64_add a (f64_neg b)"

definition f64_mul :: "float64 \<Rightarrow> float64 \<Rightarrow> float64" where
  "f64_mul a b = (case (a, b) of
     (Fin x, Fin y) \<Rightarrow> f64_of (x * y)
   | (NaN, _) \<Rightarrow> NaN | (_, NaN) \<Rightarrow> NaN
   | _ \<Rightarrow> f64_inf (f64_sgn a * f64_sgn b))"

definition f64_div :: "float64 \<Rightarrow> float64 \<Rightarrow> float64" where
  "f64_div a b = (case (a, b) of
     (Fin x, Fin y) \<Rightarrow> if y = 0 then f64_inf (sgn x) else f64_of (x / y)
   | (NaN, _) \<Rightarrow> NaN | (_, NaN) \<Rightarrow> NaN
   | (Fin _, _) \<Rightarrow> Fin 0
   | (_, Fin y) \<Rightarrow> f64_inf (f64_sgn a * (if y < 0 then - 1 else 1))
   | _ \<Rightarrow> NaN)"

fun f64_lt :: "float64 \<Rightarrow> float64 \<Rightarrow> bool" where
  "f64_lt (Fin x) (Fin y) = (x < y)"
| "f64_lt NInf (Fin _) = True"
| "f64_lt NInf PInf = True"
| "f64_lt (Fin _) PInf = True"
| "f64_lt _ _ = False"

definition f64_le :: "float64 \<Rightarrow> float64 \<Rightarrow> bool" where
  "f64_le a b \<longleftrightarrow> f64_lt a b \<or> (a = b \<and> a \<noteq> NaN)"

definition math_Abs :: "float64 \<Rightarrow> float64" where
  "math_Abs a = (case a of NaN \<Rightarrow> NaN | Fin x \<Rightarrow> Fin \<bar>x\<bar> | _ \<Rightarrow> PInf)"

definition math_Round :: "float64 \<Rightarrow> float64" where
  "math_Round a = (case a of Fin x \<Rightarrow> Fin (round_away x) | _ \<Rightarrow> a)"

text \<open>The order of \<^verbatim>\<open>sort.Float64s\<close>.\<close>

instantiation float64 :: linorder
begin

definition less_eq_float64 :: "float64 \<Rightarrow> float64 \<Rightarrow> bool" where
  "less_eq_float64 a b \<longleftrightarrow> a = NaN \<or> f64_le a b"

definition less_float64 :: "float64 \<Rightarrow> float64 \<Rightarrow> bool" where
  "less_float64 a b \<longleftrightarrow> f64_lt a b \<or> (a = NaN \<and> b \<noteq> NaN)"

instance
proof
  fix x y z :: float64
  show "x < y \<longleftrightarrow> x \<le> y \<and> \<not> y \<le> x"
    by (cases x; cases y) (auto simp: less_eq_float64_def less_float64_def f64_le_def)
  show "x \<le> x" by (auto simp: less_eq_float64_def f64_le_def)
  show "x \<le> y \<Longrightarrow> y \<le> z \<Longrightarrow> x \<le> z"
    by (cases x; cases y; cases z) (auto simp: less_eq_float64_def f64_le_def)
  show "x \<le> y \<Longrightarrow> y \<le> x \<Longrightarrow> x = y"
    by (cases x; cases y) (auto simp: less_eq_float64_def f64_le_def)
  show "x \<le> y \<or> y \<le> x"
    by (cases x; cases y) (auto simp: less_eq_float64_def f64_le_def)
qed

end

section \<open>Exponents\<close>

lemma pow2_pos [simp]: "0 < (2 :: rat) powi e"
  by (simp add: power_int_def)

lemma pow2_le_iff: "(2 :: rat) powi a \<le> 2 powi b \<longleftrightarrow> a \<le> b"
  by (metis linorder_not_less numeral_One numeral_le_one_iff one_less_numeral_iff order.strict_implies_order power_int_increasing power_int_strict_increasing semiring_norm(69) semiring_norm(76))

lemma pow2_less_iff: "(2 :: rat) powi a < 2 powi b \<longleftrightarrow> a < b"
  by (meson linorder_not_le pow2_le_iff)

lemma pow2_add: "(2 :: rat) powi (a + b) = 2 powi a * 2 powi b"
  by (simp add: power_int_add)

lemma bitlen_rat:
  assumes "0 < p"
  shows "(2 :: rat) powi (bitlen p - 1) \<le> of_int p \<and> (of_int p :: rat) < 2 powi bitlen p"
proof -
  have b: "2 ^ nat (bitlen p - 1) \<le> p" "p < 2 ^ nat (bitlen p)"
    using bitlen_bounds [OF assms] by auto
  have "0 < bitlen p" using assms by (metis bitlen_eq_zero_iff bitlen_nonneg less_le linorder_not_le)
  moreover have "(of_int (2 ^ nat (bitlen p - 1)) :: rat) \<le> of_int p" "(of_int p :: rat) < of_int (2 ^ nat (bitlen p))"
    using b by (simp_all only: of_int_le_iff of_int_less_iff)
  ultimately show ?thesis by (simp add: power_int_nonneg_exp)
qed

lemma exp2_bounds:
  assumes "0 < x"
  shows "2 powi exp2 x \<le> x" and "x < 2 powi (exp2 x + 1)"
proof -
  obtain p q where pq: "quotient_of x = (p, q)" by fastforce
  then have q: "0 < q" and x: "x = of_int p / of_int q"
    using quotient_of_denom_pos quotient_of_div by blast+
  then have p: "0 < p" using assms by (simp add: zero_less_divide_iff)
  let ?e = "bitlen p - bitlen q"
  have "x < 2 powi bitlen p / 2 powi (bitlen q - 1)"
    unfolding x using bitlen_rat [OF p] bitlen_rat [OF q] q p
    by (intro frac_less) auto
  then have u: "x < 2 powi (?e + 1)" by (simp add: power_int_diff power_int_add)
  have "2 powi (bitlen p - 1) / 2 powi bitlen q \<le> x"
    unfolding x using bitlen_rat [OF p] bitlen_rat [OF q] q p
    by (intro frac_le) auto
  then have l: "2 powi (?e - 1) \<le> x" by (simp add: power_int_diff)
  show "2 powi exp2 x \<le> x" "x < 2 powi (exp2 x + 1)"
    using u l by (auto simp: exp2_def pq Let_def)
qed

lemma exp2_unique:
  assumes "2 powi e \<le> x" and "x < 2 powi (e + 1)"
  shows "exp2 x = e"
proof -
  have "0 < x" using assms(1) pow2_pos [of e] by linarith
  from exp2_bounds [OF this] assms have "(2 :: rat) powi e < 2 powi (exp2 x + 1)" "(2 :: rat) powi exp2 x < 2 powi (e + 1)"
    by linarith+
  then show ?thesis by (simp add: pow2_less_iff)
qed

lemma exp2_mono:
  assumes "0 < x" and "x \<le> y"
  shows "exp2 x \<le> exp2 y"
proof -
  have "2 powi exp2 x < (2 :: rat) powi (exp2 y + 1)"
    using exp2_bounds [of x] exp2_bounds [of y] assms by linarith
  then show ?thesis by (simp add: pow2_less_iff)
qed

lemma exp2_double:
  assumes "0 < x"
  shows "exp2 (2 * x) = exp2 x + 1"
  using exp2_bounds [OF assms] by (intro exp2_unique) (simp_all add: power_int_add)

section \<open>Rounding to an integer\<close>

lemma round_even_of_int [simp]: "round_even (of_int n) = n"
  by (simp add: round_even_def)

lemma round_even_dist: "\<bar>of_int (round_even x) - x\<bar> \<le> 1 / 2"
  by (simp add: round_even_def Let_def abs_if) linarith

lemma round_even_mono: "x \<le> y \<Longrightarrow> round_even x \<le> round_even y"
proof -
  assume xy: "x \<le> y"
  then have f: "\<lfloor>x\<rfloor> \<le> \<lfloor>y\<rfloor>" by (rule floor_mono)
  show ?thesis
  proof (cases "\<lfloor>x\<rfloor> = \<lfloor>y\<rfloor>")
    case True
    then show ?thesis using xy by (auto simp: round_even_def Let_def)
  next
    case False
    with f show ?thesis by (auto simp: round_even_def Let_def)
  qed
qed

lemma round_even_minus: "round_even (- x) = - round_even x"
proof (cases "x = of_int \<lfloor>x\<rfloor>")
  case True
  then show ?thesis by (metis of_int_minus round_even_of_int)
next
  case False
  then have "\<lfloor>- x\<rfloor> = - \<lfloor>x\<rfloor> - 1" by linarith
  then show ?thesis by (auto simp: round_even_def Let_def)
qed

section \<open>Rounding to 53 bits\<close>

definition tiny :: rat where "tiny = 2 powi (- 1022)"
definition eta :: rat where "eta = 2 powi (- 1075)"

lemma tiny_pos [simp]: "0 < tiny" and eta_pos [simp]: "0 < eta"
  by (simp_all add: tiny_def eta_def)

lemma eta_small: "eta \<le> 1 / 2 ^ 53"
proof -
  have "eta \<le> 2 powi (- 53)" unfolding eta_def pow2_le_iff by simp
  then show ?thesis by (simp add: power_int_minus field_simps)
qed

lemma tiny_small: "tiny \<le> 1 / 2 ^ 100"
proof -
  have "tiny \<le> 2 powi (- 100)" unfolding tiny_def pow2_le_iff by simp
  then show ?thesis by (simp add: power_int_minus field_simps)
qed

lemma rnd_0 [simp]: "rnd 0 = 0"
  by (simp add: rnd_def)

lemma ulp2_minus [simp]: "ulp2 (- x) = ulp2 x"
  by (simp add: ulp2_def)

lemma rnd_minus [simp]: "rnd (- x) = - rnd x"
  by (simp add: rnd_def round_even_minus)

text \<open>A number on the grid of the last places is a bound that rounding respects.\<close>

lemma grid_int:
  assumes "e \<le> k"
  shows "of_int m * 2 powi k / 2 powi e = (of_int (m * 2 ^ nat (k - e)) :: rat)"
proof -
  have "of_int m * 2 powi k / 2 powi e = of_int m * (2 powi (k - e) :: rat)" by (simp add: power_int_diff)
  then show ?thesis using assms by (simp add: power_int_nonneg_exp)
qed

lemma rnd_le_grid:
  assumes "x \<le> of_int m * 2 powi k" and "ulp2 x \<le> k" and "x \<noteq> 0"
  shows "rnd x \<le> of_int m * 2 powi k"
proof -
  let ?n = "m * 2 ^ nat (k - ulp2 x)"
  have "x / 2 powi ulp2 x \<le> of_int m * 2 powi k / 2 powi ulp2 x" using assms(1) by (intro divide_right_mono) (simp_all add: less_imp_le)
  then have "x / 2 powi ulp2 x \<le> of_int ?n" unfolding grid_int [OF assms(2)] .
  then have "round_even (x / 2 powi ulp2 x) \<le> ?n" using round_even_mono [of "x / 2 powi ulp2 x" "of_int ?n"] by (simp only: round_even_of_int)
  then have "(of_int (round_even (x / 2 powi ulp2 x)) :: rat) \<le> of_int ?n" by (simp only: of_int_le_iff)
  then have "of_int (round_even (x / 2 powi ulp2 x)) * 2 powi ulp2 x \<le> of_int ?n * (2 powi ulp2 x :: rat)"
    by (intro mult_right_mono) (simp_all add: less_imp_le)
  also have "\<dots> = of_int m * 2 powi k" unfolding grid_int [OF assms(2), symmetric] by simp
  finally show ?thesis using assms(3) by (simp add: rnd_def)
qed

lemma rnd_ge_grid:
  assumes "of_int m * 2 powi k \<le> x" and "ulp2 x \<le> k" and "x \<noteq> 0"
  shows "of_int m * 2 powi k \<le> rnd x"
proof -
  have "- x \<le> of_int (- m) * 2 powi k" using assms(1) by simp
  from rnd_le_grid [OF this] assms(2,3) show ?thesis by simp
qed

lemma ulp2_le:
  assumes "\<bar>x\<bar> < 2 powi k" and "- 1074 \<le> k" and "x \<noteq> 0"
  shows "ulp2 x \<le> max (k - 53) (- 1074)"
proof -
  have "2 powi exp2 \<bar>x\<bar> < (2 powi k :: rat)" using exp2_bounds(1) [of "\<bar>x\<bar>"] assms by simp
  then show ?thesis by (simp add: ulp2_def pow2_less_iff)
qed

lemma rnd_nonneg:
  assumes "0 \<le> x"
  shows "0 \<le> rnd x"
  using rnd_ge_grid [of 0 "ulp2 x" x] assms by (cases "x = 0") simp_all

lemma rnd_mono_pos:
  assumes "0 < x" and "x \<le> y"
  shows "rnd x \<le> rnd y"
proof (cases "ulp2 x = ulp2 y")
  case True
  have "round_even (x / 2 powi ulp2 y) \<le> round_even (y / 2 powi ulp2 y)"
    using assms(2) by (intro round_even_mono divide_right_mono) (simp_all add: less_imp_le)
  then have "of_int (round_even (x / 2 powi ulp2 y)) * 2 powi ulp2 y \<le> of_int (round_even (y / 2 powi ulp2 y)) * (2 powi ulp2 y :: rat)"
    by (intro mult_right_mono) (simp_all add: less_imp_le)
  then show ?thesis using assms True by (simp add: rnd_def)
next
  case False
  have e: "exp2 x \<le> exp2 y" using exp2_mono [OF assms] .
  with False have n: "exp2 x + 1 \<le> exp2 y" "ulp2 y = exp2 y - 52" "ulp2 x \<le> exp2 y" "ulp2 y \<le> exp2 y"
    using assms by (auto simp: ulp2_def max_def split: if_splits)
  have "(2 :: rat) powi (exp2 x + 1) \<le> 2 powi exp2 y" using n(1) by (simp add: pow2_le_iff)
  then have "x \<le> of_int 1 * 2 powi exp2 y" using exp2_bounds(2) [OF assms(1)] by simp
  from rnd_le_grid [OF this n(3)] have "rnd x \<le> 2 powi exp2 y" using assms by simp
  also have "of_int 1 * 2 powi exp2 y \<le> rnd y" using assms exp2_bounds(1) [of y] by (intro rnd_ge_grid n(4)) simp_all
  then have "2 powi exp2 y \<le> rnd y" by simp
  finally show ?thesis .
qed

lemma rnd_mono: "x \<le> y \<Longrightarrow> rnd x \<le> rnd y"
proof -
  assume xy: "x \<le> y"
  consider "0 < x" | "x \<le> 0" "0 \<le> y" | "y < 0" by linarith
  then show ?thesis
  proof cases
    case 1
    then show ?thesis using xy by (rule rnd_mono_pos)
  next
    case 2
    then have "0 \<le> rnd (- x)" "0 \<le> rnd y" by (simp_all add: rnd_nonneg del: rnd_minus)
    then show ?thesis by simp
  next
    case 3
    with xy have "rnd (- y) \<le> rnd (- x)" by (intro rnd_mono_pos) simp_all
    then show ?thesis by simp
  qed
qed

text \<open>The error: half a unit in the last place.\<close>

lemma rnd_ulp: "\<bar>rnd x - x\<bar> \<le> 2 powi ulp2 x / 2"
proof (cases "x = 0")
  case False
  let ?s = "2 powi ulp2 x :: rat"
  have "rnd x - x = (of_int (round_even (x / ?s)) - x / ?s) * ?s"
    using False by (simp add: rnd_def left_diff_distrib)
  then have "\<bar>rnd x - x\<bar> = \<bar>of_int (round_even (x / ?s)) - x / ?s\<bar> * ?s"
    by (simp only: abs_mult abs_of_pos [OF pow2_pos])
  also have "\<dots> \<le> 1 / 2 * ?s"
    using round_even_dist by (intro mult_right_mono) (simp_all add: less_imp_le)
  finally show ?thesis by simp
qed simp

lemma scaled_bound: "x \<noteq> 0 \<Longrightarrow> 2 powi (exp2 \<bar>x\<bar> - 52) / 2 \<le> \<bar>x\<bar> / 2 ^ 53"
  using exp2_bounds(1) [of "\<bar>x\<bar>"] by (simp add: power_int_diff field_simps)

lemma rnd_error: "\<bar>rnd x - x\<bar> \<le> \<bar>x\<bar> / 2 ^ 53 + eta"
proof (cases "x = 0")
  case False
  have "2 powi ulp2 x / 2 \<le> 2 powi (exp2 \<bar>x\<bar> - 52) / 2 + (eta :: rat)"
  proof (cases "exp2 \<bar>x\<bar> - 52 \<le> - 1074")
    case True
    have "(2 powi (- 1074) :: rat) = 2 powi 1 * 2 powi (- 1075)" unfolding pow2_add [symmetric] by (rule arg_cong) simp
    also have "\<dots> = 2 * eta" unfolding eta_def by (simp only: power_int_1_right)
    finally have "2 powi ulp2 x = 2 * eta" using True by (simp only: ulp2_def max_absorb2)
    moreover have "(0 :: rat) < 2 powi (exp2 \<bar>x\<bar> - 52)" by (rule pow2_pos)
    ultimately show ?thesis by simp
  qed (simp add: ulp2_def less_imp_le)
  with rnd_ulp [of x] scaled_bound [OF False] show ?thesis by linarith
qed (simp add: less_imp_le)

lemma rnd_rel_error:
  assumes "tiny \<le> \<bar>x\<bar>"
  shows "\<bar>rnd x - x\<bar> \<le> \<bar>x\<bar> / 2 ^ 53"
proof -
  have x: "x \<noteq> 0" using assms tiny_pos by (metis abs_zero linorder_not_le)
  have "(2 :: rat) powi (- 1022) < 2 powi (exp2 \<bar>x\<bar> + 1)" using assms exp2_bounds(2) [of "\<bar>x\<bar>"] x unfolding tiny_def by linarith
  then have "- 1022 < exp2 \<bar>x\<bar> + 1" unfolding pow2_less_iff .
  then have "ulp2 x = exp2 \<bar>x\<bar> - 52" by (simp add: ulp2_def)
  with rnd_ulp [of x] scaled_bound [OF x] show ?thesis by simp
qed

lemma rnd_abs_lower:
  assumes "tiny \<le> \<bar>x\<bar>"
  shows "\<bar>x\<bar> - \<bar>x\<bar> / 2 ^ 53 \<le> \<bar>rnd x\<bar>"
  using rnd_rel_error [OF assms] abs_triangle_ineq2_sym [of x "rnd x"] by linarith

text \<open>What is representable: a significand of 53 bits and an exponent that is not too small.\<close>

lemma is_float_scaled:
  assumes "\<bar>m\<bar> < 2 ^ 53" and "- 1074 \<le> e"
  shows "is_float (of_int m * 2 powi e)"
proof (cases "m = 0")
  case False
  let ?x = "of_int m * 2 powi e :: rat"
  have x: "?x \<noteq> 0" using False by simp
  have "(of_int \<bar>m\<bar> :: rat) < of_int (2 ^ 53)" using assms(1) by (simp only: of_int_less_iff)
  then have "\<bar>?x\<bar> < 2 ^ 53 * 2 powi e" by (simp add: abs_mult)
  also have "(2 ^ 53 :: rat) * 2 powi e = 2 powi (e + 53)" by (simp add: power_int_add)
  finally have "ulp2 ?x \<le> e" using ulp2_le [of ?x "e + 53"] assms(2) x by simp
  from rnd_le_grid [OF order_refl this x] rnd_ge_grid [OF order_refl this x] show ?thesis by (simp add: is_float_def)
qed (simp add: is_float_def)

lemma is_float_int: "\<bar>m\<bar> < 2 ^ 53 \<Longrightarrow> is_float (of_int m)"
  using is_float_scaled [of m 0] by simp

lemma is_float_pow2: "- 1074 \<le> e \<Longrightarrow> is_float (2 powi e)"
  using is_float_scaled [of 1 e] by simp

lemma round_ulp_bound:
  assumes "x \<noteq> 0"
  shows "\<bar>round_even (x / 2 powi ulp2 x)\<bar> \<le> 2 ^ 53"
proof -
  have "\<bar>x\<bar> < 2 powi (exp2 \<bar>x\<bar> + 1)" using exp2_bounds(2) [of "\<bar>x\<bar>"] assms by simp
  also have "(2 powi (exp2 \<bar>x\<bar> + 1) :: rat) \<le> 2 powi (ulp2 x + 53)" by (simp add: pow2_le_iff ulp2_def)
  finally have "\<bar>x\<bar> / 2 powi ulp2 x < 2 ^ 53" by (simp add: power_int_add pos_divide_less_eq mult.commute)
  then have a: "\<bar>x / 2 powi ulp2 x\<bar> < 2 ^ 53" by (simp add: abs_divide)
  have "round_even (x / 2 powi ulp2 x) \<le> round_even (of_int (2 ^ 53))" "round_even (of_int (- (2 ^ 53))) \<le> round_even (x / 2 powi ulp2 x)"
    using a unfolding abs_less_iff by (intro round_even_mono; simp)+
  then show ?thesis unfolding round_even_of_int by linarith
qed

lemma rnd_form: "\<exists>m e. \<bar>m\<bar> < 2 ^ 53 \<and> - 1074 \<le> e \<and> rnd x = of_int m * 2 powi e"
proof (cases "x = 0")
  case True
  then show ?thesis by (intro exI [of _ 0]) simp
next
  case False
  let ?m = "round_even (x / 2 powi ulp2 x)"
  have u: "- 1074 \<le> ulp2 x" by (simp add: ulp2_def)
  have r: "rnd x = of_int ?m * 2 powi ulp2 x" using False by (simp add: rnd_def)
  show ?thesis
  proof (cases "\<bar>?m\<bar> = 2 ^ 53")
    case True
    then have "?m = 2 ^ 53 \<or> ?m = - (2 ^ 53)" by linarith
    then have "\<bar>?m div 2\<bar> < 2 ^ 53" "?m = 2 * (?m div 2)" by auto
    moreover from this(2) have "rnd x = of_int (?m div 2) * 2 powi (ulp2 x + 1)"
      unfolding r pow2_add using of_int_mult [where 'a = rat, of 2 "?m div 2"] by simp
    ultimately show ?thesis using u by (intro exI [of _ "?m div 2"] exI [of _ "ulp2 x + 1"]) simp
  next
    case m: False
    then show ?thesis using round_ulp_bound [OF False] u r by (intro exI [of _ ?m] exI [of _ "ulp2 x"]) simp
  qed
qed

lemma is_float_rnd [simp]: "is_float (rnd x)"
  using rnd_form [of x] is_float_scaled by auto

lemma is_float_double:
  assumes "is_float x"
  shows "is_float (2 * x)"
proof -
  obtain m e where "\<bar>m\<bar> < 2 ^ 53" "- 1074 \<le> e" "rnd x = of_int m * 2 powi e" using rnd_form by blast
  then have "2 * x = of_int m * 2 powi (e + 1)" "is_float (of_int m * 2 powi (e + 1))"
    using assms is_float_scaled [of m "e + 1"] by (simp_all add: is_float_def power_int_add)
  then show ?thesis by simp
qed

text \<open>The two bounds that the operations below a given float rely on.\<close>

lemma rnd_le_float: "is_float b \<Longrightarrow> x \<le> b \<Longrightarrow> rnd x \<le> b"
  using rnd_mono [of x b] by (simp add: is_float_def)

lemma float_le_rnd: "is_float a \<Longrightarrow> a \<le> x \<Longrightarrow> a \<le> rnd x"
  using rnd_mono [of a x] by (simp add: is_float_def)

lemma round_away_dist: "\<bar>round_away x - x\<bar> \<le> 1 / 2"
  by (simp add: round_away_def abs_if) linarith

lemma round_away_int:
  assumes "0 \<le> x" and "\<bar>x - of_int n\<bar> < 1 / 2"
  shows "round_away x = of_int n"
proof -
  have "\<lfloor>x + 1 / 2\<rfloor> = n" using assms(2) unfolding abs_less_iff by (intro floor_unique) linarith+
  then show ?thesis using assms(1) by (simp add: round_away_def)
qed

lemma rnd_interval:
  assumes "0 \<le> x"
  shows "x - x / 2 ^ 53 - eta \<le> rnd x" and "rnd x \<le> x + x / 2 ^ 53 + eta"
  using rnd_error [of x] assms unfolding abs_le_iff abs_of_nonneg [OF assms] by linarith+

lemma rnd_rel_interval:
  assumes "tiny \<le> x"
  shows "x - x / 2 ^ 53 \<le> rnd x" and "rnd x \<le> x + x / 2 ^ 53"
proof -
  have x: "0 \<le> x" using assms tiny_pos by linarith
  then have "\<bar>rnd x - x\<bar> \<le> x / 2 ^ 53" using rnd_rel_error [of x] assms by simp
  then show "x - x / 2 ^ 53 \<le> rnd x" "rnd x \<le> x + x / 2 ^ 53" unfolding abs_le_iff by linarith+
qed

lemma tiny_le_rnd: "tiny \<le> x \<Longrightarrow> tiny \<le> rnd x"
  unfolding tiny_def by (intro float_le_rnd is_float_pow2) simp_all

lemma rnd_pos: "tiny \<le> x \<Longrightarrow> 0 < rnd x"
  using tiny_le_rnd [of x] tiny_pos by linarith

text \<open>Rounding a value that is close to a whole number below \<open>2 ^ 50\<close>.\<close>

lemma rnd_close:
  assumes "0 \<le> x" and "\<bar>x - of_int n\<bar> \<le> e" and "0 \<le> e" and "e \<le> 1" and "n < 2 ^ 50"
  shows "\<bar>rnd x - of_int n\<bar> \<le> e + 1 / 8 + 1 / 2 ^ 52"
proof -
  have "(of_int n :: rat) \<le> of_int (2 ^ 50)" using assms(5) by (simp only: of_int_le_iff)
  then have n: "(of_int n :: rat) \<le> 2 ^ 50" by simp
  have x: "x \<le> of_int n + e" "of_int n - e \<le> x" using assms(2) unfolding abs_le_iff by linarith+
  have "x / 2 ^ 53 \<le> (2 ^ 50 + 1) / 2 ^ 53" using x n assms(4) by (intro divide_right_mono) simp_all
  also have "(2 ^ 50 + 1) / 2 ^ 53 = (1 / 8 + 1 / 2 ^ 53 :: rat)" by simp
  finally show ?thesis using rnd_interval [OF assms(1)] x eta_small unfolding abs_le_iff by simp
qed

text \<open>A whole number of units of a precision: dividing by the precision gives the number back.\<close>

lemma rnd_scaled_close:
  assumes "0 \<le> n" and "n < 2 ^ 50" and "tiny \<le> p"
  shows "\<bar>rnd (of_int n * p) / p - of_int n\<bar> \<le> 1 / 8"
proof (cases "n = 0")
  case False
  let ?n = "of_int n :: rat"
  have p: "0 < p" using assms(3) tiny_pos by linarith
  have "?n \<le> of_int (2 ^ 50)" using assms(2) by (simp only: of_int_le_iff)
  then have n: "?n \<le> 2 ^ 50" "1 \<le> ?n" using assms(1) False by simp_all
  have "1 * p \<le> ?n * p" using n(2) p by (intro mult_right_mono) simp_all
  then have "tiny \<le> \<bar>?n * p\<bar>" using assms(3) by simp
  from rnd_rel_error [OF this] have "\<bar>rnd (?n * p) - ?n * p\<bar> \<le> ?n * p / 2 ^ 53" using n(2) p by (simp add: abs_mult)
  then have "\<bar>rnd (?n * p) - ?n * p\<bar> / p \<le> ?n * p / 2 ^ 53 / p" using p by (intro divide_right_mono) simp_all
  also have "?n * p / 2 ^ 53 / p = ?n / 2 ^ 53" using p by simp
  also have "\<dots> \<le> 2 ^ 50 / 2 ^ 53" using n(1) by (intro divide_right_mono) simp_all
  finally have "\<bar>(rnd (?n * p) - ?n * p) / p\<bar> \<le> 1 / 8" using p by (simp add: abs_divide)
  moreover have "(rnd (?n * p) - ?n * p) / p = rnd (?n * p) / p - ?n" using p by (simp add: diff_divide_distrib)
  ultimately show ?thesis by simp
qed simp

lemma units_roundtrip:
  assumes "0 \<le> n" and "n < 2 ^ 50" and "tiny \<le> p"
  shows "round_away (rnd (rnd (of_int n * p) / p)) = of_int n"
proof -
  let ?q = "rnd (of_int n * p) / p"
  have p: "0 < p" using assms(3) tiny_pos by linarith
  have q0: "0 \<le> ?q" using assms(1) p by (simp add: rnd_nonneg)
  have "\<bar>rnd ?q - of_int n\<bar> \<le> 1 / 8 + 1 / 8 + 1 / 2 ^ 52"
    using assms(2) by (intro rnd_close [OF q0 rnd_scaled_close [OF assms]]) simp_all
  then have "\<bar>rnd ?q - of_int n\<bar> < 1 / 2" by simp
  then show ?thesis using q0 by (intro round_away_int) (simp_all add: rnd_nonneg)
qed

text \<open>Scaling a whole number of units by the inverse of the rounded precision gives the number up to an
  error below one.\<close>

lemma units_scaled:
  assumes "0 \<le> n" and "n < 2 ^ 50" and "0 < d" and "tiny \<le> 1 / d"
  shows "\<bar>rnd (of_int n * rnd (1 / d)) * d - of_int n\<bar> \<le> 1 / 2"
    and "\<bar>rnd (rnd (of_int n * rnd (1 / d)) * d) - of_int n\<bar> < 1"
proof -
  let ?n = "of_int n :: rat" and ?p = "rnd (1 / d)"
  have p: "0 < ?p" "tiny \<le> ?p" using assms(4) by (simp_all add: rnd_pos tiny_le_rnd)
  have "\<bar>?p - 1 / d\<bar> \<le> 1 / d / 2 ^ 53" using rnd_rel_error [of "1 / d"] assms(3,4) by simp
  then have "\<bar>?p - 1 / d\<bar> * d \<le> 1 / d / 2 ^ 53 * d" using assms(3) by (intro mult_right_mono) simp_all
  then have "\<bar>(?p - 1 / d) * d\<bar> \<le> 1 / 2 ^ 53" using assms(3) by (simp add: abs_mult)
  then have pd: "\<bar>?p * d - 1\<bar> \<le> 1 / 2 ^ 53" using assms(3) by (simp add: left_diff_distrib)
  have "?n \<le> of_int (2 ^ 50)" using assms(2) by (simp only: of_int_le_iff)
  then have n: "?n \<le> 2 ^ 50" "0 \<le> ?n" using assms(1) by simp_all
  let ?q = "rnd (?n * ?p) / ?p"
  have q: "\<bar>?q - ?n\<bar> \<le> 1 / 8" by (rule rnd_scaled_close [OF assms(1,2) p(2)])
  have q1: "\<bar>?q\<bar> \<le> 2 ^ 50 + 1" using q n unfolding abs_le_iff by linarith
  have "rnd (?n * ?p) * d = ?q * (?p * d)" using p(1) by simp
  also have "\<dots> = ?q + ?q * (?p * d - 1)" by (simp add: right_diff_distrib)
  finally have e: "rnd (?n * ?p) * d - ?n = (?q - ?n) + ?q * (?p * d - 1)" by simp
  have "\<bar>?q * (?p * d - 1)\<bar> \<le> (2 ^ 50 + 1) * (1 / 2 ^ 53)"
    unfolding abs_mult by (intro mult_mono q1 pd) simp_all
  also have "(2 ^ 50 + 1) * (1 / 2 ^ 53) \<le> (1 / 4 :: rat)" by simp
  finally show b: "\<bar>rnd (?n * ?p) * d - ?n\<bar> \<le> 1 / 2" unfolding e using q by linarith
  have "0 \<le> rnd (?n * ?p) * d" using n(2) p(1) assms(3) by (simp add: rnd_nonneg)
  then have "\<bar>rnd (rnd (?n * ?p) * d) - ?n\<bar> \<le> 1 / 2 + 1 / 8 + 1 / 2 ^ 52"
    using assms(2) b by (intro rnd_close) simp_all
  then show "\<bar>rnd (rnd (?n * ?p) * d) - ?n\<bar> < 1" by simp
qed

text \<open>The number of units of a value.\<close>

lemma units_of_value:
  assumes "0 \<le> v" and "0 < d" and "v * d < 2 ^ 49" and "tiny \<le> 1 / d"
  shows "0 \<le> v / rnd (1 / d)" and "v / rnd (1 / d) \<le> 2 ^ 50"
    and "\<bar>round_away (rnd (v / rnd (1 / d))) - v * d\<bar> \<le> 3 / 4"
proof -
  let ?p = "rnd (1 / d)"
  have p: "0 < ?p" using assms(4) by (simp add: rnd_pos)
  note pl = rnd_rel_interval [OF assms(4)]
  define w where "w = v / ?p"
  have w0: "0 \<le> w" using assms(1) p by (simp add: w_def)
  have v: "v = w * ?p" using p by (simp add: w_def)
  have "w * (1 / d - 1 / d / 2 ^ 53) * d \<le> v * d" "v * d \<le> w * (1 / d + 1 / d / 2 ^ 53) * d"
    unfolding v using w0 pl assms(2) by (intro mult_right_mono mult_left_mono; simp)+
  then have vd: "w - w / 2 ^ 53 \<le> v * d" "v * d \<le> w + w / 2 ^ 53"
    using assms(2) by (simp_all add: right_diff_distrib left_diff_distrib distrib_left distrib_right)
  have w1: "w \<le> 2 ^ 49 + 1" using vd(1) assms(3) by simp
  then have ws: "w / 2 ^ 53 \<le> 3 / 32" by simp
  have "\<bar>rnd w - w\<bar> \<le> w / 2 ^ 53 + eta" using rnd_error [of w] w0 by simp
  then have "\<bar>rnd w - w\<bar> \<le> 4 / 32" using ws eta_small by simp
  then have "\<bar>rnd w - v * d\<bar> \<le> 1 / 4" using vd ws unfolding abs_le_iff by linarith
  with round_away_dist [of "rnd w"] have "\<bar>round_away (rnd w) - v * d\<bar> \<le> 3 / 4" by linarith
  then show "\<bar>round_away (rnd (v / ?p)) - v * d\<bar> \<le> 3 / 4" unfolding w_def .
  show "0 \<le> v / ?p" "v / ?p \<le> 2 ^ 50" using w0 w1 unfolding w_def by simp_all
qed

section \<open>Values\<close>

lemma Fin_le [simp]: "Fin x \<le> Fin y \<longleftrightarrow> x \<le> y"
  by (auto simp: less_eq_float64_def f64_le_def)

lemma between_Fin: "Fin a \<le> x \<Longrightarrow> x \<le> Fin b \<Longrightarrow> \<exists>q. x = Fin q \<and> a \<le> q \<and> q \<le> b"
  by (cases x) (auto simp: less_eq_float64_def f64_le_def)

lemma Fin_ops [simp]:
  "f64_add (Fin x) (Fin y) = f64_of (x + y)" "f64_sub (Fin x) (Fin y) = f64_of (x - y)"
  "f64_mul (Fin x) (Fin y) = f64_of (x * y)" "y \<noteq> 0 \<Longrightarrow> f64_div (Fin x) (Fin y) = f64_of (x / y)"
  "math_Abs (Fin x) = Fin \<bar>x\<bar>" "math_Round (Fin x) = Fin (round_away x)"
  by (simp_all add: f64_add_def f64_sub_def f64_mul_def f64_div_def math_Abs_def math_Round_def)

text \<open>A result below the largest power of two that is a finite value does not overflow.\<close>

lemma rnd_abs_le: "is_float b \<Longrightarrow> \<bar>x\<bar> \<le> b \<Longrightarrow> \<bar>rnd x\<bar> \<le> b"
  using rnd_le_float [of b x] rnd_le_float [of b "- x"] by (simp add: abs_le_iff)

lemma f64_of_Fin:
  assumes "\<bar>x\<bar> \<le> 2 ^ 1023"
  shows "f64_of x = Fin (rnd x)"
proof -
  have "is_float (2 ^ 1023)" using is_float_pow2 [of 1023] by (simp only: power_int_numeral)
  from rnd_abs_le [OF this assms] have "\<bar>rnd x\<bar> < 2 ^ 1024"
    by (rule order_le_less_trans) (rule power_strict_increasing, simp_all)
  then show ?thesis by (simp add: f64_of_def Let_def)
qed

lemma f64_of_small: "\<bar>x\<bar> \<le> 2 ^ 100 \<Longrightarrow> f64_of x = Fin (rnd x)"
  by (rule f64_of_Fin) (erule order_trans, rule power_increasing, simp_all)

lemma f64_of_cases:
  obtains "f64_of x = Fin (rnd x)" | "0 < x" "f64_of x = PInf" | "x < 0" "f64_of x = NInf"
proof -
  have "rnd x \<le> 0" if "x \<le> 0" using rnd_mono [OF that] by simp
  moreover have "0 \<le> rnd x" if "0 \<le> x" using rnd_mono [OF that] by simp
  ultimately show thesis using that by (cases "\<bar>rnd x\<bar> < 2 ^ 1024"; cases "0 < rnd x") (force simp: f64_of_def Let_def)+
qed

end
