(* ===== verification/Price_Aggregator.thy ===== *)
theory Price_Aggregator
  imports Go_Encoding Float64
begin

text \<open>
  The price aggregation of the package \<^verbatim>\<open>aggregator\<close>: \<^verbatim>\<open>computers.go\<close> and \<^verbatim>\<open>priceAggregator.go\<close>. A price
  fetcher is the function that answers a request for a pair during the call. \<^verbatim>\<open>FetchPrice\<close> runs one
  goroutine per fetcher; \<open>order\<close> is the order in which the goroutines take the mutex, a permutation
  of the fetchers. The lemmas show that this order does not matter and that a majority of honest
  fetchers determines the price, whatever the others answer, NaN and infinity included.
\<close>

section \<open>Median\<close>

definition minNumberOfElementsToComputeMedian :: nat where "minNumberOfElementsToComputeMedian = 1"

definition computeMedian :: "float64 list \<Rightarrow> float64 result" where
  "computeMedian nums0 =
     (if length nums0 < minNumberOfElementsToComputeMedian
      then Inl (EAggregator Aggregator_ErrInvalidNumOfElementsToComputeMedian)
      else
        let nums = sort nums0;
            numsLen = length nums;
            mid = numsLen div 2
        in if odd numsLen then Inr (nums ! mid)
           else Inr (f64_div (f64_add (nums ! (mid - 1)) (nums ! mid)) (Fin 2)))"

section \<open>Price aggregator\<close>

type_synonym price_fetcher = "string \<Rightarrow> string \<Rightarrow> float64 result"

definition minResultsNum :: int where "minResultsNum = 1"

record priceAggregator =
  pa_priceFetchers :: "price_fetcher list"
  pa_minResultsNum :: int

definition pa_checkArgs :: "price_fetcher option list \<Rightarrow> int \<Rightarrow> go_error option" where
  "pa_checkArgs priceFetchers minResults =
     (if minResults < minResultsNum
      then Some (Errorf [] (EAggregator Aggregator_ErrInvalidMinNumberOfResults)
        ('', provided: '' @ dec_of_int minResults @ '', minimum accepted: '' @ dec_of_int minResultsNum))
      else if int (length priceFetchers) < minResults
      then Some (Errorf [] (EAggregator Aggregator_ErrInvalidNumberOfPriceFetchers)
        ('', len(args.PriceFetchers): '' @ dec_of_nat (length priceFetchers) @ '', MinResultsNum: '' @ dec_of_int minResults))
      else case filter (\<lambda>i. Option.is_none (priceFetchers ! i)) [0..<length priceFetchers] of
        [] \<Rightarrow> None
      | idx # _ \<Rightarrow> Some (Errorf [] (EAggregator Aggregator_ErrNilPriceFetcher) ('', index: '' @ dec_of_nat idx)))"

definition NewPriceAggregator :: "price_fetcher option list \<Rightarrow> int \<Rightarrow> priceAggregator result" where
  "NewPriceAggregator priceFetchers minResults = (case pa_checkArgs priceFetchers minResults of
     Some err \<Rightarrow> Inl err
   | None \<Rightarrow> Inr \<lparr>pa_priceFetchers = map the priceFetchers, pa_minResultsNum = minResults\<rparr>)"

text \<open>The goroutine of one fetcher: an error is logged, a price is appended.\<close>

definition fetch_one :: "string \<Rightarrow> string \<Rightarrow> price_fetcher \<Rightarrow> float64 list \<Rightarrow> float64 list" where
  "fetch_one baseUpper quoteUpper pf prices = (case pf baseUpper quoteUpper of
     Inl err \<Rightarrow> prices
   | Inr price \<Rightarrow> prices @ [price])"

definition pa_FetchPrice :: "priceAggregator \<Rightarrow> nat list \<Rightarrow> string \<Rightarrow> string \<Rightarrow> float64 result" where
  "pa_FetchPrice pa order base quote =
     (let baseUpper = strings_ToUpper base;
          quoteUpper = strings_ToUpper quote;
          prices = fold (\<lambda>i. fetch_one baseUpper quoteUpper (pa_priceFetchers pa ! i)) order []
      in if int (length prices) < pa_minResultsNum pa then Inl (EAggregator Aggregator_ErrNotEnoughResponses)
         else computeMedian prices)"

definition pa_Name :: string where "pa_Name = ''price aggregator''"

section \<open>Specification\<close>

text \<open>The answers of the fetchers, in the order of the fetchers, and the order in which the goroutines
  may finish.\<close>

definition answers :: "priceAggregator \<Rightarrow> string \<Rightarrow> string \<Rightarrow> float64 list" where
  "answers pa base quote = List.map_filter (\<lambda>pf. case pf (strings_ToUpper base) (strings_ToUpper quote) of Inl _ \<Rightarrow> None | Inr p \<Rightarrow> Some p)
     (pa_priceFetchers pa)"

definition fetch_order :: "priceAggregator \<Rightarrow> nat list \<Rightarrow> bool" where
  "fetch_order pa order \<longleftrightarrow> mset order = mset [0..<length (pa_priceFetchers pa)]"

definition in_range :: "rat \<Rightarrow> rat \<Rightarrow> float64 \<Rightarrow> bool" where
  "in_range a b x \<longleftrightarrow> Fin a \<le> x \<and> x \<le> Fin b"

definition demo_aggregator :: priceAggregator where
  "demo_aggregator = \<lparr>pa_priceFetchers = [\<lambda>b q. Inr (Fin 10), \<lambda>b q. Inr NaN, \<lambda>b q. Inl (EAggregator Aggregator_ErrPairNotSupported),
     \<lambda>b q. Inr (Fin 12), \<lambda>b q. Inr (Fin 11)], pa_minResultsNum = 3\<rparr>"

section \<open>Lemmas\<close>

lemma computeMedian_mset:
  assumes "mset xs = mset ys"
  shows "computeMedian xs = computeMedian ys"
proof -
  have "sort xs = sort ys" using assms by (simp add: properties_for_sort)
  moreover have "length xs = length ys" using assms by (rule mset_eq_length)
  ultimately show ?thesis by (simp add: computeMedian_def)
qed

lemma fetch_fold:
  "fold (\<lambda>i. fetch_one b q (fs ! i)) is acc
     = acc @ List.map_filter (\<lambda>pf. case pf b q of Inl _ \<Rightarrow> None | Inr p \<Rightarrow> Some p) (map ((!) fs) is)"
  by (induction "is" arbitrary: acc) (auto simp: fetch_one_def map_filter_simps split: sum.splits)

lemma mset_map_filter: "mset (List.map_filter f xs) = image_mset (the \<circ> f) (filter_mset (\<lambda>x. f x \<noteq> None) (mset xs))"
  by (simp add: List.map_filter_def)

lemma pa_FetchPrice_answers:
  assumes "fetch_order pa order"
  shows "pa_FetchPrice pa order base quote =
    (if int (length (answers pa base quote)) < pa_minResultsNum pa then Inl (EAggregator Aggregator_ErrNotEnoughResponses)
     else computeMedian (answers pa base quote))"
proof -
  let ?fs = "pa_priceFetchers pa"
  have "mset (map ((!) ?fs) order) = image_mset ((!) ?fs) (mset [0..<length ?fs])"
    using assms by (simp add: fetch_order_def)
  also have "\<dots> = mset (map ((!) ?fs) [0..<length ?fs])" by (simp only: mset_map)
  finally have m: "mset (map ((!) ?fs) order) = mset ?fs" by (simp only: map_nth)
  have "mset (fold (\<lambda>i. fetch_one (strings_ToUpper base) (strings_ToUpper quote) (?fs ! i)) order []) = mset (answers pa base quote)"
    unfolding fetch_fold answers_def append_Nil mset_map_filter m ..
  from computeMedian_mset [OF this] mset_eq_length [OF this] show ?thesis
    unfolding pa_FetchPrice_def Let_def by presburger
qed

subsection \<open>Order statistics\<close>

text \<open>An element below all elements of a class leaves the class no room before it.\<close>

lemma sorted_low:
  fixes xs :: "'a :: linorder list"
  assumes "sorted xs" and "k < length xs" and "xs ! k < a" and "\<And>x. P x \<Longrightarrow> a \<le> x"
  shows "length (filter P xs) \<le> length xs - Suc k"
proof -
  have "filter P (take (Suc k) xs) = []"
  proof -
    have "x \<le> xs ! k" if "x \<in> set (take (Suc k) xs)" for x
      using that assms(1,2) by (auto simp: in_set_conv_nth less_Suc_eq_le intro: sorted_nth_mono)
    then show ?thesis using assms(3,4) by (metis filter_False leD order_le_less_trans)
  qed
  then have "filter P xs = filter P (drop (Suc k) xs)"
    by (metis append_Nil append_take_drop_id filter_append)
  then show ?thesis by (metis length_drop length_filter_le)
qed

lemma sorted_high:
  fixes xs :: "'a :: linorder list"
  assumes "sorted xs" and "k < length xs" and "b < xs ! k" and "\<And>x. P x \<Longrightarrow> x \<le> b"
  shows "length (filter P xs) \<le> k"
proof -
  have "filter P (drop k xs) = []"
  proof -
    have "xs ! k \<le> x" if "x \<in> set (drop k xs)" for x
      using that assms(1,2) by (auto simp: in_set_conv_nth intro: sorted_nth_mono)
    then show ?thesis using assms(3,4) by (metis filter_False leD order_less_le_trans)
  qed
  then have "filter P xs = filter P (take k xs)"
    by (metis append_Nil2 append_take_drop_id filter_append)
  then show ?thesis by (metis length_filter_le length_take min.bounded_iff)
qed

text \<open>The middle of a list lies in every interval that contains more than half of the list.\<close>

lemma middle_within:
  fixes xs :: "float64 list"
  assumes "length xs < 2 * length (filter (in_range a b) xs)" and "(length xs - 1) div 2 \<le> k" and "k \<le> length xs div 2"
  shows "in_range a b (sort xs ! k)"
proof -
  have n: "length (filter (in_range a b) (sort xs)) = length (filter (in_range a b) xs)"
    by (metis mset_filter mset_sort size_mset)
  have "length xs \<noteq> 0" using assms(1) by (metis filter.simps(1) length_0_conv mult_0_right not_less_zero)
  then have k: "k < length (sort xs)" using assms(3) by (simp only: length_sort)
  have "\<not> sort xs ! k < Fin a"
    using sorted_low [OF sorted_sort k, of "Fin a" "in_range a b"] assms(1,2) n by (auto simp: in_range_def)
  moreover have "\<not> Fin b < sort xs ! k"
    using sorted_high [OF sorted_sort k, of "Fin b" "in_range a b"] assms(1,3) n by (auto simp: in_range_def)
  ultimately show ?thesis by (simp add: in_range_def not_less)
qed

lemma within_Fin: "in_range a b x \<Longrightarrow> \<exists>q. x = Fin q \<and> a \<le> q \<and> q \<le> b"
  by (simp add: in_range_def between_Fin)

text \<open>The mean of two prices cannot overflow when the bounds of the interval are at most \<open>2 ^ 1022\<close>.\<close>

lemma mean_within:
  assumes "is_float a" and "is_float b" and "- (2 ^ 1022) \<le> a" and "b \<le> 2 ^ 1022"
    and "in_range a b x" and "in_range a b y"
  shows "in_range a b (f64_div (f64_add x y) (Fin 2))"
proof -
  obtain p q where xy: "x = Fin p" "y = Fin q" "a \<le> p" "p \<le> b" "a \<le> q" "q \<le> b"
    using assms(5,6) by (metis within_Fin)
  have r: "2 * a \<le> rnd (p + q)" "rnd (p + q) \<le> 2 * b"
    using xy assms(1,2) by (auto intro: float_le_rnd rnd_le_float is_float_double)
  then have "a \<le> rnd (rnd (p + q) / 2)" "rnd (rnd (p + q) / 2) \<le> b"
    using assms(1,2) by (auto intro: float_le_rnd rnd_le_float)
  moreover have two: "2 * 2 ^ 1022 = (2 ^ 1023 :: rat)" by (rule power_Suc [symmetric, of 2 1022, simplified])
  then have "f64_of (p + q) = Fin (rnd (p + q))"
    using xy assms(3,4) by (intro f64_of_Fin abs_leI) linarith+
  moreover have "f64_of (rnd (p + q) / 2) = Fin (rnd (rnd (p + q) / 2))"
    using r assms(3,4) two by (intro f64_of_Fin abs_leI) linarith+
  ultimately show ?thesis by (simp add: xy in_range_def)
qed

lemma computeMedian_within:
  assumes "is_float a" and "is_float b" and "length xs < 2 * length (filter (in_range a b) xs)"
    and "- (2 ^ 1022) \<le> a" and "b \<le> 2 ^ 1022"
  shows "\<exists>m. computeMedian xs = Inr m \<and> in_range a b m"
proof -
  have "xs \<noteq> []" using assms(3) by auto
  then have n: "\<not> length xs < minNumberOfElementsToComputeMedian" by (cases xs) (simp_all add: minNumberOfElementsToComputeMedian_def)
  have mid: "in_range a b (sort xs ! (length xs div 2))"
    using assms(3) by (rule middle_within) auto
  show ?thesis
  proof (cases "odd (length xs)")
    case True
    then show ?thesis using n mid by (simp add: computeMedian_def Let_def)
  next
    case False
    then have "in_range a b (sort xs ! (length xs div 2 - 1))"
      using assms(3) \<open>xs \<noteq> []\<close> by (intro middle_within) (auto simp: even_iff_mod_2_eq_zero elim!: evenE)
    then show ?thesis using n mid False mean_within [OF assms(1,2,4,5)] by (simp add: computeMedian_def Let_def)
  qed
qed

lemma demo_fetch_order: "fetch_order demo_aggregator [4, 0, 1, 3, 2]"
proof -
  have "length (pa_priceFetchers demo_aggregator) = 5" by (simp add: demo_aggregator_def)
  moreover have "mset [4, 0, 1, 3, 2 :: nat] = mset [0..<5]" by code_simp
  ultimately show ?thesis unfolding fetch_order_def by simp
qed

section \<open>Properties\<close>

text \<open>C11. The aggregated price: in whatever order the fetchers finish, the result is the median of the
  answers that are not errors, as long as there are enough of them.\<close>

theorem FetchPrice_order_irrelevant:
  assumes "fetch_order pa order"
  shows "pa_FetchPrice pa order base quote =
    (let xs = sort (answers pa base quote); n = length xs
     in if int n < pa_minResultsNum pa then Inl (EAggregator Aggregator_ErrNotEnoughResponses)
        else if n = 0 then Inl (EAggregator Aggregator_ErrInvalidNumOfElementsToComputeMedian)
        else if odd n then Inr (xs ! (n div 2))
        else Inr (f64_div (f64_add (xs ! (n div 2 - 1)) (xs ! (n div 2))) (Fin 2)))"
  using pa_FetchPrice_answers [OF assms]
  by (simp add: computeMedian_def minNumberOfElementsToComputeMedian_def Let_def)

theorem FetchPrice_order_irrelevant_witness:
  "pa_FetchPrice demo_aggregator [4, 0, 1, 3, 2] ''egld'' ''usd'' =
    (let xs = sort (answers demo_aggregator ''egld'' ''usd''); n = length xs
     in if int n < pa_minResultsNum demo_aggregator then Inl (EAggregator Aggregator_ErrNotEnoughResponses)
        else if n = 0 then Inl (EAggregator Aggregator_ErrInvalidNumOfElementsToComputeMedian)
        else if odd n then Inr (xs ! (n div 2))
        else Inr (f64_div (f64_add (xs ! (n div 2 - 1)) (xs ! (n div 2))) (Fin 2)))"
proof -
  have "fetch_order demo_aggregator [4, 0, 1, 3, 2]"
    by (rule demo_fetch_order)
  then show ?thesis by (rule FetchPrice_order_irrelevant)
qed

text \<open>C7. A majority decides: when more than half of the answers lie between two prices, the aggregated
  price is a number between them, whatever the other fetchers answer. The bounds are such that the sum
  of two prices between them does not overflow.\<close>

theorem FetchPrice_majority:
  assumes "fetch_order pa order" and "is_float a" and "is_float b"
    and "length (answers pa base quote) < 2 * length (filter (in_range a b) (answers pa base quote))"
    and "pa_minResultsNum pa \<le> int (length (answers pa base quote))"
    and "- (2 ^ 1022) \<le> a" and "b \<le> 2 ^ 1022"
  shows "\<exists>p. pa_FetchPrice pa order base quote = Inr (Fin p) \<and> a \<le> p \<and> p \<le> b"
proof -
  obtain m where m: "computeMedian (answers pa base quote) = Inr m" "in_range a b m"
    using computeMedian_within [OF assms(2-4,6,7)] by blast
  with within_Fin [OF m(2)] pa_FetchPrice_answers [OF assms(1)] assms(5) show ?thesis by auto
qed

theorem FetchPrice_majority_witness:
  "\<exists>p. pa_FetchPrice demo_aggregator [4, 0, 1, 3, 2] ''egld'' ''usd'' = Inr (Fin p) \<and> 10 \<le> p \<and> p \<le> 12"
proof (rule FetchPrice_majority)
  show "fetch_order demo_aggregator [4, 0, 1, 3, 2]"
    by (rule demo_fetch_order)
  show "is_float 10" "is_float 12" using is_float_int [of 10] is_float_int [of 12] by simp_all
  have "answers demo_aggregator ''egld'' ''usd'' = [Fin 10, NaN, Fin 12, Fin 11]"
    by (simp add: answers_def demo_aggregator_def map_filter_simps)
  then show "length (answers demo_aggregator ''egld'' ''usd'') < 2 * length (filter (in_range 10 12) (answers demo_aggregator ''egld'' ''usd''))"
    "pa_minResultsNum demo_aggregator \<le> int (length (answers demo_aggregator ''egld'' ''usd''))"
    by (simp_all add: in_range_def less_eq_float64_def f64_le_def demo_aggregator_def)
qed simp_all

end
