(* ===== verification/Price_Fetchers.thy ===== *)
theory Price_Fetchers
  imports Http_Base Price_Aggregator
begin

text \<open>
  The price fetchers of \<^verbatim>\<open>aggregator/fetchers\<close> and the response getters of
  \<^verbatim>\<open>aggregator/httpResponseGetter.go\<close> and \<^verbatim>\<open>aggregator/graphqlResponseGetter.go\<close>. A response getter fills the response struct of the fetcher that
  calls it, so \<open>response_getter\<close> has one function per struct, giving what the struct holds after the
  call. \<^verbatim>\<open>strconv.ParseFloat\<close>, \<^verbatim>\<open>fmt.Sscanf\<close> with \<^verbatim>\<open>%d\<close>, \<^verbatim>\<open>fmt.Sprintf\<close> of a bare format and the JSON codec of the
  graphql request are fields of \<open>fetch_lib\<close>. A panic, from indexing an empty slice of prices, is
  \<open>None\<close>.
\<close>

section \<open>Names and pairs\<close>

definition quoteUSDFiat :: string where "quoteUSDFiat = ''USD''"
definition quoteUSDT :: string where "quoteUSDT = ''USDT''"

definition BinanceName :: string where "BinanceName = ''Binance''"
definition BitfinexName :: string where "BitfinexName = ''Bitfinex''"
definition CryptocomName :: string where "CryptocomName = ''Crypto.com''"
definition GeminiName :: string where "GeminiName = ''Gemini''"
definition HitbtcName :: string where "HitbtcName = ''HitBTC''"
definition HuobiName :: string where "HuobiName = ''Huobi''"
definition KrakenName :: string where "KrakenName = ''Kraken''"
definition OkxName :: string where "OkxName = ''Okx''"
definition XExchangeName :: string where "XExchangeName = ''XExchange''"
definition EVMGasPriceStation :: string where "EVMGasPriceStation = ''EVM gas price station''"

record baseFetcher =
  bf_knownPairs :: "string \<rightharpoonup> unit"

definition newBaseFetcher :: baseFetcher where
  "newBaseFetcher = \<lparr>bf_knownPairs = Map.empty\<rparr>"

definition normalizeQuoteName :: "string \<Rightarrow> string \<Rightarrow> string" where
  "normalizeQuoteName quote fetcherName =
     (if strings_Contains quote quoteUSDFiat then
        (if fetcherName \<in> set [BinanceName, CryptocomName, HitbtcName, HuobiName, OkxName] then quoteUSDT else quoteUSDFiat)
      else quote)"

definition getPairKey :: "string \<Rightarrow> string \<Rightarrow> string" where
  "getPairKey base quote = base @ ''-'' @ quote"

definition AddPair :: "string \<Rightarrow> string \<Rightarrow> baseFetcher \<Rightarrow> baseFetcher" where
  "AddPair base quote b = b\<lparr>bf_knownPairs := (bf_knownPairs b)(getPairKey base quote \<mapsto> ())\<rparr>"

definition hasPair :: "string \<Rightarrow> string \<Rightarrow> baseFetcher \<Rightarrow> bool" where
  "hasPair base quote b \<longleftrightarrow> bf_knownPairs b (getPairKey base quote) \<noteq> None"

section \<open>Responses\<close>

record binancePriceRequest =
  bpr_Symbol :: string
  bpr_Price :: string

record bitfinexPriceRequest =
  bit_Price :: string

record cryptocomPriceRequest =
  cpr_Data :: "string list"

record geminiPriceRequest =
  gpr_Price :: string

record hitbtcPriceRequest =
  hbr_Price :: string

record huobiPriceRequest =
  hpr_Price :: float64

record krakenPriceRequest =
  kpr_Result :: "string \<rightharpoonup> string list"

record okxPriceRequest =
  opr_Data :: "string list"

record gasStationResponse =
  gs_SafeGasPrice :: string
  gs_ProposeGasPrice :: string
  gs_FastGasPrice :: string

record response_getter =
  rg_binance :: "string \<Rightarrow> binancePriceRequest result"
  rg_bitfinex :: "string \<Rightarrow> bitfinexPriceRequest result"
  rg_cryptocom :: "string \<Rightarrow> cryptocomPriceRequest result"
  rg_gemini :: "string \<Rightarrow> geminiPriceRequest result"
  rg_hitbtc :: "string \<Rightarrow> hitbtcPriceRequest result"
  rg_huobi :: "string \<Rightarrow> huobiPriceRequest result"
  rg_kraken :: "string \<Rightarrow> krakenPriceRequest result"
  rg_okx :: "string \<Rightarrow> okxPriceRequest result"
  rg_gasStation :: "string \<Rightarrow> gasStationResponse result"

record XExchangeTokensPair =
  xp_Base :: string
  xp_Quote :: string

record EVMGasPriceFetcherConfig =
  gc_ApiURL :: string
  gc_Selector :: string

record fetch_lib =
  fl_ParseFloat :: "string \<Rightarrow> float64 result"
  fl_Sscanf :: "string \<Rightarrow> int \<times> go_error option"
  fl_Sprintf :: "string \<Rightarrow> string"
  fl_MarshalVariables :: "string \<Rightarrow> string \<Rightarrow> byte list result"
  fl_UnmarshalGraphql :: "byte list \<Rightarrow> float64 list result"

text \<open>\<^verbatim>\<open>httpResponseGetter.Get\<close>: \<open>zero\<close> is the response struct before the call, which a failed read of the
  body leaves unchanged without an error.\<close>

definition rg_Get :: "http_transport \<Rightarrow> (byte list \<Rightarrow> 'r result) \<Rightarrow> 'r \<Rightarrow> string \<Rightarrow> 'r result" where
  "rg_Get client unmarshal zero url = (case ht_CheckURL client url of
     Some err \<Rightarrow> Inl err
   | None \<Rightarrow> (case ht_Do client \<lparr>rq_method = ''GET'', rq_url = url, rq_body = None, rq_header = Map.empty\<rparr> of
       Inl err \<Rightarrow> Inl err
     | Inr resp \<Rightarrow> (case rs_readErr resp of
         Some err \<Rightarrow> Inr zero
       | None \<Rightarrow> unmarshal (rs_body resp))))"

text \<open>\<^verbatim>\<open>graphqlResponseGetter\<close>: \<open>token\<close> is what \<^verbatim>\<open>GetAccessToken\<close> of the authentication client answers,
  \<open>oauth_client\<close> the client that \<^verbatim>\<open>oauth2.NewClient\<close> makes for a token, \<open>marshal\<close> the JSON encoding of the
  request. The body is returned as far as it was read; a read error is dropped.\<close>

record graphQLRequest =
  gq_Query :: string
  gq_Variables :: string

definition NewGraphqlResponseGetter :: "'a option \<Rightarrow> 'a result" where
  "NewGraphqlResponseGetter authClient = (case authClient of
     None \<Rightarrow> Inl (EAggregator Aggregator_ErrNilAuthClient)
   | Some c \<Rightarrow> Inr c)"

definition gg_Query ::
  "string result \<Rightarrow> (string \<Rightarrow> http_transport) \<Rightarrow> (graphQLRequest \<Rightarrow> byte list result) \<Rightarrow>
   string \<Rightarrow> string \<Rightarrow> string \<Rightarrow> byte list result" where
  "gg_Query token oauth_client marshal url query variables = on_ok token (\<lambda>accessToken.
     let client = oauth_client accessToken;
         request = \<lparr>gq_Query = query, gq_Variables = variables\<rparr>
     in on_ok (marshal request) (\<lambda>gqlMarshalled.
       case ht_CheckURL client url of
         Some err \<Rightarrow> Inl err
       | None \<Rightarrow> (case ht_Do client \<lparr>rq_method = ''POST'', rq_url = url, rq_body = Some gqlMarshalled,
                          rq_header = [''Content-Type'' \<mapsto> ''application/json'']\<rparr> of
           Inl err \<Rightarrow> Inl err
         | Inr resp \<Rightarrow> Inr (rs_body resp))))"

section \<open>Fetchers\<close>

definition StrToPositiveFloat64 :: "fetch_lib \<Rightarrow> string \<Rightarrow> float64 result" where
  "StrToPositiveFloat64 lib v = on_ok (fl_ParseFloat lib v) (\<lambda>vFloat.
     if f64_le vFloat (Fin 0) then Inl (EFetchers Fetchers_errInvalidResponseData) else Inr vFloat)"

definition binance_FetchPrice :: "fetch_lib \<Rightarrow> response_getter \<Rightarrow> baseFetcher \<Rightarrow> string \<Rightarrow> string \<Rightarrow> float64 result" where
  "binance_FetchPrice lib rg b base quote0 =
     (if \<not> hasPair base quote0 b then Inl (EAggregator Aggregator_ErrPairNotSupported)
      else
        let quote = normalizeQuoteName quote0 BinanceName
        in on_ok (rg_binance rg (''https://api.binance.com/api/v3/ticker/price?symbol='' @ base @ quote)) (\<lambda>r.
             if bpr_Price r = [] then Inl (EFetchers Fetchers_errInvalidResponseData)
             else StrToPositiveFloat64 lib (bpr_Price r)))"

definition maxBaseLength :: nat where "maxBaseLength = 3"

definition bitfinex_FetchPrice :: "fetch_lib \<Rightarrow> response_getter \<Rightarrow> baseFetcher \<Rightarrow> string \<Rightarrow> string \<Rightarrow> float64 result" where
  "bitfinex_FetchPrice lib rg b base quote0 =
     (if \<not> hasPair base quote0 b then Inl (EAggregator Aggregator_ErrPairNotSupported)
      else
        let quote = normalizeQuoteName quote0 BitfinexName;
            url = (if length base > maxBaseLength then ''https://api.bitfinex.com/v1/pubticker/'' @ base @ '':'' @ quote
                   else ''https://api.bitfinex.com/v1/pubticker/'' @ base @ quote)
        in on_ok (rg_bitfinex rg url) (\<lambda>r.
             if bit_Price r = [] then Inl (EFetchers Fetchers_errInvalidResponseData)
             else StrToPositiveFloat64 lib (bit_Price r)))"

definition cryptocom_FetchPrice :: "fetch_lib \<Rightarrow> response_getter \<Rightarrow> baseFetcher \<Rightarrow> string \<Rightarrow> string \<Rightarrow> float64 result" where
  "cryptocom_FetchPrice lib rg b base quote0 =
     (if \<not> hasPair base quote0 b then Inl (EAggregator Aggregator_ErrPairNotSupported)
      else
        let quote = normalizeQuoteName quote0 CryptocomName
        in on_ok (rg_cryptocom rg (''https://api.crypto.com/v2/public/get-ticker?instrument_name='' @ base @ ''_'' @ quote)) (\<lambda>r. case cpr_Data r of
             [] \<Rightarrow> Inl (EFetchers Fetchers_errInvalidResponseData)
           | price # _ \<Rightarrow>
               if price = [] then Inl (EFetchers Fetchers_errInvalidResponseData)
               else StrToPositiveFloat64 lib price))"

definition gemini_FetchPrice :: "fetch_lib \<Rightarrow> response_getter \<Rightarrow> baseFetcher \<Rightarrow> string \<Rightarrow> string \<Rightarrow> float64 result" where
  "gemini_FetchPrice lib rg b base quote0 =
     (if \<not> hasPair base quote0 b then Inl (EAggregator Aggregator_ErrPairNotSupported)
      else
        let quote = normalizeQuoteName quote0 GeminiName
        in on_ok (rg_gemini rg (''https://api.gemini.com/v2/ticker/'' @ base @ quote)) (\<lambda>r.
             if gpr_Price r = [] then Inl (EFetchers Fetchers_errInvalidResponseData)
             else StrToPositiveFloat64 lib (gpr_Price r)))"

definition hitbtc_FetchPrice :: "fetch_lib \<Rightarrow> response_getter \<Rightarrow> baseFetcher \<Rightarrow> string \<Rightarrow> string \<Rightarrow> float64 result" where
  "hitbtc_FetchPrice lib rg b base quote0 =
     (if \<not> hasPair base quote0 b then Inl (EAggregator Aggregator_ErrPairNotSupported)
      else
        let quote = normalizeQuoteName quote0 HitbtcName
        in on_ok (rg_hitbtc rg (''https://api.hitbtc.com/api/3/public/ticker/'' @ base @ quote)) (\<lambda>r.
             if hbr_Price r = [] then Inl (EFetchers Fetchers_errInvalidResponseData)
             else StrToPositiveFloat64 lib (hbr_Price r)))"

definition huobi_FetchPrice :: "fetch_lib \<Rightarrow> response_getter \<Rightarrow> baseFetcher \<Rightarrow> string \<Rightarrow> string \<Rightarrow> float64 result" where
  "huobi_FetchPrice lib rg b base quote0 =
     (if \<not> hasPair base quote0 b then Inl (EAggregator Aggregator_ErrPairNotSupported)
      else
        let quote = normalizeQuoteName quote0 HuobiName
        in on_ok (rg_huobi rg (''https://api.huobi.pro/market/detail/merged?symbol='' @ strings_ToLower base @ strings_ToLower quote)) (\<lambda>r.
             if f64_le (hpr_Price r) (Fin 0) then Inl (EFetchers Fetchers_errInvalidResponseData)
             else Inr (hpr_Price r)))"

text \<open>\<open>ks\<close> is the order in which the loop visits the pairs of the response.\<close>

fun kraken_loop :: "fetch_lib \<Rightarrow> string \<Rightarrow> string \<Rightarrow> (string \<rightharpoonup> string list) \<Rightarrow> string list \<Rightarrow> float64 result option" where
  "kraken_loop lib base quote res [] = Some (Inl (EFetchers Fetchers_errInvalidResponseData))"
| "kraken_loop lib base quote res (k # ks) =
     (if k = [] then Some (Inl (EFetchers Fetchers_errInvalidResponseData))
      else case the (res k) of
        [] \<Rightarrow> None
      | price # _ \<Rightarrow>
          if price = [] then Some (Inl (EFetchers Fetchers_errInvalidResponseData))
          else if strings_Contains k base \<or> strings_Contains k quote then Some (StrToPositiveFloat64 lib price)
          else kraken_loop lib base quote res ks)"

definition kraken_FetchPrice ::
  "fetch_lib \<Rightarrow> response_getter \<Rightarrow> ((string \<rightharpoonup> string list) \<Rightarrow> string list) \<Rightarrow> baseFetcher \<Rightarrow> string \<Rightarrow> string \<Rightarrow> float64 result option" where
  "kraken_FetchPrice lib rg visit b base quote0 =
     (if \<not> hasPair base quote0 b then Some (Inl (EAggregator Aggregator_ErrPairNotSupported))
      else
        let quote = normalizeQuoteName quote0 KrakenName
        in case rg_kraken rg (''https://api.kraken.com/0/public/Ticker?pair='' @ base @ quote) of
             Inl err \<Rightarrow> Some (Inl err)
           | Inr r \<Rightarrow> if visit (kpr_Result r) = [] then Some (Inl (EFetchers Fetchers_errInvalidResponseData))
               else kraken_loop lib base quote (kpr_Result r) (visit (kpr_Result r)))"

definition okx_FetchPrice :: "fetch_lib \<Rightarrow> response_getter \<Rightarrow> baseFetcher \<Rightarrow> string \<Rightarrow> string \<Rightarrow> float64 result" where
  "okx_FetchPrice lib rg b base quote0 =
     (if \<not> hasPair base quote0 b then Inl (EAggregator Aggregator_ErrPairNotSupported)
      else
        let quote = normalizeQuoteName quote0 OkxName
        in on_ok (rg_okx rg (''https://www.okx.com/api/v5/market/ticker?instId='' @ base @ ''-'' @ quote)) (\<lambda>r. case opr_Data r of
             [] \<Rightarrow> Inl (EFetchers Fetchers_errInvalidResponseData)
           | price # _ \<Rightarrow>
               if price = [] then Inl (EFetchers Fetchers_errInvalidResponseData)
               else StrToPositiveFloat64 lib price))"

type_synonym graphql_query = "string \<Rightarrow> string \<Rightarrow> string \<Rightarrow> byte list result"

definition dataApiUrl :: string where "dataApiUrl = ''https://tools.multiversx.com/data-api/graphql''"

definition xquery :: string where
  "xquery = ''query MaiarPriceUrl($base: String!, $quote: String!) { trading { pair(first_token: $base, second_token: $quote) { price { last time } } } }''"

definition fetchXExchangeTokensPair :: "(string \<rightharpoonup> XExchangeTokensPair) \<Rightarrow> string \<Rightarrow> string \<Rightarrow> XExchangeTokensPair option" where
  "fetchXExchangeTokensPair tokens base quote = tokens (base @ ''-'' @ quote)"

definition xExchange_FetchPrice ::
  "fetch_lib \<Rightarrow> graphql_query \<Rightarrow> (string \<rightharpoonup> XExchangeTokensPair) \<Rightarrow> baseFetcher \<Rightarrow> string \<Rightarrow> string \<Rightarrow> float64 result option" where
  "xExchange_FetchPrice lib queryGraphql tokens b base quote =
     (if \<not> hasPair base quote b then Some (Inl (EAggregator Aggregator_ErrPairNotSupported))
      else case fetchXExchangeTokensPair tokens base quote of
        None \<Rightarrow> Some (Inl (EFetchers Fetchers_errInvalidPair))
      | Some tp \<Rightarrow> (case fl_MarshalVariables lib (xp_Base tp) (xp_Quote tp) of
          Inl err \<Rightarrow> Some (Inl err)
        | Inr vars \<Rightarrow> (case queryGraphql dataApiUrl xquery (string_of_bytes vars) of
            Inl err \<Rightarrow> Some (Inl err)
          | Inr resp \<Rightarrow> (case fl_UnmarshalGraphql lib resp of
              Inl _ \<Rightarrow> Some (Inl (EFetchers Fetchers_errInvalidGraphqlResponse))
            | Inr [] \<Rightarrow> None
            | Inr (price # _) \<Rightarrow>
                Some (if f64_le price (Fin 0) then Inl (EFetchers Fetchers_errInvalidResponseData) else Inr price)))))"

text \<open>The gas price is returned beside the error of the scan; zero and negative prices are not
  refused.\<close>

definition evm_FetchPrice ::
  "fetch_lib \<Rightarrow> response_getter \<Rightarrow> EVMGasPriceFetcherConfig \<Rightarrow> baseFetcher \<Rightarrow> string \<Rightarrow> string \<Rightarrow> float64 \<times> go_error option" where
  "evm_FetchPrice lib rg config b base quote =
     (if \<not> hasPair base quote b then (Fin 0, Some (EAggregator Aggregator_ErrPairNotSupported))
      else case rg_gasStation rg (fl_Sprintf lib (gc_ApiURL config)) of
        Inl err \<Rightarrow> (Fin 0, Some err)
      | Inr response \<Rightarrow>
          let (latestGasPrice, err) =
            (if gc_Selector config = ''FastGasPrice'' then fl_Sscanf lib (gs_FastGasPrice response)
             else if gc_Selector config = ''ProposeGasPrice'' then fl_Sscanf lib (gs_ProposeGasPrice response)
             else if gc_Selector config = ''SafeGasPrice'' then fl_Sscanf lib (gs_SafeGasPrice response)
             else (0, Some (Errorf [] (EFetchers Fetchers_errInvalidGasPriceSelector)
               ('': '' @ [CHR 0x22] @ gc_Selector config @ [CHR 0x22]))))
          in (f64_of (of_int latestGasPrice), err))"

section \<open>Factory\<close>

datatype fetcher =
    FBinance baseFetcher | FBitfinex baseFetcher | FCryptocom baseFetcher | FGemini baseFetcher | FHitbtc baseFetcher
  | FHuobi baseFetcher | FKraken baseFetcher | FOkx baseFetcher
  | FXExchange "string \<rightharpoonup> XExchangeTokensPair" baseFetcher
  | FEvmGas EVMGasPriceFetcherConfig baseFetcher

definition createFetcher :: "string \<Rightarrow> (string \<rightharpoonup> XExchangeTokensPair) option \<Rightarrow> EVMGasPriceFetcherConfig \<Rightarrow> fetcher result" where
  "createFetcher fetcherName tokens config =
     (if fetcherName = BinanceName then Inr (FBinance newBaseFetcher)
      else if fetcherName = BitfinexName then Inr (FBitfinex newBaseFetcher)
      else if fetcherName = CryptocomName then Inr (FCryptocom newBaseFetcher)
      else if fetcherName = GeminiName then Inr (FGemini newBaseFetcher)
      else if fetcherName = HitbtcName then Inr (FHitbtc newBaseFetcher)
      else if fetcherName = HuobiName then Inr (FHuobi newBaseFetcher)
      else if fetcherName = KrakenName then Inr (FKraken newBaseFetcher)
      else if fetcherName = OkxName then Inr (FOkx newBaseFetcher)
      else if fetcherName = XExchangeName then Inr (FXExchange (case tokens of None \<Rightarrow> Map.empty | Some t \<Rightarrow> t) newBaseFetcher)
      else if fetcherName = EVMGasPriceStation then Inr (FEvmGas config newBaseFetcher)
      else Inl (Errorf [] (EFetchers Fetchers_errInvalidFetcherName) ('', fetcherName '' @ fetcherName)))"

definition NewPriceFetcher ::
  "string \<Rightarrow> 'r option \<Rightarrow> 'g option \<Rightarrow> (string \<rightharpoonup> XExchangeTokensPair) option \<Rightarrow> EVMGasPriceFetcherConfig \<Rightarrow> fetcher result" where
  "NewPriceFetcher fetcherName responseGetter graphqlGetter tokens config =
     (if Option.is_none responseGetter then Inl (EFetchers Fetchers_errNilResponseGetter)
      else if Option.is_none graphqlGetter then Inl (EFetchers Fetchers_errNilGraphqlGetter)
      else if Option.is_none tokens \<and> fetcherName = XExchangeName then Inl (EFetchers Fetchers_errNilXExchangeTokensMap)
      else createFetcher fetcherName tokens config)"

text \<open>The methods of the interface \<^verbatim>\<open>PriceFetcher\<close>, dispatched on the implementation.\<close>

fun fetcher_AddPair :: "string \<Rightarrow> string \<Rightarrow> fetcher \<Rightarrow> fetcher" where
  "fetcher_AddPair base quote (FBinance b) = FBinance (AddPair base quote b)"
| "fetcher_AddPair base quote (FBitfinex b) = FBitfinex (AddPair base quote b)"
| "fetcher_AddPair base quote (FCryptocom b) = FCryptocom (AddPair base quote b)"
| "fetcher_AddPair base quote (FGemini b) = FGemini (AddPair base quote b)"
| "fetcher_AddPair base quote (FHitbtc b) = FHitbtc (AddPair base quote b)"
| "fetcher_AddPair base quote (FHuobi b) = FHuobi (AddPair base quote b)"
| "fetcher_AddPair base quote (FKraken b) = FKraken (AddPair base quote b)"
| "fetcher_AddPair base quote (FOkx b) = FOkx (AddPair base quote b)"
| "fetcher_AddPair base quote (FXExchange t b) = FXExchange t (AddPair base quote b)"
| "fetcher_AddPair base quote (FEvmGas c b) = FEvmGas c (AddPair base quote b)"

fun fetcher_base :: "fetcher \<Rightarrow> baseFetcher" where
  "fetcher_base (FBinance b) = b"
| "fetcher_base (FBitfinex b) = b"
| "fetcher_base (FCryptocom b) = b"
| "fetcher_base (FGemini b) = b"
| "fetcher_base (FHitbtc b) = b"
| "fetcher_base (FHuobi b) = b"
| "fetcher_base (FKraken b) = b"
| "fetcher_base (FOkx b) = b"
| "fetcher_base (FXExchange t b) = b"
| "fetcher_base (FEvmGas c b) = b"

record fetch_env =
  fe_lib :: fetch_lib
  fe_getter :: response_getter
  fe_query :: graphql_query
  fe_visit :: "(string \<rightharpoonup> string list) \<Rightarrow> string list"

definition of_pair :: "float64 \<times> go_error option \<Rightarrow> float64 result" where
  "of_pair r = (case snd r of None \<Rightarrow> Inr (fst r) | Some err \<Rightarrow> Inl err)"

fun fetcher_FetchPrice :: "fetch_env \<Rightarrow> fetcher \<Rightarrow> string \<Rightarrow> string \<Rightarrow> float64 result option" where
  "fetcher_FetchPrice e (FBinance b) base quote = Some (binance_FetchPrice (fe_lib e) (fe_getter e) b base quote)"
| "fetcher_FetchPrice e (FBitfinex b) base quote = Some (bitfinex_FetchPrice (fe_lib e) (fe_getter e) b base quote)"
| "fetcher_FetchPrice e (FCryptocom b) base quote = Some (cryptocom_FetchPrice (fe_lib e) (fe_getter e) b base quote)"
| "fetcher_FetchPrice e (FGemini b) base quote = Some (gemini_FetchPrice (fe_lib e) (fe_getter e) b base quote)"
| "fetcher_FetchPrice e (FHitbtc b) base quote = Some (hitbtc_FetchPrice (fe_lib e) (fe_getter e) b base quote)"
| "fetcher_FetchPrice e (FHuobi b) base quote = Some (huobi_FetchPrice (fe_lib e) (fe_getter e) b base quote)"
| "fetcher_FetchPrice e (FKraken b) base quote = kraken_FetchPrice (fe_lib e) (fe_getter e) (fe_visit e) b base quote"
| "fetcher_FetchPrice e (FOkx b) base quote = Some (okx_FetchPrice (fe_lib e) (fe_getter e) b base quote)"
| "fetcher_FetchPrice e (FXExchange t b) base quote = xExchange_FetchPrice (fe_lib e) (fe_query e) t b base quote"
| "fetcher_FetchPrice e (FEvmGas c b) base quote = Some (of_pair (evm_FetchPrice (fe_lib e) (fe_getter e) c b base quote))"

section \<open>Lemmas\<close>

lemma hasPair_AddPair: "hasPair b q (AddPair base quote bf) \<longleftrightarrow> getPairKey b q = getPairKey base quote \<or> hasPair b q bf"
  by (simp add: hasPair_def AddPair_def)

lemma hasPair_new [simp]: "\<not> hasPair b q newBaseFetcher"
  by (simp add: hasPair_def newBaseFetcher_def)

lemma fetcher_base_AddPair [simp]: "fetcher_base (fetcher_AddPair base quote f) = AddPair base quote (fetcher_base f)"
  by (cases f) simp_all

lemma fetcher_base_new:
  assumes "NewPriceFetcher n rg gg tokens cfg = Inr f"
  shows "fetcher_base f = newBaseFetcher"
  using assms by (auto simp: NewPriceFetcher_def createFetcher_def split: if_splits)

text \<open>The key of a pair joins the names with a dash, so names without a dash determine it.\<close>

lemma getPairKey_inj:
  assumes "CHR ''-'' \<notin> set b" and "CHR ''-'' \<notin> set b'" and "getPairKey b q = getPairKey b' q'"
  shows "b = b' \<and> q = q'"
proof -
  have "split_on (CHR ''-'') (b @ CHR ''-'' # q) = b # split_on (CHR ''-'') q"
    "split_on (CHR ''-'') (b' @ CHR ''-'' # q') = b' # split_on (CHR ''-'') q'"
    using assms(1,2) by (simp_all add: split_on_append)
  moreover have "b @ CHR ''-'' # q = b' @ CHR ''-'' # q'" using assms(3) by (simp add: getPairKey_def)
  ultimately have "b = b'" "split_on (CHR ''-'') q = split_on (CHR ''-'') q'" by simp_all
  then show ?thesis by (metis Join_split_on)
qed

lemma StrToPositiveFloat64_ok: "StrToPositiveFloat64 lib v = Inr p \<Longrightarrow> \<not> f64_le p (Fin 0)"
  by (auto simp: StrToPositiveFloat64_def split: if_splits)

lemma first_price_ok:
  "(case xs of [] \<Rightarrow> Inl err | price # _ \<Rightarrow> if price = [] then Inl err' else StrToPositiveFloat64 lib price) = Inr p \<Longrightarrow> \<not> f64_le p (Fin 0)"
  by (auto split: list.split_asm if_splits dest: StrToPositiveFloat64_ok)

text \<open>The comparison with zero lets NaN and infinity through.\<close>

lemma StrToPositiveFloat64_NaN:
  "fl_ParseFloat lib v = Inr NaN \<Longrightarrow> StrToPositiveFloat64 lib v = Inr NaN"
  "fl_ParseFloat lib v = Inr PInf \<Longrightarrow> StrToPositiveFloat64 lib v = Inr PInf"
  by (simp_all add: StrToPositiveFloat64_def f64_le_def)

text \<open>A pair that the exchange does not list panics the fetcher of xExchange.\<close>

lemma xExchange_empty_panics:
  assumes "hasPair base quote b" and "tokens (base @ ''-'' @ quote) = Some tp" and "fl_MarshalVariables lib (xp_Base tp) (xp_Quote tp) = Inr vars"
    and "gq dataApiUrl xquery (string_of_bytes vars) = Inr resp" and "fl_UnmarshalGraphql lib resp = Inr []"
  shows "xExchange_FetchPrice lib gq tokens b base quote = None"
  using assms by (simp add: xExchange_FetchPrice_def fetchXExchangeTokensPair_def)

text \<open>A response whose body cannot be read is taken for an empty one.\<close>

lemma rg_Get_read_error_ignored:
  assumes "ht_CheckURL c url = None" and "ht_Do c \<lparr>rq_method = ''GET'', rq_url = url, rq_body = None, rq_header = Map.empty\<rparr> = Inr resp"
    and "rs_readErr resp = Some err"
  shows "rg_Get c u zero url = Inr zero"
  using assms by (simp add: rg_Get_def)

text \<open>An answer of the graphql getter was posted with the token of the authentication client, whatever
  its status and however much of its body could be read.\<close>

lemma gg_Query_ok:
  "gg_Query token oauth_client marshal url query variables = Inr body \<Longrightarrow>
     \<exists>t payload resp. token = Inr t \<and> marshal \<lparr>gq_Query = query, gq_Variables = variables\<rparr> = Inr payload
       \<and> ht_Do (oauth_client t) \<lparr>rq_method = ''POST'', rq_url = url, rq_body = Some payload,
            rq_header = [''Content-Type'' \<mapsto> ''application/json'']\<rparr> = Inr resp \<and> body = rs_body resp"
  by (auto simp: gg_Query_def on_ok_def Let_def split: sum.splits option.splits)

lemma kraken_loop_ok:
  "kraken_loop lib base quote res ks = Some (Inr p) \<Longrightarrow> \<exists>k\<in>set ks. \<exists>price. hd (the (res k)) = price \<and> StrToPositiveFloat64 lib price = Inr p"
  by (induction ks) (auto split: if_splits list.splits)

text \<open>What the fetchers of the exchanges share: an unknown pair is refused without a request, a price
  is positive, infinite or NaN.\<close>

lemmas fetch_defs = binance_FetchPrice_def bitfinex_FetchPrice_def cryptocom_FetchPrice_def gemini_FetchPrice_def hitbtc_FetchPrice_def
  huobi_FetchPrice_def kraken_FetchPrice_def okx_FetchPrice_def xExchange_FetchPrice_def evm_FetchPrice_def

lemma fetcher_unknown_pair:
  "\<not> hasPair base quote (fetcher_base f) \<Longrightarrow> fetcher_FetchPrice e f base quote = Some (Inl (EAggregator Aggregator_ErrPairNotSupported))"
  by (cases f) (simp_all add: fetch_defs of_pair_def)

lemma fetcher_positive:
  assumes "fetcher_FetchPrice e f base quote = Some (Inr p)" and "\<And>c b. f \<noteq> FEvmGas c b"
  shows "\<not> f64_le p (Fin 0)"
proof (cases f)
  case (FKraken b)
  with assms(1) show ?thesis
    by (auto simp: kraken_FetchPrice_def Let_def dest!: kraken_loop_ok StrToPositiveFloat64_ok split: if_splits sum.splits)
next
  case (FXExchange t b)
  with assms(1) show ?thesis
    by (auto simp: xExchange_FetchPrice_def split: if_splits sum.splits option.splits list.splits)
qed (use assms in \<open>auto simp: fetch_defs Let_def dest: StrToPositiveFloat64_ok first_price_ok split: if_split_asm\<close>)

lemma fetcher_base_AddPairs:
  "fetcher_base (fold (\<lambda>(b, q). fetcher_AddPair b q) pairs f) = fold (\<lambda>(b, q). AddPair b q) pairs (fetcher_base f)"
  by (induction pairs arbitrary: f) auto

lemma hasPair_AddPairs:
  "hasPair b q (fold (\<lambda>(b, q). AddPair b q) pairs bf) \<longleftrightarrow> hasPair b q bf \<or> (\<exists>(b', q')\<in>set pairs. getPairKey b q = getPairKey b' q')"
  by (induction pairs arbitrary: bf) (auto simp: hasPair_AddPair)

lemma evm_AddPairs:
  "fold (\<lambda>(b, q). fetcher_AddPair b q) pairs f = FEvmGas c bf \<Longrightarrow> \<exists>bf'. f = FEvmGas c bf'"
proof (induction pairs arbitrary: f)
  case (Cons p pairs)
  then obtain bf' where "fetcher_AddPair (fst p) (snd p) f = FEvmGas c bf'" by (auto simp: split_beta)
  then show ?case by (cases f) auto
qed simp

section \<open>Properties\<close>

text \<open>A fetcher made by the factory answers with a price only for the pairs that were added to it
  (for names without a dash), and the price of an exchange is never zero or negative.\<close>

lemma fetcher_prices_sound:
  assumes "NewPriceFetcher fetcherName rg gg tokens cfg = Inr f"
    and "fetcher_FetchPrice e (fold (\<lambda>(b, q). fetcher_AddPair b q) pairs f) base quote = Some (Inr p)"
    and "\<forall>b\<in>insert base (fst ` set pairs). CHR ''-'' \<notin> set b"
  shows "(base, quote) \<in> set pairs \<and> (fetcherName = EVMGasPriceStation \<or> \<not> f64_le p (Fin 0))"
proof -
  let ?f = "fold (\<lambda>(b, q). fetcher_AddPair b q) pairs f"
  have "hasPair base quote (fetcher_base ?f)" using fetcher_unknown_pair assms(2) by fastforce
  then obtain b q where bq: "(b, q) \<in> set pairs" "getPairKey base quote = getPairKey b q"
    by (auto simp: fetcher_base_AddPairs hasPair_AddPairs fetcher_base_new [OF assms(1)])
  then have "base = b \<and> quote = q" using assms(3) by (intro getPairKey_inj) force+
  moreover have "\<not> f64_le p (Fin 0)" if "fetcherName \<noteq> EVMGasPriceStation"
  proof (rule fetcher_positive [OF assms(2)])
    fix c bf
    have "f \<noteq> FEvmGas c bf'" for bf'
      using assms(1) that by (auto simp: NewPriceFetcher_def createFetcher_def split: if_splits)
    then show "?f \<noteq> FEvmGas c bf" using evm_AddPairs by blast
  qed
  ultimately show ?thesis using bq(1) by blast
qed

lemma fetcher_prices_sound_example:
  "\<exists>f e. NewPriceFetcher HuobiName (Some ()) (Some ()) None \<lparr>gc_ApiURL = [], gc_Selector = []\<rparr> = Inr f
    \<and> fetcher_FetchPrice (e :: fetch_env) (fold (\<lambda>(b, q). fetcher_AddPair b q) [(''EGLD'', ''USD'')] f) ''EGLD'' ''USD'' = Some (Inr (Fin 30))
    \<and> \<not> f64_le (Fin 30) (Fin 0)"
proof -
  define lib where "lib = \<lparr>fl_ParseFloat = (\<lambda>_. Inr (Fin 30)), fl_Sscanf = (\<lambda>_. (0, None)), fl_Sprintf = id,
    fl_MarshalVariables = (\<lambda>_ _. Inr []), fl_UnmarshalGraphql = (\<lambda>_. Inr [])\<rparr>"
  define rg where "rg = \<lparr>rg_binance = (\<lambda>_. Inr \<lparr>bpr_Symbol = [], bpr_Price = []\<rparr>), rg_bitfinex = (\<lambda>_. Inr \<lparr>bit_Price = []\<rparr>),
    rg_cryptocom = (\<lambda>_. Inr \<lparr>cpr_Data = []\<rparr>), rg_gemini = (\<lambda>_. Inr \<lparr>gpr_Price = []\<rparr>), rg_hitbtc = (\<lambda>_. Inr \<lparr>hbr_Price = []\<rparr>),
    rg_huobi = (\<lambda>_. Inr \<lparr>hpr_Price = Fin 30\<rparr>), rg_kraken = (\<lambda>_. Inr \<lparr>kpr_Result = Map.empty\<rparr>), rg_okx = (\<lambda>_. Inr \<lparr>opr_Data = []\<rparr>),
    rg_gasStation = (\<lambda>_. Inr \<lparr>gs_SafeGasPrice = [], gs_ProposeGasPrice = [], gs_FastGasPrice = []\<rparr>)\<rparr>"
  define e where "e = \<lparr>fe_lib = lib, fe_getter = rg, fe_query = (\<lambda>_ _ _. Inr []), fe_visit = (\<lambda>_. [])\<rparr>"
  have n: "NewPriceFetcher HuobiName (Some ()) (Some ()) None \<lparr>gc_ApiURL = [], gc_Selector = []\<rparr> = Inr (FHuobi newBaseFetcher)"
    by (simp add: NewPriceFetcher_def createFetcher_def HuobiName_def BinanceName_def BitfinexName_def CryptocomName_def
        GeminiName_def HitbtcName_def XExchangeName_def)
  have h: "fetcher_FetchPrice e (fold (\<lambda>(b, q). fetcher_AddPair b q) [(''EGLD'', ''USD'')] (FHuobi newBaseFetcher)) ''EGLD'' ''USD''
      = Some (Inr (Fin 30))"
    by (simp add: huobi_FetchPrice_def hasPair_AddPair e_def rg_def f64_le_def Let_def)
  have "(''EGLD'', ''USD'') \<in> set [(''EGLD'', ''USD'')] \<and> (HuobiName = EVMGasPriceStation \<or> \<not> f64_le (Fin 30) (Fin 0))"
    by (rule fetcher_prices_sound [OF n h]) simp
  then have "\<not> f64_le (Fin 30) (Fin 0)" by (simp add: HuobiName_def EVMGasPriceStation_def)
  with n h show ?thesis by blast
qed

end
