(* ===== verification/Price_Notifier.thy ===== *)
theory Price_Notifier
  imports Price_Aggregator
begin

text \<open>
  \<^verbatim>\<open>aggregator/pair.go\<close>, \<^verbatim>\<open>converters.go\<close> and \<^verbatim>\<open>priceNotifier.go\<close>. Instants and durations are integers in
  nanoseconds. The aggregator, the notifee and the clock are functions, as they answer during one call
  of \<^verbatim>\<open>Execute\<close>: \<open>fetch\<close> and \<open>now\<close> are indexed by the pair they are called for. \<^verbatim>\<open>math.Pow(10, d)\<close> is
  exact for the accepted decimals. Converting a number outside the range of \<^verbatim>\<open>uint64\<close> is implementation
  specific in Go; there the argument \<open>conv\<close> gives the result.
\<close>

section \<open>Pairs\<close>

definition minDecimals :: u64 where "minDecimals = 1"
definition maxDecimals :: u64 where "maxDecimals = 18"

record ArgsPair =
  ap_Base :: string
  ap_Quote :: string
  ap_PercentDifferenceToNotify :: u32
  ap_Decimals :: u64
  ap_Exchanges :: "string list"

record pair =
  pair_base :: string
  pair_quote :: string
  pair_percentDifferenceToNotify :: u32
  pair_decimals :: u64
  pair_trimPrecision :: float64
  pair_denominationFactor :: u64
  pair_exchanges :: "string list"

definition checkPairArgs :: "ArgsPair \<Rightarrow> go_error option" where
  "checkPairArgs args =
     (if length (ap_Base args) = 0 then Some (EAggregator Aggregator_ErrNilBaseName)
      else if length (ap_Quote args) = 0 then Some (EAggregator Aggregator_ErrNilQuoteName)
      else if ap_Decimals args < minDecimals \<or> ap_Decimals args > maxDecimals
      then Some (Errorf [] (EAggregator Aggregator_ErrInvalidDecimals)
        ('', got '' @ dec_of_nat (unat (ap_Decimals args)) @ '' for pair '' @ ap_Base args @ ''-'' @ ap_Quote args))
      else if length (ap_Exchanges args) = 0 then Some (EAggregator Aggregator_ErrNilExchanges)
      else None)"

definition math_Pow10 :: "u64 \<Rightarrow> rat" where
  "math_Pow10 d = 10 ^ unat d"

definition newPair :: "ArgsPair \<Rightarrow> pair result" where
  "newPair args = (case checkPairArgs args of
     Some err \<Rightarrow> Inl err
   | None \<Rightarrow>
       let denominationFactorAsFloat64 = math_Pow10 (ap_Decimals args)
       in Inr \<lparr>pair_base = ap_Base args, pair_quote = ap_Quote args,
            pair_percentDifferenceToNotify = ap_PercentDifferenceToNotify args, pair_decimals = ap_Decimals args,
            pair_trimPrecision = f64_div (Fin 1) (Fin denominationFactorAsFloat64),
            pair_denominationFactor = of_int \<lfloor>denominationFactorAsFloat64\<rfloor>, pair_exchanges = ap_Exchanges args\<rparr>)"

definition trim :: "float64 \<Rightarrow> float64 \<Rightarrow> float64" where
  "trim v precision = f64_mul (math_Round (f64_div v precision)) precision"

section \<open>Price notifier\<close>

definition epsilon :: float64 where "epsilon = Fin (rnd (1 / 10000))"
definition minAutoSendInterval :: int where "minAutoSendInterval = 1000000000"

record priceInfo =
  pi_price :: float64
  pi_timestamp :: int

record notifyArgs =
  na_pair :: pair
  na_newPrice :: priceInfo
  na_lastNotifiedPrice :: float64
  na_index :: nat

record ArgsPriceChanged =
  apc_Base :: string
  apc_Quote :: string
  apc_DenominatedPrice :: u64
  apc_Decimals :: u64
  apc_Timestamp :: int

record priceNotifier =
  pn_pairs :: "pair list"
  pn_lastNotifiedPrices :: "float64 list"
  pn_autoSendInterval :: int
  pn_lastTimeAutoSent :: int

definition checkArgsPriceNotifier :: "ArgsPair option list \<Rightarrow> 'a option \<Rightarrow> 'n option \<Rightarrow> int \<Rightarrow> go_error option" where
  "checkArgsPriceNotifier pairs agg notifee autoSendInterval =
     (if length pairs < 1 then Some (EAggregator Aggregator_ErrEmptyArgsPairsSlice)
      else if autoSendInterval < minAutoSendInterval
      then Some (Errorf [] (EAggregator Aggregator_ErrInvalidAutoSendInterval)
        ('', minimum '' @ dur_String minAutoSendInterval @ '', got '' @ dur_String autoSendInterval))
      else if Option.is_none notifee then Some (EAggregator Aggregator_ErrNilPriceNotifee)
      else if Option.is_none agg then Some (EAggregator Aggregator_ErrNilPriceAggregator)
      else None)"

fun newPairs :: "nat \<Rightarrow> ArgsPair option list \<Rightarrow> pair list result" where
  "newPairs idx [] = Inr []"
| "newPairs idx (None # rest) = Inl (Errorf [] (EAggregator Aggregator_ErrNilArgsPair) ('', index '' @ dec_of_nat idx))"
| "newPairs idx (Some argsPair # rest) = on_ok (newPair argsPair) (\<lambda>p. on_ok (newPairs (Suc idx) rest) (\<lambda>ps. Inr (p # ps)))"

definition NewPriceNotifier :: "ArgsPair option list \<Rightarrow> 'a option \<Rightarrow> 'n option \<Rightarrow> int \<Rightarrow> int \<Rightarrow> priceNotifier result" where
  "NewPriceNotifier argsPairs agg notifee autoSendInterval now =
     (case checkArgsPriceNotifier argsPairs agg notifee autoSendInterval of
        Some err \<Rightarrow> Inl err
      | None \<Rightarrow> on_ok (newPairs 0 argsPairs) (\<lambda>pairs.
          Inr \<lparr>pn_pairs = pairs, pn_lastNotifiedPrices = replicate (length argsPairs) (Fin 0),
            pn_autoSendInterval = autoSendInterval, pn_lastTimeAutoSent = now\<rparr>))"

fun fetch_loop :: "(nat \<Rightarrow> string \<Rightarrow> string \<Rightarrow> float64 result) \<Rightarrow> (nat \<Rightarrow> int) \<Rightarrow> nat \<Rightarrow> pair list \<Rightarrow> priceInfo list result" where
  "fetch_loop fetch now idx [] = Inr []"
| "fetch_loop fetch now idx (pair # rest) = (case fetch idx (pair_base pair) (pair_quote pair) of
     Inl err \<Rightarrow> Inl (Errorf [] err ('' while querying the pair '' @ pair_base pair @ ''-'' @ pair_quote pair))
   | Inr price \<Rightarrow> on_ok (fetch_loop fetch now (Suc idx) rest) (\<lambda>infos.
       Inr (\<lparr>pi_price = trim price (pair_trimPrecision pair), pi_timestamp = now idx\<rparr> # infos)))"

definition getAllPrices :: "(nat \<Rightarrow> string \<Rightarrow> string \<Rightarrow> float64 result) \<Rightarrow> (nat \<Rightarrow> int) \<Rightarrow> priceNotifier \<Rightarrow> priceInfo list result" where
  "getAllPrices fetch now pn = fetch_loop fetch now 0 (pn_pairs pn)"

definition shouldNotify :: "notifyArgs \<Rightarrow> bool" where
  "shouldNotify na =
     (let percent = Fin (of_nat (unat (pair_percentDifferenceToNotify (na_pair na))));
          percentValue = f64_div percent (Fin 100);
          shouldBypassPercentCheck = f64_lt (na_lastNotifiedPrice na) epsilon \<or> f64_lt percentValue epsilon
      in if shouldBypassPercentCheck then True
         else
           let absoluteChange = math_Abs (f64_sub (na_lastNotifiedPrice na) (pi_price (na_newPrice na)));
               percentageChange = f64_div (f64_mul absoluteChange (Fin 100)) (na_lastNotifiedPrice na)
           in f64_le percent percentageChange)"

definition notify_args :: "priceNotifier \<Rightarrow> priceInfo list \<Rightarrow> nat \<Rightarrow> notifyArgs" where
  "notify_args pn fetchedPrices idx = \<lparr>na_pair = pn_pairs pn ! idx, na_newPrice = fetchedPrices ! idx,
     na_lastNotifiedPrice = pn_lastNotifiedPrices pn ! idx, na_index = idx\<rparr>"

definition computeNotifyArgsSlice ::
  "(int \<Rightarrow> int) \<Rightarrow> int \<Rightarrow> priceInfo list \<Rightarrow> priceNotifier \<Rightarrow> notifyArgs list \<times> priceNotifier" where
  "computeNotifyArgsSlice timeSince now fetchedPrices pn =
     (let shouldNotifyAll = timeSince (pn_lastTimeAutoSent pn) > pn_autoSendInterval pn;
          res = filter (\<lambda>na. shouldNotifyAll \<or> shouldNotify na) (map (notify_args pn fetchedPrices) [0..<length (pn_pairs pn)])
      in (res, if shouldNotifyAll then pn\<lparr>pn_lastTimeAutoSent := now\<rparr> else pn))"

definition uint64_of :: "(float64 \<Rightarrow> u64) \<Rightarrow> float64 \<Rightarrow> u64" where
  "uint64_of conv x = (case x of
     Fin q \<Rightarrow> if - 1 < q \<and> \<lfloor>q\<rfloor> < 2 ^ 64 then (if q < 0 then 0 else of_int \<lfloor>q\<rfloor>) else conv x
   | _ \<Rightarrow> conv x)"

definition price_changed :: "(float64 \<Rightarrow> u64) \<Rightarrow> notifyArgs \<Rightarrow> float64 \<times> ArgsPriceChanged" where
  "price_changed conv na =
     (let pair = na_pair na;
          priceTrimmed = trim (pi_price (na_newPrice na)) (pair_trimPrecision pair);
          denominatedPrice = uint64_of conv (f64_mul priceTrimmed (Fin (rnd (of_nat (unat (pair_denominationFactor pair))))))
      in (priceTrimmed, \<lparr>apc_Base = pair_base pair, apc_Quote = pair_quote pair, apc_DenominatedPrice = denominatedPrice,
            apc_Decimals = pair_decimals pair, apc_Timestamp = pi_timestamp (na_newPrice na)\<rparr>))"

text \<open>The last prices are stored before the notifee is called. The middle component is what the notifee
  was called with.\<close>

definition notify ::
  "(float64 \<Rightarrow> u64) \<Rightarrow> (ArgsPriceChanged list \<Rightarrow> go_error option) \<Rightarrow> notifyArgs list \<Rightarrow> priceNotifier
     \<Rightarrow> go_error option \<times> ArgsPriceChanged list option \<times> priceNotifier" where
  "notify conv priceChanged toNotify pn =
     (if length toNotify = 0 then (None, None, pn)
      else
        let args = map (\<lambda>na. snd (price_changed conv na)) toNotify;
            prices = fold (\<lambda>na ps. ps[na_index na := fst (price_changed conv na)]) toNotify (pn_lastNotifiedPrices pn)
        in (priceChanged args, Some args, pn\<lparr>pn_lastNotifiedPrices := prices\<rparr>))"

record notifier_env =
  ne_fetch :: "nat \<Rightarrow> string \<Rightarrow> string \<Rightarrow> float64 result"
  ne_now :: "nat \<Rightarrow> int"
  ne_timeSince :: "int \<Rightarrow> int"
  ne_nowSent :: int
  ne_conv :: "float64 \<Rightarrow> u64"
  ne_PriceChanged :: "ArgsPriceChanged list \<Rightarrow> go_error option"

definition Execute :: "notifier_env \<Rightarrow> priceNotifier \<Rightarrow> go_error option \<times> ArgsPriceChanged list option \<times> priceNotifier" where
  "Execute env pn = (case getAllPrices (ne_fetch env) (ne_now env) pn of
     Inl err \<Rightarrow> (Some err, None, pn)
   | Inr fetchedPrices \<Rightarrow>
       let (toNotify, pn1) = computeNotifyArgsSlice (ne_timeSince env) (ne_nowSent env) fetchedPrices pn
       in notify (ne_conv env) (ne_PriceChanged env) toNotify pn1)"

section \<open>Invariant\<close>

definition notifier_ok :: "priceNotifier \<Rightarrow> bool" where
  "notifier_ok pn \<longleftrightarrow> length (pn_lastNotifiedPrices pn) = length (pn_pairs pn)
     \<and> (\<forall>p\<in>set (pn_pairs pn). \<exists>args. newPair args = Inr p)"

lemma newPairs_ok: "newPairs idx as = Inr ps \<Longrightarrow> length ps = length as \<and> (\<forall>p\<in>set ps. \<exists>args. newPair args = Inr p)"
  by (induction idx as arbitrary: ps rule: newPairs.induct) auto

lemma NewPriceNotifier_ok: "NewPriceNotifier as agg nf ival now = Inr pn \<Longrightarrow> notifier_ok pn"
  using newPairs_ok by (fastforce simp: NewPriceNotifier_def notifier_ok_def split: option.splits)

lemma length_fold_update [simp]: "length (fold (\<lambda>x ps. ps[f x := g x]) xs ps) = length ps"
  by (induction xs arbitrary: ps) auto

lemma Execute_keeps: "notifier_ok pn \<Longrightarrow> notifier_ok (snd (snd (Execute env pn)))"
  by (auto simp: Execute_def notify_def computeNotifyArgsSlice_def notifier_ok_def Let_def split: sum.splits)

section \<open>Lemmas\<close>

lemma is_float_pow10: "n \<le> 22 \<Longrightarrow> is_float (10 ^ n)"
proof -
  assume "n \<le> 22"
  have "(5 :: int) ^ n \<le> 5 ^ 22" using \<open>n \<le> 22\<close> by (intro power_increasing) simp_all
  also have "\<dots> < 2 ^ 53" by simp
  finally have "\<bar>(5 :: int) ^ n\<bar> < 2 ^ 53" by simp
  then have "is_float (of_int (5 ^ n) * 2 powi int n)" by (rule is_float_scaled) simp
  moreover have "of_int (5 ^ n) * 2 powi int n = (10 ^ n :: rat)" by (simp flip: power_mult_distrib)
  ultimately show ?thesis by simp
qed

lemma tiny_pow10: "n \<le> 18 \<Longrightarrow> tiny \<le> 1 / 10 ^ n"
proof -
  assume "n \<le> 18"
  then have "(10 :: rat) ^ n \<le> 10 ^ 18" by (intro power_increasing) simp_all
  also have "\<dots> \<le> 2 ^ 100" by simp
  finally have "(1 :: rat) / 2 ^ 100 \<le> 1 / 10 ^ n" by (intro divide_left_mono) simp_all
  with tiny_small show ?thesis by linarith
qed

lemma precision_bounds:
  assumes "1 \<le> d" and "tiny \<le> 1 / d"
  shows "0 < rnd (1 / d)" and "tiny \<le> rnd (1 / d)" and "rnd (1 / d) \<le> 1"
  using assms is_float_int [of 1] by (auto intro: rnd_pos tiny_le_rnd rnd_le_float)

lemma newPair_fields:
  assumes "newPair args = Inr p"
  defines "d \<equiv> unat (pair_decimals p)"
  shows "1 \<le> d" "d \<le> 18" "pair_trimPrecision p = Fin (rnd (1 / 10 ^ d))" "rnd (unsigned (pair_denominationFactor p)) = 10 ^ d"
proof -
  from assms(1) have c: "checkPairArgs args = None" and p: "pair_decimals p = ap_Decimals args"
    "pair_trimPrecision p = f64_div (Fin 1) (Fin (10 ^ unat (ap_Decimals args)))"
    "pair_denominationFactor p = of_int \<lfloor>10 ^ unat (ap_Decimals args) :: rat\<rfloor>"
    by (auto simp: newPair_def math_Pow10_def Let_def split: option.splits)
  from c have "\<not> ap_Decimals args < 1" "\<not> 18 < ap_Decimals args"
    by (auto simp: checkPairArgs_def minDecimals_def maxDecimals_def split: if_splits)
  then show d: "1 \<le> d" "d \<le> 18" unfolding d_def p(1) by (simp_all add: word_less_nat_alt)
  have "\<bar>1 / 10 ^ d :: rat\<bar> \<le> 1" by simp
  then have "f64_of (1 / 10 ^ d) = Fin (rnd (1 / 10 ^ d))" by (intro f64_of_small) (erule order_trans, simp)
  then show "pair_trimPrecision p = Fin (rnd (1 / 10 ^ d))" using p by (simp add: d_def)
  have "(10 :: nat) ^ d \<le> 10 ^ 18" using d(2) by (intro power_increasing) simp_all
  then have "(10 :: nat) ^ d < 2 ^ 64" by simp
  then have "unat (of_nat (10 ^ d) :: u64) = 10 ^ d" by (subst unat_of_nat) (simp add: take_bit_nat_eq_self)
  moreover have "pair_denominationFactor p = of_nat (10 ^ d)"
  proof -
    have "\<lfloor>10 ^ d :: rat\<rfloor> = 10 ^ d" by (metis floor_of_int of_int_numeral of_int_power)
    then show ?thesis unfolding p(3) d_def p(1) by simp
  qed
  ultimately have "(of_nat (unat (pair_denominationFactor p)) :: rat) = 10 ^ d" by (metis of_nat_numeral of_nat_power)
  then show "rnd (unsigned (pair_denominationFactor p)) = 10 ^ d"
    using is_float_pow10 [of d] d(2) by (simp add: is_float_def)
qed

lemma newPair_names:
  assumes "newPair args = Inr p"
  shows "pair_base p \<noteq> []" and "pair_quote p \<noteq> []"
  using assms by (auto simp: newPair_def checkPairArgs_def Let_def split: option.splits if_split_asm)

lemma fetch_loop_ok:
  assumes "fetch_loop fetch now idx ps = Inr infos"
  shows "length infos = length ps \<and> (\<forall>i<length ps. \<exists>price. fetch (idx + i) (pair_base (ps ! i)) (pair_quote (ps ! i)) = Inr price
    \<and> infos ! i = \<lparr>pi_price = trim price (pair_trimPrecision (ps ! i)), pi_timestamp = now (idx + i)\<rparr>)"
  using assms
proof (induction ps arbitrary: idx infos)
  case (Cons p ps)
  then obtain price rest where f: "fetch idx (pair_base p) (pair_quote p) = Inr price" "fetch_loop fetch now (Suc idx) ps = Inr rest"
    "infos = \<lparr>pi_price = trim price (pair_trimPrecision p), pi_timestamp = now idx\<rparr> # rest"
    by (auto split: sum.splits)
  from Cons.IH [OF f(2)] f(1,3) show ?case by (auto simp: nth_Cons' less_Suc_eq_0_disj)
qed simp

text \<open>Updating distinct positions.\<close>

lemma fold_update_nth:
  assumes "distinct (map f xs)" and "\<forall>x\<in>set xs. f x < length ps"
  shows "fold (\<lambda>x ps. ps[f x := g x]) xs ps ! i = (case find (\<lambda>x. f x = i) xs of None \<Rightarrow> ps ! i | Some x \<Rightarrow> g x)"
  using assms
proof (induction xs arbitrary: ps)
  case (Cons x xs)
  have "find (\<lambda>y. f y = f x) xs = None" using Cons.prems(1) by (simp add: find_None_iff) (metis imageI)
  with Cons show ?case by (cases "f x = i") (auto split: option.splits)
qed simp

definition round_slice :: "notifier_env \<Rightarrow> priceInfo list \<Rightarrow> priceNotifier \<Rightarrow> nat list" where
  "round_slice env infos pn = filter (\<lambda>i. ne_timeSince env (pn_lastTimeAutoSent pn) > pn_autoSendInterval pn
     \<or> shouldNotify (notify_args pn infos i)) [0..<length (pn_pairs pn)]"

text \<open>One round in terms of the indices it notifies.\<close>

lemma Execute_round:
  assumes "getAllPrices (ne_fetch env) (ne_now env) pn = Inr infos" and "notifier_ok pn"
  defines "is \<equiv> round_slice env infos pn"
  shows "fst (Execute env pn) = (if is = [] then None else ne_PriceChanged env (map (\<lambda>i. snd (price_changed (ne_conv env) (notify_args pn infos i))) is))"
    and "fst (snd (Execute env pn)) = (if is = [] then None else Some (map (\<lambda>i. snd (price_changed (ne_conv env) (notify_args pn infos i))) is))"
    and "pn_pairs (snd (snd (Execute env pn))) = pn_pairs pn"
    and "pn_autoSendInterval (snd (snd (Execute env pn))) = pn_autoSendInterval pn"
    and "i < length (pn_pairs pn) \<Longrightarrow> pn_lastNotifiedPrices (snd (snd (Execute env pn))) ! i =
      (if i \<in> set is then fst (price_changed (ne_conv env) (notify_args pn infos i)) else pn_lastNotifiedPrices pn ! i)"
proof -
  let ?all = "ne_timeSince env (pn_lastTimeAutoSent pn) > pn_autoSendInterval pn"
  let ?s = "map (notify_args pn infos) is"
  have sl: "filter (\<lambda>na. ?all \<or> shouldNotify na) (map (notify_args pn infos) [0..<length (pn_pairs pn)]) = ?s"
    by (simp add: is_def round_slice_def filter_map comp_def)
  have e: "Execute env pn = notify (ne_conv env) (ne_PriceChanged env) ?s (if ?all then pn\<lparr>pn_lastTimeAutoSent := ne_nowSent env\<rparr> else pn)"
    unfolding Execute_def assms(1) computeNotifyArgsSlice_def by (simp only: sl Let_def sum.case split_beta fst_conv snd_conv)
  show "fst (Execute env pn) = (if is = [] then None else ne_PriceChanged env (map (\<lambda>i. snd (price_changed (ne_conv env) (notify_args pn infos i))) is))"
    and "fst (snd (Execute env pn)) = (if is = [] then None else Some (map (\<lambda>i. snd (price_changed (ne_conv env) (notify_args pn infos i))) is))"
    and "pn_pairs (snd (snd (Execute env pn))) = pn_pairs pn"
    and "pn_autoSendInterval (snd (snd (Execute env pn))) = pn_autoSendInterval pn"
    unfolding e by (simp_all add: notify_def Let_def comp_def)
  assume i: "i < length (pn_pairs pn)"
  have "distinct (map na_index ?s)" "\<forall>x\<in>set ?s. na_index x < length (pn_lastNotifiedPrices pn)"
    using assms(2) by (auto simp: is_def round_slice_def notify_args_def comp_def notifier_ok_def)
  from fold_update_nth [OF this, of "\<lambda>na. fst (price_changed (ne_conv env) na)" i]
  have "fold (\<lambda>na ps. ps[na_index na := fst (price_changed (ne_conv env) na)]) ?s (pn_lastNotifiedPrices pn) ! i
      = (if i \<in> set is then fst (price_changed (ne_conv env) (notify_args pn infos i)) else pn_lastNotifiedPrices pn ! i)"
    by (auto simp: find_Some_iff find_None_iff notify_args_def split: option.splits)
  then show "pn_lastNotifiedPrices (snd (snd (Execute env pn))) ! i =
      (if i \<in> set is then fst (price_changed (ne_conv env) (notify_args pn infos i)) else pn_lastNotifiedPrices pn ! i)"
    unfolding e by (auto simp: notify_def Let_def)
qed

subsection \<open>Denominated prices\<close>

text \<open>None of the products and quotients here comes near an overflow.\<close>

lemma units_small:
  assumes "0 \<le> n" and "n < 2 ^ 50" and "0 < p" and "p \<le> 1"
  shows "f64_of (of_int n * p) = Fin (rnd (of_int n * p))"
proof (rule f64_of_small)
  have "(of_int n :: rat) \<le> of_int (2 ^ 50)" using assms(2) by (simp only: of_int_le_iff)
  then have "of_int n * p \<le> 2 ^ 50 * 1" using assms(3,4) by (intro mult_mono) simp_all
  moreover have "0 \<le> of_int n * p" using assms(1,3) by simp
  ultimately show "\<bar>of_int n * p\<bar> \<le> 2 ^ 100" by simp
qed

lemma near_units_small:
  assumes "0 \<le> n" and "n < 2 ^ 50" and "\<bar>x - of_int n\<bar> \<le> 1"
  shows "f64_of x = Fin (rnd x)"
proof (rule f64_of_small)
  have "(of_int n :: rat) \<le> of_int (2 ^ 50)" "(0 :: rat) \<le> of_int n" using assms(1,2) by (simp_all only: of_int_le_iff of_int_0_le_iff)
  then show "\<bar>x\<bar> \<le> 2 ^ 100" using assms(3) unfolding abs_le_iff by simp
qed

lemma trim_units:
  assumes "0 \<le> v" and "v * d < 2 ^ 49" and "1 \<le> d" and "tiny \<le> 1 / d"
  obtains n where "0 \<le> n" "n < 2 ^ 50" "\<bar>of_int n - v * d\<bar> \<le> 3 / 4"
    "trim (Fin v) (Fin (rnd (1 / d))) = Fin (rnd (of_int n * rnd (1 / d)))"
proof -
  let ?p = "rnd (1 / d)"
  note p = precision_bounds [OF assms(3,4)]
  let ?n = "\<lfloor>rnd (v / ?p) + 1 / 2\<rfloor>"
  have "0 < d" using assms(3) by simp
  note u = units_of_value [OF assms(1) this assms(2,4)]
  have r0: "0 \<le> rnd (v / ?p)" using u(1) by (rule rnd_nonneg)
  then have n: "round_away (rnd (v / ?p)) = of_int ?n" by (simp add: round_away_def)
  have c: "\<bar>of_int ?n - v * d\<bar> \<le> 3 / 4" using u(3) n by simp
  have n0: "0 \<le> ?n" using r0 by linarith
  have "of_int ?n \<le> v * d + 3 / 4" using c unfolding abs_le_iff by linarith
  also have "\<dots> < of_int (2 ^ 50)" using assms(2) by simp
  finally have n1: "?n < 2 ^ 50" by (simp only: of_int_less_iff)
  have "f64_of (v / ?p) = Fin (rnd (v / ?p))" using u(1,2) by (intro f64_of_small) simp
  then have "trim (Fin v) (Fin ?p) = Fin (rnd (of_int ?n * ?p))"
    using p(1) n units_small [OF n0 n1 p(1,3)] by (simp add: trim_def)
  with c n0 n1 that show thesis by blast
qed

lemma trim_idem:
  assumes "0 \<le> n" and "n < 2 ^ 50" and "tiny \<le> p" and "p \<le> 1"
  shows "trim (Fin (rnd (of_int n * p))) (Fin p) = Fin (rnd (of_int n * p))"
proof -
  have p: "0 < p" using assms(3) tiny_pos by linarith
  have "f64_of (rnd (of_int n * p) / p) = Fin (rnd (rnd (of_int n * p) / p))"
    using rnd_scaled_close [OF assms(1-3)] by (intro near_units_small [OF assms(1,2)]) simp
  then show ?thesis using units_roundtrip [OF assms(1-3)] units_small [OF assms(1,2) p assms(4)] p by (simp add: trim_def)
qed

lemma denominated_close:
  assumes "newPair args = Inr p" and "0 \<le> v" and "v * 10 ^ unat (pair_decimals p) < 2 ^ 49"
    and "na_pair na = p" and "pi_price (na_newPrice na) = trim (Fin v) (pair_trimPrecision p)"
  shows "\<bar>of_nat (unat (apc_DenominatedPrice (snd (price_changed conv na)))) - v * 10 ^ unat (pair_decimals p)\<bar> < 2"
    and "fst (price_changed conv na) = trim (Fin v) (pair_trimPrecision p)"
proof -
  let ?d = "10 ^ unat (pair_decimals p) :: rat"
  let ?p = "rnd (1 / ?d)"
  note f = newPair_fields [OF assms(1)]
  have d: "1 \<le> ?d" "tiny \<le> 1 / ?d" using f(2) by (simp_all add: tiny_pow10)
  note p = precision_bounds [OF d]
  obtain n where n: "0 \<le> n" "n < 2 ^ 50" "\<bar>of_int n - v * ?d\<bar> \<le> 3 / 4"
    "trim (Fin v) (Fin ?p) = Fin (rnd (of_int n * ?p))"
    using assms(2,3) d by (rule trim_units)
  have t: "trim (pi_price (na_newPrice na)) (pair_trimPrecision (na_pair na)) = Fin (rnd (of_int n * ?p))"
    using trim_idem [OF n(1,2) p(2,3)] by (simp add: assms(4,5) f(3) n(4))
  then show "fst (price_changed conv na) = trim (Fin v) (pair_trimPrecision p)"
    by (simp add: price_changed_def Let_def f(3) n(4))
  let ?q = "rnd (rnd (of_int n * ?p) * ?d)"
  note u = units_scaled [OF n(1,2) _ d(2)]
  have q: "\<bar>?q - of_int n\<bar> < 1" using u(2) by simp
  have m: "f64_of (rnd (of_int n * ?p) * ?d) = Fin ?q" using u(1) by (intro near_units_small [OF n(1,2)]) simp
  have q0: "0 \<le> ?q" using n(1) p(1) by (simp add: rnd_nonneg)
  from q have fl: "n - 1 \<le> \<lfloor>?q\<rfloor>" "\<lfloor>?q\<rfloor> \<le> n" unfolding abs_less_iff by (simp_all add: le_floor_iff floor_le_iff)
  have b: "0 \<le> \<lfloor>?q\<rfloor>" using q0 by simp
  have b': "\<lfloor>?q\<rfloor> < 2 ^ 64" by (rule le_less_trans [OF fl(2)]) (use n(2) in simp)
  have "snd (price_changed conv na) = \<lparr>apc_Base = pair_base p, apc_Quote = pair_quote p, apc_DenominatedPrice = uint64_of conv (Fin ?q),
      apc_Decimals = pair_decimals p, apc_Timestamp = pi_timestamp (na_newPrice na)\<rparr>"
    using t m by (simp add: price_changed_def Let_def assms(4) f(4))
  moreover have "uint64_of conv (Fin ?q) = of_int \<lfloor>?q\<rfloor>" using b b' q0 by (simp add: uint64_of_def)
  moreover have "of_nat (unat (of_int \<lfloor>?q\<rfloor> :: u64)) = (of_int \<lfloor>?q\<rfloor> :: rat)"
    using b b' by (simp add: unsigned_of_int take_bit_int_eq_self)
  ultimately have "of_nat (unat (apc_DenominatedPrice (snd (price_changed conv na)))) = (of_int \<lfloor>?q\<rfloor> :: rat)" by simp
  moreover have "(of_int (n - 1) :: rat) \<le> of_int \<lfloor>?q\<rfloor>" "(of_int \<lfloor>?q\<rfloor> :: rat) \<le> of_int n" using fl by (simp_all only: of_int_le_iff)
  ultimately show "\<bar>of_nat (unat (apc_DenominatedPrice (snd (price_changed conv na)))) - v * ?d\<bar> < 2"
    using n(3) unfolding abs_le_iff abs_less_iff of_int_diff of_int_1 by linarith
qed

text \<open>The conversion truncates: a price of 0.29 with two decimals is sent as 28.\<close>

definition demo_pair_args :: ArgsPair where
  "demo_pair_args = \<lparr>ap_Base = ''EGLD'', ap_Quote = ''USD'', ap_PercentDifferenceToNotify = 1, ap_Decimals = 2, ap_Exchanges = [''Binance'']\<rparr>"

definition demo_pair :: pair where
  "demo_pair = (case newPair demo_pair_args of Inr p \<Rightarrow> p)"

lemma demo_newPair: "newPair demo_pair_args = Inr demo_pair"
  by (simp add: demo_pair_def newPair_def demo_pair_args_def checkPairArgs_def minDecimals_def maxDecimals_def Let_def)

lemma denominated_truncates:
  assumes "na_pair na = demo_pair" and "pi_price (na_newPrice na) = Fin (rnd (29 / 100))"
  shows "apc_DenominatedPrice (snd (price_changed conv na)) = 28"
proof -
  have d: "unat (pair_decimals demo_pair) = 2"
    by (simp add: demo_pair_def newPair_def demo_pair_args_def checkPairArgs_def minDecimals_def maxDecimals_def Let_def)
  note f = newPair_fields [OF demo_newPair, unfolded d]
  have "\<bar>rnd (29 / 100) / rnd (1 / 100)\<bar> \<le> 2 ^ 100" "\<bar>29 * rnd (1 / 100)\<bar> \<le> 2 ^ 100" "\<bar>rnd (29 * rnd (1 / 100)) * 100\<bar> \<le> 2 ^ 100"
    by code_simp+
  note small = this [THEN f64_of_small]
  have "round_away (rnd (rnd (29 / 100) / rnd (1 / 100))) = 29" "\<lfloor>rnd (rnd (29 * rnd (1 / 100)) * 100)\<rfloor> = 28"
    "rnd (1 / 100) \<noteq> 0" "0 \<le> rnd (rnd (29 * rnd (1 / 100)) * 100)"
    by code_simp+
  then show ?thesis by (simp add: price_changed_def Let_def assms f(3,4) trim_def uint64_of_def small)
qed

subsection \<open>When a pair is notified\<close>

lemma epsilon_bound: "\<exists>e. epsilon = Fin e \<and> 1 / 20000 < e \<and> e < 1 / 200"
proof -
  have "tiny \<le> 1 / 10000" using tiny_pow10 [of 4] by simp
  from rnd_rel_interval [OF this] show ?thesis by (simp add: epsilon_def)
qed

lemma percent_value:
  fixes w :: u32
  shows "f64_of (of_nat (unat w) / 100) = Fin (rnd (of_nat (unat w) / 100))" and "is_float (of_nat (unat w))"
proof -
  have "unat w < 2 ^ 32" using unsigned_less [of w, where ?'a = nat] by simp
  then have w: "int (unat w) < int (2 ^ 32)" by (simp only: of_nat_less_iff)
  then have "(of_int (int (unat w)) :: rat) < of_int (2 ^ 32)" by (simp only: of_int_less_iff of_nat_power of_nat_numeral)
  then have "(of_nat (unat w) :: rat) < 2 ^ 32" by simp
  moreover have "(0 :: rat) \<le> of_nat (unat w)" by (rule of_nat_0_le_iff)
  ultimately show "f64_of (of_nat (unat w) / 100) = Fin (rnd (of_nat (unat w) / 100))" by (intro f64_of_small) simp
  have "\<bar>int (unat w)\<bar> < 2 ^ 53" using w by simp
  from is_float_int [OF this] show "is_float (of_nat (unat w))" by (simp only: of_int_of_nat_eq)
qed

text \<open>The percentage of the change; an overflow on the way to it is an infinite percentage.\<close>

lemma percentage_change_cases:
  assumes "0 < l"
  shows "f64_div (f64_mul (math_Abs (f64_sub (Fin l) (Fin q))) (Fin 100)) (Fin l) = PInf
    \<or> f64_div (f64_mul (math_Abs (f64_sub (Fin l) (Fin q))) (Fin 100)) (Fin l) = Fin (rnd (rnd (\<bar>rnd (l - q)\<bar> * 100) / l))"
proof -
  have inf: "f64_div PInf (Fin l) = PInf" "f64_mul PInf (Fin 100) = PInf" "math_Abs PInf = PInf" "math_Abs NInf = PInf"
    using assms by (simp_all add: f64_div_def f64_mul_def f64_inf_def f64_sgn_def math_Abs_def)
  have "f64_of (rnd (\<bar>rnd (l - q)\<bar> * 100) / l) = PInf \<or> f64_of (rnd (\<bar>rnd (l - q)\<bar> * 100) / l) = Fin (rnd (rnd (\<bar>rnd (l - q)\<bar> * 100) / l))"
    using assms rnd_nonneg [of "\<bar>rnd (l - q)\<bar> * 100"]
    by (cases rule: f64_of_cases [of "rnd (\<bar>rnd (l - q)\<bar> * 100) / l"]) (simp_all add: divide_less_0_iff)
  moreover have "f64_of (\<bar>rnd (l - q)\<bar> * 100) = PInf \<or> f64_of (\<bar>rnd (l - q)\<bar> * 100) = Fin (rnd (\<bar>rnd (l - q)\<bar> * 100))"
    by (cases rule: f64_of_cases [of "\<bar>rnd (l - q)\<bar> * 100"]) simp_all
  ultimately show ?thesis
    by (cases rule: f64_of_cases [of "l - q"]) (use assms inf in auto)
qed

text \<open>A pair that is not notified moved by less than the configured percentage, up to the rounding of
  two operations.\<close>

lemma rounded_change:
  assumes "tiny \<le> \<bar>x\<bar>"
  shows "\<bar>x\<bar> * (1 - 1 / 2 ^ 53) * 100 * (1 - 1 / 2 ^ 53) \<le> rnd (\<bar>rnd x\<bar> * 100)"
proof -
  let ?u = "1 - 1 / 2 ^ 53 :: rat"
  have a: "\<bar>x\<bar> * ?u \<le> \<bar>rnd x\<bar>" using rnd_abs_lower [OF assms] by (simp add: right_diff_distrib)
  then have "\<bar>x\<bar> * ?u * 100 * ?u \<le> \<bar>rnd x\<bar> * 100 * ?u" by (intro mult_right_mono) simp_all
  moreover have "tiny \<le> \<bar>rnd x\<bar> * 100" using a assms by simp
  from rnd_rel_interval(1) [OF this] have "\<bar>rnd x\<bar> * 100 * ?u \<le> rnd (\<bar>rnd x\<bar> * 100)" by (simp add: right_diff_distrib)
  ultimately show ?thesis by linarith
qed

lemma not_shouldNotify:
  assumes "\<not> shouldNotify na" and "na_lastNotifiedPrice na = Fin l" and "pi_price (na_newPrice na) = Fin q"
  shows "\<bar>l - q\<bar> * 100 * (1 - 1 / 2 ^ 53) ^ 2 < of_nat (unat (pair_percentDifferenceToNotify (na_pair na))) * l"
proof -
  let ?w = "pair_percentDifferenceToNotify (na_pair na)"
  let ?pc = "of_nat (unat ?w) :: rat"
  let ?u = "1 - 1 / 2 ^ 53 :: rat"
  obtain e where e: "epsilon = Fin e" "1 / 20000 < e" using epsilon_bound by blast
  have "\<not> f64_lt (Fin l) epsilon" "\<not> f64_lt (f64_div (Fin ?pc) (Fin 100)) epsilon"
    and p: "\<not> f64_le (Fin ?pc) (f64_div (f64_mul (math_Abs (f64_sub (Fin l) (Fin q))) (Fin 100)) (Fin l))"
    using assms unfolding shouldNotify_def Let_def by (auto split: if_splits)
  then have l: "1 / 20000 < l" and pc0: "?w \<noteq> 0"
    using e(2) percent_value(1) [of ?w] unfolding e(1) by auto
  have "unat ?w \<noteq> 0" using pc0 by (simp add: unat_eq_0)
  then have "1 \<le> unat ?w" by linarith
  then have "(of_nat 1 :: rat) \<le> ?pc" by (simp only: of_nat_le_iff)
  then have pc: "1 \<le> ?pc" by simp
  have l0: "0 < l" using l by simp
  show ?thesis
  proof (cases "tiny \<le> \<bar>l - q\<bar>")
    case True
    have "\<not> ?pc \<le> rnd (rnd (\<bar>rnd (l - q)\<bar> * 100) / l)"
      using p percentage_change_cases [OF l0, of q] by (auto simp: f64_le_def less_le simp del: Fin_ops)
    then have "rnd (\<bar>rnd (l - q)\<bar> * 100) / l < ?pc" using float_le_rnd [OF percent_value(2) [of ?w]] by (meson not_le)
    then have "rnd (\<bar>rnd (l - q)\<bar> * 100) < ?pc * l" using l0 by (simp add: pos_divide_less_eq)
    with rounded_change [OF True] have "\<bar>l - q\<bar> * ?u * 100 * ?u < ?pc * l" by linarith
    then show ?thesis by (simp only: power2_eq_square ac_simps)
  next
    case False
    have "\<bar>l - q\<bar> * 100 * ?u ^ 2 \<le> \<bar>l - q\<bar> * 100 * 1" by (intro mult_left_mono) (simp_all add: power2_eq_square)
    also have "\<dots> \<le> tiny * 100" using False by simp
    also have "\<dots> < 1 / 20000" using tiny_small by simp
    also have "\<dots> < 1 * l" using l by simp
    also have "\<dots> \<le> ?pc * l" using pc l0 by (intro mult_right_mono) simp_all
    finally show ?thesis .
  qed
qed

lemma same_price_not_notified:
  assumes "na_lastNotifiedPrice na = Fin l" and "pi_price (na_newPrice na) = Fin l" and "\<not> f64_lt (Fin l) epsilon"
    and "0 < pair_percentDifferenceToNotify (na_pair na)"
  shows "\<not> shouldNotify na"
proof -
  let ?w = "pair_percentDifferenceToNotify (na_pair na)"
  let ?pc = "of_nat (unat ?w) :: rat"
  obtain e where e: "epsilon = Fin e" "e < 1 / 200" "1 / 20000 < e" using epsilon_bound by blast
  have l: "0 < l" using assms(3) e(3) unfolding e(1) by simp
  have "1 \<le> unat ?w" using assms(4) by (simp add: word_less_nat_alt)
  then have "(of_nat 1 :: rat) \<le> ?pc" by (simp only: of_nat_le_iff)
  then have pc: "1 \<le> ?pc" by (simp only: of_nat_1)
  have "tiny \<le> 1 / 100" using tiny_pow10 [of 2] by simp
  then have "1 / 100 - 1 / 100 / 2 ^ 53 \<le> rnd (1 / 100)" by (rule rnd_rel_interval)
  also have "rnd (1 / 100) \<le> rnd (?pc / 100)" using pc by (intro rnd_mono divide_right_mono) simp_all
  finally have "e < rnd (?pc / 100)" using e(2) by simp
  then have "\<not> f64_lt (f64_div (Fin ?pc) (Fin 100)) epsilon" unfolding e(1) using percent_value(1) [of ?w] by simp
  moreover have "f64_of 0 = Fin 0" by (simp add: f64_of_small)
  then have "\<not> f64_le (Fin ?pc) (f64_div (f64_mul (math_Abs (f64_sub (Fin l) (Fin l))) (Fin 100)) (Fin l))"
    using l pc by (simp add: f64_le_def)
  ultimately show ?thesis using assms(1-3) unfolding shouldNotify_def Let_def by (simp only: if_False simp_thms)
qed

section \<open>A concrete notifier\<close>

definition demo_notifier :: priceNotifier where
  "demo_notifier = \<lparr>pn_pairs = [demo_pair], pn_lastNotifiedPrices = [Fin 0], pn_autoSendInterval = minAutoSendInterval, pn_lastTimeAutoSent = 0\<rparr>"

definition demo_notifier_env :: "go_error option \<Rightarrow> notifier_env" where
  "demo_notifier_env err = \<lparr>ne_fetch = (\<lambda>i b q. Inr (Fin 30)), ne_now = (\<lambda>i. 5), ne_timeSince = (\<lambda>t. 0), ne_nowSent = 7,
     ne_conv = (\<lambda>x. 0), ne_PriceChanged = (\<lambda>args. err)\<rparr>"

text \<open>The aggregator answers with a price that the denomination can hold.\<close>

definition fetches :: "notifier_env \<Rightarrow> priceNotifier \<Rightarrow> (nat \<Rightarrow> rat) \<Rightarrow> bool" where
  "fetches env pn v \<longleftrightarrow> (\<forall>i<length (pn_pairs pn). ne_fetch env i (pair_base (pn_pairs pn ! i)) (pair_quote (pn_pairs pn ! i)) = Inr (Fin (v i))
     \<and> 0 \<le> v i \<and> v i * 10 ^ unat (pair_decimals (pn_pairs pn ! i)) < 2 ^ 49)"

lemma demo_notifier_ok: "notifier_ok demo_notifier"
  by (auto simp: notifier_ok_def demo_notifier_def intro: demo_newPair)

lemma demo_fetches: "fetches (demo_notifier_env err) demo_notifier (\<lambda>i. 30)"
  by (simp add: demo_notifier_def fetches_def demo_notifier_env_def demo_pair_def newPair_def demo_pair_args_def checkPairArgs_def
      minDecimals_def maxDecimals_def Let_def)

lemma fetch_loop_total:
  "\<forall>i<length ps. \<exists>p. fetch (idx + i) (pair_base (ps ! i)) (pair_quote (ps ! i)) = Inr p \<Longrightarrow> \<exists>infos. fetch_loop fetch now idx ps = Inr infos"
proof (induction ps arbitrary: idx)
  case (Cons p ps)
  from Cons.prems have "\<exists>x. fetch idx (pair_base p) (pair_quote p) = Inr x" by (auto dest: spec [of _ 0])
  moreover have "\<forall>i<length ps. \<exists>x. fetch (Suc idx + i) (pair_base (ps ! i)) (pair_quote (ps ! i)) = Inr x"
    using Cons.prems by (auto dest: spec [of _ "Suc i" for i])
  ultimately show ?case using Cons.IH [of "Suc idx"] by auto
qed simp

text \<open>The prices that a round works with.\<close>

lemma getAllPrices_fetches:
  assumes "fetches env pn v"
  obtains infos where "getAllPrices (ne_fetch env) (ne_now env) pn = Inr infos"
    "\<forall>i<length (pn_pairs pn). pi_price (infos ! i) = trim (Fin (v i)) (pair_trimPrecision (pn_pairs pn ! i))"
proof -
  have "\<exists>infos. fetch_loop (ne_fetch env) (ne_now env) 0 (pn_pairs pn) = Inr infos"
    using assms by (intro fetch_loop_total) (auto simp: fetches_def)
  then obtain infos where i: "fetch_loop (ne_fetch env) (ne_now env) 0 (pn_pairs pn) = Inr infos" ..
  show thesis
  proof
    show "getAllPrices (ne_fetch env) (ne_now env) pn = Inr infos" using i by (simp add: getAllPrices_def)
    show "\<forall>j<length (pn_pairs pn). pi_price (infos ! j) = trim (Fin (v j)) (pair_trimPrecision (pn_pairs pn ! j))"
      using fetch_loop_ok [OF i] assms by (fastforce simp: fetches_def)
  qed
qed

lemma round_price_changed:
  assumes "fetches env pn v" and "notifier_ok pn" and "i < length (pn_pairs pn)"
    and "pi_price (infos ! i) = trim (Fin (v i)) (pair_trimPrecision (pn_pairs pn ! i))"
  shows "\<bar>of_nat (unat (apc_DenominatedPrice (snd (price_changed conv (notify_args pn infos i)))))
      - v i * 10 ^ unat (pair_decimals (pn_pairs pn ! i))\<bar> < 2"
    and "fst (price_changed conv (notify_args pn infos i)) = trim (Fin (v i)) (pair_trimPrecision (pn_pairs pn ! i))"
proof -
  obtain args where a: "newPair args = Inr (pn_pairs pn ! i)" using assms(2,3) nth_mem by (fastforce simp: notifier_ok_def)
  have v: "0 \<le> v i" "v i * 10 ^ unat (pair_decimals (pn_pairs pn ! i)) < 2 ^ 49" using assms(1,3) by (auto simp: fetches_def)
  have n: "na_pair (notify_args pn infos i) = pn_pairs pn ! i"
    "pi_price (na_newPrice (notify_args pn infos i)) = trim (Fin (v i)) (pair_trimPrecision (pn_pairs pn ! i))"
    using assms(4) by (simp_all add: notify_args_def)
  show "\<bar>of_nat (unat (apc_DenominatedPrice (snd (price_changed conv (notify_args pn infos i)))))
      - v i * 10 ^ unat (pair_decimals (pn_pairs pn ! i))\<bar> < 2"
    by (rule denominated_close(1) [OF a v n])
  show "fst (price_changed conv (notify_args pn infos i)) = trim (Fin (v i)) (pair_trimPrecision (pn_pairs pn ! i))"
    by (rule denominated_close(2) [OF a v n])
qed

lemma trim_Fin:
  assumes "fetches env pn v" and "notifier_ok pn" and "i < length (pn_pairs pn)"
  shows "\<exists>q. trim (Fin (v i)) (pair_trimPrecision (pn_pairs pn ! i)) = Fin q"
proof -
  obtain args where a: "newPair args = Inr (pn_pairs pn ! i)" using assms(2,3) nth_mem by (fastforce simp: notifier_ok_def)
  let ?d = "10 ^ unat (pair_decimals (pn_pairs pn ! i)) :: rat"
  have "0 \<le> v i" "v i * ?d < 2 ^ 49" using assms(1,3) by (auto simp: fetches_def)
  moreover have "1 \<le> ?d" "tiny \<le> 1 / ?d" using newPair_fields(2) [OF a] by (simp_all add: tiny_pow10)
  ultimately obtain n where "trim (Fin (v i)) (Fin (rnd (1 / ?d))) = Fin (rnd (of_int n * rnd (1 / ?d)))" by (rule trim_units)
  then show ?thesis unfolding newPair_fields(3) [OF a] by blast
qed

lemma demo_notifier_sends:
  assumes "fetches env demo_notifier v"
  shows "\<exists>args pn'. Execute env demo_notifier = (ne_PriceChanged env args, Some args, pn')"
proof -
  obtain infos where i: "getAllPrices (ne_fetch env) (ne_now env) demo_notifier = Inr infos"
    using assms by (rule getAllPrices_fetches)
  obtain e where e: "epsilon = Fin e" "1 / 20000 < e" using epsilon_bound by blast
  have "shouldNotify (notify_args demo_notifier infos 0)"
    unfolding shouldNotify_def Let_def e(1) using e(2) by (simp add: notify_args_def demo_notifier_def)
  then have "round_slice env infos demo_notifier = [0]"
    by (simp add: round_slice_def demo_notifier_def)
  with Execute_round(1,2) [OF i demo_notifier_ok]
  have "\<exists>args. fst (Execute env demo_notifier) = ne_PriceChanged env args \<and> fst (snd (Execute env demo_notifier)) = Some args" by simp
  then show ?thesis by (metis prod.collapse)
qed

lemma demo_sends:
  "\<exists>args pn'. Execute (demo_notifier_env err) demo_notifier = (err, Some args, pn')"
  using demo_notifier_sends [OF demo_fetches [of err]] by (simp add: demo_notifier_env_def)

lemma demo_pair_fields:
  "unat (pair_decimals demo_pair) = 2" "pair_trimPrecision demo_pair = Fin (rnd (1 / 100))" "pair_percentDifferenceToNotify demo_pair = 1"
  using newPair_fields(3) [OF demo_newPair]
  by (simp_all add: demo_pair_def newPair_def demo_pair_args_def checkPairArgs_def minDecimals_def maxDecimals_def Let_def)

lemma demo_price_large: "\<not> f64_lt (trim (Fin 30) (Fin (rnd (1 / 100)))) epsilon"
proof -
  have "\<bar>30 / rnd (1 / 100)\<bar> \<le> 2 ^ 100" "\<bar>round_away (rnd (30 / rnd (1 / 100))) * rnd (1 / 100)\<bar> \<le> 2 ^ 100"
    by code_simp+
  note small = this [THEN f64_of_small]
  have "rnd (1 / 100) \<noteq> 0" "\<not> rnd (round_away (rnd (30 / rnd (1 / 100))) * rnd (1 / 100)) < rnd (1 / 10000)"
    by code_simp+
  then show ?thesis by (simp add: trim_def small epsilon_def)
qed

section \<open>Properties\<close>

text \<open>What the notifee is told: as long as the fetched prices times the denomination stay below
  \<open>2 ^ 49\<close>, every price that is sent belongs to a configured pair and differs from the fetched price,
  scaled by the denomination of the pair, by less than two units, in spite of the two roundings to
  the precision and the truncation.\<close>

lemma Execute_denominated_prices:
  assumes "notifier_ok pn" and "fetches env pn v" and "Execute env pn = (err, Some args, pn')"
  shows "\<forall>a\<in>set args. \<exists>i<length (pn_pairs pn). apc_Base a = pair_base (pn_pairs pn ! i) \<and> apc_Quote a = pair_quote (pn_pairs pn ! i)
    \<and> apc_Decimals a = pair_decimals (pn_pairs pn ! i)
    \<and> \<bar>of_nat (unat (apc_DenominatedPrice a)) - v i * 10 ^ unat (pair_decimals (pn_pairs pn ! i))\<bar> < 2"
proof
  fix a assume a: "a \<in> set args"
  obtain infos where infos: "getAllPrices (ne_fetch env) (ne_now env) pn = Inr infos"
    "\<forall>i<length (pn_pairs pn). pi_price (infos ! i) = trim (Fin (v i)) (pair_trimPrecision (pn_pairs pn ! i))"
    using assms(2) by (rule getAllPrices_fetches)
  from Execute_round(2) [OF infos(1) assms(1)] assms(3)
  have "args = map (\<lambda>i. snd (price_changed (ne_conv env) (notify_args pn infos i))) (round_slice env infos pn)"
    by (auto split: if_splits)
  with a obtain i where i: "i < length (pn_pairs pn)" "a = snd (price_changed (ne_conv env) (notify_args pn infos i))"
    by (auto simp: round_slice_def)
  with round_price_changed(1) [OF assms(2,1) i(1) infos(2) [rule_format, OF i(1)]]
  show "\<exists>i<length (pn_pairs pn). apc_Base a = pair_base (pn_pairs pn ! i) \<and> apc_Quote a = pair_quote (pn_pairs pn ! i)
    \<and> apc_Decimals a = pair_decimals (pn_pairs pn ! i)
    \<and> \<bar>of_nat (unat (apc_DenominatedPrice a)) - v i * 10 ^ unat (pair_decimals (pn_pairs pn ! i))\<bar> < 2"
    by (intro exI [of _ i]) (simp add: price_changed_def notify_args_def Let_def)
qed

lemma Execute_denominated_prices_example:
  "\<exists>args pn'. Execute (demo_notifier_env None) demo_notifier = (None, Some args, pn')
    \<and> (\<forall>a\<in>set args. \<bar>of_nat (unat (apc_DenominatedPrice a)) - 3000\<bar> < (2 :: rat))"
proof -
  obtain args pn' where e: "Execute (demo_notifier_env None) demo_notifier = (None, Some args, pn')" using demo_sends by blast
  from Execute_denominated_prices [OF demo_notifier_ok demo_fetches e] e show ?thesis
    by (auto simp: demo_notifier_def demo_pair_fields)
qed





end
