(* ===== verification/Mx_Notifee.thy ===== *)
theory Mx_Notifee
  imports Builders Tx_Builder Price_Notifier
begin

text \<open>
  \<^verbatim>\<open>aggregator/notifees/mxNotifee.go\<close>: the notifee that submits price changes to a contract. It joins
  the argument builder, the transaction builder and a nonce handler; the latter is the interface
  \<^verbatim>\<open>TransactionNonceHandler\<close>, a record of its two methods as they answer during the call. All that is
  relied on of it is \<open>nonce_handler_law\<close>: applying the nonce changes nonce and gas price only.
  \<^verbatim>\<open>PriceChanged\<close> returns the transaction that was handed over for sending beside the error.
\<close>

section \<open>Notifee\<close>

record tx_nonce_handler =
  nh_ApplyNonceAndGasPrice :: "address \<Rightarrow> FrontendTransaction \<Rightarrow> go_error option \<times> FrontendTransaction"
  nh_SendTransaction :: "FrontendTransaction \<Rightarrow> string result"

definition nonce_handler_law :: "tx_nonce_handler \<Rightarrow> bool" where
  "nonce_handler_law nh \<longleftrightarrow> (\<forall>a tx err tx'. nh_ApplyNonceAndGasPrice nh a tx = (err, tx') \<longrightarrow>
     (\<exists>n g. tx' = tx\<lparr>tx_Nonce := n, tx_GasPrice := g\<rparr>))"

definition minGasLimit :: u64 where "minGasLimit = 1"

record ('sk, 'pk) mxNotifee =
  mx_txBuilder :: "('sk, 'pk) txBuilder"
  mx_contractAddress :: address
  mx_baseGasLimit :: u64
  mx_gasLimitForEach :: u64
  mx_cryptoHolder :: "('sk, 'pk) cryptoComponentsHolder"

definition checkArgsMxNotifee ::
  "'p option \<Rightarrow> ('sk, 'pk) txBuilder option \<Rightarrow> 'n option \<Rightarrow> address option \<Rightarrow> ('sk, 'pk) cryptoComponentsHolder option \<Rightarrow> u64 \<Rightarrow> u64
     \<Rightarrow> go_error option" where
  "checkArgsMxNotifee proxy txBuilder txNonceHandler contractAddress cryptoHolder baseGasLimit gasLimitForEach =
     (if Option.is_none proxy then Some (ENotifees Notifees_errNilProxy)
      else if Option.is_none txBuilder then Some (ENotifees Notifees_errNilTxBuilder)
      else if Option.is_none txNonceHandler then Some (ENotifees Notifees_errNilTxNonceHandler)
      else if Option.is_none contractAddress then Some (ENotifees Notifees_errNilContractAddressHandler)
      else if \<not> addr_IsValid (the contractAddress) then Some (ENotifees Notifees_errInvalidContractAddress)
      else if Option.is_none cryptoHolder then Some (EBuilders Builders_ErrNilCryptoComponentsHolder)
      else if baseGasLimit < minGasLimit then Some (ENotifees Notifees_errInvalidBaseGasLimit)
      else if gasLimitForEach < minGasLimit then Some (ENotifees Notifees_errInvalidGasLimitForEach)
      else None)"

definition NewMxNotifee ::
  "'p option \<Rightarrow> ('sk, 'pk) txBuilder option \<Rightarrow> 'n option \<Rightarrow> address option \<Rightarrow> ('sk, 'pk) cryptoComponentsHolder option \<Rightarrow> u64 \<Rightarrow> u64
     \<Rightarrow> ('sk, 'pk) mxNotifee result" where
  "NewMxNotifee proxy txBuilder txNonceHandler contractAddress cryptoHolder baseGasLimit gasLimitForEach =
     (case checkArgsMxNotifee proxy txBuilder txNonceHandler contractAddress cryptoHolder baseGasLimit gasLimitForEach of
        Some err \<Rightarrow> Inl err
      | None \<Rightarrow> Inr \<lparr>mx_txBuilder = the txBuilder, mx_contractAddress = the contractAddress, mx_baseGasLimit = baseGasLimit,
          mx_gasLimitForEach = gasLimitForEach, mx_cryptoHolder = the cryptoHolder\<rparr>)"

definition submit_function :: string where "submit_function = ''submitBatch''"

definition change_args :: "ArgsPriceChanged \<Rightarrow> builder_arg list" where
  "change_args c = [ABytes (bytes_of_string (apc_Base c)), ABytes (bytes_of_string (apc_Quote c)), AInt64 (of_int (apc_Timestamp c)),
     AInt64 (apc_DenominatedPrice c), AInt64 (apc_Decimals c)]"

definition prepareTxData :: "ArgsPriceChanged list \<Rightarrow> byte list result" where
  "prepareTxData priceChanges =
     (let b0 = td_Function submit_function NewTxDataBuilder
      in ToDataBytes (fold (\<lambda>c. fold addArg (change_args c)) priceChanges b0))"

definition PriceChanged ::
  "('sk, 'pk) crypto_env \<Rightarrow> NetworkConfig result \<Rightarrow> tx_nonce_handler \<Rightarrow> ('sk, 'pk) mxNotifee \<Rightarrow> ArgsPriceChanged list
     \<Rightarrow> go_error option \<times> FrontendTransaction option" where
  "PriceChanged env getNetworkConfig nh en priceChanges =
     (case prepareTxData priceChanges of
        Inl err \<Rightarrow> (Some err, None)
      | Inr txData \<Rightarrow> (case getNetworkConfig of
          Inl err \<Rightarrow> (Some err, None)
        | Inr networkConfigs \<Rightarrow> (case AddressAsBech32String (env_pkc env) (mx_contractAddress en) of
            Inl err \<Rightarrow> (Some err, None)
          | Inr receiverAddressAsBech32 \<Rightarrow>
              let gasLimit = mx_baseGasLimit en + go_len priceChanges * mx_gasLimitForEach en;
                  tx0 = zero_tx\<lparr>tx_Value := ''0'', tx_Receiver := receiverAddressAsBech32,
                    tx_GasPrice := nc_MinGasPrice networkConfigs, tx_GasLimit := gasLimit, tx_Data := txData,
                    tx_ChainID := nc_ChainID networkConfigs, tx_Version := 1\<rparr>
              in case nh_ApplyNonceAndGasPrice nh (cch_addressHandler (mx_cryptoHolder en)) tx0 of
                   (Some err, _) \<Rightarrow> (Some err, None)
                 | (None, tx1) \<Rightarrow> (case ApplyUserSignature env (mx_txBuilder en) (mx_cryptoHolder en) tx1 of
                     (Some err, _) \<Rightarrow> (Some err, None)
                   | (None, tx2) \<Rightarrow> (case nh_SendTransaction nh tx2 of
                       Inl err \<Rightarrow> (Some err, Some tx2)
                     | Inr _ \<Rightarrow> (None, Some tx2))))))"

section \<open>What the contract reads\<close>

text \<open>A number argument as the contract reads it: big endian, unsigned.\<close>

definition reads_change :: "byte list list \<Rightarrow> ArgsPriceChanged \<Rightarrow> bool" where
  "reads_change bs c \<longleftrightarrow> (case bs of
     [b, q, t, p, d] \<Rightarrow> b = bytes_of_string (apc_Base c) \<and> q = bytes_of_string (apc_Quote c) \<and> int (be_val t) = apc_Timestamp c
       \<and> be_val p = unat (apc_DenominatedPrice c) \<and> be_val d = unat (apc_Decimals c)
   | _ \<Rightarrow> False)"

text \<open>The changes that the signed encoding can carry.\<close>

definition encodable :: "ArgsPriceChanged \<Rightarrow> bool" where
  "encodable c \<longleftrightarrow> apc_Base c \<noteq> [] \<and> apc_Quote c \<noteq> [] \<and> 0 \<le> apc_Timestamp c \<and> apc_Timestamp c < 2 ^ 63
     \<and> unat (apc_DenominatedPrice c) < 2 ^ 63 \<and> unat (apc_Decimals c) < 2 ^ 63"

section \<open>Lemmas\<close>

lemma prepareTxData_chain:
  "prepareTxData cs = ToDataBytes (fold data_step (DFunction submit_function # map DArg (concat (map change_args cs))) NewTxDataBuilder)"
proof -
  have a: "fold addArg as b = fold data_step (map DArg as) b" for as b by (induction as arbitrary: b) auto
  have "fold (\<lambda>c. fold addArg (change_args c)) cs b = fold data_step (map DArg (concat (map change_args cs))) b" for b
    by (induction cs arbitrary: b) (simp_all add: a)
  then show ?thesis by (simp add: prepareTxData_def)
qed

lemma be_val_padded [simp]: "be_val (padded (nat_bytes n)) = n"
  by (cases "n = 0") (simp_all add: padded_def)

lemma sint_small:
  assumes "unat (w :: 64 word) < 2 ^ 63"
  shows "sint w = int (unat w)"
proof -
  have "int (unat w) < int (2 ^ 63)" using assms by (simp only: of_nat_less_iff)
  then have "uint w < 2 ^ 63" by simp
  moreover have "- (2 ^ 63) \<le> uint w" by (rule order_trans [OF _ unsigned_greater_eq]) simp
  ultimately have "signed_take_bit 63 (uint w) = uint w" by (intro signed_take_bit_int_eq_self)
  then show ?thesis by (simp add: sint_uint)
qed

lemma sint_of_small_int:
  assumes "0 \<le> i" and "i < 2 ^ 63"
  shows "sint (of_int i :: 64 word) = i"
  using assms by (simp add: signed_of_int signed_take_bit_int_eq_self)

lemma change_reads:
  assumes "encodable c" and "map arg_value (change_args c) = map Inr bs"
  shows "reads_change bs c"
  using assms by (auto simp: change_args_def reads_change_def encodable_def sint_small sint_of_small_int bytes_of_string_def map_eq_Cons_conv
      split: if_splits)

lemma change_no_error:
  assumes "encodable c" and "a \<in> set (change_args c)"
  shows "\<exists>bs. arg_value a = Inr bs"
  using assms by (auto simp: change_args_def encodable_def bytes_of_string_def)

lemma first_error_intro: "\<forall>a\<in>set as. \<exists>bs. arg_value a = Inr bs \<Longrightarrow> first_error as = None"
  by (induction as) auto

text \<open>A list whose image is a concatenation falls into groups.\<close>

lemma map_concat_groups:
  "map f hs = concat (map G cs) \<Longrightarrow> \<exists>gs. hs = concat gs \<and> list_all2 (\<lambda>g c. map f g = G c) gs cs"
proof (induction cs arbitrary: hs)
  case (Cons c cs)
  then obtain g rest where g: "hs = g @ rest" "map f g = G c" "map f rest = concat (map G cs)"
    by (auto simp: map_eq_append_conv)
  from Cons.IH [OF g(3)] obtain gs where gs: "rest = concat gs" "list_all2 (\<lambda>g c. map f g = G c) gs cs" by blast
  with g show ?case by (intro exI [of _ "g # gs"]) simp
qed simp

lemma prepareTxData_reads:
  assumes "\<forall>c\<in>set cs. encodable c"
  shows "\<exists>txData gs. prepareTxData cs = Inr txData \<and> split_on dataSeparator (string_of_bytes txData) = submit_function # concat gs
    \<and> list_all2 (\<lambda>g c. \<exists>bs. map hex_DecodeString g = map Inr bs \<and> reads_change bs c) gs cs"
proof -
  let ?calls = "DFunction submit_function # map DArg (concat (map change_args cs))"
  have ca: "concat (map call_args (map DArg as)) = as" for as by (induction as) auto
  have lf: "last_function ?calls = submit_function"
  proof -
    have "foldl (\<lambda>f c. case c of DFunction g \<Rightarrow> g | _ \<Rightarrow> f) x (map DArg as) = x" for x as by (induction as) auto
    then show ?thesis by (simp add: last_function_def)
  qed
  have "first_error (concat (map call_args ?calls)) = None"
  proof -
    have "\<forall>a\<in>set (concat (map change_args cs)). \<exists>bs. arg_value a = Inr bs" using assms change_no_error by fastforce
    then show ?thesis by (simp add: ca first_error_intro)
  qed
  from ToDataString_split [OF _ _ this, unfolded lf] obtain s hs where
    s: "ToDataString (fold data_step ?calls NewTxDataBuilder) = Inr s" "split_on dataSeparator s = submit_function # hs"
      "map hex_DecodeString hs = map arg_value (concat (map call_args ?calls))"
    by (auto simp: submit_function_def dataSeparator_def)
  have "map hex_DecodeString hs = concat (map (\<lambda>c. map arg_value (change_args c)) cs)"
  proof -
    have c: "concat (map call_args ?calls) = concat (map change_args cs)" by (simp only: list.map concat.simps call_args.simps append_Nil ca)
    show ?thesis unfolding s(3) c by (simp only: map_concat map_map comp_def)
  qed
  then obtain gs where gs: "hs = concat gs" "list_all2 (\<lambda>g c. map hex_DecodeString g = map arg_value (change_args c)) gs cs"
    using map_concat_groups by blast
  have "list_all2 (\<lambda>g c. \<exists>bs. map hex_DecodeString g = map Inr bs \<and> reads_change bs c) gs cs"
    using gs(2)
  proof (rule list.rel_mono_strong)
    fix g c assume c: "c \<in> set cs" and g: "map hex_DecodeString g = map arg_value (change_args c)"
    have "\<forall>a\<in>set (change_args c). \<exists>bs. arg_value a = Inr bs" using c assms change_no_error by blast
    then obtain h where "\<forall>a\<in>set (change_args c). arg_value a = Inr (h a)" by metis
    then have "map arg_value (change_args c) = map Inr (map h (change_args c))" by simp
    with g c assms change_reads show "\<exists>bs. map hex_DecodeString g = map Inr bs \<and> reads_change bs c" by metis
  qed
  moreover have "prepareTxData cs = Inr (bytes_of_string s)" using s(1) by (simp add: prepareTxData_chain ToDataBytes_def)
  ultimately show ?thesis
    using s(2) gs(1) by (intro exI [of _ "bytes_of_string s"] exI [of _ gs]) (simp only: string_of_bytes_of_string simp_thms)
qed

lemma PriceChanged_ok_sent:
  assumes "fst (PriceChanged env cfg nh en cs) = None"
  shows "\<exists>tx. PriceChanged env cfg nh en cs = (None, Some tx)"
  using assms by (auto simp: PriceChanged_def Let_def split: sum.splits prod.splits option.splits)

section \<open>A concrete notifee\<close>

definition demo_nonce_handler :: tx_nonce_handler where
  "demo_nonce_handler = \<lparr>nh_ApplyNonceAndGasPrice = (\<lambda>a tx. (None, tx\<lparr>tx_Nonce := 9\<rparr>)), nh_SendTransaction = (\<lambda>tx. Inr ''hash'')\<rparr>"

definition demo_mx :: "(byte list, byte list) mxNotifee" where
  "demo_mx = \<lparr>mx_txBuilder = demo_builder, mx_contractAddress = NewAddressFromBytes (replicate 32 5), mx_baseGasLimit = 1000,
     mx_gasLimitForEach = 10, mx_cryptoHolder = demo_holder 7\<rparr>"

lemma demo_nonce_handler_law: "nonce_handler_law demo_nonce_handler"
proof -
  have "tx\<lparr>tx_Nonce := 9\<rparr> = tx\<lparr>tx_Nonce := 9, tx_GasPrice := tx_GasPrice tx\<rparr>" for tx :: FrontendTransaction by simp
  then have "\<exists>n g. tx\<lparr>tx_Nonce := 9\<rparr> = tx\<lparr>tx_Nonce := n, tx_GasPrice := g\<rparr>" for tx :: FrontendTransaction by blast
  then show ?thesis unfolding nonce_handler_law_def demo_nonce_handler_def by simp
qed

section \<open>The submitted transaction\<close>

text \<open>The transaction that reports price changes: when the notifee succeeds, the transaction that
  was sent goes to the contract with value zero and a gas limit for the number of changes, its
  signature is valid for the key of the holder, and its data field is the function name followed by
  five arguments per change, which the contract reads as exactly base, quote, timestamp, price and
  decimals of the changes in order.\<close>

lemma PriceChanged_submits:
  assumes "sig_law env" and "nonce_handler_law nh" and "mx_txBuilder en = \<lparr>tb_signer = NewSigner env\<rparr>"
    and "cch_publicKey (mx_cryptoHolder en) = sk_GeneratePublic env (cch_privateKey (mx_cryptoHolder en))"
    and "PriceChanged env cfg nh en cs = (None, Some tx)" and "\<forall>c\<in>set cs. encodable c"
  shows "AddressAsBech32String (env_pkc env) (mx_contractAddress en) = Inr (tx_Receiver tx) \<and> tx_Value tx = ''0''
    \<and> tx_GasLimit tx = mx_baseGasLimit en + of_nat (length cs) * mx_gasLimitForEach en
    \<and> (\<exists>sig. hex_DecodeString (tx_Signature tx) = Inr sig
         \<and> VerifyTransactionSignature 1 (Some tx) (Some (cch_publicKey (mx_cryptoHolder en))) sig
             (Some (NewSigner env)) (Some (json_tx env)) (Some (keccak_Compute env)) = None)
    \<and> (\<exists>gs. split_on dataSeparator (string_of_bytes (tx_Data tx)) = submit_function # concat gs
         \<and> list_all2 (\<lambda>g c. \<exists>bs. map hex_DecodeString g = map Inr bs \<and> reads_change bs c) gs cs)"
proof -
  obtain txData nc bech where p: "prepareTxData cs = Inr txData" "cfg = Inr nc"
    "AddressAsBech32String (env_pkc env) (mx_contractAddress en) = Inr bech"
    using assms(5) by (auto simp: PriceChanged_def split: sum.splits)
  let ?tx0 = "zero_tx\<lparr>tx_Value := ''0'', tx_Receiver := bech, tx_GasPrice := nc_MinGasPrice nc,
    tx_GasLimit := mx_baseGasLimit en + go_len cs * mx_gasLimitForEach en, tx_Data := txData, tx_ChainID := nc_ChainID nc, tx_Version := 1\<rparr>"
  obtain tx1 where a: "nh_ApplyNonceAndGasPrice nh (cch_addressHandler (mx_cryptoHolder en)) ?tx0 = (None, tx1)"
    "ApplyUserSignature env (mx_txBuilder en) (mx_cryptoHolder en) tx1 = (None, tx)"
    using assms(5) p by (auto simp: PriceChanged_def Let_def split: sum.splits prod.splits option.splits)
  obtain n g where tx1: "tx1 = ?tx0\<lparr>tx_Nonce := n, tx_GasPrice := g\<rparr>" using assms(2) a(1) unfolding nonce_handler_law_def by blast
  obtain s where s: "signTx env (mx_txBuilder en) (TransactionToUnsignedTx tx) (mx_cryptoHolder en) = Inr s"
    "tx = tx1\<lparr>tx_Sender := cch_bech32Address (mx_cryptoHolder en), tx_Signature := hex_EncodeToString s\<rparr>"
    using ApplyUserSignature_ok [OF a(2)] by blast
  have f: "tx_Receiver tx = bech" "tx_Value tx = ''0''" "tx_GasLimit tx = mx_baseGasLimit en + of_nat (length cs) * mx_gasLimitForEach en"
    "tx_Data tx = txData" "tx_Signature tx = hex_EncodeToString s"
    by (simp_all add: s(2) tx1 go_len_def)
  have "VerifyTransactionSignature 1 (Some tx) (Some (cch_publicKey (mx_cryptoHolder en))) s
      (Some (NewSigner env)) (Some (json_tx env)) (Some (keccak_Compute env)) = None"
    using signTx_verifies [OF assms(1) s(1) [unfolded assms(3)] assms(4)] .
  with prepareTxData_reads [OF assms(6)] p(1) f p(3) show ?thesis by auto
qed

lemma demo_PriceChanged_ok:
  assumes "\<forall>c\<in>set cs. encodable c"
  shows "fst (PriceChanged demo_env (Inr demo_config) demo_nonce_handler demo_mx cs) = None"
proof -
  obtain txData where "prepareTxData cs = Inr txData" using prepareTxData_reads [OF assms] by blast
  then show ?thesis
    by (simp add: PriceChanged_def AddressAsBech32String_def demo_env_def hex_converter_def demo_nonce_handler_def demo_mx_def
        ApplyUserSignature_def signTx_def demo_builder_def NewSigner_def SignByteSlice_def Let_def)
qed

lemma demo_mx_key:
  "mx_txBuilder demo_mx = \<lparr>tb_signer = NewSigner demo_env\<rparr>"
  "cch_publicKey (mx_cryptoHolder demo_mx) = sk_GeneratePublic demo_env (cch_privateKey (mx_cryptoHolder demo_mx))"
  by (simp_all add: demo_mx_def demo_builder_def demo_holder_def demo_env_def)

end
