(* ===== verification/Header_Check.thy ===== *)
theory Header_Check
  imports Sdk_Data
begin

text \<open>
  \<^verbatim>\<open>headerCheck/headerCheck.go\<close> and \<^verbatim>\<open>rawHeaderHandler.go\<close>: verification of header signatures. The proxy, the
  marshaller, the nodes coordinator and the signature verifier belong to other packages; they are the
  fields of \<open>header_env\<close>, and the state of the coordinator, which the verifier updates with the
  validators of an epoch it does not know yet, is a type variable that is passed along.
\<close>

section \<open>Environment\<close>

record ('h, 'v, 'c) header_env =
  he_GetRawBlockByHash :: "u32 \<Rightarrow> string \<Rightarrow> byte list result"
  he_GetRawStartOfEpochMetaBlock :: "u32 \<Rightarrow> byte list result"
  he_GetValidatorsInfoByEpoch :: "u32 \<Rightarrow> 'v list result"
  he_UnmarshalMeta :: "byte list \<Rightarrow> 'h result"
  he_UnmarshalShard :: "byte list \<Rightarrow> 'h result"
  he_GetEpoch :: "'h \<Rightarrow> u32"
  he_GetPrevRandSeed :: "'h \<Rightarrow> byte list"
  he_IsEpochInConfig :: "u32 \<Rightarrow> 'c \<Rightarrow> bool"
  he_SetNodesConfig :: "u32 \<Rightarrow> byte list \<Rightarrow> 'v list \<Rightarrow> 'c \<Rightarrow> go_error option \<times> 'c"
  he_VerifySignature :: "'h \<Rightarrow> 'c \<Rightarrow> go_error option"

text \<open>What the verifier relies on of the coordinator: an epoch that was set is known.\<close>

definition coordinator_law :: "('h, 'v, 'c) header_env \<Rightarrow> bool" where
  "coordinator_law env \<longleftrightarrow> (\<forall>e r v c c'. he_SetNodesConfig env e r v c = (None, c') \<longrightarrow> he_IsEpochInConfig env e c')"

section \<open>Raw headers\<close>

definition NewRawHeaderHandler :: "'p option \<Rightarrow> 'm option \<Rightarrow> ('p \<times> 'm) result" where
  "NewRawHeaderHandler proxy marshaller =
     (case proxy of None \<Rightarrow> Inl (EHeaderCheck HeaderCheck_ErrNilProxy)
      | Some p \<Rightarrow> (case marshaller of None \<Rightarrow> Inl (EHeaderCheck HeaderCheck_ErrNilMarshaller) | Some m \<Rightarrow> Inr (p, m)))"

definition GetMetaBlockByHash :: "('h, 'v, 'c) header_env \<Rightarrow> string \<Rightarrow> 'h result" where
  "GetMetaBlockByHash env hash = on_ok (he_GetRawBlockByHash env MetachainShardId hash) (he_UnmarshalMeta env)"

definition GetShardBlockByHash :: "('h, 'v, 'c) header_env \<Rightarrow> u32 \<Rightarrow> string \<Rightarrow> 'h result" where
  "GetShardBlockByHash env shardId hash = on_ok (he_GetRawBlockByHash env shardId hash) (he_UnmarshalShard env)"

definition GetStartOfEpochMetaBlock :: "('h, 'v, 'c) header_env \<Rightarrow> u32 \<Rightarrow> 'h result" where
  "GetStartOfEpochMetaBlock env epoch = on_ok (he_GetRawStartOfEpochMetaBlock env epoch) (he_UnmarshalMeta env)"

definition GetValidatorsInfoPerEpoch :: "('h, 'v, 'c) header_env \<Rightarrow> u32 \<Rightarrow> ('v list \<times> byte list) result" where
  "GetValidatorsInfoPerEpoch env epoch =
     on_ok (GetStartOfEpochMetaBlock env epoch) (\<lambda>metaBlock.
     let randomness = he_GetPrevRandSeed env metaBlock
     in on_ok (he_GetValidatorsInfoByEpoch env epoch) (\<lambda>validatorsInfoPerEpoch. Inr (validatorsInfoPerEpoch, randomness)))"

section \<open>Header verifier\<close>

definition hc_checkArguments :: "'r option \<Rightarrow> 's option \<Rightarrow> 'n option \<Rightarrow> go_error option" where
  "hc_checkArguments headerHandler headerSigVerifier coordinator =
     (if Option.is_none headerHandler then Some (EHeaderCheck HeaderCheck_ErrNilRawHeaderHandler)
      else if Option.is_none coordinator then Some (EHeaderCheck HeaderCheck_ErrNilNodesCoordinator)
      else if Option.is_none headerSigVerifier then Some (EHeaderCheck HeaderCheck_ErrNilHeaderSigVerifier)
      else None)"

definition NewHeaderVerifier :: "'r option \<Rightarrow> 's option \<Rightarrow> 'n option \<Rightarrow> ('r \<times> 's \<times> 'n) result" where
  "NewHeaderVerifier headerHandler headerSigVerifier coordinator =
     (case hc_checkArguments headerHandler headerSigVerifier coordinator of
        Some err \<Rightarrow> Inl err
      | None \<Rightarrow> Inr (the headerHandler, the headerSigVerifier, the coordinator))"

definition fetchHeaderByHashAndShard :: "('h, 'v, 'c) header_env \<Rightarrow> u32 \<Rightarrow> string \<Rightarrow> 'h result" where
  "fetchHeaderByHashAndShard env shardId hash =
     (if shardId = MetachainShardId then GetMetaBlockByHash env hash else GetShardBlockByHash env shardId hash)"

definition updateNodesConfigPerEpoch :: "('h, 'v, 'c) header_env \<Rightarrow> u32 \<Rightarrow> 'c \<Rightarrow> go_error option \<times> 'c" where
  "updateNodesConfigPerEpoch env epoch c = (case GetValidatorsInfoPerEpoch env epoch of
     Inl err \<Rightarrow> (Some err, c)
   | Inr (validatorInfo, randomness) \<Rightarrow> he_SetNodesConfig env epoch randomness validatorInfo c)"

definition VerifyHeaderSignatureByHash ::
  "('h, 'v, 'c) header_env \<Rightarrow> u32 \<Rightarrow> string \<Rightarrow> 'c \<Rightarrow> (bool \<times> go_error option) \<times> 'c" where
  "VerifyHeaderSignatureByHash env shardId hash c =
     (case fetchHeaderByHashAndShard env shardId hash of
        Inl err \<Rightarrow> ((False, Some err), c)
      | Inr header \<Rightarrow>
          let headerEpoch = he_GetEpoch env header;
              (errUpdate, c1) = (if \<not> he_IsEpochInConfig env headerEpoch c then updateNodesConfigPerEpoch env headerEpoch c else (None, c))
          in case errUpdate of
               Some err \<Rightarrow> ((False, Some err), c1)
             | None \<Rightarrow> (case he_VerifySignature env header c1 of
                 Some err \<Rightarrow> ((False, Some err), c1)
               | None \<Rightarrow> ((True, None), c1)))"

text \<open>A sequence of verifications on the same coordinator; the network may answer differently in each of
  them, so that each has its own environment.\<close>

primrec verify_run ::
  "(('h, 'v, 'c) header_env \<times> u32 \<times> string) list \<Rightarrow> 'c \<Rightarrow> (bool \<times> go_error option) list \<times> 'c" where
  "verify_run [] c = ([], c)"
| "verify_run (q # qs) c =
     (let (env, shardId, hash) = q; (r, c1) = VerifyHeaderSignatureByHash env shardId hash c; (rs, c2) = verify_run qs c1
      in (r # rs, c2))"

section \<open>A concrete environment\<close>

definition demo_header_env :: "(u32, nat, u32 list) header_env" where
  "demo_header_env = \<lparr>he_GetRawBlockByHash = (\<lambda>s h. if h = [] then Inl (EExternal ''not found'') else Inr [7]),
     he_GetRawStartOfEpochMetaBlock = (\<lambda>e. Inr [1]), he_GetValidatorsInfoByEpoch = (\<lambda>e. Inr [1, 2]),
     he_UnmarshalMeta = (\<lambda>b. Inr 3), he_UnmarshalShard = (\<lambda>b. Inr 4), he_GetEpoch = (\<lambda>h. h), he_GetPrevRandSeed = (\<lambda>h. [9]),
     he_IsEpochInConfig = (\<lambda>e c. e \<in> set c), he_SetNodesConfig = (\<lambda>e r v c. (None, e # c)),
     he_VerifySignature = (\<lambda>h c. if h = 4 then None else Some (EExternal ''bad signature''))\<rparr>"

section \<open>Lemmas\<close>

lemma VerifyHeaderSignatureByHash_result:
  "VerifyHeaderSignatureByHash env s h c = (r, c') \<Longrightarrow> fst r \<longleftrightarrow> snd r = None"
  by (auto simp: VerifyHeaderSignatureByHash_def Let_def split: sum.splits prod.splits option.splits if_splits)

text \<open>Verification succeeds exactly when every step of it does; \<open>c'\<close> is the coordinator at the end.\<close>

lemma VerifyHeaderSignatureByHash_exact:
  assumes "VerifyHeaderSignatureByHash env s h c = (r, c')"
  shows "fst r \<longleftrightarrow> (\<exists>header. fetchHeaderByHashAndShard env s h = Inr header \<and> he_VerifySignature env header c' = None
    \<and> (if he_IsEpochInConfig env (he_GetEpoch env header) c then c' = c
       else \<exists>v seed. GetValidatorsInfoPerEpoch env (he_GetEpoch env header) = Inr (v, seed)
              \<and> he_SetNodesConfig env (he_GetEpoch env header) seed v c = (None, c')))"
proof (cases "fetchHeaderByHashAndShard env s h")
  case (Inl e)
  with assms show ?thesis by (auto simp: VerifyHeaderSignatureByHash_def)
next
  case (Inr header)
  show ?thesis
  proof (cases "he_IsEpochInConfig env (he_GetEpoch env header) c")
    case True
    with assms Inr show ?thesis by (auto simp: VerifyHeaderSignatureByHash_def Let_def split: option.splits)
  next
    case False
    show ?thesis
    proof (cases "GetValidatorsInfoPerEpoch env (he_GetEpoch env header)")
      case (Inl e)
      with assms Inr False show ?thesis
        by (auto simp: VerifyHeaderSignatureByHash_def updateNodesConfigPerEpoch_def Let_def)
    next
      case (Inr vs)
      obtain err c1 where n: "he_SetNodesConfig env (he_GetEpoch env header) (snd vs) (fst vs) c = (err, c1)" by fastforce
      with assms \<open>fetchHeaderByHashAndShard env s h = Inr header\<close> False Inr show ?thesis
        by (cases vs; cases err; cases "he_VerifySignature env header c1")
          (auto simp: VerifyHeaderSignatureByHash_def updateNodesConfigPerEpoch_def Let_def)
    qed
  qed
qed

lemma verify_run_nth:
  assumes "i < length qs" and "qs ! i = (env, shardId, hash)"
  shows "VerifyHeaderSignatureByHash env shardId hash (snd (verify_run (take i qs) c))
    = (fst (verify_run qs c) ! i, snd (verify_run (take (Suc i) qs) c))"
  using assms
proof (induction qs arbitrary: c i)
  case (Cons q qs)
  obtain e s h where q: "q = (e, s, h)" by (metis prod_cases3)
  obtain r c1 where v: "VerifyHeaderSignatureByHash e s h c = (r, c1)" by fastforce
  show ?case
  proof (cases i)
    case 0
    then show ?thesis using Cons.prems(2) q v by (simp add: Let_def split_beta)
  next
    case (Suc j)
    then show ?thesis using Cons.IH [of j c1] Cons.prems q v by (simp add: Let_def split_beta)
  qed
qed simp

lemma verify_run_length: "length (fst (verify_run qs c)) = length qs"
  by (induction qs arbitrary: c) (auto simp: Let_def split_beta)

section \<open>Properties\<close>

text \<open>C28. In every sequence of verifications each one reports success exactly when it reports no error,
  and exactly when the header for the given shard and hash can be fetched and its signature is valid
  under a coordinator that knows the epoch of the header: the coordinator left by the verifications
  before, if it knows the epoch already, and otherwise the one that this verification made by setting
  the validators of the start of the epoch.\<close>

theorem verify_run_sound:
  assumes "i < length qs" and "qs ! i = (env, shardId, hash)" and "coordinator_law env"
  shows "length (fst (verify_run qs c)) = length qs
    \<and> (let (ok, err) = fst (verify_run qs c) ! i; c1 = snd (verify_run (take i qs) c); c2 = snd (verify_run (take (Suc i) qs) c)
       in (ok \<longleftrightarrow> err = None)
        \<and> (ok \<longleftrightarrow> (\<exists>header. fetchHeaderByHashAndShard env shardId hash = Inr header
            \<and> he_VerifySignature env header c2 = None \<and> he_IsEpochInConfig env (he_GetEpoch env header) c2
            \<and> (if he_IsEpochInConfig env (he_GetEpoch env header) c1 then c2 = c1
               else \<exists>v seed. GetValidatorsInfoPerEpoch env (he_GetEpoch env header) = Inr (v, seed)
                      \<and> he_SetNodesConfig env (he_GetEpoch env header) seed v c1 = (None, c2)))))"
proof -
  note v = verify_run_nth [OF assms(1,2), of c]
  have "fst (fst (verify_run qs c) ! i) \<longleftrightarrow> snd (fst (verify_run qs c) ! i) = None"
    using VerifyHeaderSignatureByHash_result [OF v] .
  moreover note VerifyHeaderSignatureByHash_exact [OF v]
  moreover have "he_IsEpochInConfig env e c'" if "he_SetNodesConfig env e s v c0 = (None, c')" for e s v c0 c'
    using assms(3) that unfolding coordinator_law_def by blast
  ultimately show ?thesis
    by (auto simp: verify_run_length Let_def split_beta split: if_splits)
qed

theorem verify_run_sound_witness:
  "fst (verify_run [(demo_header_env, 0, ''aa''), (demo_header_env, 4294967295, ''bb'')] []) ! 0 = (True, None)
    \<and> (\<exists>header c2. fetchHeaderByHashAndShard demo_header_env 0 ''aa'' = Inr header \<and> he_VerifySignature demo_header_env header c2 = None)"
proof -
  let ?qs = "[(demo_header_env, 0, ''aa''), (demo_header_env, 4294967295, ''bb'')]"
  have law: "coordinator_law demo_header_env" by (simp add: coordinator_law_def demo_header_env_def)
  have r: "fst (verify_run ?qs []) ! 0 = (True, None)"
    by (simp add: VerifyHeaderSignatureByHash_def fetchHeaderByHashAndShard_def GetShardBlockByHash_def MetachainShardId_def
        updateNodesConfigPerEpoch_def GetValidatorsInfoPerEpoch_def GetStartOfEpochMetaBlock_def demo_header_env_def Let_def split_beta)
  have "0 < length ?qs" "?qs ! 0 = (demo_header_env, 0, ''aa'')" by simp_all
  from verify_run_sound [OF this law, of "[]"] r show ?thesis by (auto simp: Let_def)
qed

end
