(* ===== verification/Disabled.thy ===== *)
theory Disabled
  imports Sdk_Errors Go_Encoding
begin

text \<open>
  The components of \<^verbatim>\<open>disabled/\<close> (the cache is in \<open>Map_Cacher\<close>): implementations of interfaces of \<^verbatim>\<open>mx-chain-go\<close> that
  the address generator and the header verifier hand to constructors of that module. Each struct is empty, so
  an implementation is a record of functions with one field per method, in the order of the file. A method that
  returns nothing has the type \<open>unit\<close>; a nil slice is empty; \<open>'o\<close> stands for the values of types of other modules, which the
  methods ignore or answer with nil, and a nil error beside a nil value is \<open>Inr None\<close>. \<^verbatim>\<open>IsInterfaceNil\<close> of a pointer that was
  taken of a struct is false.
\<close>

section \<open>State\<close>

record 'o AccountsAdapter =
  da_SetSyncer :: "'o \<Rightarrow> go_error option"
  da_StartSnapshotIfNeeded :: "go_error option"
  da_RecreateTrieFromEpoch :: "'o \<Rightarrow> go_error option"
  da_GetStackDebugFirstEntry :: "byte list"
  da_SnapshotState :: "byte list \<Rightarrow> u32 \<Rightarrow> unit"
  da_GetTrie :: "byte list \<Rightarrow> 'o option result"
  da_Close :: "go_error option"
  da_GetCode :: "byte list \<Rightarrow> byte list"
  da_RecreateAllTries :: "byte list \<Rightarrow> (string \<rightharpoonup> 'o) result"
  da_LoadAccount :: "byte list \<Rightarrow> 'o option result"
  da_SaveAccount :: "'o \<Rightarrow> go_error option"
  da_GetAllLeaves :: "'o \<Rightarrow> 'o \<Rightarrow> byte list \<Rightarrow> 'o \<Rightarrow> go_error option"
  da_Commit :: "byte list result"
  da_CommitInEpoch :: "u32 \<Rightarrow> u32 \<Rightarrow> byte list result"
  da_GetExistingAccount :: "byte list \<Rightarrow> 'o option result"
  da_JournalLen :: int
  da_RemoveAccount :: "byte list \<Rightarrow> go_error option"
  da_RevertToSnapshot :: "int \<Rightarrow> go_error option"
  da_RootHash :: "byte list result"
  da_RecreateTrie :: "'o \<Rightarrow> go_error option"
  da_PruneTrie :: "byte list \<Rightarrow> 'o \<Rightarrow> 'o \<Rightarrow> unit"
  da_CancelPrune :: "byte list \<Rightarrow> 'o \<Rightarrow> unit"
  da_SetStateCheckpoint :: "byte list \<Rightarrow> unit"
  da_IsPruningEnabled :: bool
  da_GetNumCheckpoints :: u32
  da_GetAccountFromBytes :: "byte list \<Rightarrow> byte list \<Rightarrow> 'o option result"
  da_IsInterfaceNil :: bool

definition disabled_Accounts :: "'o AccountsAdapter" where
  "disabled_Accounts = \<lparr>da_SetSyncer = (\<lambda>_. None), da_StartSnapshotIfNeeded = None, da_RecreateTrieFromEpoch = (\<lambda>_. None),
     da_GetStackDebugFirstEntry = [], da_SnapshotState = (\<lambda>_ _. ()), da_GetTrie = (\<lambda>_. Inr None), da_Close = None,
     da_GetCode = (\<lambda>_. []), da_RecreateAllTries = (\<lambda>_. Inr Map.empty), da_LoadAccount = (\<lambda>_. Inr None),
     da_SaveAccount = (\<lambda>_. None), da_GetAllLeaves = (\<lambda>_ _ _ _. None), da_Commit = Inr [], da_CommitInEpoch = (\<lambda>_ _. Inr []),
     da_GetExistingAccount = (\<lambda>_. Inr None), da_JournalLen = 0, da_RemoveAccount = (\<lambda>_. None), da_RevertToSnapshot = (\<lambda>_. None),
     da_RootHash = Inr [], da_RecreateTrie = (\<lambda>_. None), da_PruneTrie = (\<lambda>_ _ _. ()), da_CancelPrune = (\<lambda>_ _. ()),
     da_SetStateCheckpoint = (\<lambda>_. ()), da_IsPruningEnabled = False, da_GetNumCheckpoints = 0,
     da_GetAccountFromBytes = (\<lambda>_ _. Inr None), da_IsInterfaceNil = False\<rparr>"

record 'o ChainHandler =
  db_GetFinalBlockInfo :: "u64 \<times> byte list \<times> byte list"
  db_SetFinalBlockInfo :: "u64 \<Rightarrow> byte list \<Rightarrow> byte list \<Rightarrow> unit"
  db_GetGenesisHeader :: "'o option"
  db_SetGenesisHeader :: "'o \<Rightarrow> go_error option"
  db_GetGenesisHeaderHash :: "byte list"
  db_SetGenesisHeaderHash :: "byte list \<Rightarrow> unit"
  db_GetCurrentBlockHeader :: "'o option"
  db_SetCurrentBlockHeader :: "'o \<Rightarrow> go_error option"
  db_GetCurrentBlockHeaderHash :: "byte list"
  db_SetCurrentBlockHeaderHash :: "byte list \<Rightarrow> unit"
  db_CreateNewHeader :: "'o option"
  db_GetCurrentBlockRootHash :: "byte list"
  db_SetCurrentBlockHeaderAndRootHash :: "'o \<Rightarrow> byte list \<Rightarrow> go_error option"
  db_IsInterfaceNil :: bool

definition disabled_Blockchain :: "'o ChainHandler" where
  "disabled_Blockchain = \<lparr>db_GetFinalBlockInfo = (0, [], []), db_SetFinalBlockInfo = (\<lambda>_ _ _. ()), db_GetGenesisHeader = None,
     db_SetGenesisHeader = (\<lambda>_. None), db_GetGenesisHeaderHash = [], db_SetGenesisHeaderHash = (\<lambda>_. ()),
     db_GetCurrentBlockHeader = None, db_SetCurrentBlockHeader = (\<lambda>_. None), db_GetCurrentBlockHeaderHash = [],
     db_SetCurrentBlockHeaderHash = (\<lambda>_. ()), db_CreateNewHeader = None, db_GetCurrentBlockRootHash = [],
     db_SetCurrentBlockHeaderAndRootHash = (\<lambda>_ _. None), db_IsInterfaceNil = False\<rparr>"

record 'o PoolsHolder =
  dp_PeerAuthentications :: "'o option"
  dp_Heartbeats :: "'o option"
  dp_Close :: "go_error option"
  dp_TrieNodesChunks :: "'o option"
  dp_Transactions :: "'o option"
  dp_UnsignedTransactions :: "'o option"
  dp_RewardTransactions :: "'o option"
  dp_Headers :: "'o option"
  dp_MiniBlocks :: "'o option"
  dp_PeerChangesBlocks :: "'o option"
  dp_TrieNodes :: "'o option"
  dp_SmartContracts :: "'o option"
  dp_CurrentBlockTxs :: "'o option"
  dp_CurrentEpochValidatorInfo :: "'o option"
  dp_ValidatorsInfo :: "'o option"
  dp_IsInterfaceNil :: bool

definition disabled_DataPool :: "'o PoolsHolder" where
  "disabled_DataPool = \<lparr>dp_PeerAuthentications = None, dp_Heartbeats = None, dp_Close = None, dp_TrieNodesChunks = None,
     dp_Transactions = None, dp_UnsignedTransactions = None, dp_RewardTransactions = None, dp_Headers = None, dp_MiniBlocks = None,
     dp_PeerChangesBlocks = None, dp_TrieNodes = None, dp_SmartContracts = None, dp_CurrentBlockTxs = None,
     dp_CurrentEpochValidatorInfo = None, dp_ValidatorsInfo = None, dp_IsInterfaceNil = False\<rparr>"

section \<open>Storage\<close>

record Storer =
  ds_RemoveFromCurrentEpoch :: "byte list \<Rightarrow> go_error option"
  ds_Put :: "byte list \<Rightarrow> byte list \<Rightarrow> go_error option"
  ds_PutInEpoch :: "byte list \<Rightarrow> byte list \<Rightarrow> u32 \<Rightarrow> go_error option"
  ds_Get :: "byte list \<Rightarrow> byte list result"
  ds_GetFromEpoch :: "byte list \<Rightarrow> u32 \<Rightarrow> byte list result"
  ds_GetBulkFromEpoch :: "byte list list \<Rightarrow> u32 \<Rightarrow> (byte list \<times> byte list) list result"
  ds_Has :: "byte list \<Rightarrow> go_error option"
  ds_SearchFirst :: "byte list \<Rightarrow> byte list result"
  ds_Remove :: "byte list \<Rightarrow> go_error option"
  ds_ClearCache :: unit
  ds_DestroyUnit :: "go_error option"
  ds_GetOldestEpoch :: "u32 result"
  ds_Close :: "go_error option"
  ds_RangeKeys :: "(byte list \<Rightarrow> byte list \<Rightarrow> bool) \<Rightarrow> unit"
  ds_IsInterfaceNil :: bool

definition disabled_Storer :: Storer where
  "disabled_Storer = \<lparr>ds_RemoveFromCurrentEpoch = (\<lambda>_. None), ds_Put = (\<lambda>_ _. None), ds_PutInEpoch = (\<lambda>_ _ _. None),
     ds_Get = (\<lambda>_. Inr []), ds_GetFromEpoch = (\<lambda>_ _. Inr []), ds_GetBulkFromEpoch = (\<lambda>_ _. Inr []), ds_Has = (\<lambda>_. None),
     ds_SearchFirst = (\<lambda>_. Inr []), ds_Remove = (\<lambda>_. None), ds_ClearCache = (), ds_DestroyUnit = None,
     ds_GetOldestEpoch = Inr 0, ds_Close = None, ds_RangeKeys = (\<lambda>_. ()), ds_IsInterfaceNil = False\<rparr>"

text \<open>A unit type of \<^verbatim>\<open>dataRetriever\<close> is a number.\<close>

record StorageService =
  dss_GetAllStorers :: "u64 \<rightharpoonup> Storer"
  dss_GetStorer :: "u64 \<Rightarrow> Storer option result"
  dss_AddStorer :: "u64 \<Rightarrow> Storer \<Rightarrow> unit"
  dss_Has :: "u64 \<Rightarrow> byte list \<Rightarrow> go_error option"
  dss_Get :: "u64 \<Rightarrow> byte list \<Rightarrow> byte list result"
  dss_Put :: "u64 \<Rightarrow> byte list \<Rightarrow> byte list \<Rightarrow> go_error option"
  dss_SetEpochForPutOperation :: "u32 \<Rightarrow> unit"
  dss_GetAll :: "u64 \<Rightarrow> byte list list \<Rightarrow> (string \<rightharpoonup> byte list) result"
  dss_Destroy :: "go_error option"
  dss_CloseAll :: "go_error option"
  dss_IsInterfaceNil :: bool

definition disabled_StorageService :: StorageService where
  "disabled_StorageService = \<lparr>dss_GetAllStorers = Map.empty, dss_GetStorer = (\<lambda>_. Inr None), dss_AddStorer = (\<lambda>_ _. ()),
     dss_Has = (\<lambda>_ _. None), dss_Get = (\<lambda>_ _. Inr []), dss_Put = (\<lambda>_ _ _. None), dss_SetEpochForPutOperation = (\<lambda>_. ()),
     dss_GetAll = (\<lambda>_ _. Inr Map.empty), dss_Destroy = None, dss_CloseAll = None, dss_IsInterfaceNil = False\<rparr>"

record 'o SimpleESDTNFTStorageHandler =
  dn_SaveNFTMetaData :: "'o \<Rightarrow> go_error option"
  dn_GetESDTNFTTokenOnDestination :: "'o \<Rightarrow> byte list \<Rightarrow> u64 \<Rightarrow> ('o option \<times> bool) result"
  dn_SaveNFTMetaDataToSystemAccount :: "'o \<Rightarrow> go_error option"
  dn_IsInterfaceNil :: bool

definition disabled_SimpleESDTNFTStorageHandler :: "'o SimpleESDTNFTStorageHandler" where
  "disabled_SimpleESDTNFTStorageHandler = \<lparr>dn_SaveNFTMetaData = (\<lambda>_. None),
     dn_GetESDTNFTTokenOnDestination = (\<lambda>_ _ _. Inr (None, False)), dn_SaveNFTMetaDataToSystemAccount = (\<lambda>_. None),
     dn_IsInterfaceNil = False\<rparr>"

section \<open>Virtual machine\<close>

definition errNotImplemented :: go_error where "errNotImplemented = ErrorsNew ''not implemented''"

record 'o BuiltInFunctionContainer =
  df_Get :: "string \<Rightarrow> 'o option result"
  df_Add :: "string \<Rightarrow> 'o \<Rightarrow> go_error option"
  df_Replace :: "string \<Rightarrow> 'o \<Rightarrow> go_error option"
  df_Remove :: "string \<Rightarrow> unit"
  df_Len :: int
  df_Keys :: "string set"
  df_IsInterfaceNil :: bool

definition disabled_BuiltInFunctionContainer :: "'o BuiltInFunctionContainer" where
  "disabled_BuiltInFunctionContainer = \<lparr>df_Get = (\<lambda>_. Inl errNotImplemented), df_Add = (\<lambda>_ _. None), df_Replace = (\<lambda>_ _. None),
     df_Remove = (\<lambda>_. ()), df_Len = 0, df_Keys = {}, df_IsInterfaceNil = False\<rparr>"

record 'o BlockChainHookCounter =
  dc_ProcessCrtNumberOfTrieReadsCounter :: "go_error option"
  dc_ProcessMaxBuiltInCounters :: "'o \<Rightarrow> go_error option"
  dc_ResetCounters :: unit
  dc_SetMaximumValues :: "(string \<rightharpoonup> u64) \<Rightarrow> unit"
  dc_GetCounterValues :: "string \<rightharpoonup> u64"
  dc_IsInterfaceNil :: bool

definition disabled_BlockChainHookCounter :: "'o BlockChainHookCounter" where
  "disabled_BlockChainHookCounter = \<lparr>dc_ProcessCrtNumberOfTrieReadsCounter = None, dc_ProcessMaxBuiltInCounters = (\<lambda>_. None),
     dc_ResetCounters = (), dc_SetMaximumValues = (\<lambda>_. ()), dc_GetCounterValues = Map.empty, dc_IsInterfaceNil = False\<rparr>"

record 'o GasScheduleNotifier =
  dg_RegisterNotifyHandler :: "'o \<Rightarrow> unit"
  dg_LatestGasSchedule :: "string \<rightharpoonup> (string \<rightharpoonup> u64)"
  dg_UnRegisterAll :: unit
  dg_ChangeGasSchedule :: "(string \<rightharpoonup> (string \<rightharpoonup> u64)) \<Rightarrow> unit"
  dg_IsInterfaceNil :: bool

definition disabled_GasScheduleNotifier :: "'o GasScheduleNotifier" where
  "disabled_GasScheduleNotifier = \<lparr>dg_RegisterNotifyHandler = (\<lambda>_. ()), dg_LatestGasSchedule = Map.empty, dg_UnRegisterAll = (),
     dg_ChangeGasSchedule = (\<lambda>_. ()), dg_IsInterfaceNil = False\<rparr>"

record GlobalSettingsHandler =
  dh_IsPaused :: "byte list \<Rightarrow> bool"
  dh_IsLimitedTransfer :: "byte list \<Rightarrow> bool"
  dh_IsInterfaceNil :: bool

definition disabled_GlobalSettingsHandler :: GlobalSettingsHandler where
  "disabled_GlobalSettingsHandler = \<lparr>dh_IsPaused = (\<lambda>_. False), dh_IsLimitedTransfer = (\<lambda>_. False), dh_IsInterfaceNil = False\<rparr>"

section \<open>Epochs\<close>

text \<open>A flag of an epoch is a string.\<close>

record EnableEpochsHandler =
  de_GetCurrentEpoch :: u32
  de_IsFlagDefined :: "string \<Rightarrow> bool"
  de_IsFlagEnabled :: "string \<Rightarrow> bool"
  de_IsFlagEnabledInEpoch :: "string \<Rightarrow> u32 \<Rightarrow> bool"
  de_GetActivationEpoch :: "string \<Rightarrow> u32"
  de_IsInterfaceNil :: bool

definition disabled_EnableEpochsHandler :: EnableEpochsHandler where
  "disabled_EnableEpochsHandler = \<lparr>de_GetCurrentEpoch = 0, de_IsFlagDefined = (\<lambda>_. True), de_IsFlagEnabled = (\<lambda>_. True),
     de_IsFlagEnabledInEpoch = (\<lambda>_ _. True), de_GetActivationEpoch = (\<lambda>_. 0), de_IsInterfaceNil = False\<rparr>"

record 'o EpochNotifier =
  dt_RegisterNotifyHandler :: "'o \<Rightarrow> unit"
  dt_CurrentEpoch :: u32
  dt_CheckEpoch :: "'o \<Rightarrow> unit"
  dt_IsInterfaceNil :: bool

definition disabled_EpochNotifier :: "'o EpochNotifier" where
  "disabled_EpochNotifier = \<lparr>dt_RegisterNotifyHandler = (\<lambda>_. ()), dt_CurrentEpoch = 0, dt_CheckEpoch = (\<lambda>_. ()),
     dt_IsInterfaceNil = False\<rparr>"

record 'o EpochStartNotifier =
  dst_RegisterHandler :: "'o \<Rightarrow> unit"
  dst_UnregisterHandler :: "'o \<Rightarrow> unit"
  dst_IsInterfaceNil :: bool

definition disabled_EpochStartNotifier :: "'o EpochStartNotifier" where
  "disabled_EpochStartNotifier = \<lparr>dst_RegisterHandler = (\<lambda>_. ()), dst_UnregisterHandler = (\<lambda>_. ()), dst_IsInterfaceNil = False\<rparr>"

section \<open>Sharding and the network\<close>

record Coordinator =
  dsc_NumberOfShards :: u32
  dsc_ComputeId :: "byte list \<Rightarrow> u32"
  dsc_SelfId :: u32
  dsc_SameShard :: "byte list \<Rightarrow> byte list \<Rightarrow> bool"
  dsc_CommunicationIdentifier :: "u32 \<Rightarrow> string"
  dsc_IsInterfaceNil :: bool

definition disabled_ShardCoordinator :: Coordinator where
  "disabled_ShardCoordinator = \<lparr>dsc_NumberOfShards = 0, dsc_ComputeId = (\<lambda>_. 0), dsc_SelfId = 0, dsc_SameShard = (\<lambda>_ _. False),
     dsc_CommunicationIdentifier = (\<lambda>_. []), dsc_IsInterfaceNil = False\<rparr>"

record 'o FallBackHeaderValidator =
  dfh_ShouldApplyFallbackValidation :: "'o \<Rightarrow> bool"
  dfh_IsInterfaceNil :: bool

definition disabled_FallBackHeaderValidator :: "'o FallBackHeaderValidator" where
  "disabled_FallBackHeaderValidator = \<lparr>dfh_ShouldApplyFallbackValidation = (\<lambda>_. False), dfh_IsInterfaceNil = False\<rparr>"

record 'o MissingTrieNodesNotifier =
  dm_RegisterHandler :: "'o \<Rightarrow> go_error option"
  dm_AsyncNotifyMissingTrieNode :: "byte list \<Rightarrow> unit"
  dm_IsInterfaceNil :: bool

definition disabled_MissingTrieNodesNotifier :: "'o MissingTrieNodesNotifier" where
  "disabled_MissingTrieNodesNotifier = \<lparr>dm_RegisterHandler = (\<lambda>_. None), dm_AsyncNotifyMissingTrieNode = (\<lambda>_. ()),
     dm_IsInterfaceNil = False\<rparr>"

record NodeTypeProvider =
  dnt_SetType :: "string \<Rightarrow> unit"
  dnt_GetType :: string
  dnt_IsInterfaceNil :: bool

definition disabled_NodeTypeProvider :: NodeTypeProvider where
  "disabled_NodeTypeProvider = \<lparr>dnt_SetType = (\<lambda>_. ()), dnt_GetType = [], dnt_IsInterfaceNil = False\<rparr>"

record ShuffledOutHandler =
  dso_Process :: "u32 \<Rightarrow> go_error option"
  dso_RegisterHandler :: "(u32 \<Rightarrow> unit) \<Rightarrow> unit"
  dso_CurrentShardID :: u32
  dso_IsInterfaceNil :: bool

definition disabled_ShuffledOutHandler :: ShuffledOutHandler where
  "disabled_ShuffledOutHandler = \<lparr>dso_Process = (\<lambda>_. None), dso_RegisterHandler = (\<lambda>_. ()), dso_CurrentShardID = 0,
     dso_IsInterfaceNil = False\<rparr>"

section \<open>What a client may rely on\<close>

text \<open>A store whose answers agree with each other: a key that it reports as present can be read. A client that asks
  before it reads gets a value or the error of the first question, never one of the second.\<close>

locale consistent_store =
  fixes has :: "byte list \<Rightarrow> go_error option" and get :: "byte list \<Rightarrow> byte list result"
  assumes present_readable: "has k = None \<Longrightarrow> \<exists>v. get k = Inr v"
begin

lemma checked_read: "(case has k of Some err \<Rightarrow> Inl err | None \<Rightarrow> get k) = Inl err \<longleftrightarrow> has k = Some err"
  using present_readable [of k] by (cases "has k") auto

end

interpretation dstorer: consistent_store "ds_Has disabled_Storer" "ds_Get disabled_Storer"
  by unfold_locales (simp add: disabled_Storer_def)

interpretation dservice: consistent_store "dss_Has disabled_StorageService u" "dss_Get disabled_StorageService u"
  by unfold_locales (simp add: disabled_StorageService_def)

text \<open>What was put is not read back: a checked read of any key gives the empty value without an error, so that a
  client cannot tell it from a stored empty value.\<close>

lemma disabled_Storer_reads_empty:
  assumes "ds_Put disabled_Storer k v = None"
  shows "(case ds_Has disabled_Storer k of Some err \<Rightarrow> Inl err | None \<Rightarrow> ds_Get disabled_Storer k) = Inr []"
proof (cases "case ds_Has disabled_Storer k of Some err \<Rightarrow> Inl err | None \<Rightarrow> ds_Get disabled_Storer k")
  case (Inl err)
  then have "ds_Has disabled_Storer k = Some err" by (simp only: dstorer.checked_read)
  then show ?thesis by (simp add: disabled_Storer_def)
qed (simp add: disabled_Storer_def)

end
