(* ===== verification/Address_Generator.thy ===== *)
theory Address_Generator
  imports Sdk_Data Map_Cacher Disabled
begin

text \<open>
  \<^verbatim>\<open>blockchain/addressGenerator.go\<close>. The constructor of the blockchain hook that computes contract addresses is an
  argument, a function of the disabled components that it is given; so are the Keccak hasher, the values of
  \<^verbatim>\<open>mx-chain-core-go\<close> among the arguments of the hook, and the constants \<^verbatim>\<open>factory.WasmVirtualMachine\<close> and
  \<^verbatim>\<open>core.ShardIdentiferLen\<close> (two bytes). A panic, from the last byte of an empty digest, is \<open>None\<close>.
\<close>

definition accountStartNonce :: u64 where "accountStartNonce = 0"
definition initialDNSAddress :: "byte list" where "initialDNSAddress = replicate 32 1"

type_synonym new_address = "byte list \<Rightarrow> u64 \<Rightarrow> byte list \<Rightarrow> byte list result"

text \<open>\<open>'m\<close> and \<open>'u\<close> are the marshaller and the number converter.\<close>

record ('o, 'm, 'u, 'v, 'h) ArgBlockChainHook =
  abh_Accounts :: "'o AccountsAdapter"
  abh_PubkeyConv :: pubkey_converter
  abh_StorageService :: StorageService
  abh_BlockChain :: "'o ChainHandler"
  abh_ShardCoordinator :: Coordinator
  abh_Marshalizer :: 'm
  abh_Uint64Converter :: 'u
  abh_BuiltInFunctions :: "'o BuiltInFunctionContainer"
  abh_DataPool :: "'o PoolsHolder"
  abh_CompiledSCPool :: "('v, 'h) mapCacher"
  abh_NilCompiledSCStore :: bool
  abh_NFTStorageHandler :: "'o SimpleESDTNFTStorageHandler"
  abh_EpochNotifier :: "'o EpochNotifier"
  abh_GlobalSettingsHandler :: GlobalSettingsHandler
  abh_EnableEpochsHandler :: EnableEpochsHandler
  abh_GasSchedule :: "'o GasScheduleNotifier"
  abh_Counter :: "'o BlockChainHookCounter"
  abh_MissingTrieNodesNotifier :: "'o MissingTrieNodesNotifier"

record ('o, 'm, 'u, 'v, 'h) hook_lib =
  hk_AddressPublicKeyConverter :: pubkey_converter
  hk_JsonMarshalizer :: 'm
  hk_BigEndianConverter :: 'u
  hk_NewBlockChainHookImpl :: "('o, 'm, 'u, 'v, 'h) ArgBlockChainHook \<Rightarrow> new_address result"
  hk_keccak :: "string \<Rightarrow> byte list"
  hk_WasmVirtualMachine :: "byte list"
  hk_ShardIdentiferLen :: nat

record 'c addressGenerator =
  ag_coordinator :: 'c
  ag_NewAddress :: new_address
  ag_hasher :: "string \<Rightarrow> byte list"
  ag_WasmVirtualMachine :: "byte list"
  ag_ShardIdentiferLen :: nat

definition argsHook :: "('o, 'm, 'u, 'v, 'h) hook_lib \<Rightarrow> ('o, 'm, 'u, 'v, 'h) ArgBlockChainHook" where
  "argsHook lib = \<lparr>abh_Accounts = disabled_Accounts, abh_PubkeyConv = hk_AddressPublicKeyConverter lib,
     abh_StorageService = disabled_StorageService, abh_BlockChain = disabled_Blockchain,
     abh_ShardCoordinator = disabled_ShardCoordinator, abh_Marshalizer = hk_JsonMarshalizer lib,
     abh_Uint64Converter = hk_BigEndianConverter lib, abh_BuiltInFunctions = disabled_BuiltInFunctionContainer,
     abh_DataPool = disabled_DataPool, abh_CompiledSCPool = NewMapCacher, abh_NilCompiledSCStore = True,
     abh_NFTStorageHandler = disabled_SimpleESDTNFTStorageHandler, abh_EpochNotifier = disabled_EpochNotifier,
     abh_GlobalSettingsHandler = disabled_GlobalSettingsHandler, abh_EnableEpochsHandler = disabled_EnableEpochsHandler,
     abh_GasSchedule = disabled_GasScheduleNotifier, abh_Counter = disabled_BlockChainHookCounter,
     abh_MissingTrieNodesNotifier = disabled_MissingTrieNodesNotifier\<rparr>"

definition NewAddressGenerator :: "('o, 'm, 'u, 'v, 'h) hook_lib \<Rightarrow> 'c option \<Rightarrow> 'c addressGenerator result" where
  "NewAddressGenerator lib coordinator = (case coordinator of
     None \<Rightarrow> Inl (EBlockchain Blockchain_ErrNilShardCoordinator)
   | Some c \<Rightarrow>
       on_ok (hk_NewBlockChainHookImpl lib (argsHook lib)) (\<lambda>blockchainHook.
       Inr \<lparr>ag_coordinator = c, ag_NewAddress = blockchainHook, ag_hasher = hk_keccak lib,
         ag_WasmVirtualMachine = hk_WasmVirtualMachine lib, ag_ShardIdentiferLen = hk_ShardIdentiferLen lib\<rparr>))"

definition CompatibleDNSAddress :: "'c addressGenerator \<Rightarrow> byte \<Rightarrow> address result" where
  "CompatibleDNSAddress ag shardId =
     (let addrLen = length initialDNSAddress;
          newDNSPk = take (addrLen - ag_ShardIdentiferLen ag) initialDNSAddress @ [0, shardId]
      in on_ok (ag_NewAddress ag newDNSPk accountStartNonce (ag_WasmVirtualMachine ag)) (\<lambda>a. Inr (NewAddressFromBytes a)))"

definition CompatibleDNSAddressFromUsername :: "'c addressGenerator \<Rightarrow> string \<Rightarrow> address result option" where
  "CompatibleDNSAddressFromUsername ag username =
     (let hash = ag_hasher ag username
      in if hash = [] then None else Some (CompatibleDNSAddress ag (last hash)))"

definition ComputeWasmVMScAddress :: "'c addressGenerator \<Rightarrow> address option \<Rightarrow> u64 \<Rightarrow> address result" where
  "ComputeWasmVMScAddress ag addr nonce = (case addr of
     None \<Rightarrow> Inl (EBlockchain Blockchain_ErrNilAddress)
   | Some a \<Rightarrow> on_ok (ag_NewAddress ag (AddressBytes a) nonce (ag_WasmVirtualMachine ag)) (\<lambda>b. Inr (NewAddressFromBytes b)))"

text \<open>The DNS contract of a user name is the contract address of an account of 32 bytes that depends on
  the last byte of the digest only: there are at most 256 of them, and names with the same last byte
  share one.\<close>

lemma CompatibleDNSAddressFromUsername_deployer:
  assumes "ag_hasher ag username \<noteq> []" and "ag_ShardIdentiferLen ag = 2"
  shows "\<exists>deployer. length deployer = 32 \<and> last deployer = last (ag_hasher ag username)
    \<and> CompatibleDNSAddressFromUsername ag username = Some (ComputeWasmVMScAddress ag (Some (NewAddressFromBytes deployer)) 0)"
  using assms
  by (intro exI [of _ "replicate 30 1 @ [0, last (ag_hasher ag username)]"])
    (simp add: CompatibleDNSAddressFromUsername_def CompatibleDNSAddress_def ComputeWasmVMScAddress_def initialDNSAddress_def
      accountStartNonce_def NewAddressFromBytes_def AddressBytes_def Let_def)

lemma CompatibleDNSAddressFromUsername_last_byte:
  assumes "ag_hasher ag u \<noteq> []" and "ag_hasher ag w \<noteq> []" and "last (ag_hasher ag u) = last (ag_hasher ag w)"
  shows "CompatibleDNSAddressFromUsername ag u = CompatibleDNSAddressFromUsername ag w"
  using assms by (simp add: CompatibleDNSAddressFromUsername_def Let_def)

text \<open>The coordinator is required but plays no part: generators made with different coordinators compute the same
  addresses.\<close>

lemma coordinator_irrelevant:
  assumes "NewAddressGenerator lib (Some c) = Inr g" and "NewAddressGenerator lib (Some d) = Inr h"
  shows "CompatibleDNSAddress g shardId = CompatibleDNSAddress h shardId"
    and "CompatibleDNSAddressFromUsername g username = CompatibleDNSAddressFromUsername h username"
    and "ComputeWasmVMScAddress g addr nonce = ComputeWasmVMScAddress h addr nonce"
proof -
  have "ag_NewAddress g = ag_NewAddress h \<and> ag_hasher g = ag_hasher h \<and> ag_WasmVirtualMachine g = ag_WasmVirtualMachine h
      \<and> ag_ShardIdentiferLen g = ag_ShardIdentiferLen h"
    using assms by (auto simp: NewAddressGenerator_def on_ok_Inr)
  then have dns: "CompatibleDNSAddress g s = CompatibleDNSAddress h s"
    "ag_hasher g = ag_hasher h" "ag_NewAddress g = ag_NewAddress h" "ag_WasmVirtualMachine g = ag_WasmVirtualMachine h" for s
    by (simp_all add: CompatibleDNSAddress_def)
  then show "CompatibleDNSAddress g shardId = CompatibleDNSAddress h shardId"
    "CompatibleDNSAddressFromUsername g username = CompatibleDNSAddressFromUsername h username"
    "ComputeWasmVMScAddress g addr nonce = ComputeWasmVMScAddress h addr nonce"
    by (simp_all add: CompatibleDNSAddressFromUsername_def ComputeWasmVMScAddress_def Let_def split: option.split)
qed

end
