(* ===== verification/Account_Balance.thy ===== *)
theory Account_Balance
  imports Float64 Sdk_Data
begin

text \<open>
  \<^verbatim>\<open>Account.GetBalance\<close> of \<^verbatim>\<open>data/account.go\<close>: the balance as a \<^verbatim>\<open>float64\<close>. The computation runs on
  \<^verbatim>\<open>big.Float\<close> values of 53 bits, whose exponent is practically unbounded: \<open>rnd53\<close>. \<^verbatim>\<open>SetString\<close> reads a decimal
  integer exactly and rounds it once; for the other syntaxes that it accepts (fractions, exponents,
  other bases, \<^verbatim>\<open>Inf\<close>) the argument \<open>other\<close> is what it answers. There is one zero.

  The lemmas bound the error of the result by four parts in \<open>2 ^ 53\<close> and show that a larger balance
  never gives a smaller result.
\<close>

section \<open>Big floats of 53 bits\<close>

definition rnd53 :: "rat \<Rightarrow> rat" where
  "rnd53 x = (if x = 0 then 0 else
     let e = exp2 \<bar>x\<bar> - 52 in of_int (round_even (x / 2 powi e)) * 2 powi e)"

datatype big_float = BFin rat | BInf bool

definition bf_SetString :: "(string \<Rightarrow> big_float option) \<Rightarrow> string \<Rightarrow> big_float option" where
  "bf_SetString other s = (case big_SetString s of
     Some i \<Rightarrow> Some (BFin (rnd53 (of_int i)))
   | None \<Rightarrow> other s)"

definition bf_Quo :: "big_float \<Rightarrow> rat \<Rightarrow> big_float" where
  "bf_Quo a d = (case a of BFin x \<Rightarrow> BFin (rnd53 (x / d)) | BInf neg \<Rightarrow> BInf neg)"

definition bf_Float64 :: "big_float \<Rightarrow> float64" where
  "bf_Float64 a = (case a of BFin x \<Rightarrow> f64_of x | BInf neg \<Rightarrow> if neg then NInf else PInf)"

section \<open>The balance of an account\<close>

definition errInvalidBalance :: go_error where "errInvalidBalance = ErrorsNew ''invalid balance''"

text \<open>\<^verbatim>\<open>big.Int.Exp\<close> with an exponent that is not positive gives one.\<close>

definition GetBalance :: "(string \<Rightarrow> big_float option) \<Rightarrow> int \<Rightarrow> Account \<Rightarrow> float64 result" where
  "GetBalance other decimals a = (case bf_SetString other (acc_Balance a) of
     None \<Rightarrow> Inl errInvalidBalance
   | Some balance \<Rightarrow>
       let denominationMultiplier = 10 ^ nat decimals;
           floatDenomination = rnd53 (of_int denominationMultiplier)
       in Inr (bf_Float64 (bf_Quo balance floatDenomination)))"

section \<open>Lemmas\<close>

lemma rnd53_rnd:
  assumes "tiny \<le> \<bar>x\<bar>"
  shows "rnd53 x = rnd x"
proof -
  have x: "x \<noteq> 0" using assms tiny_pos by (metis abs_zero linorder_not_le)
  have "(2 :: rat) powi (- 1022) < 2 powi (exp2 \<bar>x\<bar> + 1)"
    using assms exp2_bounds(2) [of "\<bar>x\<bar>"] x unfolding tiny_def by linarith
  then have "- 1022 < exp2 \<bar>x\<bar> + 1" unfolding pow2_less_iff .
  then have "ulp2 x = exp2 \<bar>x\<bar> - 52" by (simp add: ulp2_def)
  with x show ?thesis by (simp add: rnd53_def rnd_def Let_def)
qed

lemma tiny_le_1: "tiny \<le> 1"
  using tiny_small by simp

lemma rnd53_of_nat:
  "rnd53 (of_nat n) = rnd (of_nat n)"
proof (cases n)
  case (Suc m)
  then show ?thesis using tiny_le_1 by (intro rnd53_rnd) simp
qed (simp add: rnd53_def)

lemma relative_interval:
  fixes x y c :: rat
  assumes "\<bar>x - y\<bar> \<le> y / c"
  shows "y * (1 - 1 / c) \<le> x" and "x \<le> y * (1 + 1 / c)"
  using assms unfolding abs_le_iff by (simp_all add: algebra_simps)

text \<open>The error of a quotient of two rounded numbers, rounded.\<close>

lemma quotient_error:
  fixes n d n' d' q :: rat
  assumes "0 \<le> n" and "0 < d" and "\<bar>n' - n\<bar> \<le> n / 2 ^ 53" and "\<bar>d' - d\<bar> \<le> d / 2 ^ 53"
    and "\<bar>q - n' / d'\<bar> \<le> n' / d' / 2 ^ 53"
  shows "\<bar>q - n / d\<bar> \<le> 4 / 2 ^ 53 * (n / d)"
proof -
  define u :: rat where "u = 1 / 2 ^ 53"
  have u: "0 < u" "u \<le> 1 / 100" by (simp_all add: u_def)
  have n': "n * (1 - u) \<le> n'" "n' \<le> n * (1 + u)" using relative_interval [OF assms(3)] unfolding u_def .
  have d': "d * (1 - u) \<le> d'" "d' \<le> d * (1 + u)" using relative_interval [OF assms(4)] unfolding u_def .
  have "0 < d * (1 - u)" "0 \<le> n * (1 - u)" using assms(1,2) u by simp_all
  then have pos: "0 < d'" "0 \<le> n'" using d'(1) n'(1) by linarith+
  have q: "n' / d' * (1 - u) \<le> q" "q \<le> n' / d' * (1 + u)" using relative_interval [OF assms(5)] unfolding u_def .
  have nd: "0 \<le> n / d" using assms(1,2) by simp
  have "n' / d' \<le> n * (1 + u) / (d * (1 - u))"
    by (rule frac_le) (use n' d' pos \<open>0 < d * (1 - u)\<close> in linarith)+
  then have "n' / d' * (1 + u) \<le> n * (1 + u) / (d * (1 - u)) * (1 + u)" using u by (intro mult_right_mono) simp_all
  also have "\<dots> = n / d * ((1 + u) * (1 + u) / (1 - u))" by simp
  also have "\<dots> \<le> n / d * (1 + 4 * u)"
  proof (intro mult_left_mono nd)
    have "0 \<le> u * (1 - 5 * u)" using u by (intro mult_nonneg_nonneg) simp_all
    then have "(1 + u) * (1 + u) \<le> (1 + 4 * u) * (1 - u)" by (simp add: algebra_simps)
    then show "(1 + u) * (1 + u) / (1 - u) \<le> 1 + 4 * u" using u by (simp add: pos_divide_le_eq)
  qed
  finally have up: "q \<le> n / d + 4 * u * (n / d)" using q(2) by (simp add: distrib_left mult.commute)
  have "0 < d * (1 + u)" using assms(2) u by simp
  have "n / d * (1 - 4 * u) \<le> n / d * ((1 - u) * (1 - u) / (1 + u))"
  proof (intro mult_left_mono nd)
    have "0 \<le> u * (1 + 5 * u)" using u by simp
    then have "(1 - 4 * u) * (1 + u) \<le> (1 - u) * (1 - u)" by (simp add: algebra_simps)
    then show "1 - 4 * u \<le> (1 - u) * (1 - u) / (1 + u)" using u by (simp add: pos_le_divide_eq)
  qed
  also have "\<dots> = n * (1 - u) / (d * (1 + u)) * (1 - u)" by simp
  also have "n * (1 - u) / (d * (1 + u)) \<le> n' / d'"
    by (rule frac_le) (use n' d' pos \<open>0 \<le> n * (1 - u)\<close> in linarith)+
  then have "n * (1 - u) / (d * (1 + u)) * (1 - u) \<le> n' / d' * (1 - u)" using u by (intro mult_right_mono) simp_all
  finally have "n / d - 4 * u * (n / d) \<le> q" using q(1) by (simp add: right_diff_distrib mult.commute)
  then show ?thesis using up unfolding u_def abs_le_iff by simp
qed

lemma float_pow2_1000: "is_float (2 ^ 1000)"
  using is_float_pow2 [of 1000] by (simp only: power_int_numeral)

lemma pow10_bounds:
  assumes "nat d \<le> 300"
  shows "(1 :: rat) \<le> 10 ^ nat d" and "(10 :: rat) ^ nat d \<le> 2 ^ 1000"
proof -
  have "(10 :: rat) ^ nat d \<le> 10 ^ 300" using assms by (intro power_increasing) simp_all
  also have "\<dots> \<le> 2 ^ 1000" by simp
  finally show "(10 :: rat) ^ nat d \<le> 2 ^ 1000" .
qed simp

lemma rnd_of_nat_bounds:
  assumes "1 \<le> n" and "of_nat n \<le> (2 :: rat) ^ 1000"
  shows "1 \<le> rnd (of_nat n)" and "rnd (of_nat n) \<le> 2 ^ 1000" and "\<bar>rnd (of_nat n) - of_nat n\<bar> \<le> of_nat n / 2 ^ 53"
proof -
  have n: "(1 :: rat) \<le> of_nat n" using assms(1) by simp
  then show "1 \<le> rnd (of_nat n)" using is_float_int [of 1] by (intro float_le_rnd) simp_all
  show "rnd (of_nat n) \<le> 2 ^ 1000" using float_pow2_1000 assms(2) by (rule rnd_le_float)
  have "tiny \<le> \<bar>of_nat n :: rat\<bar>" using n tiny_le_1 by linarith
  from rnd_rel_error [OF this] show "\<bar>rnd (of_nat n) - of_nat n\<bar> \<le> of_nat n / 2 ^ 53" by simp
qed

lemma tiny_quotient: "1 \<le> x \<Longrightarrow> 0 < y \<Longrightarrow> y \<le> 2 ^ 1000 \<Longrightarrow> tiny \<le> x / y"
proof -
  assume x: "1 \<le> x" and y: "0 < y" "y \<le> 2 ^ 1000"
  have "tiny \<le> 2 powi (- 1000)" unfolding tiny_def pow2_le_iff by simp
  also have "(2 powi (- 1000) :: rat) = 1 / 2 ^ 1000" by (simp only: power_int_minus power_int_numeral inverse_eq_divide)
  also have "\<dots> \<le> x / y" using x y by (intro frac_le) simp_all
  finally show ?thesis .
qed

text \<open>What the conversion computes for a decimal balance.\<close>

lemma GetBalance_decimal:
  assumes "acc_Balance a = dec_of_nat n" and "of_nat n \<le> (2 :: rat) ^ 1000" and "nat decimals \<le> 300"
  shows "GetBalance other decimals a = Inr (Fin (rnd (rnd (of_nat n) / rnd (10 ^ nat decimals))))"
proof -
  let ?D = "10 ^ nat decimals :: nat"
  have D: "1 \<le> ?D" "of_nat ?D \<le> (2 :: rat) ^ 1000" using pow10_bounds [OF assms(3)] by simp_all
  note d = rnd_of_nat_bounds [OF D]
  have "rnd53 (10 ^ nat decimals) = rnd (10 ^ nat decimals)" using rnd53_of_nat [of ?D] by simp
  then have g: "GetBalance other decimals a = Inr (f64_of (rnd53 (rnd (of_nat n) / rnd (10 ^ nat decimals))))"
    using assms(1) rnd53_of_nat [of n] by (simp add: GetBalance_def bf_SetString_def bf_Quo_def bf_Float64_def Let_def)
  show ?thesis
  proof (cases "n = 0")
    case True
    then show ?thesis using g by (simp add: rnd53_def f64_of_small)
  next
    case False
    then have "1 \<le> n" by simp
    note n = rnd_of_nat_bounds [OF this assms(2)]
    let ?x = "rnd (of_nat n) / rnd (10 ^ nat decimals)"
    have dd: "1 \<le> rnd (10 ^ nat decimals)" "rnd (10 ^ nat decimals) \<le> 2 ^ 1000" using d(1,2) by simp_all
    have x: "tiny \<le> ?x" using n(1) dd by (intro tiny_quotient) simp_all
    have "?x \<le> 2 ^ 1000 / 1" using n dd by (intro frac_le) simp_all
    then have "rnd ?x \<le> 2 ^ 1000" unfolding div_by_1 by (rule rnd_le_float [OF float_pow2_1000])
    moreover have "0 \<le> rnd ?x" using x tiny_pos by (intro rnd_nonneg) linarith
    moreover have "(2 :: rat) ^ 1000 \<le> 2 ^ 1023" by (intro power_increasing) simp_all
    ultimately have "f64_of (rnd ?x) = Fin (rnd (rnd ?x))" by (intro f64_of_Fin) linarith
    moreover have "rnd (rnd ?x) = rnd ?x" using is_float_rnd [of ?x] unfolding is_float_def .
    moreover have "rnd53 ?x = rnd ?x" by (rule rnd53_rnd) (use x in linarith)
    ultimately show ?thesis using g by simp
  qed
qed

section \<open>Properties\<close>

text \<open>The balance that is shown is accurate: for a decimal balance of up to \<open>2 ^ 1000\<close> units and up
  to 300 decimals the conversion succeeds, is off by at most four parts in \<open>2 ^ 53\<close>, and an account
  with a larger balance is never shown with a smaller one.\<close>

lemma GetBalance_accurate:
  assumes "acc_Balance a = dec_of_nat n" and "acc_Balance b = dec_of_nat m" and "n \<le> m"
    and "of_nat m \<le> (2 :: rat) ^ 1000" and "nat decimals \<le> 300"
  shows "\<exists>p q. GetBalance other decimals a = Inr (Fin p) \<and> GetBalance other decimals b = Inr (Fin q) \<and> p \<le> q
    \<and> \<bar>p - of_nat n / 10 ^ nat decimals\<bar> \<le> 4 / 2 ^ 53 * (of_nat n / 10 ^ nat decimals)"
proof -
  have nm: "(of_nat n :: rat) \<le> of_nat m" using assms(3) by (simp only: of_nat_le_iff)
  then have n: "of_nat n \<le> (2 :: rat) ^ 1000" using assms(4) by linarith
  have D: "(1 :: nat) \<le> 10 ^ nat decimals" "of_nat (10 ^ nat decimals) \<le> (2 :: rat) ^ 1000" using pow10_bounds [OF assms(5)] by simp_all
  have d: "1 \<le> rnd (10 ^ nat decimals)" "rnd (10 ^ nat decimals) \<le> 2 ^ 1000" "\<bar>rnd (10 ^ nat decimals) - 10 ^ nat decimals\<bar> \<le> 10 ^ nat decimals / 2 ^ 53"
    using rnd_of_nat_bounds [OF D] by simp_all
  let ?p = "rnd (rnd (of_nat n) / rnd (10 ^ nat decimals))" and ?q = "rnd (rnd (of_nat m) / rnd (10 ^ nat decimals))"
  have "?p \<le> ?q" using nm d(1) by (intro rnd_mono divide_right_mono) simp_all
  moreover have "\<bar>?p - of_nat n / 10 ^ nat decimals\<bar> \<le> 4 / 2 ^ 53 * (of_nat n / 10 ^ nat decimals)"
  proof (cases "n = 0")
    case False
    then have "1 \<le> n" by simp
    note r = rnd_of_nat_bounds [OF this n]
    have "tiny \<le> rnd (of_nat n) / rnd (10 ^ nat decimals)" using r(1) d by (intro tiny_quotient) simp_all
    then have "\<bar>?p - rnd (of_nat n) / rnd (10 ^ nat decimals)\<bar> \<le> rnd (of_nat n) / rnd (10 ^ nat decimals) / 2 ^ 53"
      using rnd_rel_error [of "rnd (of_nat n) / rnd (10 ^ nat decimals)"] r(1) d(1) by simp
    with r(3) d(3) show ?thesis by (intro quotient_error) simp_all
  qed simp
  ultimately show ?thesis
    using GetBalance_decimal [OF assms(1) n assms(5)] GetBalance_decimal [OF assms(2,4,5)] by blast
qed

definition demo_balance_account :: "string \<Rightarrow> Account" where
  "demo_balance_account s = \<lparr>acc_Address = ''erd1alice'', acc_Nonce = 3, acc_Balance = s\<rparr>"

lemma GetBalance_accurate_example:
  "\<exists>p q. GetBalance (\<lambda>s. None) 18 (demo_balance_account (dec_of_nat 1500000000000000000)) = Inr (Fin p)
    \<and> GetBalance (\<lambda>s. None) 18 (demo_balance_account (dec_of_nat 2000000000000000000)) = Inr (Fin q) \<and> p \<le> q
    \<and> \<bar>p - of_nat 1500000000000000000 / 10 ^ nat 18\<bar> \<le> 4 / 2 ^ 53 * (of_nat 1500000000000000000 / 10 ^ nat 18)"
proof (rule GetBalance_accurate)
  show "(1500000000000000000 :: nat) \<le> 2000000000000000000" by simp
  have "of_nat 2000000000000000000 \<le> (2 :: rat) ^ 100" by simp
  also have "\<dots> \<le> 2 ^ 1000" by (intro power_increasing) simp_all
  finally show "of_nat 2000000000000000000 \<le> (2 :: rat) ^ 1000" .
qed (simp_all add: demo_balance_account_def)

end
