(* ===== verification/Header_Wiring.thy ===== *)
theory Header_Wiring
  imports Header_Check
begin

text \<open>
  The factory of the header verifier: \<^verbatim>\<open>headerCheck/headerCheckFactory.go\<close> and \<^verbatim>\<open>headerCheck/factory\<close>. It reads the
  configuration of the network through the proxy and builds the components that a header is verified with.
  The constructors of \<^verbatim>\<open>mx-chain-go\<close>, \<^verbatim>\<open>mx-chain-core-go\<close> and \<^verbatim>\<open>mx-chain-crypto-go\<close> are the fields of \<open>header_lib\<close>, on
  opaque types; what the code computes itself, the arguments it gives them, is written out. The stubs of
  \<^verbatim>\<open>disabled/\<close> among these arguments have no fields and are left out. \<open>None\<close> is a nil dereference. Numbers of type
  \<^verbatim>\<open>float32\<close> are only copied and are carried as their bits.
\<close>

type_synonym float32 = u32

section \<open>Data\<close>

text \<open>The fields of the network configuration that only the factory reads.\<close>

record HeaderNetworkConfig = NetworkConfig +
  nc_MetaConsensusGroup :: u32
  nc_NumMetachainNodes :: u32
  nc_NumNodesInShard :: u32
  nc_RoundDuration :: i64
  nc_ShardConsensusGroupSize :: u64
  nc_Adaptivity :: bool
  nc_Hysteresys :: float32

record SelectionChances =
  sch_ChancePercent :: u32
  sch_MaxThreshold :: u32

record RatingsConfig =
  rc_GeneralMaxRating :: u32
  rc_GeneralMinRating :: u32
  rc_GeneralSignedBlocksThreshold :: float32
  rc_GeneralStartRating :: u32
  rc_GeneralSelectionChances :: "SelectionChances option list"
  rc_MetachainConsecutiveMissedBlocksPenalty :: float32
  rc_MetachainHoursToMaxRatingFromStartRating :: u32
  rc_MetachainProposerDecreaseFactor :: float32
  rc_MetachainProposerValidatorImportance :: float32
  rc_MetachainValidatorDecreaseFactor :: float32
  rc_ShardchainConsecutiveMissedBlocksPenalty :: float32
  rc_ShardchainHoursToMaxRatingFromStartRating :: u32
  rc_ShardchainProposerDecreaseFactor :: float32
  rc_ShardchainProposerValidatorImportance :: float32
  rc_ShardchainValidatorDecreaseFactor :: float32

record MaxNodesChangeConfig =
  mn_EpochEnable :: u32
  mn_MaxNumNodes :: u32
  mn_NodesToShufflePerShard :: u32

text \<open>\<^verbatim>\<open>config.EnableEpochs\<close>: the two fields that the factory reads and the rest.\<close>

record 'q EnableEpochs =
  ee_MaxNodesChangeEnableEpoch :: "MaxNodesChangeConfig list"
  ee_BLSMultiSignerEnableEpoch :: "(u32 \<times> string) list"
  ee_rest :: 'q

record 'q EnableEpochsConfig =
  eec_EnableEpochs :: "'q EnableEpochs"

record GenesisNodes =
  gn_Eligible :: "u32 \<rightharpoonup> string list"
  gn_Waiting :: "u32 \<rightharpoonup> string list"

text \<open>The argument structs of the other modules.\<close>

record RatingSteps =
  rst_HoursToMaxRatingFromStartRating :: u32
  rst_ProposerValidatorImportance :: float32
  rst_ProposerDecreaseFactor :: float32
  rst_ValidatorDecreaseFactor :: float32
  rst_ConsecutiveMissedBlocksPenalty :: float32

record config_RatingsConfig =
  crc_StartRating :: u32
  crc_MaxRating :: u32
  crc_MinRating :: u32
  crc_SignedBlocksThreshold :: float32
  crc_SelectionChances :: "SelectionChances list"
  crc_ShardChain :: RatingSteps
  crc_MetaChain :: RatingSteps

record RatingsDataArg =
  rda_Config :: config_RatingsConfig
  rda_ShardConsensusSize :: u32
  rda_MetaConsensusSize :: u32
  rda_ShardMinNodes :: u32
  rda_MetaMinNodes :: u32
  rda_RoundDurationMiliseconds :: u64

record 'e NodesShufflerArgs =
  nsa_NodesShard :: u32
  nsa_NodesMeta :: u32
  nsa_Hysteresis :: float32
  nsa_Adaptivity :: bool
  nsa_ShuffleBetweenShards :: bool
  nsa_MaxNodesEnableConfig :: "MaxNodesChangeConfig list"
  nsa_EnableEpochsHandler :: 'e

record ('m, 'h, 'e, 's, 'v) ArgNodesCoordinator =
  anc_ShardConsensusGroupSize :: i64
  anc_MetaConsensusGroupSize :: i64
  anc_Marshalizer :: 'm
  anc_Hasher :: 'h
  anc_Shuffler :: 's
  anc_ShardIDAsObserver :: u32
  anc_NbShards :: u32
  anc_EligibleNodes :: "u32 \<rightharpoonup> 'v list"
  anc_WaitingNodes :: "u32 \<rightharpoonup> 'v list"
  anc_SelfPublicKey :: "byte list"
  anc_Epoch :: u32
  anc_StartEpoch :: u32
  anc_IsFullArchive :: bool
  anc_EnableEpochsHandler :: 'e

text \<open>The constructors of the other modules. A key generator gives the public key of its random pair.\<close>

record ('m, 'h, 'd, 'r, 'e, 'q, 'k, 'g, 'p, 'z, 'v, 's, 'n, 'x) header_lib =
  hl_NewMarshalizer :: "string \<Rightarrow> 'm result"
  hl_NewHasher :: "string \<Rightarrow> 'h result"
  hl_NewRatingsData :: "RatingsDataArg \<Rightarrow> 'd result"
  hl_NewBlockSigningRater :: "'d \<Rightarrow> 'r result"
  hl_NewHexPubkeyConverter :: "nat \<Rightarrow> pubkey_converter result"
  hl_NewEnableEpochsHandler :: "'q EnableEpochs \<Rightarrow> 'e result"
  hl_blockSignKeyGen :: 'k
  hl_GeneratePair :: "'k \<Rightarrow> 'p"
  hl_NewBlake2bWithSize :: "'h result"
  hl_NewBLSMultisig :: "'h \<Rightarrow> 'k \<Rightarrow> 'g result"
  hl_pkToByteArray :: "'p \<Rightarrow> byte list result"
  hl_NewMultiSignerContainer :: "'k \<Rightarrow> (u32 \<times> string) list \<Rightarrow> 'z result"
  hl_NewValidator :: "byte list \<Rightarrow> u32 \<Rightarrow> u32 \<Rightarrow> 'v result"
  hl_NewHashValidatorsShuffler :: "'e NodesShufflerArgs \<Rightarrow> 's result"
  hl_NewIndexHashedNodesCoordinator :: "('m, 'h, 'e, 's, 'v) ArgNodesCoordinator \<Rightarrow> 'n result"
  hl_NewIndexHashedNodesCoordinatorWithRater :: "'n \<Rightarrow> 'r \<Rightarrow> 'n result"
  hl_NewHeaderSigVerifier :: "'m \<Rightarrow> 'h \<Rightarrow> 'n \<Rightarrow> 'z \<Rightarrow> 'k \<Rightarrow> 'x result"

section \<open>Core components\<close>

definition marshalizerType :: string where "marshalizerType = ''gogo protobuf''"

definition hasherType :: string where "hasherType = ''blake2b''"

definition validatorHexPubKeyLength :: nat where "validatorHexPubKeyLength = 96"

record ('m, 'h, 'r, 'e) coreComponents =
  cc_Marshaller :: 'm
  cc_Hasher :: 'h
  cc_Rater :: 'r
  cc_PubKeyConverter :: pubkey_converter
  cc_EnableEpochsHandler :: 'e

definition createRatingsConfig :: "RatingsConfig \<Rightarrow> config_RatingsConfig option" where
  "createRatingsConfig rd = (case those (rc_GeneralSelectionChances rd) of
     None \<Rightarrow> None
   | Some selectionChances \<Rightarrow> Some
       \<lparr>crc_StartRating = rc_GeneralStartRating rd, crc_MaxRating = rc_GeneralMaxRating rd, crc_MinRating = rc_GeneralMinRating rd,
        crc_SignedBlocksThreshold = rc_GeneralSignedBlocksThreshold rd,
        crc_SelectionChances = map (\<lambda>v. \<lparr>sch_ChancePercent = sch_ChancePercent v, sch_MaxThreshold = sch_MaxThreshold v\<rparr>) selectionChances,
        crc_ShardChain =
          \<lparr>rst_HoursToMaxRatingFromStartRating = rc_ShardchainHoursToMaxRatingFromStartRating rd,
           rst_ProposerValidatorImportance = rc_ShardchainProposerValidatorImportance rd,
           rst_ProposerDecreaseFactor = rc_ShardchainProposerDecreaseFactor rd,
           rst_ValidatorDecreaseFactor = rc_ShardchainValidatorDecreaseFactor rd,
           rst_ConsecutiveMissedBlocksPenalty = rc_ShardchainConsecutiveMissedBlocksPenalty rd\<rparr>,
        crc_MetaChain =
          \<lparr>rst_HoursToMaxRatingFromStartRating = rc_MetachainHoursToMaxRatingFromStartRating rd,
           rst_ProposerValidatorImportance = rc_MetachainProposerValidatorImportance rd,
           rst_ProposerDecreaseFactor = rc_MetachainProposerDecreaseFactor rd,
           rst_ValidatorDecreaseFactor = rc_MetachainValidatorDecreaseFactor rd,
           rst_ConsecutiveMissedBlocksPenalty = rc_MetachainConsecutiveMissedBlocksPenalty rd\<rparr>\<rparr>)"

text \<open>\<^verbatim>\<open>uint32(nc.ShardConsensusGroupSize)\<close> keeps the low 32 bits.\<close>

definition createRater ::
  "('m, 'h, 'd, 'r, 'e, 'q, 'k, 'g, 'p, 'z, 'v, 's, 'n, 'x) header_lib \<Rightarrow> RatingsConfig option \<Rightarrow> HeaderNetworkConfig option
     \<Rightarrow> 'r result option" where
  "createRater lib rc nc = do {
     rd \<leftarrow> rc;
     ratingsConfig \<leftarrow> createRatingsConfig rd;
     cf \<leftarrow> nc;
     Some (on_ok (hl_NewRatingsData lib
       \<lparr>rda_Config = ratingsConfig, rda_ShardConsensusSize = ucast (nc_ShardConsensusGroupSize cf),
        rda_MetaConsensusSize = nc_MetaConsensusGroup cf, rda_ShardMinNodes = nc_NumNodesInShard cf,
        rda_MetaMinNodes = nc_NumMetachainNodes cf, rda_RoundDurationMiliseconds = nc_RoundDuration cf\<rparr>)
       (hl_NewBlockSigningRater lib))
   }"

definition CreateCoreComponents ::
  "('m, 'h, 'd, 'r, 'e, 'q, 'k, 'g, 'p, 'z, 'v, 's, 'n, 'x) header_lib \<Rightarrow> RatingsConfig option \<Rightarrow> HeaderNetworkConfig option
     \<Rightarrow> 'q EnableEpochsConfig option \<Rightarrow> ('m, 'h, 'r, 'e) coreComponents result option" where
  "CreateCoreComponents lib ratingsConfig networkConfig enableEpochsConfig =
     (case hl_NewMarshalizer lib marshalizerType of
        Inl err \<Rightarrow> Some (Inl err)
      | Inr marshalizer \<Rightarrow> (case hl_NewHasher lib hasherType of
          Inl err \<Rightarrow> Some (Inl err)
        | Inr hasher \<Rightarrow> (case createRater lib ratingsConfig networkConfig of
            None \<Rightarrow> None
          | Some (Inl err) \<Rightarrow> Some (Inl err)
          | Some (Inr rater) \<Rightarrow> (case hl_NewHexPubkeyConverter lib validatorHexPubKeyLength of
              Inl err \<Rightarrow> Some (Inl err)
            | Inr converter \<Rightarrow> (case enableEpochsConfig of
                None \<Rightarrow> None
              | Some eec \<Rightarrow> Some (on_ok (hl_NewEnableEpochsHandler lib (eec_EnableEpochs eec)) (\<lambda>enableEpochsHandler.
                  Inr \<lparr>cc_Marshaller = marshalizer, cc_Hasher = hasher, cc_Rater = rater, cc_PubKeyConverter = converter,
                    cc_EnableEpochsHandler = enableEpochsHandler\<rparr>)))))))"

section \<open>Crypto components\<close>

record ('k, 'g, 'p) cryptoComponents =
  cry_KeyGen :: 'k
  cry_MultiSig :: 'g
  cry_PublicKey :: 'p

definition CreateCryptoComponents ::
  "('m, 'h, 'd, 'r, 'e, 'q, 'k, 'g, 'p, 'z, 'v, 's, 'n, 'x) header_lib \<Rightarrow> ('k, 'g, 'p) cryptoComponents result" where
  "CreateCryptoComponents lib =
     (let blockSignKeyGen = hl_blockSignKeyGen lib
      in on_ok (hl_NewBlake2bWithSize lib) (\<lambda>multisigHasher.
         let publicKey = hl_GeneratePair lib blockSignKeyGen
         in on_ok (hl_NewBLSMultisig lib multisigHasher blockSignKeyGen) (\<lambda>multiSigner.
            Inr \<lparr>cry_KeyGen = blockSignKeyGen, cry_MultiSig = multiSigner, cry_PublicKey = publicKey\<rparr>)))"

section \<open>Nodes coordinator\<close>

definition defaultSelectionChances :: u32 where "defaultSelectionChances = 1"

text \<open>The inner and the outer loop of \<^verbatim>\<open>generateGenesisNodes\<close>; \<open>ks\<close> is the order in which the map is visited.\<close>

fun shard_validators ::
  "(string \<Rightarrow> byte list result) \<Rightarrow> (byte list \<Rightarrow> u32 \<Rightarrow> u32 \<Rightarrow> 'v result) \<Rightarrow> nat \<Rightarrow> string list \<Rightarrow> 'v list \<Rightarrow> 'v list result" where
  "shard_validators decode newValidator i [] validators = Inr validators"
| "shard_validators decode newValidator i (pubKey # nodesPubKeys) validators =
     on_ok (decode pubKey) (\<lambda>pubKeyBytes.
     on_ok (newValidator pubKeyBytes defaultSelectionChances (of_nat i)) (\<lambda>validator.
     shard_validators decode newValidator (Suc i) nodesPubKeys (validators @ [validator])))"

fun genesis_loop ::
  "(string \<Rightarrow> byte list result) \<Rightarrow> (byte list \<Rightarrow> u32 \<Rightarrow> u32 \<Rightarrow> 'v result) \<Rightarrow> (u32 \<rightharpoonup> string list) \<Rightarrow> u32 list
     \<Rightarrow> (u32 \<rightharpoonup> 'v list) \<Rightarrow> (u32 \<rightharpoonup> 'v list) result" where
  "genesis_loop decode newValidator nodesConfig [] validatorsMap = Inr validatorsMap"
| "genesis_loop decode newValidator nodesConfig (shardID # ks) validatorsMap =
     on_ok (shard_validators decode newValidator 0 (the (nodesConfig shardID)) []) (\<lambda>validators.
     genesis_loop decode newValidator nodesConfig ks (validatorsMap(shardID \<mapsto> validators)))"

definition generateGenesisNodes ::
  "pubkey_converter \<Rightarrow> (byte list \<Rightarrow> u32 \<Rightarrow> u32 \<Rightarrow> 'v result) \<Rightarrow> u32 list \<Rightarrow> (u32 \<rightharpoonup> string list) \<Rightarrow> (u32 \<rightharpoonup> 'v list) result" where
  "generateGenesisNodes converter newValidator ks nodesConfig =
     genesis_loop (pkc_Decode converter) newValidator nodesConfig ks Map.empty"

definition createArgsNodesShuffler ::
  "'q EnableEpochsConfig \<Rightarrow> HeaderNetworkConfig \<Rightarrow> 'e \<Rightarrow> 'e NodesShufflerArgs" where
  "createArgsNodesShuffler eec networkConfig enableEpochsHandler =
     (let maxNodesChangeConfigs = map (\<lambda>conf.
        \<lparr>mn_EpochEnable = mn_EpochEnable conf, mn_MaxNumNodes = mn_MaxNumNodes conf,
         mn_NodesToShufflePerShard = mn_NodesToShufflePerShard conf\<rparr>) (ee_MaxNodesChangeEnableEpoch (eec_EnableEpochs eec))
      in \<lparr>nsa_NodesShard = nc_NumNodesInShard networkConfig, nsa_NodesMeta = nc_NumMetachainNodes networkConfig,
          nsa_Hysteresis = nc_Hysteresys networkConfig, nsa_Adaptivity = nc_Adaptivity networkConfig,
          nsa_ShuffleBetweenShards = True, nsa_MaxNodesEnableConfig = maxNodesChangeConfigs,
          nsa_EnableEpochsHandler = enableEpochsHandler\<rparr>)"

text \<open>The configurations that are read are not nil here: the core components were made from them.\<close>

definition CreateNodesCoordinator ::
  "('m, 'h, 'd, 'r, 'e, 'q, 'k, 'g, 'p, 'z, 'v, 's, 'n, 'x) header_lib \<Rightarrow> u32 list \<times> u32 list \<Rightarrow> ('m, 'h, 'r, 'e) coreComponents
     \<Rightarrow> HeaderNetworkConfig \<Rightarrow> 'q EnableEpochsConfig \<Rightarrow> 'p \<Rightarrow> GenesisNodes option \<Rightarrow> 'n result option" where
  "CreateNodesCoordinator lib ks coreComp networkConfig enableEpochsConfig publicKey genesisNodesConfig = (case genesisNodesConfig of
     None \<Rightarrow> None
   | Some genesis \<Rightarrow> Some (
       on_ok (generateGenesisNodes (cc_PubKeyConverter coreComp) (hl_NewValidator lib) (fst ks) (gn_Eligible genesis)) (\<lambda>eligibleValidators.
       on_ok (generateGenesisNodes (cc_PubKeyConverter coreComp) (hl_NewValidator lib) (snd ks) (gn_Waiting genesis)) (\<lambda>waitingValidators.
       let argsNodesShuffler = createArgsNodesShuffler enableEpochsConfig networkConfig (cc_EnableEpochsHandler coreComp)
       in on_ok (hl_NewHashValidatorsShuffler lib argsNodesShuffler) (\<lambda>nodeShuffler.
       on_ok (hl_pkToByteArray lib publicKey) (\<lambda>publicKeyBytes.
       let arguments =
         \<lparr>anc_ShardConsensusGroupSize = nc_ShardConsensusGroupSize networkConfig,
          anc_MetaConsensusGroupSize = ucast (nc_MetaConsensusGroup networkConfig),
          anc_Marshalizer = cc_Marshaller coreComp, anc_Hasher = cc_Hasher coreComp, anc_Shuffler = nodeShuffler,
          anc_ShardIDAsObserver = 0, anc_NbShards = nc_NumShardsWithoutMeta networkConfig,
          anc_EligibleNodes = eligibleValidators, anc_WaitingNodes = waitingValidators, anc_SelfPublicKey = publicKeyBytes,
          anc_Epoch = 0, anc_StartEpoch = 0, anc_IsFullArchive = False,
          anc_EnableEpochsHandler = cc_EnableEpochsHandler coreComp\<rparr>
       in on_ok (hl_NewIndexHashedNodesCoordinator lib arguments) (\<lambda>baseNodesCoordinator.
       hl_NewIndexHashedNodesCoordinatorWithRater lib baseNodesCoordinator (cc_Rater coreComp))))))))"

section \<open>Header verifier\<close>

text \<open>The proxy as it answers while the verifier is created.\<close>

record header_proxy =
  hp_GetNetworkConfig :: "HeaderNetworkConfig option result"
  hp_GetRatingsConfig :: "RatingsConfig option result"
  hp_GetGenesisNodesPubKeys :: "GenesisNodes option result"

definition NewHeaderCheckHandler ::
  "('m, 'h, 'd, 'r, 'e, 'q, 'k, 'g, 'p, 'z, 'v, 's, 'n, 'x) header_lib \<Rightarrow> u32 list \<times> u32 list \<Rightarrow> header_proxy option
     \<Rightarrow> 'q EnableEpochsConfig option \<Rightarrow> ((header_proxy \<times> 'm) \<times> 'x \<times> 'n) result option" where
  "NewHeaderCheckHandler lib ks proxy0 enableEpochsConfig = (case proxy0 of
     None \<Rightarrow> Some (Inl (EHeaderCheck HeaderCheck_ErrNilProxy))
   | Some proxy \<Rightarrow> (case hp_GetNetworkConfig proxy of
       Inl err \<Rightarrow> Some (Inl err)
     | Inr networkConfig \<Rightarrow> (case hp_GetRatingsConfig proxy of
         Inl err \<Rightarrow> Some (Inl err)
       | Inr ratingsConfig \<Rightarrow> (case CreateCoreComponents lib ratingsConfig networkConfig enableEpochsConfig of
           None \<Rightarrow> None
         | Some (Inl err) \<Rightarrow> Some (Inl err)
         | Some (Inr coreComp) \<Rightarrow> (case CreateCryptoComponents lib of
             Inl err \<Rightarrow> Some (Inl err)
           | Inr cryptoComp \<Rightarrow>
               (case hl_NewMultiSignerContainer lib (cry_KeyGen cryptoComp)
                       (ee_BLSMultiSignerEnableEpoch (eec_EnableEpochs (the enableEpochsConfig))) of
                  Inl err \<Rightarrow> Some (Inl err)
                | Inr multiSignerContainer \<Rightarrow> (case hp_GetGenesisNodesPubKeys proxy of
                    Inl err \<Rightarrow> Some (Inl err)
                  | Inr genesisNodesConfig \<Rightarrow>
                      (case CreateNodesCoordinator lib ks coreComp (the networkConfig) (the enableEpochsConfig)
                              (cry_PublicKey cryptoComp) genesisNodesConfig of
                         None \<Rightarrow> None
                       | Some (Inl err) \<Rightarrow> Some (Inl err)
                       | Some (Inr coordinator) \<Rightarrow> Some (
                           on_ok (hl_NewHeaderSigVerifier lib (cc_Marshaller coreComp) (cc_Hasher coreComp) coordinator
                                    multiSignerContainer (cry_KeyGen cryptoComp)) (\<lambda>headerSigVerifier.
                           on_ok (NewRawHeaderHandler (Some proxy) (Some (cc_Marshaller coreComp))) (\<lambda>rawHeaderHandler.
                           NewHeaderVerifier (Some rawHeaderHandler) (Some headerSigVerifier) (Some coordinator))))))))))))"

section \<open>Specification of the genesis nodes\<close>

text \<open>The validator of a public key at an index, and the validators of all shards: every key is decoded and
  keeps its position.\<close>

definition node_validator ::
  "pubkey_converter \<Rightarrow> (byte list \<Rightarrow> u32 \<Rightarrow> u32 \<Rightarrow> 'v result) \<Rightarrow> string \<Rightarrow> nat \<Rightarrow> 'v result" where
  "node_validator converter newValidator pubKey i =
     on_ok (pkc_Decode converter pubKey) (\<lambda>b. newValidator b 1 (of_nat i))"

definition genesis_spec ::
  "pubkey_converter \<Rightarrow> (byte list \<Rightarrow> u32 \<Rightarrow> u32 \<Rightarrow> 'v result) \<Rightarrow> (u32 \<rightharpoonup> string list) \<Rightarrow> (u32 \<rightharpoonup> 'v result list)" where
  "genesis_spec converter newValidator nodes s = map_option (\<lambda>keys.
     map (\<lambda>i. node_validator converter newValidator (keys ! i) i) [0..<length keys]) (nodes s)"

definition all_ok :: "(u32 \<rightharpoonup> 'v list) \<Rightarrow> (u32 \<rightharpoonup> 'v result list)" where
  "all_ok m s = map_option (map Inr) (m s)"

section \<open>Lemmas\<close>

lemma on_ok_Inl_iff: "on_ok r f = Inl e \<longleftrightarrow> r = Inl e \<or> (\<exists>x. r = Inr x \<and> f x = Inl e)"
  by (cases r) auto

lemma shard_validators_ok:
  assumes "shard_validators (pkc_Decode conv) nv i keys acc = Inr vs"
  shows "map Inr vs = map Inr acc @ map (\<lambda>j. node_validator conv nv (keys ! j) (i + j)) [0..<length keys]"
  using assms
proof (induction keys arbitrary: i acc)
  case (Cons key keys)
  from Cons.prems obtain b v where b: "pkc_Decode conv key = Inr b" "nv b 1 (of_nat i) = Inr v"
    "shard_validators (pkc_Decode conv) nv (Suc i) keys (acc @ [v]) = Inr vs"
    by (auto simp: on_ok_Inr defaultSelectionChances_def)
  have "node_validator conv nv key i = Inr v" using b by (simp add: node_validator_def)
  with Cons.IH [OF b(3)] show ?case
    by (simp add: map_upt_Suc del: upt_Suc)
qed simp

lemma shard_validators_err:
  assumes "shard_validators (pkc_Decode conv) nv i keys acc = Inl e"
  shows "\<exists>j<length keys. node_validator conv nv (keys ! j) (i + j) = Inl e"
  using assms
proof (induction keys arbitrary: i acc)
  case (Cons key keys)
  show ?case
  proof (cases "node_validator conv nv key i")
    case (Inl e')
    with Cons.prems have "e' = e" by (auto simp: node_validator_def on_ok_Inl_iff defaultSelectionChances_def)
    with Inl show ?thesis by (intro exI [of _ 0]) simp
  next
    case (Inr v)
    then have "shard_validators (pkc_Decode conv) nv (Suc i) keys (acc @ [v]) = Inl e"
      using Cons.prems by (auto simp: node_validator_def on_ok_Inr defaultSelectionChances_def)
    from Cons.IH [OF this] show ?thesis by auto
  qed
qed simp

lemma genesis_loop_ok:
  assumes "genesis_loop (pkc_Decode conv) nv nodes ks acc = Inr m" and "set ks \<subseteq> dom nodes"
  shows "all_ok m = (\<lambda>s. if s \<in> set ks then genesis_spec conv nv nodes s else all_ok acc s)"
  using assms
proof (induction ks arbitrary: acc)
  case (Cons s ks)
  from Cons.prems(1) obtain vs where v: "shard_validators (pkc_Decode conv) nv 0 (the (nodes s)) [] = Inr vs"
    and l: "genesis_loop (pkc_Decode conv) nv nodes ks (acc(s \<mapsto> vs)) = Inr m" by (auto simp: on_ok_Inr)
  obtain keys where "nodes s = Some keys" using Cons.prems(2) by auto
  then have "all_ok (acc(s \<mapsto> vs)) s = genesis_spec conv nv nodes s"
    using shard_validators_ok [OF v] by (simp add: all_ok_def genesis_spec_def)
  moreover have "all_ok (acc(s \<mapsto> vs)) t = all_ok acc t" if "t \<noteq> s" for t using that by (simp add: all_ok_def)
  ultimately show ?case using Cons.IH [OF l] Cons.prems(2) by (auto simp: fun_eq_iff)
qed simp

lemma genesis_loop_err:
  assumes "genesis_loop (pkc_Decode conv) nv nodes ks acc = Inl e" and "set ks \<subseteq> dom nodes"
  shows "\<exists>s rs. genesis_spec conv nv nodes s = Some rs \<and> Inl e \<in> set rs"
  using assms
proof (induction ks arbitrary: acc)
  case (Cons s ks)
  obtain keys where k: "nodes s = Some keys" using Cons.prems(2) by auto
  show ?case
  proof (cases "shard_validators (pkc_Decode conv) nv 0 keys []")
    case (Inl e')
    with Cons.prems k have "shard_validators (pkc_Decode conv) nv 0 keys [] = Inl e" by auto
    from shard_validators_err [OF this] k show ?thesis
      by (intro exI [of _ s]) (force simp: genesis_spec_def)
  next
    case (Inr vs)
    with Cons k show ?thesis by auto
  qed
qed simp

lemma genesis_nodes_ok:
  assumes "go_range nodes ks" and "generateGenesisNodes conv nv ks nodes = Inr m"
  shows "all_ok m = genesis_spec conv nv nodes"
proof
  fix s
  show "all_ok m s = genesis_spec conv nv nodes s"
  proof (cases "s \<in> set ks")
    case True
    then show ?thesis using genesis_loop_ok [of conv nv nodes ks Map.empty m] assms
      by (simp add: generateGenesisNodes_def go_range_def)
  next
    case False
    then have "genesis_spec conv nv nodes s = None" using assms(1) by (auto simp: genesis_spec_def go_range_def)
    then show ?thesis using False genesis_loop_ok [of conv nv nodes ks Map.empty m] assms
      by (simp add: generateGenesisNodes_def go_range_def all_ok_def)
  qed
qed

section \<open>Properties\<close>

text \<open>C32. The genesis validators do not depend on the order in which the map of shards is visited: either
  every key of every shard is decoded to a validator with its index in the shard, or the error is that of
  some key and no assignment of validators exists.\<close>

theorem generateGenesisNodes_exact:
  assumes "go_range nodes ks"
  shows "case generateGenesisNodes conv nv ks nodes of
      Inr m \<Rightarrow> all_ok m = genesis_spec conv nv nodes
    | Inl e \<Rightarrow> (\<exists>s rs. genesis_spec conv nv nodes s = Some rs \<and> Inl e \<in> set rs) \<and> (\<forall>m. all_ok m \<noteq> genesis_spec conv nv nodes)"
proof (cases "generateGenesisNodes conv nv ks nodes")
  case (Inl e)
  with assms obtain s rs where e: "genesis_spec conv nv nodes s = Some rs" "Inl e \<in> set rs"
    using genesis_loop_err by (fastforce simp: generateGenesisNodes_def go_range_def)
  have "all_ok m \<noteq> genesis_spec conv nv nodes" for m
  proof
    assume "all_ok m = genesis_spec conv nv nodes"
    with e have "all_ok m s = Some rs" by simp
    with e(2) show False by (auto simp: all_ok_def)
  qed
  with Inl e show ?thesis by auto
next
  case (Inr m)
  with genesis_nodes_ok [OF assms] show ?thesis by simp
qed

definition demo_genesis :: "u32 \<rightharpoonup> string list" where
  "demo_genesis = [0 \<mapsto> [''0a'', ''0b''], MetachainShardId \<mapsto> [''0c'']]"

definition demo_validator :: "byte list \<Rightarrow> u32 \<Rightarrow> u32 \<Rightarrow> (byte list \<times> u32) result" where
  "demo_validator b c i = Inr (b, i)"

theorem generateGenesisNodes_exact_witness:
  "(\<exists>m. generateGenesisNodes hex_converter demo_validator [MetachainShardId, 0] demo_genesis = Inr m
     \<and> all_ok m = genesis_spec hex_converter demo_validator demo_genesis)
   \<and> genesis_spec hex_converter demo_validator demo_genesis 0 = Some [Inr ([0x0a], 0), Inr ([0x0b], 1)]"
proof
  have r: "go_range demo_genesis [MetachainShardId, 0]" by (auto simp: go_range_def demo_genesis_def MetachainShardId_def)
  have "\<exists>m. generateGenesisNodes hex_converter demo_validator [MetachainShardId, 0] demo_genesis = Inr m"
    by (simp add: generateGenesisNodes_def demo_genesis_def MetachainShardId_def demo_validator_def hex_converter_def
        hex_val_def defaultSelectionChances_def)
  with generateGenesisNodes_exact [OF r, of hex_converter demo_validator]
  show "\<exists>m. generateGenesisNodes hex_converter demo_validator [MetachainShardId, 0] demo_genesis = Inr m
     \<and> all_ok m = genesis_spec hex_converter demo_validator demo_genesis" by auto
  show "genesis_spec hex_converter demo_validator demo_genesis 0 = Some [Inr ([0x0a], 0), Inr ([0x0b], 1)]"
    by code_simp
qed

text \<open>What the factory wires together: the verifier and the signature verifier share the nodes coordinator,
  so that the validators set for a new epoch are the ones a signature is checked against, and the
  marshaller; the coordinator is made of exactly the genesis validators that the proxy reports and of
  the group sizes of the network configuration.\<close>

lemma CreateNodesCoordinator_ok:
  fixes lib :: "('m, 'h, 'd, 'r, 'e, 'q, 'k, 'g, 'p, 'z, 'v, 's, 'n, 'x) header_lib"
  assumes "CreateNodesCoordinator lib ks core cf eec pk genesis = Some (Inr nc)"
    and "\<forall>g. genesis = Some g \<longrightarrow> go_range (gn_Eligible g) (fst ks) \<and> go_range (gn_Waiting g) (snd ks)"
  shows "\<exists>g args base. genesis = Some g \<and> hl_NewIndexHashedNodesCoordinator lib args = Inr base
    \<and> hl_NewIndexHashedNodesCoordinatorWithRater lib base (cc_Rater core) = Inr nc
    \<and> all_ok (anc_EligibleNodes args) = genesis_spec (cc_PubKeyConverter core) (hl_NewValidator lib) (gn_Eligible g)
    \<and> all_ok (anc_WaitingNodes args) = genesis_spec (cc_PubKeyConverter core) (hl_NewValidator lib) (gn_Waiting g)
    \<and> anc_Marshalizer args = cc_Marshaller core \<and> anc_ShardConsensusGroupSize args = nc_ShardConsensusGroupSize cf
    \<and> anc_MetaConsensusGroupSize args = ucast (nc_MetaConsensusGroup cf) \<and> anc_NbShards args = nc_NumShardsWithoutMeta cf"
proof -
  from assms obtain g el wa where g: "genesis = Some g" "go_range (gn_Eligible g) (fst ks)" "go_range (gn_Waiting g) (snd ks)"
    and v: "generateGenesisNodes (cc_PubKeyConverter core) (hl_NewValidator lib) (fst ks) (gn_Eligible g) = Inr el"
    "generateGenesisNodes (cc_PubKeyConverter core) (hl_NewValidator lib) (snd ks) (gn_Waiting g) = Inr wa"
    by (auto simp: CreateNodesCoordinator_def on_ok_Inr split: option.splits)
  note e = genesis_nodes_ok [OF g(2) v(1)] genesis_nodes_ok [OF g(3) v(2)]
  from assms(1) g(1) v obtain sh pkb args base where
    a: "args = \<lparr>anc_ShardConsensusGroupSize = nc_ShardConsensusGroupSize cf,
          anc_MetaConsensusGroupSize = ucast (nc_MetaConsensusGroup cf),
          anc_Marshalizer = cc_Marshaller core, anc_Hasher = cc_Hasher core, anc_Shuffler = sh,
          anc_ShardIDAsObserver = 0, anc_NbShards = nc_NumShardsWithoutMeta cf,
          anc_EligibleNodes = el, anc_WaitingNodes = wa, anc_SelfPublicKey = pkb,
          anc_Epoch = 0, anc_StartEpoch = 0, anc_IsFullArchive = False,
          anc_EnableEpochsHandler = cc_EnableEpochsHandler core\<rparr>"
    and n: "hl_NewIndexHashedNodesCoordinator lib args = Inr base"
    "hl_NewIndexHashedNodesCoordinatorWithRater lib base (cc_Rater core) = Inr nc"
    by (auto simp: CreateNodesCoordinator_def on_ok_Inr Let_def)
  have "anc_EligibleNodes args = el" "anc_WaitingNodes args = wa" "anc_Marshalizer args = cc_Marshaller core"
    "anc_ShardConsensusGroupSize args = nc_ShardConsensusGroupSize cf"
    "anc_MetaConsensusGroupSize args = ucast (nc_MetaConsensusGroup cf)" "anc_NbShards args = nc_NumShardsWithoutMeta cf"
    by (simp_all add: a)
  with n g(1) e show ?thesis by blast
qed

lemma CreateCoreComponents_configs:
  assumes "CreateCoreComponents lib rc nc eec = Some (Inr core)"
  shows "\<exists>cf rd e. nc = Some cf \<and> rc = Some rd \<and> eec = Some e"
  using assms by (auto simp: CreateCoreComponents_def createRater_def bind_eq_Some_conv split: sum.splits option.splits)

lemma header_check_wired:
  fixes lib :: "('m, 'h, 'd, 'r, 'e, 'q, 'k, 'g, 'p, 'z, 'v, 's, 'n, 'x) header_lib"
  assumes "NewHeaderCheckHandler lib ks (Some proxy) eec = Some (Inr ((p, mar), sv, nc))"
    and "\<forall>g. hp_GetGenesisNodesPubKeys proxy = Inr (Some g) \<longrightarrow> go_range (gn_Eligible g) (fst ks) \<and> go_range (gn_Waiting g) (snd ks)"
  shows "\<exists>cf g (core :: ('m, 'h, 'r, 'e) coreComponents) args base z. p = proxy \<and> hp_GetNetworkConfig proxy = Inr (Some cf) \<and> hp_GetGenesisNodesPubKeys proxy = Inr (Some g)
    \<and> mar = cc_Marshaller core \<and> hl_NewHeaderSigVerifier lib mar (cc_Hasher core) nc z (hl_blockSignKeyGen lib) = Inr sv
    \<and> hl_NewIndexHashedNodesCoordinator lib args = Inr base
    \<and> hl_NewIndexHashedNodesCoordinatorWithRater lib base (cc_Rater core) = Inr nc
    \<and> all_ok (anc_EligibleNodes args) = genesis_spec (cc_PubKeyConverter core) (hl_NewValidator lib) (gn_Eligible g)
    \<and> all_ok (anc_WaitingNodes args) = genesis_spec (cc_PubKeyConverter core) (hl_NewValidator lib) (gn_Waiting g)
    \<and> anc_Marshalizer args = mar \<and> anc_ShardConsensusGroupSize args = nc_ShardConsensusGroupSize cf
    \<and> anc_MetaConsensusGroupSize args = ucast (nc_MetaConsensusGroup cf) \<and> anc_NbShards args = nc_NumShardsWithoutMeta cf"
proof -
  from assms(1) obtain n rc core cry z genesis where s: "hp_GetNetworkConfig proxy = Inr n" "hp_GetRatingsConfig proxy = Inr rc"
    "CreateCoreComponents lib rc n eec = Some (Inr core)" "CreateCryptoComponents lib = Inr cry"
    "hp_GetGenesisNodesPubKeys proxy = Inr genesis"
    "CreateNodesCoordinator lib ks core (the n) (the eec) (cry_PublicKey cry) genesis = Some (Inr nc)"
    "hl_NewHeaderSigVerifier lib (cc_Marshaller core) (cc_Hasher core) nc z (cry_KeyGen cry) = Inr sv"
    "p = proxy" "mar = cc_Marshaller core"
    by (auto simp: NewHeaderCheckHandler_def NewRawHeaderHandler_def NewHeaderVerifier_def hc_checkArguments_def on_ok_Inr
        split: sum.splits option.splits)
  obtain cf where "n = Some cf" using CreateCoreComponents_configs [OF s(3)] by auto
  moreover have "cry_KeyGen cry = hl_blockSignKeyGen lib" using s(4) by (auto simp: CreateCryptoComponents_def on_ok_Inr Let_def)
  moreover have "\<forall>g. genesis = Some g \<longrightarrow> go_range (gn_Eligible g) (fst ks) \<and> go_range (gn_Waiting g) (snd ks)"
    using assms(2) s(5) by simp
  ultimately have c: "hp_GetNetworkConfig proxy = Inr (Some cf)" "cry_KeyGen cry = hl_blockSignKeyGen lib"
    and "\<exists>g args base. genesis = Some g \<and> hl_NewIndexHashedNodesCoordinator lib args = Inr base
      \<and> hl_NewIndexHashedNodesCoordinatorWithRater lib base (cc_Rater core) = Inr nc
      \<and> all_ok (anc_EligibleNodes args) = genesis_spec (cc_PubKeyConverter core) (hl_NewValidator lib) (gn_Eligible g)
      \<and> all_ok (anc_WaitingNodes args) = genesis_spec (cc_PubKeyConverter core) (hl_NewValidator lib) (gn_Waiting g)
      \<and> anc_Marshalizer args = cc_Marshaller core \<and> anc_ShardConsensusGroupSize args = nc_ShardConsensusGroupSize cf
      \<and> anc_MetaConsensusGroupSize args = ucast (nc_MetaConsensusGroup cf) \<and> anc_NbShards args = nc_NumShardsWithoutMeta cf"
    using CreateNodesCoordinator_ok [OF s(6)] s(1) by simp_all
  then obtain g args base where "genesis = Some g" "hl_NewIndexHashedNodesCoordinator lib args = Inr base
      \<and> hl_NewIndexHashedNodesCoordinatorWithRater lib base (cc_Rater core) = Inr nc
      \<and> all_ok (anc_EligibleNodes args) = genesis_spec (cc_PubKeyConverter core) (hl_NewValidator lib) (gn_Eligible g)
      \<and> all_ok (anc_WaitingNodes args) = genesis_spec (cc_PubKeyConverter core) (hl_NewValidator lib) (gn_Waiting g)
      \<and> anc_Marshalizer args = cc_Marshaller core \<and> anc_ShardConsensusGroupSize args = nc_ShardConsensusGroupSize cf
      \<and> anc_MetaConsensusGroupSize args = ucast (nc_MetaConsensusGroup cf) \<and> anc_NbShards args = nc_NumShardsWithoutMeta cf"
    by blast
  with c s(5,7-9) show ?thesis
    by (intro exI [of _ cf] exI [of _ g] exI [of _ core] exI [of _ args] exI [of _ base] exI [of _ z]) simp
qed

lemma those_defined: "None \<notin> set xs \<Longrightarrow> those xs \<noteq> None"
  by (induction xs) (auto simp: eq_commute [of None] split: option.splits)

text \<open>The factory returns when the enable epochs configuration is given and the gateway answers no null; a
  null network configuration or a missing enable epochs configuration is dereferenced.\<close>

lemma header_check_returns:
  assumes "eec \<noteq> None" and "hp_GetNetworkConfig proxy \<noteq> Inr None" and "hp_GetGenesisNodesPubKeys proxy \<noteq> Inr None"
    and "\<forall>rc. hp_GetRatingsConfig proxy = Inr rc \<longrightarrow> (\<exists>rd. rc = Some rd \<and> None \<notin> set (rc_GeneralSelectionChances rd))"
  shows "NewHeaderCheckHandler lib ks (Some proxy) eec \<noteq> None"
proof -
  have r: "createRater lib rc nc \<noteq> None" if a: "hp_GetRatingsConfig proxy = Inr rc" "nc \<noteq> None" for rc nc
  proof -
    obtain rd where "rc = Some rd" "None \<notin> set (rc_GeneralSelectionChances rd)" using assms(4) a(1) by blast
    with those_defined [OF this(2)] a(2) show ?thesis by (auto simp: createRater_def createRatingsConfig_def)
  qed
  have c: "CreateCoreComponents lib rc nc eec \<noteq> None" if "hp_GetRatingsConfig proxy = Inr rc" "nc \<noteq> None" for rc nc
    using r [OF that] assms(1) by (auto simp: CreateCoreComponents_def split: sum.splits option.splits)
  have c': "CreateCoreComponents lib rc (Some cf) eec \<noteq> None" if "hp_GetRatingsConfig proxy = Inr rc" for rc cf
    using c [OF that] by blast
  show ?thesis
    using assms(2,3)
    by (auto simp: NewHeaderCheckHandler_def CreateNodesCoordinator_def c' split: sum.splits option.splits)
qed

lemma header_check_null_config_panics:
  assumes "hp_GetNetworkConfig proxy = Inr None" and "hp_GetRatingsConfig proxy = Inr rc"
    and "hl_NewMarshalizer lib marshalizerType = Inr mar" and "hl_NewHasher lib hasherType = Inr h"
  shows "NewHeaderCheckHandler lib ks (Some proxy) eec = None"
  using assms by (simp add: NewHeaderCheckHandler_def CreateCoreComponents_def createRater_def split: option.splits)

end
