(* ===== verification/Web_Server.thy ===== *)
theory Web_Server
  imports Sdk_Errors Go_Encoding
begin

text \<open>
  The web server of \<^verbatim>\<open>aggregator/api/gin\<close>, which serves the log messages of a node: \<^verbatim>\<open>httpServer.go\<close>,
  \<^verbatim>\<open>webServer.go\<close> and \<^verbatim>\<open>writers.go\<close> as a state machine. Every \<^verbatim>\<open>http.Server\<close> that was created stays in the list of
  servers, with the progress of the goroutine that runs \<^verbatim>\<open>ListenAndServe\<close> on it; the web server refers to one of
  them by its index. Of \<^verbatim>\<open>net/http\<close> the model has what the code relies on: \<^verbatim>\<open>Shutdown\<close> closes the listener at once
  and for good, also before the server listens, and \<^verbatim>\<open>ListenAndServe\<close> then returns. Binding the address may
  fail. The field \<^verbatim>\<open>cancelFunc\<close> is never assigned, so that \<^verbatim>\<open>Close\<close> has nothing to call. Of
  gin the model has the table of routes; the websocket upgrade and the log sender of \<^verbatim>\<open>mx-chain-go\<close> are parameters.
\<close>

section \<open>Data\<close>

datatype hs_pc = HsCreated | HsListening | HsReturned

text \<open>The table of a gin engine: method, path and handler. There is one handler.\<close>

datatype route_handler = LoggerWsRoute

type_synonym routes = "(string \<times> string \<times> route_handler) list"

record httpServer =
  hs_Addr :: string
  hs_Handler :: routes
  hs_pc :: hs_pc
  hs_inShutdown :: bool

record webServer =
  ws_httpServer :: "nat option"
  ws_apiInterface :: string
  ws_cancelFunc :: "unit option"
  ws_servers :: "httpServer list"

definition WebServerOffString :: string where "WebServerOffString = ''off''"

section \<open>Operations\<close>

definition NewHttpServer :: "'s option \<Rightarrow> 's result" where
  "NewHttpServer server = or_err server (EExternal ''nil http server'')"

text \<open>One step of the goroutine that runs \<^verbatim>\<open>Start\<close>, which is \<^verbatim>\<open>ListenAndServe\<close> and a log message: \<open>ok\<close> says whether the
  address can be ok and the listener keeps working.\<close>

definition hs_Start :: "bool \<Rightarrow> httpServer \<Rightarrow> httpServer" where
  "hs_Start ok h = (case hs_pc h of
     HsReturned \<Rightarrow> h
   | _ \<Rightarrow> h\<lparr>hs_pc := (if hs_inShutdown h \<or> \<not> ok then HsReturned else HsListening)\<rparr>)"

definition hs_Close :: "go_error option \<Rightarrow> httpServer \<Rightarrow> go_error option \<times> httpServer" where
  "hs_Close shutdownErr h = (shutdownErr, h\<lparr>hs_inShutdown := True\<rparr>)"

definition registerLoggerWsRoute :: "routes \<Rightarrow> routes" where
  "registerLoggerWsRoute ws = ws @ [(''GET'', ''/log'', LoggerWsRoute)]"

definition registerRoutes :: "routes \<Rightarrow> routes" where
  "registerRoutes ginRouter = registerLoggerWsRoute ginRouter"

text \<open>The handler of the log route: the upgrade of the connection, which is given the check of the origin, and
  the log sender over it. The result is the error that is logged and the sender that was started.\<close>

record ('req, 'conn, 'ls) websocket_lib =
  wsl_Upgrade :: "('req \<Rightarrow> bool) \<Rightarrow> 'req \<Rightarrow> 'conn result"
  wsl_NewLogSender :: "'conn \<Rightarrow> 'ls result"

definition CheckOrigin :: "'req \<Rightarrow> bool" where
  "CheckOrigin r = True"

definition loggerWsRoute :: "('req, 'conn, 'ls) websocket_lib \<Rightarrow> 'req \<Rightarrow> go_error option \<times> 'ls option" where
  "loggerWsRoute lib request = (case wsl_Upgrade lib CheckOrigin request of
     Inl err \<Rightarrow> (Some err, None)
   | Inr conn \<Rightarrow> (case wsl_NewLogSender lib conn of
       Inl err \<Rightarrow> (Some err, None)
     | Inr ls \<Rightarrow> (None, Some ls)))"

definition NewWebServerHandler :: "string \<Rightarrow> webServer result" where
  "NewWebServerHandler apiInterface =
     Inr \<lparr>ws_httpServer = None, ws_apiInterface = apiInterface, ws_cancelFunc = None, ws_servers = []\<rparr>"

definition StartHttpServer :: "webServer \<Rightarrow> go_error option \<times> webServer" where
  "StartHttpServer ws =
     (if ws_apiInterface ws = WebServerOffString then (None, ws)
      else
        let engine = registerRoutes [];
            server = \<lparr>hs_Addr = ws_apiInterface ws, hs_Handler = engine, hs_pc = HsCreated, hs_inShutdown = False\<rparr>
        in case NewHttpServer (Some server) of
             Inl err \<Rightarrow> (Some err, ws\<lparr>ws_httpServer := None\<rparr>)
           | Inr h \<Rightarrow> (None, ws\<lparr>ws_httpServer := Some (length (ws_servers ws)), ws_servers := ws_servers ws @ [h]\<rparr>))"

definition ws_Close :: "go_error option \<Rightarrow> webServer \<Rightarrow> go_error option \<times> webServer" where
  "ws_Close shutdownErr ws =
     (let (err, ws') = (case ws_httpServer ws of
            None \<Rightarrow> (None, ws)
          | Some i \<Rightarrow> (case hs_Close shutdownErr (ws_servers ws ! i) of
              (e, h) \<Rightarrow> (e, ws\<lparr>ws_servers := (ws_servers ws)[i := h]\<rparr>)))
      in (map_option (\<lambda>e. Errorf [] e '' while closing the http server in gin/webServer'') err, ws'))"

definition ginWriter_Write :: "byte list \<Rightarrow> string \<times> nat \<times> go_error option" where
  "ginWriter_Write p = (trim_space (string_of_bytes p), length p, None)"

definition ginErrorWriter_Write :: "byte list \<Rightarrow> string \<times> nat \<times> go_error option" where
  "ginErrorWriter_Write p = (trim_space (string_of_bytes p), length p, None)"

section \<open>Steps\<close>

text \<open>The steps that do not start a server: closing, and the goroutines of the servers.\<close>

inductive web_quiet :: "webServer \<Rightarrow> webServer \<Rightarrow> bool" where
  close: "web_quiet ws (snd (ws_Close e ws))"
| goroutine: "i < length (ws_servers ws) \<Longrightarrow> web_quiet ws (ws\<lparr>ws_servers := (ws_servers ws)[i := hs_Start ok (ws_servers ws ! i)]\<rparr>)"

inductive web_step :: "webServer \<Rightarrow> webServer \<Rightarrow> bool" where
  quiet: "web_quiet ws ws' \<Longrightarrow> web_step ws ws'"
| start: "web_step ws (snd (StartHttpServer ws))"

inductive_cases web_quietE: "web_quiet ws ws'"
inductive_cases web_stepE: "web_step ws ws'"

definition ws_init :: "string \<Rightarrow> webServer" where
  "ws_init apiInterface = \<lparr>ws_httpServer = None, ws_apiInterface = apiInterface, ws_cancelFunc = None, ws_servers = []\<rparr>"

definition ws_reachable :: "string \<Rightarrow> webServer \<Rightarrow> bool" where
  "ws_reachable apiInterface ws \<longleftrightarrow> web_step\<^sup>*\<^sup>* (ws_init apiInterface) ws"

definition accepts :: "httpServer \<Rightarrow> bool" where
  "accepts h \<longleftrightarrow> hs_pc h = HsListening \<and> \<not> hs_inShutdown h"

definition ws_accepting :: "webServer \<Rightarrow> bool" where
  "ws_accepting ws \<longleftrightarrow> (\<exists>h\<in>set (ws_servers ws). accepts h)"

section \<open>Lemmas\<close>

text \<open>The web server refers to the server it created last, its address never changes, and a server that was
  shut down stays so.\<close>

definition ws_inv :: "string \<Rightarrow> webServer \<Rightarrow> bool" where
  "ws_inv apiInterface ws \<longleftrightarrow> ws_apiInterface ws = apiInterface
     \<and> ws_httpServer ws = (if ws_servers ws = [] then None else Some (length (ws_servers ws) - 1))
     \<and> (ws_servers ws \<noteq> [] \<longrightarrow> apiInterface \<noteq> WebServerOffString)
     \<and> (\<forall>h\<in>set (ws_servers ws). hs_Addr h = apiInterface \<and> hs_Handler h = registerRoutes [])"

lemma StartHttpServer_on:
  "ws_apiInterface ws \<noteq> WebServerOffString \<Longrightarrow> StartHttpServer ws =
     (None, ws\<lparr>ws_httpServer := Some (length (ws_servers ws)),
        ws_servers := ws_servers ws @ [\<lparr>hs_Addr = ws_apiInterface ws, hs_Handler = registerRoutes [], hs_pc = HsCreated, hs_inShutdown = False\<rparr>]\<rparr>)"
  by (simp add: StartHttpServer_def NewHttpServer_def Let_def)

lemma ws_inv_init: "ws_inv a (ws_init a)"
  by (simp add: ws_inv_def ws_init_def)

lemma hs_same [simp]:
  "hs_Addr (snd (hs_Close e h)) = hs_Addr h" "hs_Handler (snd (hs_Close e h)) = hs_Handler h"
  "hs_Addr (hs_Start ok h) = hs_Addr h" "hs_Handler (hs_Start ok h) = hs_Handler h"
  by (simp_all add: hs_Close_def hs_Start_def split: hs_pc.split)

lemma ws_inv_update:
  assumes "ws_inv a ws" and "i < length (ws_servers ws)" and "hs_Addr h = hs_Addr (ws_servers ws ! i)"
    and "hs_Handler h = hs_Handler (ws_servers ws ! i)"
  shows "ws_inv a (ws\<lparr>ws_servers := (ws_servers ws)[i := h]\<rparr>)"
  using assms by (auto simp: ws_inv_def dest!: set_update_subset_insert [THEN subsetD])

lemma ws_Close_update:
  "snd (ws_Close e ws) = (case ws_httpServer ws of None \<Rightarrow> ws
     | Some i \<Rightarrow> ws\<lparr>ws_servers := (ws_servers ws)[i := snd (hs_Close e (ws_servers ws ! i))]\<rparr>)"
  by (simp add: ws_Close_def hs_Close_def split: option.split)

lemma ws_inv_ref: "ws_inv a ws \<Longrightarrow> ws_httpServer ws = Some i \<Longrightarrow> i < length (ws_servers ws)"
  by (auto simp: ws_inv_def split: if_splits)

lemma ws_inv_quiet:
  assumes "web_quiet ws ws'" and "ws_inv a ws"
  shows "ws_inv a ws' \<and> length (ws_servers ws') = length (ws_servers ws)"
  using assms(1)
proof cases
  case (close e)
  then show ?thesis using assms(2) ws_inv_ref [OF assms(2)] by (auto simp: ws_Close_update intro!: ws_inv_update split: option.splits)
next
  case (goroutine i ok)
  then show ?thesis using assms(2) by (simp add: ws_inv_update)
qed

lemma ws_inv_step:
  assumes "web_step ws ws'" and "ws_inv a ws"
  shows "ws_inv a ws'"
  using assms(1)
proof cases
  case quiet
  then show ?thesis using ws_inv_quiet assms(2) by blast
next
  case start
  then show ?thesis using assms(2)
    by (auto simp: ws_inv_def StartHttpServer_def NewHttpServer_def Let_def)
qed

lemma ws_inv_reachable: "ws_reachable a ws \<Longrightarrow> ws_inv a ws"
  unfolding ws_reachable_def by (induction rule: rtranclp_induct) (auto intro: ws_inv_init ws_inv_step)

text \<open>Without a start no server begins to accept once it was shut down.\<close>

lemma shutdown_quiet:
  assumes "web_quiet ws ws'" and "\<forall>h\<in>set (ws_servers ws). hs_inShutdown h"
  shows "\<forall>h\<in>set (ws_servers ws'). hs_inShutdown h"
  using assms(1)
proof cases
  case (close e)
  then show ?thesis using assms(2)
    by (auto simp: ws_Close_def hs_Close_def Let_def split: option.splits dest!: set_update_subset_insert [THEN subsetD])
next
  case (goroutine i ok)
  then have "hs_inShutdown (hs_Start ok (ws_servers ws ! i))" using assms(2) by (auto simp: hs_Start_def split: hs_pc.splits)
  then show ?thesis using goroutine assms(2) by (auto dest!: set_update_subset_insert [THEN subsetD])
qed

lemma shutdown_quiet_steps:
  assumes "web_quiet\<^sup>*\<^sup>* ws ws'" and "\<forall>h\<in>set (ws_servers ws). hs_inShutdown h"
  shows "\<not> ws_accepting ws'"
proof -
  from assms have "\<forall>h\<in>set (ws_servers ws'). hs_inShutdown h"
    by (induction rule: rtranclp_induct) (simp, rule shutdown_quiet)
  then show ?thesis by (auto simp: ws_accepting_def accepts_def)
qed

section \<open>Properties\<close>


text \<open>The origin of a request does not matter: with an upgrade that refuses what the check of the origin refuses and
  is a handshake otherwise, the route is open to every page, whatever the library would check by itself.\<close>

lemma loggerWsRoute_any_origin:
  assumes "\<forall>co r. wsl_Upgrade lib co r = (if co r then handshake r else Inl (EExternal ''origin not allowed''))"
    and "\<forall>c. \<exists>ls. wsl_NewLogSender lib c = Inr ls"
  shows "snd (loggerWsRoute lib r) \<noteq> None \<longleftrightarrow> (\<exists>c. handshake r = Inr c)"
proof (cases "handshake r")
  case (Inr c)
  then obtain ls where "wsl_NewLogSender lib c = Inr ls" using assms(2) by blast
  with Inr assms(1) show ?thesis by (simp add: loggerWsRoute_def CheckOrigin_def)
qed (use assms(1) in \<open>simp add: loggerWsRoute_def CheckOrigin_def\<close>)

text \<open>A second start replaces the reference to the first server: it keeps accepting after any number of calls
  of \<^verbatim>\<open>Close\<close>.\<close>

definition two_starts :: "string \<Rightarrow> webServer" where
  "two_starts a = (let ws1 = snd (StartHttpServer (ws_init a));
      ws2 = ws1\<lparr>ws_servers := (ws_servers ws1)[0 := hs_Start True (ws_servers ws1 ! 0)]\<rparr>
    in snd (StartHttpServer ws2))"

lemma web_second_start_leaks:
  assumes "a \<noteq> WebServerOffString"
  shows "ws_reachable a (two_starts a) \<and> ws_accepting (((\<lambda>ws. snd (ws_Close e ws)) ^^ n) (two_starts a))"
proof
  let ?h = "\<lparr>hs_Addr = a, hs_Handler = registerRoutes [], hs_pc = HsCreated, hs_inShutdown = False\<rparr>"
  let ?ws1 = "\<lparr>ws_httpServer = Some 0, ws_apiInterface = a, ws_cancelFunc = None, ws_servers = [?h]\<rparr>"
  have w1: "snd (StartHttpServer (ws_init a)) = ?ws1" using assms by (simp add: StartHttpServer_on ws_init_def)
  have s1: "web_step (ws_init a) ?ws1" using web_step.start [of "ws_init a"] w1 by simp
  have s2: "web_step ?ws1 (?ws1\<lparr>ws_servers := [hs_Start True ?h]\<rparr>)"
    using web_quiet.goroutine [of 0 ?ws1 True] by (simp add: web_step.quiet)
  have s3: "web_step (?ws1\<lparr>ws_servers := [hs_Start True ?h]\<rparr>) (two_starts a)"
    using web_step.start [of "?ws1\<lparr>ws_servers := [hs_Start True ?h]\<rparr>"] by (simp add: two_starts_def w1)
  show "ws_reachable a (two_starts a)" unfolding ws_reachable_def
    using s1 s2 s3 by (meson converse_rtranclp_into_rtranclp r_into_rtranclp)
  have t: "two_starts a = \<lparr>ws_httpServer = Some 1, ws_apiInterface = a, ws_cancelFunc = None,
      ws_servers = [?h\<lparr>hs_pc := HsListening\<rparr>, ?h]\<rparr>"
    using assms by (simp add: two_starts_def w1 StartHttpServer_on hs_Start_def)
  have "ws_httpServer (((\<lambda>ws. snd (ws_Close e ws)) ^^ n) (two_starts a)) = Some 1
      \<and> (\<exists>h. ws_servers (((\<lambda>ws. snd (ws_Close e ws)) ^^ n) (two_starts a)) = [?h\<lparr>hs_pc := HsListening\<rparr>, h])"
    by (induction n) (auto simp: t ws_Close_def hs_Close_def)
  then show "ws_accepting (((\<lambda>ws. snd (ws_Close e ws)) ^^ n) (two_starts a))" by (auto simp: ws_accepting_def accepts_def)
qed


end
