(* ===== verification/Lib_Bls.thy ===== *)
theory Lib_Bls
  imports Sdk_Errors Go_Encoding
begin

text \<open>
  The BLS library (\<^verbatim>\<open>libraries/libbls\<close>): key generation, signing and verification for callers in other languages,
  which exchange keys, messages and signatures as hexadecimal C strings. The BLS suite of
  \<^verbatim>\<open>mx-chain-crypto-go\<close> is the record \<open>bls_env\<close>; the key pair that the generator draws is an argument. A \<^verbatim>\<open>*C.char\<close>
  is the memory from the pointer on, \<open>None\<close> for a null pointer.
\<close>

section \<open>Environment\<close>

record ('sk, 'pk) bls_env =
  bls_skToByteArray :: "'sk \<Rightarrow> byte list result"
  bls_skFromByteArray :: "byte list \<Rightarrow> 'sk result"
  bls_GeneratePublic :: "'sk \<Rightarrow> 'pk"
  bls_pkToByteArray :: "'pk \<Rightarrow> byte list result"
  bls_pkFromByteArray :: "byte list \<Rightarrow> 'pk result"
  bls_Sign :: "'sk \<Rightarrow> byte list \<Rightarrow> byte list result"
  bls_Verify :: "'pk \<Rightarrow> byte list \<Rightarrow> byte list \<Rightarrow> go_error option"

text \<open>Keys are read back from their bytes, which are not empty, and a signature verifies under the public key.\<close>

definition bls_law :: "('sk, 'pk) bls_env \<Rightarrow> bool" where
  "bls_law env \<longleftrightarrow> (\<forall>sk b. bls_skToByteArray env sk = Inr b \<longrightarrow> b \<noteq> [] \<and> bls_skFromByteArray env b = Inr sk)
     \<and> (\<forall>pk b. bls_pkToByteArray env pk = Inr b \<longrightarrow> b \<noteq> [] \<and> bls_pkFromByteArray env b = Inr pk)
     \<and> (\<forall>sk m s. bls_Sign env sk m = Inr s \<longrightarrow> s \<noteq> [] \<and> bls_Verify env (bls_GeneratePublic env sk) m s = None)"

section \<open>The library\<close>

definition decodeInputParameter :: "string \<Rightarrow> byte list option" where
  "decodeInputParameter parameterValueHex = (case hex_DecodeString parameterValueHex of Inl err \<Rightarrow> None | Inr dat \<Rightarrow> Some dat)"

definition doGeneratePrivateKeyAsHex :: "('sk, 'pk) bls_env \<Rightarrow> 'sk \<Rightarrow> string" where
  "doGeneratePrivateKeyAsHex env privateKey = (case bls_skToByteArray env privateKey of
     Inl err \<Rightarrow> []
   | Inr privateKeyBytes \<Rightarrow> hex_EncodeToString privateKeyBytes)"

definition doGeneratePublicKeyAsHex :: "('sk, 'pk) bls_env \<Rightarrow> string \<Rightarrow> string" where
  "doGeneratePublicKeyAsHex env privateKeyHex = (case decodeInputParameter privateKeyHex of
     None \<Rightarrow> []
   | Some privateKeyBytes \<Rightarrow> (case bls_skFromByteArray env privateKeyBytes of
       Inl err \<Rightarrow> []
     | Inr privateKey \<Rightarrow> (case bls_pkToByteArray env (bls_GeneratePublic env privateKey) of
         Inl err \<Rightarrow> []
       | Inr publicKeyBytes \<Rightarrow> hex_EncodeToString publicKeyBytes)))"

definition doComputeMessageSignatureAsHex :: "('sk, 'pk) bls_env \<Rightarrow> string \<Rightarrow> string \<Rightarrow> string" where
  "doComputeMessageSignatureAsHex env messageHex privateKeyHex = (case decodeInputParameter messageHex of
     None \<Rightarrow> []
   | Some message \<Rightarrow> (case decodeInputParameter privateKeyHex of
       None \<Rightarrow> []
     | Some privateKeyBytes \<Rightarrow> (case bls_skFromByteArray env privateKeyBytes of
         Inl err \<Rightarrow> []
       | Inr privateKey \<Rightarrow> (case bls_Sign env privateKey message of
           Inl err \<Rightarrow> []
         | Inr signature \<Rightarrow> hex_EncodeToString signature))))"

definition doVerifyMessageSignature :: "('sk, 'pk) bls_env \<Rightarrow> string \<Rightarrow> string \<Rightarrow> string \<Rightarrow> bool" where
  "doVerifyMessageSignature env publicKeyHex messageHex signatureHex = (case decodeInputParameter publicKeyHex of
     None \<Rightarrow> False
   | Some publicKeyBytes \<Rightarrow> (case decodeInputParameter messageHex of
       None \<Rightarrow> False
     | Some message \<Rightarrow> (case decodeInputParameter signatureHex of
         None \<Rightarrow> False
       | Some signature \<Rightarrow> (case bls_pkFromByteArray env publicKeyBytes of
           Inl err \<Rightarrow> False
         | Inr publicKey \<Rightarrow> bls_Verify env publicKey message signature = None))))"

section \<open>The C interface\<close>

type_synonym c_string = "string option"

definition GoString :: "c_string \<Rightarrow> string" where
  "GoString p = (case p of None \<Rightarrow> [] | Some mem \<Rightarrow> takeWhile (\<lambda>c. c \<noteq> CHR 0x00) mem)"

definition CString :: "string \<Rightarrow> c_string" where
  "CString s = Some (s @ [CHR 0x00])"

definition c_generatePublicKey :: "('sk, 'pk) bls_env \<Rightarrow> c_string \<Rightarrow> c_string" where
  "c_generatePublicKey env privateKey =
     (let privateKeyHex = GoString privateKey;
          publicKeyHex = doGeneratePublicKeyAsHex env privateKeyHex
      in CString publicKeyHex)"

definition c_computeMessageSignature :: "('sk, 'pk) bls_env \<Rightarrow> c_string \<Rightarrow> c_string \<Rightarrow> c_string" where
  "c_computeMessageSignature env message privateKey =
     (let messageHex = GoString message;
          privateKeyHex = GoString privateKey;
          signatureHex = doComputeMessageSignatureAsHex env messageHex privateKeyHex
      in CString signatureHex)"

definition c_verifyMessageSignature :: "('sk, 'pk) bls_env \<Rightarrow> c_string \<Rightarrow> c_string \<Rightarrow> c_string \<Rightarrow> int" where
  "c_verifyMessageSignature env publicKey message signature =
     (let publicKeyHex = GoString publicKey;
          messageHex = GoString message;
          signatureHex = GoString signature;
          ok = doVerifyMessageSignature env publicKeyHex messageHex signatureHex
      in if ok then 1 else 0)"

definition c_generatePrivateKey :: "('sk, 'pk) bls_env \<Rightarrow> 'sk \<Rightarrow> c_string" where
  "c_generatePrivateKey env drawn = CString (doGeneratePrivateKeyAsHex env drawn)"

section \<open>A concrete environment\<close>

definition demo_bls :: "(byte, byte) bls_env" where
  "demo_bls = \<lparr>bls_skToByteArray = (\<lambda>k. Inr [k]), bls_skFromByteArray = (\<lambda>b. if length b = 1 then Inr (hd b) else Inl (EExternal ''key'')),
     bls_GeneratePublic = (\<lambda>k. k + 1), bls_pkToByteArray = (\<lambda>k. Inr [k]),
     bls_pkFromByteArray = (\<lambda>b. if length b = 1 then Inr (hd b) else Inl (EExternal ''key'')),
     bls_Sign = (\<lambda>k m. Inr (k # m)),
     bls_Verify = (\<lambda>k m s. if s = (k - 1) # m then None else Some (EExternal ''invalid signature''))\<rparr>"

section \<open>Lemmas\<close>

lemma nul_not_hex [simp]: "hex_val (CHR 0x00) = None"
  by (simp add: hex_val_def)

lemma GoString_CString: "CHR 0x00 \<notin> set s \<Longrightarrow> GoString (CString s) = s"
  unfolding GoString_def CString_def option.case by (subst takeWhile_append2) auto

lemma GoString_hex [simp]: "GoString (CString (hex_EncodeToString b)) = hex_EncodeToString b"
  by (rule GoString_CString) (rule hex_EncodeToString_notin, simp)

lemma decode_hex [simp]: "decodeInputParameter (hex_EncodeToString b) = Some b"
  by (simp add: decodeInputParameter_def hex_roundtrip)

lemma hex_not_empty [simp]: "hex_EncodeToString b = [] \<longleftrightarrow> b = []"
  by (cases b) simp_all

text \<open>A result text is not empty exactly when every step succeeded.\<close>

lemma GoString_Nil [simp]: "GoString (CString []) = []"
  by (simp add: GoString_CString)

lemma public_key_steps:
  assumes "bls_law env" and "GoString (c_generatePublicKey env sk) \<noteq> []"
  obtains b k p where "decodeInputParameter (GoString sk) = Some b" and "bls_skFromByteArray env b = Inr k"
    and "bls_pkToByteArray env (bls_GeneratePublic env k) = Inr p" and "GoString (c_generatePublicKey env sk) = hex_EncodeToString p"
    and "bls_pkFromByteArray env p = Inr (bls_GeneratePublic env k)"
  using assms
  by (auto simp: c_generatePublicKey_def doGeneratePublicKeyAsHex_def bls_law_def split: option.splits sum.splits)

lemma signature_steps:
  assumes "GoString (c_computeMessageSignature env msg sk) \<noteq> []"
  obtains m b k s where "decodeInputParameter (GoString msg) = Some m" and "decodeInputParameter (GoString sk) = Some b"
    and "bls_skFromByteArray env b = Inr k" and "bls_Sign env k m = Inr s"
    and "GoString (c_computeMessageSignature env msg sk) = hex_EncodeToString s"
  using assms
  by (auto simp: c_computeMessageSignature_def doComputeMessageSignatureAsHex_def split: option.splits sum.splits)

lemma verify_exact:
  "c_verifyMessageSignature env pk msg sig = 1 \<longleftrightarrow> (\<exists>b k m s. decodeInputParameter (GoString pk) = Some b
     \<and> decodeInputParameter (GoString msg) = Some m \<and> decodeInputParameter (GoString sig) = Some s
     \<and> bls_pkFromByteArray env b = Inr k \<and> bls_Verify env k m s = None)"
  by (auto simp: c_verifyMessageSignature_def doVerifyMessageSignature_def split: option.splits sum.splits)

section \<open>Properties\<close>

text \<open>C35. What the library signs it verifies, through the C strings: for any private key and message text for
  which the public key and the signature are not empty, verification under this public key reports 1. For a
  key that the generator drew the texts are not empty as soon as the suite gives the bytes and the
  signature. A null pointer, an odd or a foreign character never verifies.\<close>

theorem bls_sign_verify:
  assumes "bls_law env"
  shows "(GoString (c_generatePublicKey env sk) \<noteq> [] \<and> GoString (c_computeMessageSignature env msg sk) \<noteq> [] \<longrightarrow>
       c_verifyMessageSignature env (c_generatePublicKey env sk) msg (c_computeMessageSignature env msg sk) = 1)
    \<and> (bls_skToByteArray env drawn = Inr b \<and> bls_pkToByteArray env (bls_GeneratePublic env drawn) = Inr p \<and> bls_Sign env drawn m = Inr s \<longrightarrow>
       GoString (c_generatePublicKey env (c_generatePrivateKey env drawn)) \<noteq> []
       \<and> GoString (c_computeMessageSignature env (CString (hex_EncodeToString m)) (c_generatePrivateKey env drawn)) \<noteq> [])
    \<and> (c_verifyMessageSignature env pk msg sig = 1 \<longrightarrow>
         hex_DecodeString (GoString pk) \<in> range Inr \<and> hex_DecodeString (GoString msg) \<in> range Inr
         \<and> hex_DecodeString (GoString sig) \<in> range Inr)"
proof (intro conjI impI)
  assume a: "GoString (c_generatePublicKey env sk) \<noteq> [] \<and> GoString (c_computeMessageSignature env msg sk) \<noteq> []"
  obtain b k p where p: "decodeInputParameter (GoString sk) = Some b" "bls_skFromByteArray env b = Inr k"
    "GoString (c_generatePublicKey env sk) = hex_EncodeToString p" "bls_pkFromByteArray env p = Inr (bls_GeneratePublic env k)"
    using public_key_steps [OF assms] a by metis
  obtain m b' k' s where s: "decodeInputParameter (GoString msg) = Some m" "decodeInputParameter (GoString sk) = Some b'"
    "bls_skFromByteArray env b' = Inr k'" "bls_Sign env k' m = Inr s"
    "GoString (c_computeMessageSignature env msg sk) = hex_EncodeToString s"
    using signature_steps a by metis
  have "k' = k" using p s by simp
  with s(4) assms have "bls_Verify env (bls_GeneratePublic env k) m s = None" by (auto simp: bls_law_def)
  with p s show "c_verifyMessageSignature env (c_generatePublicKey env sk) msg (c_computeMessageSignature env msg sk) = 1"
    unfolding verify_exact by simp
next
  assume d: "bls_skToByteArray env drawn = Inr b \<and> bls_pkToByteArray env (bls_GeneratePublic env drawn) = Inr p \<and> bls_Sign env drawn m = Inr s"
  with assms have l: "bls_skFromByteArray env b = Inr drawn" "p \<noteq> []" "s \<noteq> []" unfolding bls_law_def by metis+
  with d show "GoString (c_generatePublicKey env (c_generatePrivateKey env drawn)) \<noteq> []"
    "GoString (c_computeMessageSignature env (CString (hex_EncodeToString m)) (c_generatePrivateKey env drawn)) \<noteq> []"
    by (simp_all add: c_generatePublicKey_def c_generatePrivateKey_def doGeneratePrivateKeyAsHex_def doGeneratePublicKeyAsHex_def
        c_computeMessageSignature_def doComputeMessageSignatureAsHex_def)
next
  assume "c_verifyMessageSignature env pk msg sig = 1"
  then show "hex_DecodeString (GoString pk) \<in> range Inr" "hex_DecodeString (GoString msg) \<in> range Inr"
    "hex_DecodeString (GoString sig) \<in> range Inr"
    unfolding verify_exact by (auto simp: decodeInputParameter_def split: sum.splits)
qed

theorem bls_sign_verify_witness:
  "c_verifyMessageSignature demo_bls (c_generatePublicKey demo_bls (c_generatePrivateKey demo_bls 7)) (CString (hex_EncodeToString [1, 2]))
     (c_computeMessageSignature demo_bls (CString (hex_EncodeToString [1, 2])) (c_generatePrivateKey demo_bls 7)) = 1"
proof -
  have law: "bls_law demo_bls" by (simp add: bls_law_def demo_bls_def)
  have "bls_skToByteArray demo_bls 7 = Inr [7]" "bls_pkToByteArray demo_bls (bls_GeneratePublic demo_bls 7) = Inr [8]"
    "bls_Sign demo_bls 7 [1, 2] = Inr [7, 1, 2]" by (simp_all add: demo_bls_def)
  with bls_sign_verify [OF law, of "c_generatePrivateKey demo_bls 7" "CString (hex_EncodeToString [1, 2])" 7 "[7]" "[8]" "[1, 2]" "[7, 1, 2]"]
  show ?thesis by simp
qed

end
