(* ===== verification/Wallet_Flow.thy ===== *)
theory Wallet_Flow
  imports Tracker_Steps Move_Balance Block_Proxy
begin

text \<open>
  The wallet tracker application (\<^verbatim>\<open>examples/examplesFlowWalletTracker\<close>), which composes the wallet tracker, the
  move balance handler and the transaction interactor: \<^verbatim>\<open>runApp\<close> wires them over an in-memory provider of
  the tracked keys, one goroutine looks for deposits and another one empties the accounts that got some.

  The goroutines run as steps of one relation. The one of the tracker takes the steps of \<open>Tracker_Steps\<close>. A round of
  the sender is one step: after popping the addresses it works on the interactor only, which no other
  goroutine uses. The network answers as the argument of the step says. The log of the rounds of the sender
  is not part of the program.
\<close>

section \<open>Tracked addresses and processed nonce\<close>

record TrackableAddressProviderMock =
  tap_trackedAddresses :: "string \<rightharpoonup> byte list"

definition NewTrackableAddressProviderMock :: TrackableAddressProviderMock where
  "NewTrackableAddressProviderMock = \<lparr>tap_trackedAddresses = Map.empty\<rparr>"

text \<open>\<open>ks\<close> is the order in which the map is visited.\<close>

definition AllTrackableAddresses :: "string list \<Rightarrow> TrackableAddressProviderMock \<Rightarrow> string list" where
  "AllTrackableAddresses ks tap = fold (\<lambda>addr allAddresses. allAddresses @ [addr]) ks []"

definition AddTrackableAddress :: "string \<Rightarrow> byte list \<Rightarrow> TrackableAddressProviderMock \<Rightarrow> TrackableAddressProviderMock" where
  "AddTrackableAddress addressAsBech32 skBytes tap =
     tap\<lparr>tap_trackedAddresses := (tap_trackedAddresses tap)(addressAsBech32 \<mapsto> skBytes)\<rparr>"

definition IsTrackableAddresses :: "TrackableAddressProviderMock \<Rightarrow> string \<Rightarrow> bool" where
  "IsTrackableAddresses tap addressAsBech32 = (case tap_trackedAddresses tap addressAsBech32 of None \<Rightarrow> False | Some _ \<Rightarrow> True)"

definition PrivateKeyOfBech32Address :: "TrackableAddressProviderMock \<Rightarrow> string \<Rightarrow> byte list" where
  "PrivateKeyOfBech32Address tap addressAsBech32 = (case tap_trackedAddresses tap addressAsBech32 of None \<Rightarrow> [] | Some skBytes \<Rightarrow> skBytes)"

record MemoryNonceTracker =
  mnt_nonce :: u64

definition mnt_ProcessedNonce :: "u64 \<Rightarrow> MemoryNonceTracker \<Rightarrow> MemoryNonceTracker" where
  "mnt_ProcessedNonce nonce nt = nt\<lparr>mnt_nonce := nonce\<rparr>"

definition mnt_GetLastProcessedNonce :: "MemoryNonceTracker \<Rightarrow> u64" where
  "mnt_GetLastProcessedNonce nt = mnt_nonce nt"

section \<open>The application\<close>

text \<open>The second result of \<^verbatim>\<open>hex.DecodeString\<close> is dropped; both constants are valid.\<close>

definition decoded :: "string \<Rightarrow> byte list" where
  "decoded s = (case hex_DecodeString s of Inl err \<Rightarrow> [] | Inr sk \<Rightarrow> sk)"

definition setTestParams ::
  "u64 result \<Rightarrow> TrackableAddressProviderMock \<Rightarrow> MemoryNonceTracker \<Rightarrow> (TrackableAddressProviderMock \<times> MemoryNonceTracker) result" where
  "setTestParams getLatestHyperBlockNonce trackableAddresses tracker =
     on_ok getLatestHyperBlockNonce (\<lambda>nonce.
       let tracker' = mnt_ProcessedNonce nonce tracker;
           sk1 = decoded ''45f72e8b6e8d10086bacd2fc8fa1340f82a3f5d4ef31953b463ea03c606533a6'';
           tap1 = AddTrackableAddress ''erd1j84k44nsqsme8r6e5aawutx0z2cd6cyx3wprkzdh73x2cf0kqvksa3snnq'' sk1 trackableAddresses;
           sk2 = decoded ''6babe6936d8b089a1f3b464a2050376462769782239b31dca4311e379b0391f3'';
           tap2 = AddTrackableAddress ''erd1kjjl7lssufpmml2yy4x6cklvnxdd40c4ym3dpw93vrflwchydt3q749v2z'' sk2 tap1
       in Inr (tap2, tracker'))"

record sweep_log =
  sw_addresses :: "string list"
  sw_args :: default_args
  sw_errors :: "go_error list"
  sw_result :: "string list result"
  sw_bunches :: "FrontendTransaction list list"

text \<open>The state of the running application; \<open>app_sending\<close> says that the goroutine of the sender is alive, \<open>app_stopping\<close> that
  its context was cancelled. The nonce of the memory tracker is the field of the wallet tracker that stands
  for its nonce handler.\<close>

record ('sk, 'pk) flowApp =
  app_tap :: TrackableAddressProviderMock
  app_tracker :: tracker_conf
  app_txBuilder :: "('sk, 'pk) txBuilder"
  app_txInteractor :: transactionInteractor
  app_mbh :: moveBalanceHandler
  app_sending :: bool
  app_stopping :: bool
  app_log :: "sweep_log list"

definition flowProxyArgs :: "unit ArgsProxy" where
  "flowProxyArgs = \<lparr>ap_SameScState = False, ap_ShouldBeSynced = False, ap_FinalityCheck = False,
     ap_AllowedDeltaToFinal = 0, ap_CacheExpirationTime = 60000000000, ap_EntityType = ProxyEntity,
     ap_FilterQueryBlockCacher = None\<rparr>"

text \<open>\<^verbatim>\<open>runApp\<close> up to the start of the goroutines, with the answers of the proxy to its two requests.\<close>

definition runApp :: "('sk, 'pk) crypto_env \<Rightarrow> u64 result \<Rightarrow> NetworkConfig option result \<Rightarrow> ('sk, 'pk) flowApp result" where
  "runApp env getLatestHyperBlockNonce getNetworkConfig =
     on_ok (NewProxy () flowProxyArgs) (\<lambda>ep.
     let tap0 = NewTrackableAddressProviderMock; mnt0 = \<lparr>mnt_nonce = 0\<rparr>
     in on_ok (setTestParams getLatestHyperBlockNonce tap0 mnt0) (\<lambda>(tap, mnt).
     let minimumBalance = 1000000000000000
     in on_ok (NewWalletTracker (Some tap) (Some ep) (Some (mnt_GetLastProcessedNonce mnt)) (Some minimumBalance)) (\<lambda>wt.
     on_ok (NewTxBuilder (Some (NewSigner env))) (\<lambda>txBuilder.
     let receiverAddress = ''erd1zptg3eu7uw0qvzhnu009lwxupcn6ntjxptj5gaxt8curhxjqr9tsqpsnht''
     in on_ok (NewTransactionInteractor (Some ep) (Some txBuilder)) (\<lambda>txInteractor.
     on_ok (NewMoveBalanceHandler (Some tap) (Some ep) (Some txInteractor) receiverAddress (Some minimumBalance)) (\<lambda>mbh0.
     case CacheNetworkConfigs getNetworkConfig mbh0 of
       (Some err, _) \<Rightarrow> Inl err
     | (None, mbh) \<Rightarrow> Inr \<lparr>app_tap = tap,
         app_tracker = \<lparr>tc_wt = wt, tc_pc = Waiting, tc_cancelled = False, tc_popped = []\<rparr>,
         app_txBuilder = txBuilder, app_txInteractor = txInteractor, app_mbh = mbh, app_sending = True, app_stopping = False, app_log = []\<rparr>))))))"

text \<open>One round of the sender. \<open>ks\<close> is the order in which the accumulated addresses are popped, the other
  arguments are the answers of the proxy.\<close>

definition generateMoveBalanceTransactionsAndSendThem ::
  "('sk, 'pk) crypto_env \<Rightarrow> string list \<Rightarrow> default_args \<Rightarrow> (nat \<Rightarrow> Proxy) \<Rightarrow> ('sk, 'pk) flowApp \<Rightarrow> ('sk, 'pk) flowApp" where
  "generateMoveBalanceTransactionsAndSendThem env ks getDefaultArgs pxs app =
     (let (addresses, wt) = GetLatestTrackedAddresses ks (tc_wt (app_tracker app));
          (errs, ti1) = GenerateMoveBalanceTransactions env (app_txBuilder app) getDefaultArgs
            (PrivateKeyOfBech32Address (app_tap app)) (app_mbh app) addresses (app_txInteractor app);
          (hashes, bunches, ti2) = SendTransactionsAsBunch pxs 100 ti1
      in app\<lparr>app_tracker := (app_tracker app)\<lparr>tc_wt := wt, tc_popped := tc_popped (app_tracker app) @ addresses\<rparr>,
           app_txInteractor := ti2,
           app_log := app_log app @ [\<lparr>sw_addresses = addresses, sw_args = getDefaultArgs, sw_errors = errs,
             sw_result = hashes, sw_bunches = bunches\<rparr>]\<rparr>)"

datatype flow_op =
    TrackerStep tracker_act
  | SenderRound "string list" default_args "nat \<Rightarrow> Proxy"
  | CloseTracker
  | CancelSender
  | SenderDone

text \<open>The steps that the goroutine of the tracker takes by itself.\<close>

fun own_act :: "tracker_act \<Rightarrow> bool" where
  "own_act (Pop ks) = False"
| "own_act SetHandler = False"
| "own_act Cancel = False"
| "own_act _ = True"

text \<open>A goroutine whose timer and context are both ready may take either of the two. On the signal the main goroutine
  closes the tracker and then cancels the context of the sender.\<close>

inductive flow_step :: "('sk, 'pk) crypto_env \<Rightarrow> flow_op \<Rightarrow> ('sk, 'pk) flowApp \<Rightarrow> ('sk, 'pk) flowApp \<Rightarrow> bool"
  for env where
  tracker: "own_act a \<Longrightarrow> tracker_act_step (IsTrackableAddresses (app_tap app)) a (app_tracker app) c \<Longrightarrow>
    flow_step env (TrackerStep a) app (app\<lparr>app_tracker := c\<rparr>)"
| sender_round: "app_sending app \<Longrightarrow> go_range (aa_addressesMap (wt_accumulator (tc_wt (app_tracker app)))) ks \<Longrightarrow>
    flow_step env (SenderRound ks gda pxs) app (generateMoveBalanceTransactionsAndSendThem env ks gda pxs app)"
| close_tracker: "tracker_act_step (IsTrackableAddresses (app_tap app)) Cancel (app_tracker app) c \<Longrightarrow>
    flow_step env CloseTracker app (app\<lparr>app_tracker := c\<rparr>)"
| cancel_sender: "tc_cancelled (app_tracker app) \<Longrightarrow> flow_step env CancelSender app (app\<lparr>app_stopping := True\<rparr>)"
| sender_done: "app_sending app \<Longrightarrow> app_stopping app \<Longrightarrow> flow_step env SenderDone app (app\<lparr>app_sending := False\<rparr>)"

inductive flow_run :: "('sk, 'pk) crypto_env \<Rightarrow> ('sk, 'pk) flowApp \<Rightarrow> flow_op list \<Rightarrow> ('sk, 'pk) flowApp \<Rightarrow> bool"
  for env app0 where
  flow_start: "flow_run env app0 [] app0"
| flow_next: "flow_run env app0 ops app \<Longrightarrow> flow_step env op app app' \<Longrightarrow> flow_run env app0 (ops @ [op]) app'"

inductive_cases flow_step_cases: "flow_step env op app app'"

section \<open>What a round of the sender owes\<close>

fun honest_flow_op :: "(nat \<Rightarrow> TransactionOnNetwork list) \<Rightarrow> flow_op \<Rightarrow> bool" where
  "honest_flow_op chain (TrackerStep a) = honest_act chain a"
| "honest_flow_op chain _ = True"

text \<open>The account of an address answers with a balance below the minimum.\<close>

definition below_minimum :: "('sk, 'pk) crypto_env \<Rightarrow> default_args \<Rightarrow> moveBalanceHandler \<Rightarrow> string \<Rightarrow> bool" where
  "below_minimum env gda mbh a \<longleftrightarrow> (\<exists>ah cfg tx bal balance. NewAddressFromBech32String (env_pkc env) a = Inr ah
     \<and> mbh_cachedNetConfigs mbh = Some cfg \<and> gda ah cfg = Inr (tx, bal) \<and> big_SetString bal = Some balance
     \<and> balance < mbh_minimumBalance mbh)"

definition logged :: "string \<Rightarrow> go_error list \<Rightarrow> bool" where
  "logged a errs \<longleftrightarrow> (\<exists>err. Errorf [] err ('' for provided address '' @ a) \<in> set errs)"

definition sweep_ok :: "('sk, 'pk) crypto_env \<Rightarrow> ('sk, 'pk) flowApp \<Rightarrow> sweep_log \<Rightarrow> bool" where
  "sweep_ok env app sw \<longleftrightarrow>
     (let sent = concat (sw_bunches sw); swept = sweeps env (sw_args sw) (PrivateKeyOfBech32Address (app_tap app)) (app_mbh app)
      in distinct (sw_addresses sw) \<and> (\<forall>tx\<in>set sent. \<exists>a\<in>set (sw_addresses sw). swept a tx)
       \<and> length sent + length (sw_errors sw) \<le> length (sw_addresses sw)
       \<and> (\<forall>hashes. sw_result sw = Inr hashes \<longrightarrow> (\<forall>a\<in>set (sw_addresses sw).
            (\<exists>tx\<in>set sent. swept a tx) \<or> logged a (sw_errors sw) \<or> below_minimum env (sw_args sw) (app_mbh app) a)))"

section \<open>A round of the sender\<close>

lemma generateTransaction_outcome:
  assumes "sig_law env" and "generateTransaction env \<lparr>tb_signer = NewSigner env\<rparr> gda pk mbh a ti = (None, ti')"
  shows "(ti' = ti \<and> below_minimum env gda mbh a)
    \<or> (\<exists>tx. ti_txAccumulator ti' = ti_txAccumulator ti @ [tx] \<and> sweeps env gda pk mbh a tx)"
proof (cases "ti' = ti")
  case True
  have "ti_AddTransaction (Some tx) ti \<noteq> ti" for tx
    by (metis append_self_conv not_Cons_self2 option.simps(5) ti_AddTransaction_def transactionInteractor.select_convs(2)
        transactionInteractor.surjective transactionInteractor.update_convs(2))
  with True assms(2) show ?thesis
    by (auto simp: generateTransaction_def below_minimum_def Let_def split: sum.splits option.splits prod.splits if_splits)
next
  case False
  with generateTransaction_cases [OF assms] show ?thesis by auto
qed

lemma GenerateMoveBalanceTransactions_settles:
  assumes "sig_law env"
    and "GenerateMoveBalanceTransactions env \<lparr>tb_signer = NewSigner env\<rparr> gda pk mbh addrs ti = (errs, ti')" and "a \<in> set addrs"
  shows "(\<exists>tx\<in>set (ti_txAccumulator ti'). sweeps env gda pk mbh a tx) \<or> logged a errs \<or> below_minimum env gda mbh a"
  using assms(2,3)
proof (induction addrs arbitrary: ti errs)
  case (Cons b addrs)
  let ?tb = "\<lparr>tb_signer = NewSigner env\<rparr>"
  obtain err ti1 where g: "generateTransaction env ?tb gda pk mbh b ti = (err, ti1)" by fastforce
  obtain errs2 ti2 where r2: "GenerateMoveBalanceTransactions env ?tb gda pk mbh addrs ti1 = (errs2, ti2)" by fastforce
  have errs: "ti2 = ti'" "errs = fst (generateTransactionAndHandleErrors env ?tb gda pk mbh b ti) @ errs2"
    using Cons.prems(1) g r2 by (auto simp: generateTransactionAndHandleErrors_def split: option.splits)
  have r: "GenerateMoveBalanceTransactions env ?tb gda pk mbh addrs ti1 = (errs2, ti')" "set errs2 \<subseteq> set errs"
    using r2 unfolding errs by auto
  have r3: "Errorf [] e ('' for provided address '' @ b) \<in> set errs" if "err = Some e" for e
    unfolding errs generateTransactionAndHandleErrors_def g that by simp
  show ?case
  proof (cases "a = b")
    case True
    show ?thesis
    proof (cases err)
      case (Some e)
      with r3 True show ?thesis unfolding logged_def by blast
    next
      case None
      have "set (ti_txAccumulator ti1) \<subseteq> set (ti_txAccumulator ti')"
        using GenerateMoveBalanceTransactions_ok [OF assms(1), of gda pk mbh addrs ti1] r(1) by auto
      with generateTransaction_outcome [OF assms(1) g [unfolded None]] True show ?thesis by auto
    qed
  next
    case False
    with Cons.IH [OF r(1)] Cons.prems(2) r(2) show ?thesis unfolding logged_def by auto
  qed
qed simp

lemma sender_round_effect:
  assumes "sig_law env" and "app_txBuilder app = \<lparr>tb_signer = NewSigner env\<rparr>" and "ti_txAccumulator (app_txInteractor app) = []"
    and "go_range (aa_addressesMap (wt_accumulator (tc_wt (app_tracker app)))) ks"
    and "app' = generateMoveBalanceTransactionsAndSendThem env ks gda pxs app"
  obtains sw ti c where "sweep_ok env app sw" and "sw_addresses sw = ks"
    and "app' = app\<lparr>app_tracker := c, app_txInteractor := ti, app_log := app_log app @ [sw]\<rparr>"
    and "ti_txAccumulator ti = []" and "tracker_act_step (IsTrackableAddresses (app_tap app)) (Pop ks) (app_tracker app) c"
    and "tc_popped c = tc_popped (app_tracker app) @ ks"
proof -
  let ?pk = "PrivateKeyOfBech32Address (app_tap app)"
  obtain wt where w: "GetLatestTrackedAddresses ks (tc_wt (app_tracker app)) = (ks, wt)"
    by (simp add: GetLatestTrackedAddresses_def aa_pop_def)
  obtain errs ti1 where g: "GenerateMoveBalanceTransactions env \<lparr>tb_signer = NewSigner env\<rparr> gda ?pk (app_mbh app) ks (app_txInteractor app) = (errs, ti1)"
    by fastforce
  obtain r bs ti2 where s: "SendTransactionsAsBunch pxs 100 ti1 = (r, bs, ti2)" by (metis prod_cases3)
  define sw where "sw = \<lparr>sw_addresses = ks, sw_args = gda, sw_errors = errs, sw_result = r, sw_bunches = bs\<rparr>"
  have l: "bunch_loop 100 pxs 0 (ti_txAccumulator ti1) [] = (r, bs)" "ti_txAccumulator ti2 = []"
    using s by (auto simp: SendTransactionsAsBunch_def PopAccumulatedTransactions_def Let_def split: prod.splits)
  obtain rest where rest: "ti_txAccumulator ti1 = concat bs @ rest" "\<And>h. r = Inr h \<Longrightarrow> rest = []"
    using bunch_loop_prefix [OF l(1)] by auto
  obtain txs where t: "ti_txAccumulator ti1 = txs" "length txs + length errs \<le> length ks"
    "\<forall>tx\<in>set txs. \<exists>a\<in>set ks. sweeps env gda ?pk (app_mbh app) a tx"
    using GenerateMoveBalanceTransactions_ok [OF assms(1), of gda ?pk "app_mbh app" ks "app_txInteractor app"] g assms(3) by auto
  have "sweep_ok env app sw"
    using t rest assms(4) GenerateMoveBalanceTransactions_settles [OF assms(1) g]
    by (fastforce simp: sweep_ok_def sw_def Let_def go_range_def)
  moreover have "app' = app\<lparr>app_tracker := (app_tracker app)\<lparr>tc_wt := wt, tc_popped := tc_popped (app_tracker app) @ ks\<rparr>,
      app_txInteractor := ti2, app_log := app_log app @ [sw]\<rparr>"
    unfolding assms(5) generateMoveBalanceTransactionsAndSendThem_def w assms(2) by (simp add: g s sw_def)
  ultimately show thesis using l(2) pop [OF assms(4) w]
    by (intro that [of sw ti2 "(app_tracker app)\<lparr>tc_wt := wt, tc_popped := tc_popped (app_tracker app) @ ks\<rparr>"]) (simp_all add: sw_def)
qed

section \<open>Invariant of the application\<close>

text \<open>\<open>n\<close> is the block at which the application started, \<open>pre\<close> the part of the current block that the tracker has dealt
  with.\<close>

definition flow_inv ::
  "('sk, 'pk) crypto_env \<Rightarrow> (nat \<Rightarrow> TransactionOnNetwork list) \<Rightarrow> nat \<Rightarrow> ('sk, 'pk) flowApp \<Rightarrow> TransactionOnNetwork list \<Rightarrow> bool" where
  "flow_inv env chain n app pre \<longleftrightarrow>
     app_txBuilder app = \<lparr>tb_signer = NewSigner env\<rparr> \<and> ti_txAccumulator (app_txInteractor app) = []
     \<and> (\<forall>sw\<in>set (app_log app). sweep_ok env app sw) \<and> tc_popped (app_tracker app) = concat (map sw_addresses (app_log app))
     \<and> tracker_inv (IsTrackableAddresses (app_tap app)) 1000000000000000 chain n (app_tracker app) pre"

lemma own_act_popped: "tracker_act_step t a c c' \<Longrightarrow> own_act a \<or> a = Cancel \<Longrightarrow> tc_popped c' = tc_popped c"
  by (erule tracker_act_step.cases) auto

lemma flow_step_keeps:
  assumes "flow_step env op app app'"
  shows "app_tap app' = app_tap app \<and> app_mbh app' = app_mbh app"
  using assms by cases (simp_all add: generateMoveBalanceTransactionsAndSendThem_def split_beta Let_def)

lemma flow_inv_tracker:
  assumes "flow_inv env chain n app pre" and "tracker_act_step (IsTrackableAddresses (app_tap app)) a (app_tracker app) c"
    and "own_act a \<or> a = Cancel" and "honest_act chain a"
  shows "\<exists>pre'. flow_inv env chain n (app\<lparr>app_tracker := c\<rparr>) pre'"
proof -
  have "tracker_inv (IsTrackableAddresses (app_tap app)) 1000000000000000 chain n (app_tracker app) pre"
    using assms(1) by (simp add: flow_inv_def)
  from tracker_act_step_inv [OF assms(2) this assms(4)] obtain pre' where
    "tracker_inv (IsTrackableAddresses (app_tap app)) 1000000000000000 chain n c pre'" by blast
  with assms(1) own_act_popped [OF assms(2,3)] show ?thesis by (auto simp: flow_inv_def sweep_ok_def)
qed

lemma flow_inv_sender_round:
  assumes "sig_law env" and "flow_inv env chain n app pre" and "go_range (aa_addressesMap (wt_accumulator (tc_wt (app_tracker app)))) ks"
  shows "\<exists>pre'. flow_inv env chain n (generateMoveBalanceTransactionsAndSendThem env ks gda pxs app) pre'"
proof -
  define app' where "app' = generateMoveBalanceTransactionsAndSendThem env ks gda pxs app"
  have b: "app_txBuilder app = \<lparr>tb_signer = NewSigner env\<rparr>" "ti_txAccumulator (app_txInteractor app) = []"
    using assms(2) by (simp_all add: flow_inv_def)
  obtain sw ti c where sw: "sweep_ok env app sw" "sw_addresses sw = ks"
    "app' = app\<lparr>app_tracker := c, app_txInteractor := ti, app_log := app_log app @ [sw]\<rparr>" "ti_txAccumulator ti = []"
    "tracker_act_step (IsTrackableAddresses (app_tap app)) (Pop ks) (app_tracker app) c" "tc_popped c = tc_popped (app_tracker app) @ ks"
    using sender_round_effect [OF assms(1) b assms(3) app'_def] by metis
  have "tracker_inv (IsTrackableAddresses (app_tap app)) 1000000000000000 chain n (app_tracker app) pre"
    using assms(2) by (simp add: flow_inv_def)
  from tracker_act_step_inv [OF sw(5) this] obtain pre' where
    "tracker_inv (IsTrackableAddresses (app_tap app)) 1000000000000000 chain n c pre'" by auto
  with assms(2) sw have "flow_inv env chain n (app\<lparr>app_tracker := c, app_txInteractor := ti, app_log := app_log app @ [sw]\<rparr>) pre'"
    by (simp add: flow_inv_def sweep_ok_def)
  with sw(3) show ?thesis unfolding app'_def by metis
qed

lemma flow_step_inv:
  assumes "sig_law env" and "flow_step env op app app'" and "flow_inv env chain n app pre" and "honest_flow_op chain op"
  shows "\<exists>pre'. flow_inv env chain n app' pre'"
  using assms(2)
proof cases
  case (tracker a c)
  with flow_inv_tracker [OF assms(3)] assms(4) show ?thesis by auto
next
  case (sender_round ks gda pxs)
  with flow_inv_sender_round [OF assms(1,3)] show ?thesis by auto
next
  case (close_tracker c)
  with flow_inv_tracker [OF assms(3)] show ?thesis by auto
qed (use assms(3) in \<open>auto simp: flow_inv_def sweep_ok_def\<close>)

lemma flow_run_inv:
  assumes "sig_law env" and "flow_run env app0 ops app" and "flow_inv env chain n app0 pre0" and "\<forall>op\<in>set ops. honest_flow_op chain op"
  shows "(\<exists>pre. flow_inv env chain n app pre) \<and> app_tap app = app_tap app0 \<and> app_mbh app = app_mbh app0"
  using assms(2,4)
proof induction
  case flow_start
  with assms(3) show ?case by blast
next
  case (flow_next ops app op app')
  then obtain pre where "flow_inv env chain n app pre" "honest_flow_op chain op" by auto
  with flow_step_inv [OF assms(1) flow_next.hyps(2)] flow_next flow_step_keeps [OF flow_next.hyps(2)] show ?case by auto
qed

section \<open>Start of the application\<close>

definition tracked1 :: string where "tracked1 = ''erd1j84k44nsqsme8r6e5aawutx0z2cd6cyx3wprkzdh73x2cf0kqvksa3snnq''"

definition tracked2 :: string where "tracked2 = ''erd1kjjl7lssufpmml2yy4x6cklvnxdd40c4ym3dpw93vrflwchydt3q749v2z''"

definition sweepReceiver :: string where "sweepReceiver = ''erd1zptg3eu7uw0qvzhnu009lwxupcn6ntjxptj5gaxt8curhxjqr9tsqpsnht''"

lemma flow_proxy_created: "\<exists>ep. NewProxy () flowProxyArgs = Inr ep"
  by (simp add: flowProxyArgs_def NewProxy_def checkArgsProxy_def CreateEndpointProvider_def newBaseProxy_def
      checkArgsBaseProxy_def minimumCachingInterval_def bp_GetRestAPIEntityType_def CreateFinalityProvider_def)

lemma setTestParams_tracked:
  "\<exists>sk1 sk2. setTestParams (Inr n) NewTrackableAddressProviderMock mnt
     = Inr (\<lparr>tap_trackedAddresses = [tracked1 \<mapsto> sk1, tracked2 \<mapsto> sk2]\<rparr>, \<lparr>mnt_nonce = n\<rparr>)"
  unfolding setTestParams_def NewTrackableAddressProviderMock_def AddTrackableAddress_def mnt_ProcessedNonce_def
    tracked1_def [symmetric] tracked2_def [symmetric] Let_def by (cases mnt) (auto simp del: fun_upd_apply)

lemma runApp_started:
  assumes "runApp env (Inr n) config = Inr app"
  shows "tc_wt (app_tracker app) = \<lparr>wt_accumulator = newAddressesAccumulator, wt_minimumBalance = 1000000000000000, wt_lastProcessedNonce = n,
      wt_hasHandler = False, wt_notified = []\<rparr>"
    and "app_txBuilder app = \<lparr>tb_signer = NewSigner env\<rparr>" and "ti_txAccumulator (app_txInteractor app) = []" and "app_log app = []"
    and "IsTrackableAddresses (app_tap app) = (\<lambda>a. a \<in> {tracked1, tracked2})" and "mbh_receiverAddress (app_mbh app) = sweepReceiver"
    and "tc_pc (app_tracker app) = Waiting" and "tc_popped (app_tracker app) = []" and "app_sending app"
proof -
  obtain ep where ep: "NewProxy () flowProxyArgs = Inr ep" using flow_proxy_created by blast
  obtain sk1 sk2 where t: "setTestParams (Inr n) NewTrackableAddressProviderMock \<lparr>mnt_nonce = 0\<rparr>
      = Inr (\<lparr>tap_trackedAddresses = [tracked1 \<mapsto> sk1, tracked2 \<mapsto> sk2]\<rparr>, \<lparr>mnt_nonce = n\<rparr>)"
    using setTestParams_tracked by blast
  obtain cfg where c: "config = Inr cfg"
    "app = \<lparr>app_tap = \<lparr>tap_trackedAddresses = [tracked1 \<mapsto> sk1, tracked2 \<mapsto> sk2]\<rparr>,
       app_tracker = \<lparr>tc_wt = \<lparr>wt_accumulator = newAddressesAccumulator, wt_minimumBalance = 1000000000000000, wt_lastProcessedNonce = n,
         wt_hasHandler = False, wt_notified = []\<rparr>, tc_pc = Waiting, tc_cancelled = False, tc_popped = []\<rparr>,
       app_txBuilder = \<lparr>tb_signer = NewSigner env\<rparr>, app_txInteractor = \<lparr>ti_timeBetweenBunches = 1000000000, ti_txAccumulator = []\<rparr>,
       app_mbh = \<lparr>mbh_cachedNetConfigs = cfg, mbh_receiverAddress = sweepReceiver, mbh_minimumBalance = 1000000000000000\<rparr>,
       app_sending = True, app_stopping = False, app_log = []\<rparr>"
    using assms unfolding runApp_def ep t sweepReceiver_def [symmetric]
    by (cases config) (simp_all add: NewWalletTracker_def NewTxBuilder_def NewTransactionInteractor_def NewMoveBalanceHandler_def
        CacheNetworkConfigs_def mnt_GetLastProcessedNonce_def t Let_def)
  have "IsTrackableAddresses \<lparr>tap_trackedAddresses = [tracked1 \<mapsto> sk1, tracked2 \<mapsto> sk2]\<rparr> = (\<lambda>a. a \<in> {tracked1, tracked2})"
    by (rule ext) (auto simp: IsTrackableAddresses_def)
  with c(2) show "tc_wt (app_tracker app) = \<lparr>wt_accumulator = newAddressesAccumulator, wt_minimumBalance = 1000000000000000, wt_lastProcessedNonce = n,
      wt_hasHandler = False, wt_notified = []\<rparr>"
    "app_txBuilder app = \<lparr>tb_signer = NewSigner env\<rparr>" "ti_txAccumulator (app_txInteractor app) = []" "app_log app = []"
    "IsTrackableAddresses (app_tap app) = (\<lambda>a. a \<in> {tracked1, tracked2})" "mbh_receiverAddress (app_mbh app) = sweepReceiver"
    "tc_pc (app_tracker app) = Waiting" "tc_popped (app_tracker app) = []" "app_sending app"
    by simp_all
qed

lemma runApp_ok: "\<exists>app. runApp env (Inr n) (Inr cfg) = Inr app"
proof -
  obtain ep where ep: "NewProxy () flowProxyArgs = Inr ep" using flow_proxy_created by blast
  show ?thesis unfolding runApp_def ep setTestParams_def
    by (simp add: NewWalletTracker_def NewTxBuilder_def NewTransactionInteractor_def NewMoveBalanceHandler_def
        CacheNetworkConfigs_def Let_def)
qed

lemma flow_inv_start:
  assumes "runApp env (Inr n) config = Inr app" and "unat n < 2 ^ 64 - 1"
  shows "flow_inv env chain (unat n) app []"
  using runApp_started [OF assms(1)] assms(2)
  by (simp add: flow_inv_def tracker_inv_simps newAddressesAccumulator_def deposits_between_def notified_since_def)

section \<open>Properties\<close>

text \<open>C27. The wallet tracker application from end to end, over every interleaving of the steps of the tracker, rounds of
  the sender and the closing: the addresses handed to the sender together with those still pending are
  exactly the receivers of the deposits of at least 0.001 EGLD to the two tracked addresses in the blocks
  scanned since the start and in the part of the current block that the tracker has dealt with. Each round
  of the sender sends only transactions that empty one of its addresses to the configured receiver, with a
  valid signature, at most one per address; and when its sending succeeded, every address of the round was
  emptied, or an error was logged for it, or its balance was below the minimum.\<close>

theorem flow_end_to_end:
  assumes "sig_law env" and "runApp env (Inr n) config = Inr app0" and "unat n < 2 ^ 64 - 1"
    and "flow_run env app0 ops app" and "\<forall>op\<in>set ops. honest_flow_op chain op"
  shows "(\<exists>pre. (case tc_pc (app_tracker app) of InBlock net m txs \<Rightarrow> chain (unat m) = pre @ txs
          | Pushing net m a txs \<Rightarrow> (\<exists>tx. chain (unat m) = pre @ tx # txs \<and> ton_Receiver tx = a) | _ \<Rightarrow> pre = [])
      \<and> \<Union>(set ` sw_addresses ` set (app_log app)) \<union> dom (aa_addressesMap (wt_accumulator (tc_wt (app_tracker app))))
        = ton_Receiver ` set (deposits_between (\<lambda>a. a \<in> {tracked1, tracked2}) 1000000000000000 chain
            (unat n) (unat (wt_lastProcessedNonce (tc_wt (app_tracker app))))
          @ filter (is_deposit (\<lambda>a. a \<in> {tracked1, tracked2}) 1000000000000000) pre))
    \<and> (\<forall>sw\<in>set (app_log app). sweep_ok env app sw \<and>
        (\<forall>tx\<in>set (concat (sw_bunches sw)). tx_Receiver tx = sweepReceiver))"
proof -
  from flow_run_inv [OF assms(1,4) flow_inv_start [OF assms(2,3)] assms(5)] obtain pre where
    i: "flow_inv env chain (unat n) app pre" "app_tap app = app_tap app0" "app_mbh app = app_mbh app0" by blast
  have t: "IsTrackableAddresses (app_tap app) = (\<lambda>a. a \<in> {tracked1, tracked2})" using runApp_started(5) [OF assms(2)] i(2) by simp
  have "tx_Receiver tx = sweepReceiver" if "sweep_ok env app sw" "tx \<in> set (concat (sw_bunches sw))" for sw tx
    using that i(3) runApp_started(6) [OF assms(2)] unfolding sweep_ok_def Let_def sweeps_def by metis
  then have sw: "\<forall>sw\<in>set (app_log app). sweep_ok env app sw \<and> (\<forall>tx\<in>set (concat (sw_bunches sw)). tx_Receiver tx = sweepReceiver)"
    using i(1) unfolding flow_inv_def by blast
  have p: "position_ok chain (wt_lastProcessedNonce (tc_wt (app_tracker app))) (tc_pc (app_tracker app)) pre"
    and d: "set (tc_popped (app_tracker app)) \<union> dom (aa_addressesMap (wt_accumulator (tc_wt (app_tracker app))))
        = ton_Receiver ` set (deposits_between (\<lambda>a. a \<in> {tracked1, tracked2}) 1000000000000000 chain
            (unat n) (unat (wt_lastProcessedNonce (tc_wt (app_tracker app))))
          @ filter (is_deposit (\<lambda>a. a \<in> {tracked1, tracked2}) 1000000000000000) pre)"
    using i(1) unfolding flow_inv_def tracker_inv_def Let_def t dealt_with_def by blast+
  have "set (tc_popped (app_tracker app)) = \<Union>(set ` sw_addresses ` set (app_log app))" using i(1) by (simp add: flow_inv_def)
  moreover have "case tc_pc (app_tracker app) of InBlock net m txs \<Rightarrow> chain (unat m) = pre @ txs
          | Pushing net m a txs \<Rightarrow> (\<exists>tx. chain (unat m) = pre @ tx # txs \<and> ton_Receiver tx = a) | _ \<Rightarrow> pre = []"
    using p by (cases "tc_pc (app_tracker app)") (auto simp: position_ok_def)
  ultimately show ?thesis using d sw by (intro conjI exI [of _ pre]) simp_all
qed

section \<open>A concrete run\<close>

definition tracked_deposit :: TransactionOnNetwork where
  "tracked_deposit = (demo_deposit ''h'' (dec_of_int 1000000000000000))\<lparr>ton_Receiver := tracked1\<rparr>"

definition tracked_block :: HyperBlock where
  "tracked_block = demo_block\<lparr>hb_Nonce := 6, hb_Transactions := [tracked_deposit]\<rparr>"

definition deposit_acts :: "tracker_act list" where
  "deposit_acts = [GotLatest (Inr 6), GotBlock 6 (Inr tracked_block), NextTransaction, Push]"

lemma deposit_run:
  assumes "wt = \<lparr>wt_accumulator = newAddressesAccumulator, wt_minimumBalance = 1000000000000000, wt_lastProcessedNonce = 5,
      wt_hasHandler = False, wt_notified = []\<rparr>" and "tc_wt c = wt" and "tc_pc c = Waiting"
  shows "tracker_acts (\<lambda>a. a \<in> {tracked1, tracked2}) c deposit_acts (c\<lparr>tc_wt := pushAddress tracked1 wt, tc_pc := InBlock 6 6 []\<rparr>)"
proof -
  let ?t = "\<lambda>a. a \<in> {tracked1, tracked2}"
  have e: "examineTransaction ?t tracked_deposit wt = (Some tracked1, wt)"
    by (simp add: examineTransaction_def notifyNewDepositTransactionFound_def assms(1) tracked_deposit_def demo_deposit_def)
  have s1: "tracker_act_step ?t (GotLatest (Inr 6)) c (c\<lparr>tc_pc := AtNonce 6 6\<rparr>)"
    using latest [OF assms(3), of ?t 6] assms(1,2) by simp
  have s2: "tracker_act_step ?t (GotBlock 6 (Inr tracked_block)) (c\<lparr>tc_pc := AtNonce 6 6\<rparr>) (c\<lparr>tc_pc := InBlock 6 6 [tracked_deposit]\<rparr>)"
    using block [of "c\<lparr>tc_pc := AtNonce 6 6\<rparr>" 6 6 ?t tracked_block] by (simp add: tracked_block_def)
  have s3: "tracker_act_step ?t NextTransaction (c\<lparr>tc_pc := InBlock 6 6 [tracked_deposit]\<rparr>) (c\<lparr>tc_wt := wt, tc_pc := Pushing 6 6 tracked1 []\<rparr>)"
    using transaction [of "c\<lparr>tc_pc := InBlock 6 6 [tracked_deposit]\<rparr>" 6 6 tracked_deposit "[]" ?t "Some tracked1" wt] e assms(2) by simp
  have s4: "tracker_act_step ?t Push (c\<lparr>tc_wt := wt, tc_pc := Pushing 6 6 tracked1 []\<rparr>) (c\<lparr>tc_wt := pushAddress tracked1 wt, tc_pc := InBlock 6 6 []\<rparr>)"
    using push [of "c\<lparr>tc_wt := wt, tc_pc := Pushing 6 6 tracked1 []\<rparr>" 6 6 tracked1 "[]" ?t] by simp
  show ?thesis unfolding deposit_acts_def
    by (intro tracker_acts_Cons [OF s1] tracker_acts_Cons [OF s2] tracker_acts_Cons [OF s3] tracker_acts_one [OF s4])
qed

text \<open>Steps of the tracker are steps of the application.\<close>

lemma flow_run_tracker:
  assumes "tracker_acts (IsTrackableAddresses (app_tap app0)) (app_tracker app0) as c" and "\<forall>a\<in>set as. own_act a"
  shows "flow_run env app0 (map TrackerStep as) (app0\<lparr>app_tracker := c\<rparr>)"
  using assms
proof (induction rule: tracker_acts.induct)
  case no_acts
  have "app0\<lparr>app_tracker := app_tracker app0\<rparr> = app0" by simp
  with flow_start show ?case by (metis list.map(1))
next
  case (more_acts as c a c')
  then have "flow_run env app0 (map TrackerStep as) (app0\<lparr>app_tracker := c\<rparr>)" "own_act a" by simp_all
  with flow_next tracker [of a "app0\<lparr>app_tracker := c\<rparr>" c' env] more_acts.hyps(2) show ?case by simp
qed

theorem flow_end_to_end_witness:
  "\<exists>app0 app sw. runApp demo_env (Inr 5) (Inr (Some demo_config)) = Inr app0
     \<and> flow_run demo_env app0 (map TrackerStep deposit_acts @ [SenderRound [tracked1] (demo_default_args ''0'') (\<lambda>_. demo_proxy 4)]) app
     \<and> app_log app = [sw] \<and> sw_addresses sw = [tracked1] \<and> sweep_ok demo_env app sw"
proof -
  let ?op = "SenderRound [tracked1] (demo_default_args ''0'') (\<lambda>_. demo_proxy 4)"
  obtain app0 where a: "runApp demo_env (Inr 5) (Inr (Some demo_config)) = Inr app0" using runApp_ok by blast
  note st = runApp_started [OF a]
  define c where "c = (app_tracker app0)\<lparr>tc_wt := pushAddress tracked1 (tc_wt (app_tracker app0)), tc_pc := InBlock 6 6 []\<rparr>"
  have "tracker_acts (IsTrackableAddresses (app_tap app0)) (app_tracker app0) deposit_acts c"
    unfolding st(5) c_def by (rule deposit_run [OF st(1) refl st(7)])
  then have r1: "flow_run demo_env app0 (map TrackerStep deposit_acts) (app0\<lparr>app_tracker := c\<rparr>)"
    by (rule flow_run_tracker) (simp add: deposit_acts_def)
  define app1 where "app1 = app0\<lparr>app_tracker := c\<rparr>"
  define app2 where "app2 = generateMoveBalanceTransactionsAndSendThem demo_env [tracked1] (demo_default_args ''0'') (\<lambda>_. demo_proxy 4) app1"
  have k: "go_range (aa_addressesMap (wt_accumulator (tc_wt (app_tracker app1)))) [tracked1]"
    by (simp add: app1_def c_def go_range_def pushAddress_def aa_push_def st(1) newAddressesAccumulator_def)
  have b: "app_txBuilder app1 = \<lparr>tb_signer = NewSigner demo_env\<rparr>" "ti_txAccumulator (app_txInteractor app1) = []" "app_sending app1" "app_log app1 = []"
    using st by (simp_all add: app1_def)
  obtain sw ti c' where sw: "sw_addresses sw = [tracked1]" "app2 = app1\<lparr>app_tracker := c', app_txInteractor := ti, app_log := app_log app1 @ [sw]\<rparr>"
    using sender_round_effect [OF demo_env_law b(1,2) k app2_def] by metis
  then have l: "app_log app2 = [sw]" using b(4) by (metis append_Nil flowApp.select_convs(8) flowApp.surjective flowApp.update_convs(8))
  have r: "flow_run demo_env app0 (map TrackerStep deposit_acts @ [?op]) app2"
    unfolding app2_def by (rule flow_next [OF r1 [folded app1_def] sender_round [OF b(3) k]])
  have h: "\<forall>op\<in>set (map TrackerStep deposit_acts @ [?op]). honest_flow_op (\<lambda>m. if m = 6 then [tracked_deposit] else []) op"
    by (simp add: deposit_acts_def tracked_block_def)
  have "sweep_ok demo_env app2 sw" using flow_end_to_end [OF demo_env_law a _ r h] l by simp
  with a r l sw(1) show ?thesis by blast
qed

end
