(* ===== verification/Tx_Pointers.thy ===== *)
theory Tx_Pointers
  imports Cli
begin

text \<open>
  The transaction interactor (\<^verbatim>\<open>interactors/transaction.go\<close>) over pointers. It accumulates \<^verbatim>\<open>*FrontendTransaction\<close>
  values, so a caller that writes to a transaction after adding it changes what is sent. Here the store is
  explicit, the accumulator holds addresses, and the transactions are read when a bunch is sent. The
  model of \<open>Tx_Interactor\<close>, which accumulates values, is what this one computes as long as nobody writes to an
  accumulated transaction; the program \<^verbatim>\<open>examples/examplesTransaction\<close> does just that.
\<close>

section \<open>The interactor\<close>

type_synonym store = "nat \<Rightarrow> FrontendTransaction"

record ptrInteractor =
  pti_timeBetweenBunches :: int
  pti_txAccumulator :: "nat list"

definition pti_NewTransactionInteractor :: "'p option \<Rightarrow> 'b option \<Rightarrow> ptrInteractor result" where
  "pti_NewTransactionInteractor proxy txBuilder =
     (if Option.is_none proxy then Inl (EInteractors Interactors_ErrNilProxy)
      else if Option.is_none txBuilder then Inl (EInteractors Interactors_ErrNilTxBuilder)
      else Inr \<lparr>pti_timeBetweenBunches = 1000000000, pti_txAccumulator = []\<rparr>)"

definition pti_AddTransaction :: "nat option \<Rightarrow> ptrInteractor \<Rightarrow> ptrInteractor" where
  "pti_AddTransaction tx ti = (case tx of
     None \<Rightarrow> ti
   | Some p \<Rightarrow> ti\<lparr>pti_txAccumulator := pti_txAccumulator ti @ [p]\<rparr>)"

definition pti_PopAccumulatedTransactions :: "ptrInteractor \<Rightarrow> nat list \<times> ptrInteractor" where
  "pti_PopAccumulatedTransactions ti = (pti_txAccumulator ti, ti\<lparr>pti_txAccumulator := []\<rparr>)"

function pti_bunch_loop ::
  "store \<Rightarrow> nat \<Rightarrow> (nat \<Rightarrow> Proxy) \<Rightarrow> nat \<Rightarrow> nat list \<Rightarrow> string list \<Rightarrow> string list result \<times> FrontendTransaction list list" where
  "pti_bunch_loop st bunchSize pxs bunchIndex txs allHashes =
     (if txs = [] \<or> bunchSize = 0 then (Inr allHashes, [])
      else
        let (bunch, rest) = (if length txs > bunchSize then (take bunchSize txs, drop bunchSize txs) else (txs, []))
        in case px_SendTransactions (pxs bunchIndex) (map st bunch) of
             Inl err \<Rightarrow> (Inl err, [map st bunch])
           | Inr hashes \<Rightarrow>
               let (r, bunches) = pti_bunch_loop st bunchSize pxs (Suc bunchIndex) rest (allHashes @ hashes)
               in (r, map st bunch # bunches))"
  by pat_completeness auto
termination
  by (relation "measure (\<lambda>(st, n, pxs, i, txs, hs). length txs)") (auto split: if_splits)

declare pti_bunch_loop.simps [simp del]

definition pti_SendTransactionsAsBunch ::
  "store \<Rightarrow> (nat \<Rightarrow> Proxy) \<Rightarrow> int \<Rightarrow> ptrInteractor \<Rightarrow> string list result \<times> FrontendTransaction list list \<times> ptrInteractor" where
  "pti_SendTransactionsAsBunch st pxs bunchSize ti =
     (if bunchSize \<le> 0 then (Inl (EInteractors Interactors_ErrInvalidValue), [], ti)
      else
        let (transactions, ti') = pti_PopAccumulatedTransactions ti;
            (r, bunches) = pti_bunch_loop st (nat bunchSize) pxs 0 transactions []
        in (r, bunches, ti'))"

section \<open>Callers\<close>

text \<open>What a caller does: write to a transaction, add a pointer, send.\<close>

datatype caller_op =
    WriteTx nat FrontendTransaction
  | AddTx "nat option"
  | SendTxs "nat \<Rightarrow> Proxy" int

type_synonym sent = "string list result \<times> FrontendTransaction list list"

primrec pointer_run :: "caller_op list \<Rightarrow> store \<Rightarrow> ptrInteractor \<Rightarrow> sent list \<times> store \<times> ptrInteractor" where
  "pointer_run [] st ti = ([], st, ti)"
| "pointer_run (op # ops) st ti = (case op of
     WriteTx p tx \<Rightarrow> pointer_run ops (st(p := tx)) ti
   | AddTx p \<Rightarrow> pointer_run ops st (pti_AddTransaction p ti)
   | SendTxs pxs n \<Rightarrow>
       (let (r, bunches, ti') = pti_SendTransactionsAsBunch st pxs n ti; (outs, rest) = pointer_run ops st ti'
        in ((r, bunches) # outs, rest)))"

text \<open>The same caller on the interactor that keeps values: an added transaction is copied when it is added.\<close>

primrec value_run :: "caller_op list \<Rightarrow> store \<Rightarrow> transactionInteractor \<Rightarrow> sent list \<times> store \<times> transactionInteractor" where
  "value_run [] st ti = ([], st, ti)"
| "value_run (op # ops) st ti = (case op of
     WriteTx p tx \<Rightarrow> value_run ops (st(p := tx)) ti
   | AddTx p \<Rightarrow> value_run ops st (ti_AddTransaction (map_option st p) ti)
   | SendTxs pxs n \<Rightarrow>
       (let (r, bunches, ti') = SendTransactionsAsBunch pxs n ti; (outs, rest) = value_run ops st ti'
        in ((r, bunches) # outs, rest)))"

text \<open>A caller that never writes to a transaction between adding and sending it; \<open>acc\<close> holds the pointers that are
  accumulated.\<close>

fun careful :: "nat list \<Rightarrow> caller_op list \<Rightarrow> bool" where
  "careful acc [] = True"
| "careful acc (WriteTx p tx # ops) \<longleftrightarrow> p \<notin> set acc \<and> careful acc ops"
| "careful acc (AddTx p # ops) = careful (acc @ (case p of None \<Rightarrow> [] | Some q \<Rightarrow> [q])) ops"
| "careful acc (SendTxs pxs n # ops) = careful (if n \<le> 0 then acc else []) ops"

definition deref :: "store \<Rightarrow> ptrInteractor \<Rightarrow> transactionInteractor" where
  "deref st ti = \<lparr>ti_timeBetweenBunches = pti_timeBetweenBunches ti, ti_txAccumulator = map st (pti_txAccumulator ti)\<rparr>"

lemma deref_add: "deref st (pti_AddTransaction p ti) = ti_AddTransaction (map_option st p) (deref st ti)"
  by (cases p) (simp_all add: deref_def pti_AddTransaction_def ti_AddTransaction_def)

lemma deref_write: "p \<notin> set (pti_txAccumulator ti) \<Longrightarrow> deref (st(p := tx)) ti = deref st ti"
  by (simp add: deref_def)

lemma pti_bunch_loop_values: "pti_bunch_loop st n pxs i ps hs = bunch_loop n pxs i (map st ps) hs"
proof (induction st n pxs i ps hs rule: pti_bunch_loop.induct)
  case (1 st n pxs i ps hs)
  show ?case
  proof (cases "ps = [] \<or> n = 0")
    case True
    then show ?thesis by (subst pti_bunch_loop.simps, subst bunch_loop.simps) simp
  next
    case False
    obtain b r where b: "(if length ps > n then (take n ps, drop n ps) else (ps, [])) = (b, r)" by fastforce
    then have m: "(if length (map st ps) > n then (take n (map st ps), drop n (map st ps)) else (map st ps, [])) = (map st b, map st r)"
      by (auto simp: take_map drop_map split: if_splits)
    show ?thesis
      by (subst pti_bunch_loop.simps, subst bunch_loop.simps)
        (use "1.IH" [OF False b [symmetric] refl] False in \<open>simp add: b m del: length_map split: sum.split\<close>)
  qed
qed

lemma pti_send_values:
  assumes "pti_SendTransactionsAsBunch st pxs n ti = (r, bunches, ti')"
  shows "SendTransactionsAsBunch pxs n (deref st ti) = (r, bunches, deref st ti')"
    and "pti_txAccumulator ti' = (if n \<le> 0 then pti_txAccumulator ti else [])"
  using assms
  by (auto simp: pti_SendTransactionsAsBunch_def pti_PopAccumulatedTransactions_def SendTransactionsAsBunch_def
      PopAccumulatedTransactions_def deref_def pti_bunch_loop_values Let_def split: prod.splits if_splits)

section \<open>The transaction example\<close>

definition exampleProxyArgs :: "DisabledBlockDataCache ArgsProxy" where
  "exampleProxyArgs = \<lparr>ap_SameScState = False, ap_ShouldBeSynced = False, ap_FinalityCheck = False,
     ap_AllowedDeltaToFinal = 0, ap_CacheExpirationTime = 60000000000, ap_EntityType = ProxyEntity,
     ap_FilterQueryBlockCacher = None\<rparr>"

text \<open>The program up to the transaction: the holder, \<open>None\<close> when its constructor failed, since the error is ignored,
  and the transaction with receiver and value.\<close>

definition example_transaction ::
  "('sk, 'pk) crypto_env \<Rightarrow> wallet_lib \<Rightarrow> gateway \<Rightarrow> (('sk, 'pk) cryptoComponentsHolder option \<times> FrontendTransaction) result option" where
  "example_transaction env wl w =
     or_return (NewProxy \<lparr>dbc_unit = ()\<rparr> exampleProxyArgs) (\<lambda>ep.
     or_return (LoadPrivateKeyFromPemData wl (bytes_of_string AlicePemContents)) (\<lambda>privateKey.
     or_return (GetAddressFromPrivateKey env privateKey) (\<lambda>addr.
     let (config, bp) = GetNetworkConfig (pe_config (gw_env w)) (cli_call w TestnetGateway 0) (pr_base ep)
     in or_return config (\<lambda>netConfigs.
     case fst (GetDefaultTransactionArguments (cli_env env w) (gw_account w) (cli_call w TestnetGateway 1) (Some addr)
         netConfigs (ep\<lparr>pr_base := bp\<rparr>)) of
       None \<Rightarrow> None
     | Some r \<Rightarrow>
         or_return r (\<lambda>(tx, _).
         or_return (AddressAsBech32String (env_pkc env) addr) (\<lambda>receiverAsBech32String.
         let holder = (case NewCryptoComponentsHolder env privateKey of Inl _ \<Rightarrow> None | Inr h \<Rightarrow> Some h)
         in Some (Inr (holder, tx\<lparr>tx_Receiver := receiverAsBech32String, tx_Value := ''1000000000000000000''\<rparr>))))))))"

text \<open>The local variable \<^verbatim>\<open>tx\<close> is the address 0 of the store. A run returns the error that it logs and the bunches that
  were posted; \<open>None\<close> is a nil dereference, here of the holder.\<close>

definition example_send ::
  "('sk, 'pk) crypto_env \<Rightarrow> (nat \<Rightarrow> Proxy) \<Rightarrow> ('sk, 'pk) cryptoComponentsHolder option \<Rightarrow> FrontendTransaction
     \<Rightarrow> (go_error option \<times> FrontendTransaction list list) option" where
  "example_send env pxs holder tx =
     (let st0 = (\<lambda>_. zero_tx)(0 := tx)
      in case NewTxBuilder (Some (NewSigner env)) of
           Inl err \<Rightarrow> Some (Some err, [])
         | Inr txBuilder \<Rightarrow> (case pti_NewTransactionInteractor (Some (pxs 0)) (Some txBuilder) of
             Inl err \<Rightarrow> Some (Some err, [])
           | Inr ti0 \<Rightarrow> (case holder of
               None \<Rightarrow> None
             | Some h \<Rightarrow> (case ApplyUserSignature env txBuilder h (st0 0) of
                 (Some err, _) \<Rightarrow> Some (Some err, [])
               | (None, tx1) \<Rightarrow>
                   let st1 = st0(0 := tx1);
                       ti1 = pti_AddTransaction (Some 0) ti0;
                       st2 = st1(0 := (st1 0)\<lparr>tx_Version := 2, tx_Options := 1, tx_Nonce := tx_Nonce (st1 0) + 1\<rparr>)
                   in case ApplyUserSignature env txBuilder h (st2 0) of
                        (Some err, _) \<Rightarrow> Some (Some err, [])
                      | (None, tx2) \<Rightarrow>
                          let st3 = st2(0 := tx2);
                              ti2 = pti_AddTransaction (Some 0) ti1
                          in case pti_SendTransactionsAsBunch st3 pxs 100 ti2 of
                               (Inl err, bunches, _) \<Rightarrow> Some (Some err, bunches)
                             | (Inr hashes, bunches, _) \<Rightarrow> Some (None, bunches)))))"

definition example_main ::
  "('sk, 'pk) crypto_env \<Rightarrow> wallet_lib \<Rightarrow> gateway \<Rightarrow> (go_error option \<times> FrontendTransaction list list) option" where
  "example_main env wl w = (case example_transaction env wl w of
     None \<Rightarrow> None
   | Some (Inl err) \<Rightarrow> Some (Some err, [])
   | Some (Inr (holder, tx)) \<Rightarrow> example_send env (\<lambda>k. ti_proxy w TestnetGateway (2 + k)) holder tx)"

text \<open>The first transaction is never sent: the second signature and the new nonce are written to the transaction
  that the accumulator already holds, and the same transaction is posted twice.\<close>

lemma two_pointers_one_bunch:
  assumes "pti_SendTransactionsAsBunch st pxs 100 \<lparr>pti_timeBetweenBunches = d, pti_txAccumulator = [0, 0]\<rparr> = (r, bunches, ti')"
  shows "bunches = [[st 0, st 0]]"
proof -
  have "SendTransactionsAsBunch pxs 100 \<lparr>ti_timeBetweenBunches = d, ti_txAccumulator = [st 0, st 0]\<rparr> = (r, bunches, deref st ti')"
    using pti_send_values(1) [OF assms] by (simp add: deref_def)
  from one_bunch [OF this] show ?thesis by simp
qed

lemma example_send_steps:
  "example_send env pxs (Some h) tx = (case ApplyUserSignature env \<lparr>tb_signer = NewSigner env\<rparr> h tx of
     (Some err, _) \<Rightarrow> Some (Some err, [])
   | (None, tx1) \<Rightarrow> (case ApplyUserSignature env \<lparr>tb_signer = NewSigner env\<rparr> h
         (tx1\<lparr>tx_Version := 2, tx_Options := 1, tx_Nonce := tx_Nonce tx1 + 1\<rparr>) of
       (Some err, _) \<Rightarrow> Some (Some err, [])
     | (None, tx2) \<Rightarrow> (case pti_SendTransactionsAsBunch ((\<lambda>_. zero_tx)(0 := tx2)) pxs 100
           \<lparr>pti_timeBetweenBunches = 1000000000, pti_txAccumulator = [0, 0]\<rparr> of
         (Inl err, bunches, _) \<Rightarrow> Some (Some err, bunches)
       | (Inr hashes, bunches, _) \<Rightarrow> Some (None, bunches))))"
  unfolding example_send_def NewTxBuilder_def pti_NewTransactionInteractor_def pti_AddTransaction_def Let_def
    by (simp split: prod.split option.split)

lemma example_send_twice:
  assumes "sig_law env" and "example_send env pxs (Some h) tx = Some (err, bunches)" and "bunches \<noteq> []"
    and "NewCryptoComponentsHolder env sk = Inr h"
  obtains tx' where "bunches = [[tx', tx']]" and "tx_Nonce tx' = tx_Nonce tx + 1" and "tx_Version tx' = 2" and "tx_Options tx' = 1"
    and "signed_by env h tx' (tx_Signature tx')"
proof -
  let ?tb = "\<lparr>tb_signer = NewSigner env\<rparr>"
  obtain e1 tx1 where a1: "ApplyUserSignature env ?tb h tx = (e1, tx1)" by fastforce
  have t1: "ApplyUserSignature env ?tb h tx = (None, tx1)"
    using assms(2,3) a1 unfolding example_send_steps by (cases e1) simp_all
  define tx1' where "tx1' = tx1\<lparr>tx_Version := 2, tx_Options := 1, tx_Nonce := tx_Nonce tx1 + 1\<rparr>"
  obtain e2 tx2 where a2: "ApplyUserSignature env ?tb h tx1' = (e2, tx2)" by fastforce
  have t2: "ApplyUserSignature env ?tb h tx1' = (None, tx2)"
    using assms(2,3) a2 unfolding example_send_steps t1 tx1'_def by (cases e2) simp_all
  obtain r bs ti' where s: "pti_SendTransactionsAsBunch ((\<lambda>_. zero_tx)(0 := tx2)) pxs 100
      \<lparr>pti_timeBetweenBunches = 1000000000, pti_txAccumulator = [0, 0]\<rparr> = (r, bs, ti')" by (metis prod_cases3)
  have "bunches = bs" using assms(2) t1 t2 s unfolding example_send_steps tx1'_def by (cases r) simp_all
  then have b: "bunches = [[tx2, tx2]]" using two_pointers_one_bunch [OF s] by simp
  obtain s1 where "tx1 = tx\<lparr>tx_Sender := cch_bech32Address h, tx_Signature := hex_EncodeToString s1\<rparr>"
    using ApplyUserSignature_ok [OF t1] by auto
  moreover obtain s2 where s2: "signTx env ?tb (TransactionToUnsignedTx tx2) h = Inr s2"
    "tx2 = tx1'\<lparr>tx_Sender := cch_bech32Address h, tx_Signature := hex_EncodeToString s2\<rparr>"
    using ApplyUserSignature_ok [OF t2] by auto
  moreover have "signed_by env h tx2 (tx_Signature tx2)"
    using signTx_verifies [OF assms(1) s2(1) NewCryptoComponentsHolder_keys(1) [OF assms(4)]] unfolding signed_by_def
    by (intro exI [of _ s2]) (simp add: s2(2) hex_roundtrip)
  ultimately show thesis using b by (intro that [of tx2]) (simp_all add: tx1'_def)
qed

lemma example_proxy: "\<exists>ep. NewProxy d exampleProxyArgs = Inr ep \<and> \<not> pr_finalityCheck ep"
  by (simp add: exampleProxyArgs_def NewProxy_def checkArgsProxy_def CreateEndpointProvider_def newBaseProxy_def
      checkArgsBaseProxy_def minimumCachingInterval_def bp_GetRestAPIEntityType_def CreateFinalityProvider_def)

lemma example_transaction_nonce:
  assumes "example_transaction env wl w = Some (Inr (Some h, tx))"
  shows "\<exists>sk b32 acc. NewCryptoComponentsHolder env sk = Inr h \<and> tx_Nonce tx = acc_Nonce acc
    \<and> get_reply (cc_http (cli_call w TestnetGateway 1)) (gw_account w) (ep_GetAccount b32) = Inr (Some acc)"
proof -
  obtain ep0 where ep: "NewProxy \<lparr>dbc_unit = ()\<rparr> exampleProxyArgs = Inr ep0" "\<not> pr_finalityCheck ep0"
    using example_proxy by blast
  from assms ep(1) obtain sk addr where s: "GetAddressFromPrivateKey env sk = Inr addr"
    and r1: "(let (config, bp) = GetNetworkConfig (pe_config (gw_env w)) (cli_call w TestnetGateway 0) (pr_base ep0)
     in or_return config (\<lambda>netConfigs.
     case fst (GetDefaultTransactionArguments (cli_env env w) (gw_account w) (cli_call w TestnetGateway 1) (Some addr)
         netConfigs (ep0\<lparr>pr_base := bp\<rparr>)) of
       None \<Rightarrow> None
     | Some r \<Rightarrow>
         or_return r (\<lambda>(tx, _).
         or_return (AddressAsBech32String (env_pkc env) addr) (\<lambda>receiverAsBech32String.
         let holder = (case NewCryptoComponentsHolder env sk of Inl _ \<Rightarrow> None | Inr h \<Rightarrow> Some h)
         in Some (Inr (holder, tx\<lparr>tx_Receiver := receiverAsBech32String, tx_Value := ''1000000000000000000''\<rparr>)))))) = Some (Inr (Some h, tx))"
    unfolding example_transaction_def or_return_ok by (metis Inr_inject)
  obtain c bp where c: "GetNetworkConfig (pe_config (gw_env w)) (cli_call w TestnetGateway 0) (pr_base ep0) = (c, bp)" by fastforce
  from r1 obtain cfg r where s3: "fst (GetDefaultTransactionArguments (cli_env env w) (gw_account w) (cli_call w TestnetGateway 1) (Some addr) cfg (ep0\<lparr>pr_base := bp\<rparr>)) = Some r"
    and r: "or_return r (\<lambda>(tx, _). or_return (AddressAsBech32String (env_pkc env) addr) (\<lambda>receiverAsBech32String.
         let holder = (case NewCryptoComponentsHolder env sk of Inl _ \<Rightarrow> None | Inr h \<Rightarrow> Some h)
         in Some (Inr (holder, tx\<lparr>tx_Receiver := receiverAsBech32String, tx_Value := ''1000000000000000000''\<rparr>)))) = Some (Inr (Some h, tx))"
    unfolding c Let_def prod.case or_return_ok [of c] by (auto split: option.splits)
  from r obtain tx0 bal rb where t: "r = Inr (tx0, bal)" "tx = tx0\<lparr>tx_Receiver := rb, tx_Value := ''1000000000000000000''\<rparr>"
    "NewCryptoComponentsHolder env sk = Inr h"
    unfolding or_return_ok by (auto simp: or_return_ok split: sum.splits)
  obtain p' where "GetDefaultTransactionArguments (cli_env env w) (gw_account w) (cli_call w TestnetGateway 1) (Some addr) cfg (ep0\<lparr>pr_base := bp\<rparr>)
      = (Some (Inr (tx0, bal)), p')" using s3 t(1) by (metis prod.collapse)
  from GetDefaultTransactionArguments_ok [OF this] ep(2) obtain b32 acc where
    "get_reply (cc_http (cli_call w TestnetGateway 1)) (gw_account w) (ep_GetAccount b32) = Inr (Some acc)" "tx_Nonce tx0 = acc_Nonce acc" by auto
  with t show ?thesis by (intro exI [of _ sk] exI [of _ b32] exI [of _ acc]) simp
qed

text \<open>The nonce of the account is the one that the network expects next, and no transaction with it is sent.\<close>

lemma example_account_nonce_not_sent:
  assumes "sig_law env" and "example_main env wl w = Some (err, bunches)" and "bunches \<noteq> []"
  shows "\<exists>tx b32 acc. bunches = [[tx, tx]] \<and> tx_Nonce tx = acc_Nonce acc + 1
    \<and> get_reply (cc_http (cli_call w TestnetGateway 1)) (gw_account w) (ep_GetAccount b32) = Inr (Some acc)"
proof -
  obtain holder tx where t: "example_transaction env wl w = Some (Inr (holder, tx))"
    "example_send env (\<lambda>k. ti_proxy w TestnetGateway (2 + k)) holder tx = Some (err, bunches)"
    using assms(2,3) by (auto simp: example_main_def split: option.splits sum.splits)
  obtain h where h: "holder = Some h"
    using t(2) by (cases holder) (simp_all add: example_send_def NewTxBuilder_def pti_NewTransactionInteractor_def)
  from example_transaction_nonce [OF t(1) [unfolded h]] obtain sk b32 acc where
    n: "NewCryptoComponentsHolder env sk = Inr h" "tx_Nonce tx = acc_Nonce acc"
      "get_reply (cc_http (cli_call w TestnetGateway 1)) (gw_account w) (ep_GetAccount b32) = Inr (Some acc)" by blast
  from example_send_twice [OF assms(1) t(2) [unfolded h] assms(3) n(1)] obtain tx' where
    "bunches = [[tx', tx']]" "tx_Nonce tx' = tx_Nonce tx + 1" by blast
  with n show ?thesis by auto
qed

section \<open>Properties\<close>



end
