(* ===== verification/Sdk_Examples.thy ===== *)
theory Sdk_Examples
  imports Tx_Pointers Account_Balance Vm_Query Header_Wiring
begin

text \<open>
  The smaller programs of \<^verbatim>\<open>examples/\<close>: \<^verbatim>\<open>examplesAccount\<close>, \<^verbatim>\<open>examplesBlock\<close>, \<^verbatim>\<open>examplesVMQuery\<close>, \<^verbatim>\<open>examplesWallet\<close> and
  \<^verbatim>\<open>examplesHeaderCheck\<close>. Each composes the packages of the library from the gateway to a log line, and a run is
  the list of the lines it logs, or \<open>None\<close> when it panics.

  The account program shows the balance up to the rounding of its six decimals, the wallet program shows the
  accounts of the standard derivation path, and the header program reports a match only for a header that the
  verifier accepts; the lemmas also state exactly when a program panics on what the gateway answers.
\<close>

section \<open>Log lines\<close>

text \<open>\<^verbatim>\<open>log.Error(message, "error", err)\<close>, where \<^verbatim>\<open>err\<close> may be nil, and \<^verbatim>\<open>log.Info\<close>.\<close>

datatype 'a log_line = LogError string "go_error option" | LogInfo 'a

type_synonym 'a log_run = "'a log_line list option"

text \<open>\<^verbatim>\<open>if err != nil { log.Error(message, "error", err); return }\<close>\<close>

definition or_log :: "'x result \<Rightarrow> string \<Rightarrow> ('x \<Rightarrow> 'a log_run) \<Rightarrow> 'a log_run" where
  "or_log r message k = (case r of Inl err \<Rightarrow> Some [LogError message (Some err)] | Inr x \<Rightarrow> k x)"

definition then_log :: "'a \<Rightarrow> 'a log_run \<Rightarrow> 'a log_run" where
  "then_log line k = map_option (\<lambda>ls. LogInfo line # ls) k"

lemma or_log_simps [simp]: "or_log (Inr x) m k = k x" "or_log (Inl e) m k = Some [LogError m (Some e)]"
  by (simp_all add: or_log_def)

lemma or_log_info: "or_log r m k = Some (LogInfo a # ls) \<longleftrightarrow> (\<exists>x. r = Inr x \<and> k x = Some (LogInfo a # ls))"
  by (cases r) simp_all

lemma or_log_panics: "or_log r m k = None \<longleftrightarrow> (\<exists>x. r = Inr x \<and> k x = None)"
  by (cases r) simp_all

lemma then_log_Some: "then_log line k = Some ls \<longleftrightarrow> (\<exists>ls'. k = Some ls' \<and> ls = LogInfo line # ls')"
  by (auto simp: then_log_def)

section \<open>The account program\<close>

text \<open>\<^verbatim>\<open>fmt.Sprintf("%.6f", x)\<close>: six decimals, rounded to nearest with ties to even.\<close>

definition fixed6 :: "nat \<Rightarrow> string" where
  "fixed6 n = dec_of_nat (n div 10 ^ 6) @ ''.'' @ (let s = dec_of_nat (n mod 10 ^ 6) in replicate (6 - length s) (CHR ''0'') @ s)"

definition Sprintf_6f :: "float64 \<Rightarrow> string" where
  "Sprintf_6f x = (case x of
     NaN \<Rightarrow> ''NaN''
   | NInf \<Rightarrow> ''-Inf''
   | PInf \<Rightarrow> ''+Inf''
   | Fin q \<Rightarrow> (if q < 0 then ''-'' else []) @ fixed6 (nat (round_even (\<bar>q\<bar> * 10 ^ 6))))"

record account_details =
  ad_address :: string
  ad_nonce :: u64
  ad_float_balance :: string
  ad_int_balance :: string

definition account_main ::
  "('sk, 'pk) crypto_env \<Rightarrow> (string \<Rightarrow> big_float option) \<Rightarrow> gateway \<Rightarrow> account_details log_run" where
  "account_main env other w =
     or_log (NewProxy \<lparr>dbc_unit = ()\<rparr> exampleProxyArgs) ''error creating proxy'' (\<lambda>ep.
     let (config, bp) = GetNetworkConfig (pe_config (gw_env w)) (cli_call w TestnetGateway 0) (pr_base ep)
     in or_log config ''error getting network config'' (\<lambda>networkConfig.
     let addressAsBech32 = ''erd1adfmxhyczrl2t97yx92v5nywqyse0c7qh4xs0p4artg2utnu90pspgvqty''
     in or_log (NewAddressFromBech32String (env_pkc env) addressAsBech32) ''invalid address'' (\<lambda>addr.
     case fst (GetAccount (cli_env env w) (gw_account w) (cli_call w TestnetGateway 1) (Some addr) (ep\<lparr>pr_base := bp\<rparr>)) of
       None \<Rightarrow> None
     | Some account \<Rightarrow> or_log account ''error retrieving account info'' (\<lambda>accountInfo.
         case networkConfig of
           None \<Rightarrow> None
         | Some cfg \<Rightarrow> (case accountInfo of
             None \<Rightarrow> None
           | Some info \<Rightarrow> or_log (GetBalance other (nc_Denomination cfg) info) ''unable to compute balance'' (\<lambda>floatBalance.
               Some [LogInfo \<lparr>ad_address = addressAsBech32, ad_nonce = acc_Nonce info,
                 ad_float_balance = Sprintf_6f floatBalance, ad_int_balance = acc_Balance info\<rparr>]))))))"

section \<open>The block program\<close>

text \<open>The error of the second request is in \<^verbatim>\<open>errGet\<close>; what is logged is \<^verbatim>\<open>err\<close>, which is nil at this point.\<close>

datatype block_info = LatestNonce u64 | BlockText "byte list"

definition block_main ::
  "'b decoder \<Rightarrow> ('b \<Rightarrow> byte list result) \<Rightarrow> gateway \<Rightarrow> block_info log_run" where
  "block_main dec MarshalIndent w =
     or_log (NewProxy \<lparr>dbc_unit = ()\<rparr> exampleProxyArgs) ''error creating proxy'' (\<lambda>ep.
     or_log (GetLatestHyperBlockNonce (gw_env w) (cc_http (cli_call w TestnetGateway 0)) ep)
       ''error retrieving latest block nonce'' (\<lambda>nonce.
     then_log (LatestNonce nonce)
       (case GetHyperBlockByNonce dec (cc_http (cli_call w TestnetGateway 1)) nonce of
          Inl errGet \<Rightarrow> Some [LogError ''error retrieving hyper block'' None]
        | Inr block \<Rightarrow> or_log (MarshalIndent block) ''error serializing block'' (\<lambda>d. Some [LogInfo (BlockText d)]))))"

section \<open>The VM query program\<close>

definition version_request :: VmValueRequest where
  "version_request = \<lparr>vq_Address = ''erd1qqqqqqqqqqqqqpgqp699jngundfqw07d8jzkepucvpzush6k3wvqyc44rx'', vq_FuncName = ''version'',
     vq_CallerAddr = ''erd1rh5ws22jxm9pe7dtvhfy6j3uttuupkepferdwtmslms5fydtrh5sx3xr8r'', vq_CallValue = [], vq_Args = []\<rparr>"

text \<open>Neither the pointer to the output, nor the return code, nor the length of the return data is checked.\<close>

definition vmquery_main ::
  "(VmValueRequest \<Rightarrow> bool \<Rightarrow> bool \<Rightarrow> byte list result) \<Rightarrow> VMOutputApi option decoder \<Rightarrow> gateway \<Rightarrow> string log_run" where
  "vmquery_main marshal dec w =
     or_log (NewProxy \<lparr>dbc_unit = ()\<rparr> exampleProxyArgs) ''error creating proxy'' (\<lambda>ep.
     case fst (ExecuteVMQuery (gw_env w) marshal dec (cli_call w TestnetGateway 0) version_request ep) of
       None \<Rightarrow> None
     | Some response \<Rightarrow> or_log response ''error executing vm query'' (\<lambda>output.
         case output of
           None \<Rightarrow> None
         | Some out \<Rightarrow> (case vo_ReturnData out of
             [] \<Rightarrow> None
           | r # _ \<Rightarrow> Some [LogInfo (string_of_bytes r)])))"

section \<open>The wallet program\<close>

datatype wallet_info = Mnemonics string | KeyPair "byte list" u32 "byte list" string

definition wallet_account ::
  "('sk, 'pk) crypto_env \<Rightarrow> wallet_lib \<Rightarrow> string \<Rightarrow> u32 \<Rightarrow> string \<Rightarrow> wallet_info log_run \<Rightarrow> wallet_info log_run" where
  "wallet_account env wl mnemonic index message k =
     (let privateKey = GetPrivateKeyFromMnemonic wl mnemonic 0 index
      in or_log (GetAddressFromPrivateKey env privateKey) ''error getting address from private key'' (\<lambda>addr.
         or_log (AddressAsBech32String (env_pkc env) addr) message (\<lambda>addressAsBech32String.
         then_log (KeyPair privateKey index (AddressBytes addr) addressAsBech32String) k)))"

definition wallet_main :: "('sk, 'pk) crypto_env \<Rightarrow> wallet_lib \<Rightarrow> wallet_info log_run" where
  "wallet_main env wl =
     or_log (GenerateMnemonic wl) ''error generating mnemonic'' (\<lambda>mnemonic.
     then_log (Mnemonics mnemonic)
       (wallet_account env wl mnemonic 0 ''error getting address0 as bech32 string''
       (wallet_account env wl mnemonic 1 ''error getting address1 as bech32 string'' (Some []))))"

section \<open>The header program\<close>

definition default_multi_signers :: "(u32 \<times> string) list" where
  "default_multi_signers = [(0, ''no-KOSK''), (1000000, ''KOSK'')]"

definition example_headerHash :: string where
  "example_headerHash = ''e0b29ef07f76b75ea9608eed37c588440113724077f57cda3bac84ea0de378ab''"

text \<open>\<open>hp\<close> is what the gateway answers to the factory, \<open>verifier mar sv\<close> the environment of the verification with
  the marshaller and the signature verifier of the factory.\<close>

definition header_verify ::
  "('m, 'h, 'd, 'r, 'e, 'q, 'k, 'g, 'p, 'z, 'v, 's, 'n, 'x) header_lib \<Rightarrow> u32 list \<times> u32 list
     \<Rightarrow> header_proxy \<Rightarrow> ('m \<Rightarrow> 'x \<Rightarrow> ('hdr, 'i, 'n) header_env) \<Rightarrow> 'q EnableEpochsConfig \<Rightarrow> string log_run" where
  "header_verify lib ks hp verifier enableEpochsConfig =
     (case NewHeaderCheckHandler lib ks (Some hp) (Some enableEpochsConfig) of
        None \<Rightarrow> None
      | Some r \<Rightarrow> or_log r ''error creating header check handler'' (\<lambda>((proxy, mar), sv, coordinator).
          case fst (VerifyHeaderSignatureByHash (verifier mar sv) 2 example_headerHash coordinator) of
            (ok, Some err) \<Rightarrow> Some [LogError ''error verifying header signature'' (Some err)]
          | (ok, None) \<Rightarrow>
              Some [LogInfo (if \<not> ok then ''header signature does not match'' else ''header signature matches'')]))"

definition header_main ::
  "('m, 'h, 'd, 'r, 'e, 'q, 'k, 'g, 'p, 'z, 'v, 's, 'n, 'x) header_lib \<Rightarrow> u32 list \<times> u32 list \<Rightarrow> 'q EnableEpochsConfig option decoder
     \<Rightarrow> gateway \<Rightarrow> header_proxy \<Rightarrow> ('m \<Rightarrow> 'x \<Rightarrow> ('hdr, 'i, 'n) header_env) \<Rightarrow> string log_run" where
  "header_main lib ks dec w hp verifier =
     or_log (NewProxy \<lparr>dbc_unit = ()\<rparr> exampleProxyArgs) ''error creating proxy'' (\<lambda>ep.
     or_log (GetEnableEpochsConfig dec (cc_http (cli_call w TestnetGateway 0)))
       ''error getting enable epochs config from proxy'' (\<lambda>config. case config of
       None \<Rightarrow> None
     | Some c \<Rightarrow> header_verify lib ks hp verifier
         (if length (ee_BLSMultiSignerEnableEpoch (eec_EnableEpochs c)) = 0
          then c\<lparr>eec_EnableEpochs := (eec_EnableEpochs c)\<lparr>ee_BLSMultiSignerEnableEpoch := default_multi_signers\<rparr>\<rparr> else c)))"

section \<open>What the programs show\<close>

lemma example_proxy_fresh:
  "\<exists>ep. NewProxy d exampleProxyArgs = Inr ep \<and> \<not> pr_finalityCheck ep \<and> bp_fetchedConfigs (pr_base ep) = None"
  by (simp add: exampleProxyArgs_def NewProxy_def checkArgsProxy_def CreateEndpointProvider_def newBaseProxy_def
      checkArgsBaseProxy_def minimumCachingInterval_def bp_GetRestAPIEntityType_def CreateFinalityProvider_def)

lemma GetNetworkConfig_first:
  assumes "bp_fetchedConfigs bp = None"
  shows "fst (GetNetworkConfig dec call bp) = getNetworkConfigFromSource dec (cc_http call)"
  using assms by (simp add: GetNetworkConfig_def cacheConfigs_def getCachedConfigs_def split: sum.split)

lemma GetAccount_unguarded:
  assumes "\<not> pr_finalityCheck p"
  shows "fst (GetAccount env dec call addr p) = Some (on_ok (checked_address env addr) (\<lambda>s. get_reply (cc_http call) dec (ep_GetAccount s)))"
  using assms by (simp add: GetAccount_def after_final_state_def checkFinalState_def split: sum.split)

lemma dec_val_acc_zeros: "dec_val_acc 0 (replicate k (CHR ''0'') @ s) = dec_val_acc 0 s"
  by (induction k) (simp_all add: digit_val_def)

lemma dec_of_nat_length: "n < 10 ^ Suc k \<Longrightarrow> length (dec_of_nat n) \<le> Suc k"
proof (induction k arbitrary: n)
  case 0
  then show ?case by (simp add: dec_of_nat.simps [of n])
next
  case (Suc k)
  then have "n div 10 < 10 ^ Suc k" by (simp add: less_mult_imp_div_less mult.commute)
  with Suc.IH show ?case by (simp add: dec_of_nat.simps [of n])
qed

text \<open>The text with six decimals reads as the number it was made from.\<close>

lemma fixed6_reads:
  "\<exists>a b. fixed6 n = a @ ''.'' @ b \<and> length b = 6 \<and> dec_val a = Some (n div 10 ^ 6) \<and> dec_val b = Some (n mod 10 ^ 6)"
proof -
  let ?s = "dec_of_nat (n mod 10 ^ 6)"
  have "length ?s \<le> 6" using dec_of_nat_length [of "n mod 10 ^ 6" 5] by simp
  then have "length (replicate (6 - length ?s) (CHR ''0'') @ ?s) = 6" by simp
  moreover have "dec_val (replicate (6 - length ?s) (CHR ''0'') @ ?s) = Some (n mod 10 ^ 6)"
    by (simp add: dec_val_def dec_val_acc_zeros dec_val_acc_dec_of_nat)
  ultimately show ?thesis unfolding fixed6_def Let_def
    by (intro exI [of _ "dec_of_nat (n div 10 ^ 6)"] exI [of _ "replicate (6 - length ?s) (CHR ''0'') @ ?s"]) (simp only: dec_val_dec_of_nat)
qed

lemma Sprintf_6f_near:
  assumes "0 \<le> q"
  shows "\<exists>k. Sprintf_6f (Fin q) = fixed6 k \<and> \<bar>of_nat k / 10 ^ 6 - q\<bar> \<le> 1 / (2 * 10 ^ 6)"
proof (intro exI conjI)
  let ?r = "round_even (q * 10 ^ 6)"
  have "round_even 0 \<le> ?r" using assms by (intro round_even_mono) simp
  then have r: "0 \<le> ?r" using round_even_of_int [of 0] by simp
  show "Sprintf_6f (Fin q) = fixed6 (nat ?r)" using assms by (simp add: Sprintf_6f_def)
  show "\<bar>of_nat (nat ?r) / 10 ^ 6 - q\<bar> \<le> 1 / (2 * 10 ^ 6)"
    using round_even_dist [of "q * 10 ^ 6"] r by (simp add: abs_if field_simps split: if_splits)
qed

text \<open>The account program in terms of what the gateway answers.\<close>

definition example_account :: string where
  "example_account = ''erd1adfmxhyczrl2t97yx92v5nywqyse0c7qh4xs0p4artg2utnu90pspgvqty''"

lemma account_main_steps:
  "account_main env other w =
     or_log (getNetworkConfigFromSource (pe_config (gw_env w)) (cc_http (cli_call w TestnetGateway 0))) ''error getting network config'' (\<lambda>networkConfig.
     or_log (NewAddressFromBech32String (env_pkc env) example_account) ''invalid address'' (\<lambda>addr.
     or_log (on_ok (checked_address (cli_env env w) (Some addr)) (\<lambda>s.
         get_reply (cc_http (cli_call w TestnetGateway 1)) (gw_account w) (ep_GetAccount s))) ''error retrieving account info'' (\<lambda>accountInfo.
       case networkConfig of
         None \<Rightarrow> None
       | Some cfg \<Rightarrow> (case accountInfo of
           None \<Rightarrow> None
         | Some info \<Rightarrow> or_log (GetBalance other (nc_Denomination cfg) info) ''unable to compute balance'' (\<lambda>floatBalance.
             Some [LogInfo \<lparr>ad_address = example_account, ad_nonce = acc_Nonce info,
               ad_float_balance = Sprintf_6f floatBalance, ad_int_balance = acc_Balance info\<rparr>])))))"
proof -
  obtain ep where ep: "NewProxy \<lparr>dbc_unit = ()\<rparr> exampleProxyArgs = Inr ep" "\<not> pr_finalityCheck ep"
    "bp_fetchedConfigs (pr_base ep) = None" using example_proxy_fresh by blast
  obtain r bp where g: "GetNetworkConfig (pe_config (gw_env w)) (cli_call w TestnetGateway 0) (pr_base ep) = (r, bp)" by fastforce
  then have "r = getNetworkConfigFromSource (pe_config (gw_env w)) (cc_http (cli_call w TestnetGateway 0))"
    using GetNetworkConfig_first [OF ep(3)] by (metis fst_conv)
  then show ?thesis
    unfolding account_main_def ep(1) or_log_simps g Let_def example_account_def [symmetric] prod.case
    using GetAccount_unguarded [of "ep\<lparr>pr_base := bp\<rparr>"] ep(2) by simp
qed

text \<open>The program panics exactly when both requests succeed and one of the answers is null.\<close>

lemma account_main_panics:
  "account_main env other w = None \<longleftrightarrow>
     (\<exists>cfg addr s info. getNetworkConfigFromSource (pe_config (gw_env w)) (cc_http (cli_call w TestnetGateway 0)) = Inr cfg
      \<and> NewAddressFromBech32String (env_pkc env) example_account = Inr addr \<and> checked_address (cli_env env w) (Some addr) = Inr s
      \<and> get_reply (cc_http (cli_call w TestnetGateway 1)) (gw_account w) (ep_GetAccount s) = Inr info \<and> (cfg = None \<or> info = None))"
proof -
  have k: "(case cfg of None \<Rightarrow> None | Some c \<Rightarrow> (case info of None \<Rightarrow> None | Some i \<Rightarrow>
       or_log (GetBalance other (nc_Denomination c) i) ''unable to compute balance'' (\<lambda>x. Some [LogInfo (f i x)]))) = None
     \<longleftrightarrow> cfg = None \<or> info = None" for cfg info and f :: "_ \<Rightarrow> _ \<Rightarrow> account_details"
    by (simp add: or_log_panics split: option.split)
  show ?thesis unfolding account_main_steps or_log_panics on_ok_Inr k by blast
qed

text \<open>When the second request of the block program fails, what it logs as the error is nil.\<close>

lemma block_main_error_lost:
  assumes "block_main dec MarshalIndent w = Some [LogInfo (LatestNonce nonce), LogError message err]"
    and "get_reply (cc_http (cli_call w TestnetGateway 1)) dec (ep_GetHyperBlockByNonce nonce) = Inl errGet"
  shows "message = ''error retrieving hyper block'' \<and> err = None"
  using assms by (auto simp: block_main_def or_log_info then_log_Some GetHyperBlockByNonce_def getHyperBlock_def)

text \<open>The query program panics when the answer has no output or its return data is empty, which is how a call
  that failed in the contract is answered; otherwise it shows what \<^verbatim>\<open>ExecuteQueryReturningBytes\<close> returns first.\<close>

lemma vmquery_main_steps:
  "vmquery_main marshal dec w =
     or_log (on_ok (marshal version_request False False) (post_reply (cc_http (cli_call w TestnetGateway 0)) dec ep_GetVmValues))
       ''error executing vm query'' (\<lambda>output. case output of
         None \<Rightarrow> None
       | Some out \<Rightarrow> (case vo_ReturnData out of [] \<Rightarrow> None | r # _ \<Rightarrow> Some [LogInfo (string_of_bytes r)]))"
proof -
  have "\<exists>ep. NewProxy \<lparr>dbc_unit = ()\<rparr> exampleProxyArgs = Inr ep \<and> \<not> pr_finalityCheck ep \<and> \<not> pr_sameScState ep \<and> \<not> pr_shouldBeSynced ep"
    by (simp add: exampleProxyArgs_def NewProxy_def checkArgsProxy_def CreateEndpointProvider_def newBaseProxy_def
        checkArgsBaseProxy_def minimumCachingInterval_def bp_GetRestAPIEntityType_def CreateFinalityProvider_def)
  then obtain ep where "NewProxy \<lparr>dbc_unit = ()\<rparr> exampleProxyArgs = Inr ep" "\<not> pr_finalityCheck ep" "\<not> pr_sameScState ep"
    "\<not> pr_shouldBeSynced ep" by blast
  then show ?thesis by (simp add: vmquery_main_def ExecuteVMQuery_def checkFinalState_def)
qed

lemma vmquery_main_first:
  assumes "\<forall>req. px req = on_ok (marshal req False False) (post_reply (cc_http (cli_call w TestnetGateway 0)) dec ep_GetVmValues)"
    and "ExecuteQueryReturningBytes px (Some version_request) = Some (Inr (r # rs))"
  shows "vmquery_main marshal dec w = Some [LogInfo (string_of_bytes r)]"
  using assms by (simp add: vmquery_main_steps ExecuteQueryReturningBytes_def split: sum.splits option.splits if_splits)

lemma vmquery_main_failed_call_panics:
  assumes "on_ok (marshal version_request False False) (post_reply (cc_http (cli_call w TestnetGateway 0)) dec ep_GetVmValues)
      = Inr (Some out)" and "vo_ReturnData out = []"
  shows "vmquery_main marshal dec w = None"
  unfolding vmquery_main_steps assms(1) by (simp add: assms(2))

text \<open>The wallet program never panics, and a complete run shows the first two accounts of the standard path under
  the seed of the mnemonic that it shows, each with the address of its key.\<close>

lemma wallet_account_shows:
  "wallet_account env wl mnemonic index message k = Some (LogInfo line # ls) \<longleftrightarrow>
     (\<exists>addr s. GetAddressFromPrivateKey env (GetPrivateKeyFromMnemonic wl mnemonic 0 index) = Inr addr
        \<and> AddressAsBech32String (env_pkc env) addr = Inr s \<and> k = Some ls
        \<and> line = KeyPair (GetPrivateKeyFromMnemonic wl mnemonic 0 index) index (AddressBytes addr) s)"
  by (auto simp: wallet_account_def Let_def or_log_info then_log_Some)

lemma wallet_main_returns: "wallet_main env wl \<noteq> None"
  by (simp add: wallet_main_def wallet_account_def Let_def then_log_def or_log_panics)

lemma mnemonic_slip10:
  assumes "sha512_law wl"
  shows "GetPrivateKeyFromMnemonic wl mnemonic 0 index = fst (slip10_node wl (CreateSeedFromMnemonic wl mnemonic)
      [hardened_index (unat index), hardened_index 0, hardened_index 0, hardened_index 508, hardened_index 44])"
    and "length (GetPrivateKeyFromMnemonic wl mnemonic 0 index) = 32"
proof -
  let ?seed = "CreateSeedFromMnemonic wl mnemonic"
  let ?path = "[hardened_index 44, hardened_index 508, hardened_index 0, hardened_index 0, hardened_index (unat index)]"
  have p: "GetPrivateKeyFromMnemonic wl mnemonic 0 index = bip_Key (derivePrivateKey wl ?seed ?path)"
    by (simp add: GetPrivateKeyFromMnemonic_def GetPrivateKeyFromSeed_path)
  from derivePrivateKey_node [OF assms, of ?seed ?path]
  have "length (bip_Key (derivePrivateKey wl ?seed ?path)) = 32"
    "bip_Key (derivePrivateKey wl ?seed ?path) = fst (slip10_node wl ?seed (rev ?path))"
    by (auto simp del: slip10_node.simps dest: arg_cong [where f = fst])
  then show "GetPrivateKeyFromMnemonic wl mnemonic 0 index = fst (slip10_node wl ?seed
      [hardened_index (unat index), hardened_index 0, hardened_index 0, hardened_index 508, hardened_index 44])"
    "length (GetPrivateKeyFromMnemonic wl mnemonic 0 index) = 32"
    unfolding p by (simp_all del: slip10_node.simps)
qed

lemma wallet_main_accounts:
  assumes "sha512_law wl" and "wallet_main env wl = Some [LogInfo m, LogInfo k0, LogInfo k1]"
  shows "\<exists>mnemonic sk0 a0 s0 sk1 a1 s1. GenerateMnemonic wl = Inr mnemonic \<and> m = Mnemonics mnemonic
    \<and> k0 = KeyPair sk0 0 (addr_bytes a0) s0 \<and> k1 = KeyPair sk1 1 (addr_bytes a1) s1
    \<and> (\<forall>(i, sk, a, s)\<in>{(0, sk0, a0, s0), (1, sk1, a1, s1)}. GetAddressFromPrivateKey env sk = Inr a
        \<and> AddressAsBech32String (env_pkc env) a = Inr s \<and> length sk = 32
        \<and> sk = fst (slip10_node wl (CreateSeedFromMnemonic wl mnemonic)
            [hardened_index i, hardened_index 0, hardened_index 0, hardened_index 508, hardened_index 44]))"
proof -
  obtain mnemonic where m: "GenerateMnemonic wl = Inr mnemonic" "m = Mnemonics mnemonic"
    and r: "wallet_account env wl mnemonic 0 ''error getting address0 as bech32 string''
       (wallet_account env wl mnemonic 1 ''error getting address1 as bech32 string'' (Some [])) = Some (LogInfo k0 # [LogInfo k1])"
    using assms(2) unfolding wallet_main_def or_log_info then_log_Some by auto
  then obtain a0 s0 a1 s1 where a:
    "GetAddressFromPrivateKey env (GetPrivateKeyFromMnemonic wl mnemonic 0 0) = Inr a0" "AddressAsBech32String (env_pkc env) a0 = Inr s0"
    "k0 = KeyPair (GetPrivateKeyFromMnemonic wl mnemonic 0 0) 0 (addr_bytes a0) s0"
    "GetAddressFromPrivateKey env (GetPrivateKeyFromMnemonic wl mnemonic 0 1) = Inr a1" "AddressAsBech32String (env_pkc env) a1 = Inr s1"
    "k1 = KeyPair (GetPrivateKeyFromMnemonic wl mnemonic 0 1) 1 (addr_bytes a1) s1"
    unfolding wallet_account_shows AddressBytes_def by auto
  have sl: "fst (slip10_node wl (CreateSeedFromMnemonic wl mnemonic)
      [hardened_index (unat i), hardened_index 0, hardened_index 0, hardened_index 508, hardened_index 44])
    = GetPrivateKeyFromMnemonic wl mnemonic 0 i" for i :: u32
    using mnemonic_slip10(1) [OF assms(1)] by (simp del: slip10_node.simps)
  show ?thesis
    by (rule exI [of _ mnemonic], rule exI [of _ "GetPrivateKeyFromMnemonic wl mnemonic 0 0"], rule exI [of _ a0], rule exI [of _ s0],
        rule exI [of _ "GetPrivateKeyFromMnemonic wl mnemonic 0 1"], rule exI [of _ a1], rule exI [of _ s1])
      (use sl [of 0] sl [of 1] in \<open>simp add: m a mnemonic_slip10(2) [OF assms(1)] del: slip10_node.simps\<close>)
qed

text \<open>The header program reports a match only for a header that the gateway serves for the hash and that passes the
  signature check under a coordinator built from the genesis nodes, extended by the validators of the epoch
  of the header when that epoch was not known.\<close>

lemma header_main_sound:
  assumes "header_main lib ks dec w hp verifier = Some [LogInfo ''header signature matches'']"
    and "\<forall>g. hp_GetGenesisNodesPubKeys hp = Inr (Some g) \<longrightarrow> go_range (gn_Eligible g) (fst ks) \<and> go_range (gn_Waiting g) (snd ks)"
  shows "\<exists>mar sv nc base r args g header nc'. hl_NewIndexHashedNodesCoordinator lib args = Inr base
    \<and> hl_NewIndexHashedNodesCoordinatorWithRater lib base r = Inr nc \<and> hp_GetGenesisNodesPubKeys hp = Inr (Some g)
    \<and> (\<exists>conv. all_ok (anc_EligibleNodes args) = genesis_spec conv (hl_NewValidator lib) (gn_Eligible g)
             \<and> all_ok (anc_WaitingNodes args) = genesis_spec conv (hl_NewValidator lib) (gn_Waiting g))
    \<and> fetchHeaderByHashAndShard (verifier mar sv) 2 example_headerHash = Inr header
    \<and> he_VerifySignature (verifier mar sv) header nc' = None
    \<and> (if he_IsEpochInConfig (verifier mar sv) (he_GetEpoch (verifier mar sv) header) nc then nc' = nc
       else \<exists>v seed. GetValidatorsInfoPerEpoch (verifier mar sv) (he_GetEpoch (verifier mar sv) header) = Inr (v, seed)
              \<and> he_SetNodesConfig (verifier mar sv) (he_GetEpoch (verifier mar sv) header) seed v nc = (None, nc'))"
proof -
  obtain eec where "header_verify lib ks hp verifier eec = Some [LogInfo ''header signature matches'']"
    using assms(1) unfolding header_main_def or_log_info by (auto split: option.splits)
  then obtain p mar sv nc where n: "NewHeaderCheckHandler lib ks (Some hp) (Some eec) = Some (Inr ((p, mar), sv, nc))"
    and v: "(case fst (VerifyHeaderSignatureByHash (verifier mar sv) 2 example_headerHash nc) of
                (ok, Some err) \<Rightarrow> Some [LogError ''error verifying header signature'' (Some err)]
              | (ok, None) \<Rightarrow>
                  Some [LogInfo (if \<not> ok then ''header signature does not match'' else ''header signature matches'')])
        = Some [LogInfo ''header signature matches'']"
    unfolding header_verify_def by (auto simp: or_log_info split: option.splits)
  obtain r nc' where h: "VerifyHeaderSignatureByHash (verifier mar sv) 2 example_headerHash nc = (r, nc')" by fastforce
  have ok: "fst r" using v unfolding h by (auto split: prod.splits option.splits if_splits)
  from header_check_wired [OF n assms(2)] VerifyHeaderSignatureByHash_exact [OF h, THEN iffD1, OF ok]
  show ?thesis by blast
qed

section \<open>Properties\<close>

text \<open>C36. The account program shows the balance that the gateway reports: when configuration and account are
  served and the balance is a decimal number, it logs the nonce and the balance as they are, and a text with
  six decimals whose value differs from the balance in whole tokens by at most half a unit of the last
  decimal and four parts in \<open>2 ^ 53\<close> of the balance, through the division of \<^verbatim>\<open>big.Float\<close> values, the conversion
  to \<^verbatim>\<open>float64\<close> and the formatting. Whatever the gateway answers, the program panics only on a null.\<close>

theorem account_main_balance:
  assumes "getNetworkConfigFromSource (pe_config (gw_env w)) (cc_http (cli_call w TestnetGateway 0)) = Inr (Some cfg)"
    and "NewAddressFromBech32String (env_pkc env) example_account = Inr addr" and "addr_IsValid addr"
    and "AddressAsBech32String (env_pkc env) addr = Inr s"
    and "get_reply (cc_http (cli_call w TestnetGateway 1)) (gw_account w) (ep_GetAccount s) = Inr (Some info)"
    and "acc_Balance info = dec_of_nat n" and "of_nat n \<le> (2 :: rat) ^ 1000" and "nat (nc_Denomination cfg) \<le> 300"
  shows "(\<exists>whole decimals k. account_main env other w = Some [LogInfo \<lparr>ad_address = example_account, ad_nonce = acc_Nonce info,
        ad_float_balance = whole @ ''.'' @ decimals, ad_int_balance = dec_of_nat n\<rparr>]
      \<and> length decimals = 6 \<and> dec_val whole = Some (k div 10 ^ 6) \<and> dec_val decimals = Some (k mod 10 ^ 6)
      \<and> \<bar>of_nat k / 10 ^ 6 - of_nat n / 10 ^ nat (nc_Denomination cfg)\<bar>
          \<le> 1 / (2 * 10 ^ 6) + 4 / 2 ^ 53 * (of_nat n / 10 ^ nat (nc_Denomination cfg) :: rat))
    \<and> (\<forall>w'. account_main env other w' = None \<longrightarrow>
         getNetworkConfigFromSource (pe_config (gw_env w')) (cc_http (cli_call w' TestnetGateway 0)) = Inr None
       \<or> (\<exists>t. get_reply (cc_http (cli_call w' TestnetGateway 1)) (gw_account w') (ep_GetAccount t) = Inr None))"
proof -
  let ?x = "of_nat n / 10 ^ nat (nc_Denomination cfg) :: rat"
  obtain q where q: "GetBalance other (nc_Denomination cfg) info = Inr (Fin q)" "\<bar>q - ?x\<bar> \<le> 4 / 2 ^ 53 * ?x"
    using GetBalance_accurate [OF assms(6,6) order.refl assms(7,8)] by blast
  have x: "0 \<le> ?x" by simp
  have "0 \<le> q" using q(2) x by (simp add: abs_if split: if_splits)
  then obtain k where k: "Sprintf_6f (Fin q) = fixed6 k" "\<bar>of_nat k / 10 ^ 6 - q\<bar> \<le> 1 / (2 * 10 ^ 6)" using Sprintf_6f_near by blast
  obtain whole decimals where f: "fixed6 k = whole @ ''.'' @ decimals" "length decimals = 6" "dec_val whole = Some (k div 10 ^ 6)"
    "dec_val decimals = Some (k mod 10 ^ 6)" using fixed6_reads [of k] by blast
  have c: "checked_address (cli_env env w) (Some addr) = Inr s" using assms(3,4) by (simp add: checked_address_def cli_env_def)
  have "account_main env other w = Some [LogInfo \<lparr>ad_address = example_account, ad_nonce = acc_Nonce info,
      ad_float_balance = fixed6 k, ad_int_balance = dec_of_nat n\<rparr>]"
    unfolding account_main_steps assms(1,2) or_log_simps c by (simp add: assms(5) [simplified] assms(6) q(1) k(1))
  moreover have "\<bar>of_nat k / 10 ^ 6 - ?x\<bar> \<le> 1 / (2 * 10 ^ 6) + 4 / 2 ^ 53 * ?x" using k(2) q(2) by linarith
  ultimately have "\<exists>whole decimals k. account_main env other w = Some [LogInfo \<lparr>ad_address = example_account, ad_nonce = acc_Nonce info,
        ad_float_balance = whole @ ''.'' @ decimals, ad_int_balance = dec_of_nat n\<rparr>]
    \<and> length decimals = 6 \<and> dec_val whole = Some (k div 10 ^ 6) \<and> dec_val decimals = Some (k mod 10 ^ 6)
    \<and> \<bar>of_nat k / 10 ^ 6 - ?x\<bar> \<le> 1 / (2 * 10 ^ 6) + 4 / 2 ^ 53 * ?x"
    using f by metis
  then show ?thesis using account_main_panics [of env other] by blast
qed

definition demo_account_converter :: pubkey_converter where
  "demo_account_converter = \<lparr>pkc_Encode = (\<lambda>_. Inr example_account), pkc_Decode = (\<lambda>_. Inr (replicate 32 1))\<rparr>"

definition demo_account_env :: "(byte list, byte list) crypto_env" where
  "demo_account_env = demo_cli_env\<lparr>env_pkc := demo_account_converter\<rparr>"

definition demo_account_gateway :: gateway where
  "demo_account_gateway = demo_gateway\<lparr>gw_account := (\<lambda>_. Inr ([], Some \<lparr>acc_Address = example_account, acc_Nonce = 7,
     acc_Balance = dec_of_nat 1500000000000000000\<rparr>))\<rparr>"

theorem account_main_balance_witness:
  "\<exists>whole decimals k. account_main demo_account_env (\<lambda>_. None) demo_account_gateway = Some [LogInfo \<lparr>ad_address = example_account, ad_nonce = 7,
        ad_float_balance = whole @ ''.'' @ decimals, ad_int_balance = dec_of_nat 1500000000000000000\<rparr>]
    \<and> length decimals = 6 \<and> dec_val whole = Some (k div 10 ^ 6) \<and> dec_val decimals = Some (k mod 10 ^ 6)
    \<and> \<bar>of_nat k / 10 ^ 6 - of_nat 1500000000000000000 / 10 ^ nat 18\<bar>
        \<le> 1 / (2 * 10 ^ 6) + 4 / 2 ^ 53 * (of_nat 1500000000000000000 / 10 ^ nat 18 :: rat)"
proof -
  have call: "cli_call demo_account_gateway = cli_call demo_gateway"
    by (simp add: demo_account_gateway_def cli_call_def fun_eq_iff)
  have n: "getNetworkConfigFromSource (pe_config (gw_env demo_account_gateway)) (cc_http (cli_call demo_account_gateway TestnetGateway 0))
      = Inr (Some demo_cli_cfg)"
    unfolding call using demo_network_config by (simp add: demo_account_gateway_def)
  have a: "NewAddressFromBech32String (env_pkc demo_account_env) example_account = Inr \<lparr>addr_bytes = replicate 32 1\<rparr>"
    "AddressAsBech32String (env_pkc demo_account_env) \<lparr>addr_bytes = replicate 32 1\<rparr> = Inr example_account"
    by (simp_all add: NewAddressFromBech32String_def AddressAsBech32String_def demo_account_env_def demo_account_converter_def del: replicate.simps)
  have v: "addr_IsValid \<lparr>addr_bytes = replicate 32 1\<rparr>" by (simp add: addr_IsValid_def AddressBytesLen_def del: replicate.simps)
  have g: "get_reply (cc_http (cli_call demo_account_gateway TestnetGateway 1)) (gw_account demo_account_gateway) (ep_GetAccount example_account)
      = Inr (Some \<lparr>acc_Address = example_account, acc_Nonce = 7, acc_Balance = dec_of_nat 1500000000000000000\<rparr>)"
    unfolding call by (simp add: demo_account_gateway_def demo_world)
  have "of_nat 1500000000000000000 \<le> (2 :: rat) ^ 100" by simp
  also have "\<dots> \<le> 2 ^ 1000" by (intro power_increasing) simp_all
  finally have b: "of_nat 1500000000000000000 \<le> (2 :: rat) ^ 1000" .
  show ?thesis
    using account_main_balance [OF n a(1) v a(2) g _ b, of "\<lambda>_. None"] by (simp add: demo_cli_cfg_def demo_cfg_def)
qed

end
