(* ===== verification/Oracle_App.thy ===== *)
theory Oracle_App
  imports Cli Native_Auth Price_Fetchers Price_Aggregator Price_Notifier Polling
begin

text \<open>
  The price aggregator application (\<^verbatim>\<open>examples/examplesPriceAggregator\<close>): it creates a fetcher for every exchange,
  the authenticated client that the XExchange fetcher needs, the aggregator, the price notifier and the
  polling handler that drives it. The fetchers are pointers that the aggregator shares, so the pairs that
  are added after its creation are known to it; the state of the application holds them once.
\<close>

section \<open>Fetchers\<close>

definition ImplementedFetchers :: "string \<rightharpoonup> unit" where
  "ImplementedFetchers = [BinanceName \<mapsto> (), BitfinexName \<mapsto> (), CryptocomName \<mapsto> (), GeminiName \<mapsto> (), HitbtcName \<mapsto> (),
     HuobiName \<mapsto> (), KrakenName \<mapsto> (), OkxName \<mapsto> (), XExchangeName \<mapsto> ()]"

text \<open>The methods \<^verbatim>\<open>Name\<close> of the implementations.\<close>

fun fetcher_Name :: "fetcher \<Rightarrow> string" where
  "fetcher_Name (FBinance b) = BinanceName"
| "fetcher_Name (FBitfinex b) = BitfinexName"
| "fetcher_Name (FCryptocom b) = CryptocomName"
| "fetcher_Name (FGemini b) = GeminiName"
| "fetcher_Name (FHitbtc b) = HitbtcName"
| "fetcher_Name (FHuobi b) = HuobiName"
| "fetcher_Name (FKraken b) = KrakenName"
| "fetcher_Name (FOkx b) = OkxName"
| "fetcher_Name (FXExchange t b) = XExchangeName"
| "fetcher_Name (FEvmGas c b) = EVMGasPriceStation @ '' when using selector '' @ gc_Selector c"

definition createXExchangeMap :: "string \<rightharpoonup> XExchangeTokensPair" where
  "createXExchangeMap = [''ETH-USD'' \<mapsto> \<lparr>xp_Base = ''WETH-b4ca29'', xp_Quote = ''USDC-c76f1f''\<rparr>]"

definition oracleProxyArgs :: "unit ArgsProxy" where
  "oracleProxyArgs = \<lparr>ap_SameScState = False, ap_ShouldBeSynced = False, ap_FinalityCheck = False,
     ap_AllowedDeltaToFinal = 1, ap_CacheExpirationTime = 1000000000, ap_EntityType = ProxyEntity,
     ap_FilterQueryBlockCacher = None\<rparr>"

text \<open>The error of the holder is ignored; the constructor of the client refuses a nil holder. The extra information is
  the empty struct.\<close>

definition createAuthClient :: "('sk, 'pk) crypto_env \<Rightarrow> wallet_lib \<Rightarrow> ('sk, 'pk) authClient result" where
  "createAuthClient env wl =
     on_ok (LoadPrivateKeyFromPemData wl (bytes_of_string AlicePemContents)) (\<lambda>privateKeyBytes.
     on_ok (NewProxy () oracleProxyArgs) (\<lambda>proxy.
     let holder = (case NewCryptoComponentsHolder env privateKeyBytes of Inl _ \<Rightarrow> None | Inr h \<Rightarrow> Some h)
     in NewNativeAuthClient (Some (NewSigner env)) (Inr (bytes_of_string ''{}'')) (Some proxy) (Some ()) holder
          (60 * 60 * 24) ''oracle''))"

definition createGraphqlResponseGetter :: "('sk, 'pk) crypto_env \<Rightarrow> wallet_lib \<Rightarrow> ('sk, 'pk) authClient result" where
  "createGraphqlResponseGetter env wl = on_ok (createAuthClient env wl) (\<lambda>authClient. NewGraphqlResponseGetter (Some authClient))"

text \<open>The loop over the exchanges, in the order in which the map is visited. The HTTP response getter has no state and its
  constructor cannot fail.\<close>

primrec fetchers_loop :: "'g option \<Rightarrow> string list \<Rightarrow> fetcher list \<Rightarrow> fetcher list result" where
  "fetchers_loop gg [] priceFetchers = Inr priceFetchers"
| "fetchers_loop gg (exchangeName # rest) priceFetchers =
     on_ok (NewPriceFetcher exchangeName (Some ()) gg (Some createXExchangeMap) \<lparr>gc_ApiURL = [], gc_Selector = []\<rparr>)
       (\<lambda>priceFetcher. fetchers_loop gg rest (priceFetchers @ [priceFetcher]))"

definition createPriceFetchers :: "('sk, 'pk) crypto_env \<Rightarrow> wallet_lib \<Rightarrow> string list \<Rightarrow> fetcher list result" where
  "createPriceFetchers env wl ks =
     on_ok (createGraphqlResponseGetter env wl) (\<lambda>graphqlResponseGetter. fetchers_loop (Some graphqlResponseGetter) ks [])"

definition addPairToFetchers :: "ArgsPair \<Rightarrow> fetcher list \<Rightarrow> fetcher list" where
  "addPairToFetchers p = map (\<lambda>f. if fetcher_Name f \<in> set (ap_Exchanges p) then fetcher_AddPair (ap_Base p) (ap_Quote p) f else f)"

definition addPairsToFetchers :: "ArgsPair list \<Rightarrow> fetcher list \<Rightarrow> fetcher list" where
  "addPairsToFetchers pairs fs = fold addPairToFetchers pairs fs"

section \<open>The application\<close>

record oracleApp =
  oa_fetchers :: "fetcher list"
  oa_aggregator :: priceAggregator
  oa_notifier :: priceNotifier
  oa_polling :: pollingHandler

definition oraclePair :: "string list \<Rightarrow> ArgsPair" where
  "oraclePair ks = \<lparr>ap_Base = ''ETH'', ap_Quote = ''USD'', ap_PercentDifferenceToNotify = 1, ap_Decimals = 2, ap_Exchanges = ks\<rparr>"

text \<open>\<^verbatim>\<open>runApp\<close> up to the wait for the signal. \<open>call\<close> says how a fetcher answers; the polling loop calls the notifier
  with the aggregator below.\<close>

definition oracle_runApp ::
  "('sk, 'pk) crypto_env \<Rightarrow> wallet_lib \<Rightarrow> string list \<Rightarrow> (fetcher \<Rightarrow> price_fetcher) \<Rightarrow> int \<Rightarrow> oracleApp result" where
  "oracle_runApp env wl ks call now =
     on_ok (createPriceFetchers env wl ks) (\<lambda>priceFetchers.
     on_ok (NewPriceAggregator (map (Some \<circ> call) priceFetchers) 3) (\<lambda>agg.
     let pairs = [oraclePair ks]
     in on_ok (NewPriceNotifier (map Some pairs) (Some agg) (Some ()) 10000000000 now) (\<lambda>priceNotifier.
     let fs = addPairsToFetchers pairs priceFetchers
     in on_ok (NewPollingHandler (Some ()) 2000000000 2000000000 (Some priceNotifier)) (\<lambda>pollingHandler.
     case StartProcessingLoop pollingHandler of
       (Some err, _) \<Rightarrow> Inl err
     | (None, ph) \<Rightarrow> Inr \<lparr>oa_fetchers = fs, oa_aggregator = agg\<lparr>pa_priceFetchers := map call fs\<rparr>,
         oa_notifier = priceNotifier, oa_polling = ph\<rparr>))))"

section \<open>Lemmas\<close>

lemma NewPriceFetcher_names:
  assumes "NewPriceFetcher n (Some r) (Some g) (Some t) c = Inr f" and "n \<in> dom ImplementedFetchers"
  shows "fetcher_Name f = n"
proof -
  have "createFetcher n (Some t) c = Inr f" using assms(1) by (simp add: NewPriceFetcher_def)
  moreover have "n \<noteq> EVMGasPriceStation"
    using assms(2) by (auto simp: ImplementedFetchers_def BinanceName_def BitfinexName_def CryptocomName_def GeminiName_def
        HitbtcName_def HuobiName_def KrakenName_def OkxName_def XExchangeName_def EVMGasPriceStation_def split: if_splits)
  ultimately show ?thesis by (auto simp: createFetcher_def split: if_splits)
qed

lemma NewPriceFetcher_implemented:
  assumes "n \<in> dom ImplementedFetchers"
  shows "\<exists>f. NewPriceFetcher n (Some r) (Some g) (Some t) c = Inr f"
proof -
  have "n \<in> {BinanceName, BitfinexName, CryptocomName, GeminiName, HitbtcName, HuobiName, KrakenName, OkxName, XExchangeName}"
    using assms by (auto simp: ImplementedFetchers_def split: if_splits)
  then have "\<exists>f. createFetcher n (Some t) c = Inr f" unfolding createFetcher_def by auto
  then show ?thesis by (simp add: NewPriceFetcher_def)
qed

lemma fetchers_loop_ok:
  assumes "set ks \<subseteq> dom ImplementedFetchers"
  shows "\<exists>fs. fetchers_loop (Some g) ks acc = Inr (acc @ fs) \<and> map fetcher_Name fs = ks \<and> (\<forall>f\<in>set fs. fetcher_base f = newBaseFetcher)"
  using assms
proof (induction ks arbitrary: acc)
  case (Cons k ks)
  then obtain f where f: "NewPriceFetcher k (Some ()) (Some g) (Some createXExchangeMap) \<lparr>gc_ApiURL = [], gc_Selector = []\<rparr> = Inr f"
    using NewPriceFetcher_implemented by (metis list.set_intros(1) subsetD)
  obtain fs where "fetchers_loop (Some g) ks (acc @ [f]) = Inr ((acc @ [f]) @ fs)" "map fetcher_Name fs = ks"
    "\<forall>f\<in>set fs. fetcher_base f = newBaseFetcher" using Cons by (metis insert_subset list.set(2))
  with f Cons.prems NewPriceFetcher_names [OF f] fetcher_base_new [OF f] show ?case
    by (intro exI [of _ "f # fs"]) simp
qed simp

lemma oracle_proxy: "\<exists>ep. NewProxy () oracleProxyArgs = Inr ep"
  by (simp add: oracleProxyArgs_def NewProxy_def checkArgsProxy_def CreateEndpointProvider_def newBaseProxy_def
      checkArgsBaseProxy_def minimumCachingInterval_def bp_GetRestAPIEntityType_def CreateFinalityProvider_def)

lemma createGraphqlResponseGetter_iff:
  "(\<exists>c. createGraphqlResponseGetter env wl = Inr c) \<longleftrightarrow>
     (\<exists>sk h. LoadPrivateKeyFromPemData wl (bytes_of_string AlicePemContents) = Inr sk \<and> NewCryptoComponentsHolder env sk = Inr h)"
proof -
  obtain ep where "NewProxy () oracleProxyArgs = Inr ep" using oracle_proxy by blast
  then show ?thesis
    by (cases "LoadPrivateKeyFromPemData wl (bytes_of_string AlicePemContents)";
        cases "NewCryptoComponentsHolder env (projr (LoadPrivateKeyFromPemData wl (bytes_of_string AlicePemContents)))")
      (simp_all add: createGraphqlResponseGetter_def createAuthClient_def NewNativeAuthClient_def NewGraphqlResponseGetter_def)
qed

lemma addPair_knows:
  assumes "map fetcher_Name fs = ks"
  shows "map fetcher_Name (addPairsToFetchers [oraclePair ks] fs) = ks
    \<and> (\<forall>f\<in>set (addPairsToFetchers [oraclePair ks] fs). hasPair ''ETH'' ''USD'' (fetcher_base f))"
proof -
  have n: "fetcher_Name (fetcher_AddPair b q f) = fetcher_Name f" for b q f by (cases f) simp_all
  have "fetcher_Name f \<in> set ks" if "f \<in> set fs" for f using assms that by auto
  with assms n show ?thesis by (auto simp: addPairsToFetchers_def addPairToFetchers_def oraclePair_def hasPair_AddPair)
qed

lemma implemented_count:
  assumes "go_range ImplementedFetchers ks"
  shows "length ks = 9"
proof -
  have "dom ImplementedFetchers = set [BinanceName, BitfinexName, CryptocomName, GeminiName, HitbtcName, HuobiName, KrakenName, OkxName, XExchangeName]"
    by (auto simp: ImplementedFetchers_def)
  moreover have "distinct [BinanceName, BitfinexName, CryptocomName, GeminiName, HitbtcName, HuobiName, KrakenName, OkxName, XExchangeName]"
    by (simp add: BinanceName_def BitfinexName_def CryptocomName_def GeminiName_def HitbtcName_def HuobiName_def KrakenName_def
        OkxName_def XExchangeName_def)
  ultimately have "card (dom ImplementedFetchers) = 9" using distinct_card by fastforce
  with go_range_length [OF assms] show ?thesis by simp
qed

lemma oracle_aggregator:
  assumes "length fs = 9"
  shows "NewPriceAggregator (map (Some \<circ> call) fs) 3 = Inr \<lparr>pa_priceFetchers = map call fs, pa_minResultsNum = 3\<rparr>"
proof -
  have "filter (\<lambda>i. Option.is_none (map (Some \<circ> call) fs ! i)) [0..<length (map (Some \<circ> call) fs)] = []"
    by (auto simp: filter_empty_conv)
  with assms show ?thesis by (simp add: NewPriceAggregator_def pa_checkArgs_def minResultsNum_def)
qed

lemma oracle_notifier:
  assumes "ks \<noteq> []"
  shows "\<exists>pn. NewPriceNotifier [Some (oraclePair ks)] (Some agg) (Some ()) 10000000000 now = Inr pn"
  using assms by (simp add: NewPriceNotifier_def checkArgsPriceNotifier_def minAutoSendInterval_def oraclePair_def newPair_def checkPairArgs_def
      minDecimals_def maxDecimals_def Let_def)

lemma oracle_running:
  assumes "go_range ImplementedFetchers ks" and "createGraphqlResponseGetter env wl = Inr c"
  shows "\<exists>app. oracle_runApp env wl ks call now = Inr app \<and> map fetcher_Name (oa_fetchers app) = ks
    \<and> (\<forall>f\<in>set (oa_fetchers app). hasPair ''ETH'' ''USD'' (fetcher_base f))
    \<and> oa_aggregator app = \<lparr>pa_priceFetchers = map call (oa_fetchers app), pa_minResultsNum = 3\<rparr>
    \<and> notifier_ok (oa_notifier app) \<and> IsRunning (oa_polling app)"
proof -
  have "set ks \<subseteq> dom ImplementedFetchers" using assms(1) by (simp add: go_range_def)
  from fetchers_loop_ok [OF this, of c "[]"] obtain fs where
    fs: "fetchers_loop (Some c) ks [] = Inr fs" "map fetcher_Name fs = ks" by auto
  have n: "length ks = 9" by (rule implemented_count [OF assms(1)])
  then have "length fs = 9" using fs(2) by auto
  note agg = oracle_aggregator [OF this, of call]
  have "ks \<noteq> []" using n by auto
  from oracle_notifier [OF this, of "\<lparr>pa_priceFetchers = map call fs, pa_minResultsNum = 3\<rparr>" now] obtain pn where
    pn: "NewPriceNotifier [Some (oraclePair ks)] (Some \<lparr>pa_priceFetchers = map call fs, pa_minResultsNum = 3\<rparr>) (Some ()) 10000000000 now = Inr pn"
    by blast
  have "oracle_runApp env wl ks call now = Inr \<lparr>oa_fetchers = addPairsToFetchers [oraclePair ks] fs,
      oa_aggregator = \<lparr>pa_priceFetchers = map call (addPairsToFetchers [oraclePair ks] fs), pa_minResultsNum = 3\<rparr>,
      oa_notifier = pn, oa_polling = snd (StartProcessingLoop \<lparr>ph_pollingInterval = 2000000000, ph_pollingWhenError = 2000000000,
        ph_cancel = None, ph_loops = []\<rparr>)\<rparr>"
    using agg pn by (simp add: oracle_runApp_def createPriceFetchers_def assms(2) fs(1) NewPollingHandler_def poll_checkArgs_def
        minimumPollingInterval_def StartProcessingLoop_def Let_def)
  with addPair_knows [OF fs(2)] NewPriceNotifier_ok [OF pn] show ?thesis
    by (simp add: StartProcessingLoop_def IsRunning_def)
qed

section \<open>Properties\<close>

text \<open>The price aggregator application starts exactly when the key of its authentication client can be loaded and
  used, in whatever order the map of the exchanges is visited. Once started it has one fetcher for each of
  the nine exchanges, all of which know the configured pair, so none of them refuses it as not supported;
  the notifier satisfies its invariant, and one polling loop runs. When more than half of the answers of
  the fetchers, and at least three, lie in a range, the price of the pair lies in it.\<close>

lemma oracle_app_starts:
  assumes "go_range ImplementedFetchers ks"
  shows "((\<exists>app. oracle_runApp env wl ks call now = Inr app) \<longleftrightarrow>
      (\<exists>sk h. LoadPrivateKeyFromPemData wl (bytes_of_string AlicePemContents) = Inr sk \<and> NewCryptoComponentsHolder env sk = Inr h))
    \<and> (\<forall>app. oracle_runApp env wl ks call now = Inr app \<longrightarrow>
        map fetcher_Name (oa_fetchers app) = ks \<and> (\<forall>f\<in>set (oa_fetchers app). hasPair ''ETH'' ''USD'' (fetcher_base f))
      \<and> pa_priceFetchers (oa_aggregator app) = map call (oa_fetchers app) \<and> notifier_ok (oa_notifier app) \<and> IsRunning (oa_polling app)
      \<and> (\<forall>order a b. fetch_order (oa_aggregator app) order \<and> is_float a \<and> is_float b \<and> - (2 ^ 1022) \<le> a \<and> b \<le> 2 ^ 1022
          \<and> 3 \<le> length (answers (oa_aggregator app) ''ETH'' ''USD'')
          \<and> length (answers (oa_aggregator app) ''ETH'' ''USD'') < 2 * length (filter (in_range a b) (answers (oa_aggregator app) ''ETH'' ''USD''))
          \<longrightarrow> (\<exists>p. pa_FetchPrice (oa_aggregator app) order ''ETH'' ''USD'' = Inr (Fin p) \<and> a \<le> p \<and> p \<le> b)))"
proof -
  have started: "(\<exists>app. oracle_runApp env wl ks call now = Inr app) \<longleftrightarrow> (\<exists>c. createGraphqlResponseGetter env wl = Inr c)"
  proof
    assume "\<exists>app. oracle_runApp env wl ks call now = Inr app"
    then show "\<exists>c. createGraphqlResponseGetter env wl = Inr c"
      unfolding oracle_runApp_def createPriceFetchers_def by (cases "createGraphqlResponseGetter env wl") simp_all
  qed (use oracle_running [OF assms] in blast)
  have facts: "map fetcher_Name (oa_fetchers app) = ks \<and> (\<forall>f\<in>set (oa_fetchers app). hasPair ''ETH'' ''USD'' (fetcher_base f))
      \<and> oa_aggregator app = \<lparr>pa_priceFetchers = map call (oa_fetchers app), pa_minResultsNum = 3\<rparr>
      \<and> notifier_ok (oa_notifier app) \<and> IsRunning (oa_polling app)"
    if "oracle_runApp env wl ks call now = Inr app" for app
    using started oracle_running [OF assms, of env wl _ call now] that by fastforce
  have price: "\<exists>p. pa_FetchPrice pa order ''ETH'' ''USD'' = Inr (Fin p) \<and> a \<le> p \<and> p \<le> b"
    if "fetch_order pa order" "is_float a" "is_float b" "- (2 ^ 1022) \<le> a" "b \<le> 2 ^ 1022" "pa_minResultsNum pa = 3"
      "3 \<le> length (answers pa ''ETH'' ''USD'')"
      "length (answers pa ''ETH'' ''USD'') < 2 * length (filter (in_range a b) (answers pa ''ETH'' ''USD''))" for pa order a b
  proof -
    note t = that
    obtain m where m: "computeMedian (answers pa ''ETH'' ''USD'') = Inr m" "in_range a b m"
      using computeMedian_within [OF t(2,3,8,4,5)] by blast
    with within_Fin [OF m(2)] pa_FetchPrice_answers [OF t(1)] t(6,7) show ?thesis by auto
  qed
  show ?thesis
    unfolding started createGraphqlResponseGetter_iff using facts price by (intro conjI refl allI impI) auto
qed

lemma oracle_app_starts_example:
  "\<exists>ks app. oracle_runApp demo_cli_env demo_cli_lib ks (\<lambda>f b q. Inr (Fin 1)) 0 = Inr app
     \<and> (\<forall>f\<in>set (oa_fetchers app). hasPair ''ETH'' ''USD'' (fetcher_base f))"
proof -
  have "finite (dom ImplementedFetchers)" by (simp add: ImplementedFetchers_def)
  then obtain ks where ks: "go_range ImplementedFetchers ks" using go_range_ex by blast
  obtain sk h where "LoadPrivateKeyFromPemData demo_cli_lib (bytes_of_string AlicePemContents) = Inr sk" "NewCryptoComponentsHolder demo_cli_env sk = Inr h"
    using demo_pem demo_holders by blast
  with oracle_app_starts [OF ks, of demo_cli_env demo_cli_lib "\<lambda>f b q. Inr (Fin 1)" 0] show ?thesis by blast
qed

end
