(* ===== verification/Spec2Isabelle.thy ===== *)
theory Spec2Isabelle
  imports Go_Prelude Sdk_Errors Go_Encoding Serde Map_Cacher Sdk_Data Builders Tx_Builder
    Interactors_Base Nonce_V1 Nonce_V2 Tx_Heap Tx_Worker Nonce_V3 Tx_Interactor Http_Base Native_Auth
    Endpoints Finality Base_Proxy Account_Query Block_Proxy Log_Filter Vm_Query Polling
    Wallet_Tracker Tracker_Steps Move_Balance Wallet Float64 Price_Aggregator Price_Fetchers Price_Notifier Mx_Notifee
    Header_Check Address_Generator Account_Balance Cli
    Header_Wiring Web_Server Lib_Bls Wallet_Flow Tx_Pointers Sdk_Examples Oracle_App Disabled
begin

text \<open>
  The MultiversX Go SDK (\<^verbatim>\<open>mx-sdk-go\<close>), a library for programs that talk to a MultiversX network: it builds,
  signs and sends transactions, keeps track of account nonces, queries the network through a gateway,
  decodes contract results, authenticates clients, and aggregates prices for an oracle contract.

  \<^bold>\<open>Conventions.\<close> A Go call that returns \<^verbatim>\<open>(value, error)\<close> is a value of type \<open>'a result = go_error + 'a\<close>; where
  the source returns a value beside the error the model returns the pair. A run-time panic and a loop
  that does not end are \<open>None\<close>. Machine integers are words and wrap; \<^verbatim>\<open>*big.Int\<close> is \<open>int\<close>; a duration or an
  instant is an integer number of nanoseconds. A Go map is a partial function, and a loop over one takes
  the visiting order as an argument, constrained only by \<open>go_range\<close>. Operations under a mutex are atomic
  functions on a state record. The network, the clock and the random source answer differently from call
  to call, so an operation takes them as they answer during that operation, and a sequence of operations
  takes a sequence of them. Code of other modules (\<^verbatim>\<open>mx-chain-core-go\<close>, \<^verbatim>\<open>mx-chain-go\<close>,
  \<^verbatim>\<open>mx-chain-crypto-go\<close>, \<^verbatim>\<open>bip39\<close>, \<^verbatim>\<open>scrypt\<close>, \<^verbatim>\<open>oauth2\<close>) is an argument or a field of an environment record; what is
  relied on of it is a named law (\<open>sig_law\<close>, \<open>pkc_law\<close>, \<open>keystore_law\<close>, \<open>pem_law\<close>, \<open>sha512_law\<close>,
  \<open>nonce_handler_law\<close>, \<open>coordinator_law\<close>, \<open>empty_key_law\<close>, \<open>bls_law\<close>), for which the theories have a concrete instance.

  \<^bold>\<open>Foundations.\<close>
  \<^item> \<open>Go_Prelude\<close>: integer types, slices with their bounds check, map ranges, shared lemmas.
  \<^item> \<open>Sdk_Errors\<close>: one datatype per \<^verbatim>\<open>errors.go\<close>, wrapping with \<^verbatim>\<open>fmt.Errorf\<close>, \<^verbatim>\<open>errors.Is\<close>.
  \<^item> \<open>Go_Encoding\<close>: big endian, big integers, hex, base64, decimal text, string functions, durations.
  \<^item> \<open>Float64\<close>: Go's \<^verbatim>\<open>float64\<close> with rounding to nearest, subnormal numbers and overflow, and the facts of
    rounding analysis.
  \<^item> \<open>Sdk_Data\<close>: addresses, accounts, configurations, queries and transactions (\<^verbatim>\<open>data/\<close>).
  \<^item> \<open>Account_Balance\<close>: \<^verbatim>\<open>Account.GetBalance\<close> (\<^verbatim>\<open>data/account.go\<close>) over \<^verbatim>\<open>big.Float\<close>; the shown balance is monotone
    and within a few units in the last place of the exact one.

  \<^bold>\<open>Decoding and caches.\<close>
  \<^item> \<open>Serde\<close> (\<^verbatim>\<open>serde/\<close>): the byte cursor and the reflective deserializer. Decoding inverts the nested
    encoding, never panics, reports at most the input as used, and keeps the types of the target.
  \<^item> \<open>Map_Cacher\<close> (\<^verbatim>\<open>storage/mapCacher.go\<close>, \<^verbatim>\<open>disabled/cache.go\<close>): the locales \<open>cacher\<close> and \<open>exact_cacher\<close>
    are the contract that the native authentication server and the log filter rely on; both caches are
    interpretations of it. The answers after any history are those of an abstract map.

  \<^bold>\<open>Transactions.\<close>
  \<^item> \<open>Builders\<close> (\<^verbatim>\<open>builders/baseBuilder.go\<close>, \<^verbatim>\<open>txDataBuilder.go\<close>, \<^verbatim>\<open>vmQueryBuilder.go\<close>): for every chain of
    calls the data field decodes to the arguments, or the error of the first bad one is reported. The
    locale \<open>sticky_builder\<close> holds the argument for both builders.
  \<^item> \<open>Tx_Builder\<close> (\<^verbatim>\<open>builders/txBuilder.go\<close>, the relayed builders, \<^verbatim>\<open>blockchain/cryptoProvider\<close>,
    \<^verbatim>\<open>txcheck/sigcheck.go\<close>): what user and guardian sign is accepted by the signature check.
  \<^item> \<open>Interactors_Base\<close>: the proxy interface of \<^verbatim>\<open>interactors\<close> and the locales \<open>nonce_source\<close> and
    \<open>handler_registry\<close>, interpreted by the handlers of each version.
  \<^item> \<open>Nonce_V1\<close>, \<open>Nonce_V2\<close>, \<open>Nonce_V3\<close> (\<^verbatim>\<open>interactors/nonceHandlerV1\<close>, \<^verbatim>\<open>V2\<close>, \<^verbatim>\<open>V3\<close>): nonces are consecutive,
    a resend sweep resends exactly the pending transactions, replacements need more gas.
  \<^item> \<open>Tx_Heap\<close>, \<open>Tx_Worker\<close> (\<^verbatim>\<open>nonceHandlerV3/workers\<close>): \<^verbatim>\<open>container/heap\<close> on the queue of the worker, which
    satisfies the locale \<open>priority_queue\<close>; the worker and its callers as a step relation. In every
    reachable state each caller has at most one answer and gets its own, no send blocks, and the queue
    drains in the order of nonces.
  \<^item> \<open>Tx_Interactor\<close> (\<^verbatim>\<open>interactors/transaction.go\<close>): sending in bunches. \<open>Tx_Pointers\<close> has the interactor over an
    explicit store, since it accumulates pointers, and shows that it refines the one over values for callers
    that do not write to a transaction they added; \<^verbatim>\<open>examples/examplesTransaction\<close> does write.
  \<^item> \<open>Wallet\<close> (\<^verbatim>\<open>interactors/wallet.go\<close>, \<^verbatim>\<open>data/mnemonic.go\<close>): key derivation equals SLIP-0010; JSON and PEM
    key files load what was saved. The locale \<open>stream_cipher\<close> is interpreted by the CTR mode.
  \<^item> \<open>Wallet_Tracker\<close>, \<open>Tracker_Steps\<close>, \<open>Move_Balance\<close> (\<^verbatim>\<open>workflows/\<close>): a round of the tracker refines an abstract
    tracker and ends except in one case; its goroutine, cut into the steps that other goroutines can observe,
    loses no deposit and counts none twice, pops in the middle of a block included; a sweep empties accounts
    with signed transactions through the transaction interactor.

  \<^bold>\<open>The network.\<close>
  \<^item> \<open>Http_Base\<close> (\<^verbatim>\<open>core/http\<close>), \<open>Endpoints\<close> (\<^verbatim>\<open>blockchain/endpointProviders\<close>, \<^verbatim>\<open>factory\<close>), \<open>Base_Proxy\<close>
    (\<^verbatim>\<open>baseProxy.go\<close>, \<^verbatim>\<open>shardCoordinator.go\<close>), \<open>Account_Query\<close> (\<^verbatim>\<open>core/api.go\<close>), \<open>Block_Proxy\<close> and \<open>Log_Filter\<close>
    (\<^verbatim>\<open>proxy.go\<close>), \<open>Vm_Query\<close> (\<^verbatim>\<open>vmQueryGetter.go\<close>), \<open>Finality\<close> (\<^verbatim>\<open>finalityProvider\<close>), \<open>Polling\<close>
    (\<^verbatim>\<open>core/polling\<close>), \<open>Address_Generator\<close> (\<^verbatim>\<open>addressGenerator.go\<close>) with the stubs
    of \<open>Disabled\<close> (\<^verbatim>\<open>disabled/\<close>). Cached configurations are fresh,
    reads are guarded by finality, the log filter returns exactly the matching events with any cache
    that satisfies the contract, and at most one polling loop is alive.
  \<^item> \<open>Native_Auth\<close> (\<^verbatim>\<open>authentication/\<close>): tokens decode to what was encoded, and a token of the client is
    accepted by the server until it expires.
  \<^item> \<open>Header_Check\<close> (\<^verbatim>\<open>headerCheck/\<close>): a header counts as verified exactly when its signature is valid
    for the validators of its epoch. \<open>Header_Wiring\<close> (\<^verbatim>\<open>headerCheckFactory.go\<close>, \<^verbatim>\<open>headerCheck/factory\<close>): the
    construction of the verifier, and that the genesis validators are exactly the configured keys.
  \<^item> \<open>Lib_Bls\<close> (\<^verbatim>\<open>libraries/libbls\<close>): the C interface to BLS keys; what it signs it verifies.

  \<^bold>\<open>The price oracle.\<close> \<open>Price_Fetchers\<close> (\<^verbatim>\<open>aggregator/fetchers\<close> and the response getters), \<open>Price_Aggregator\<close>
  (\<^verbatim>\<open>computers.go\<close>, \<^verbatim>\<open>priceAggregator.go\<close>), \<open>Price_Notifier\<close> (\<^verbatim>\<open>pair.go\<close>, \<^verbatim>\<open>converters.go\<close>,
  \<^verbatim>\<open>priceNotifier.go\<close>) and \<open>Mx_Notifee\<close> (\<^verbatim>\<open>notifees/mxNotifee.go\<close>) call each other in this order. This theory
  composes them with the builders and the signer: the transaction that a round submits carries, for
  every notified pair, a price between the prices of the honest majority.

  \<^bold>\<open>Programs.\<close>
  \<^item> \<open>Cli\<close> (\<^verbatim>\<open>cmd/cli\<close>, \<^verbatim>\<open>examples/keys.go\<close>, \<^verbatim>\<open>networks.go\<close>): the command line tool after the parsing of its flags. It
    does not panic, and the transaction it hands over is the one that the flags ask for.
  \<^item> \<open>Wallet_Flow\<close> (\<^verbatim>\<open>examples/examplesFlowWalletTracker\<close>): tracker, move balance handler and interactor running
    together; over every interleaving of the steps of the two goroutines each deposit leads to an attempt to empty its receiver.
  \<^item> \<open>Oracle_App\<close> (\<^verbatim>\<open>examples/examplesPriceAggregator\<close>): the wiring of fetchers, aggregator, notifier and polling
    handler, with the exact condition under which it starts.
  \<^item> \<open>Sdk_Examples\<close>: the programs of \<^verbatim>\<open>examples/\<close> that compose a few calls and log the result, for an account, a hyper
    block, a contract query, a wallet and a header; what they show, and when they panic.
  \<^item> \<open>Web_Server\<close> (\<^verbatim>\<open>aggregator/api/gin\<close>): start and close of the web server and its goroutines, and its routes.

  \<^bold>\<open>Loops and bounds.\<close> Recursion is structural or has a termination proof, except for the loops over a 64-bit
  counter with a condition that a wrap can make true forever (\<open>filter_loop\<close>, \<open>hyper_blocks_loop\<close>): these are
  partial functions with values in \<open>option\<close>, and it is proved when they return. There is no fuel.

  \<^bold>\<open>Not modelled.\<close> The structs of \<^verbatim>\<open>data/\<close> that are only filled by the JSON decoder and have no code; the Go interface
  declarations, which are records of functions here; the parsing of command line flags, which is code of
  \<^verbatim>\<open>urfave/cli\<close>; the test doubles of \<^verbatim>\<open>testsCommon/\<close> and of the \<^verbatim>\<open>mock/\<close> directories other than those a program uses. Logging has
  no effect in the model except where a program only logs. Context cancellation is one of the errors that a
  call may answer with.
\<close>

section \<open>The price oracle\<close>

text \<open>A majority of honest fetchers for every pair of the notifier: more than half of the answers lie
  between two prices, and the denomination can hold them.\<close>

definition honest_majority :: "priceAggregator \<Rightarrow> priceNotifier \<Rightarrow> (nat \<Rightarrow> rat) \<Rightarrow> (nat \<Rightarrow> rat) \<Rightarrow> bool" where
  "honest_majority pa pn lo hi \<longleftrightarrow> (\<forall>i<length (pn_pairs pn).
     let p = pn_pairs pn ! i; as = answers pa (pair_base p) (pair_quote p)
     in is_float (lo i) \<and> is_float (hi i) \<and> 0 \<le> lo i \<and> hi i * 10 ^ unat (pair_decimals p) < 2 ^ 49
        \<and> length as < 2 * length (filter (in_range (lo i) (hi i)) as) \<and> pa_minResultsNum pa \<le> int (length as))"

text \<open>A group of five arguments that the contract reads as a price of the given pair between two bounds.\<close>

definition reads_price_between :: "string list \<Rightarrow> pair \<Rightarrow> rat \<Rightarrow> rat \<Rightarrow> bool" where
  "reads_price_between g p a b \<longleftrightarrow> (\<exists>t pr d. map hex_DecodeString g
       = map Inr [bytes_of_string (pair_base p), bytes_of_string (pair_quote p), t, pr, d]
     \<and> be_val d = unat (pair_decimals p) \<and> a < of_nat (be_val pr) \<and> of_nat (be_val pr) < b)"

lemma honest_bounds:
  assumes "honest_majority pa pn lo hi" and "i < length (pn_pairs pn)"
  shows "- (2 ^ 1022) \<le> lo i" and "hi i \<le> 2 ^ 1022"
proof -
  let ?d = "10 ^ unat (pair_decimals (pn_pairs pn ! i)) :: rat"
  have h: "0 \<le> lo i" "hi i * ?d < 2 ^ 49" using assms by (auto simp: honest_majority_def Let_def)
  have "(2 :: rat) ^ 49 \<le> 2 ^ 1022" by (intro power_increasing) simp_all
  moreover have "hi i \<le> 0 \<or> hi i * 1 \<le> hi i * ?d" by (cases "hi i \<le> 0") (simp_all add: mult_left_mono)
  ultimately show "hi i \<le> 2 ^ 1022" using h(2) by auto
  show "- (2 ^ 1022) \<le> lo i" using h(1) by (rule order_trans [rotated]) simp
qed

lemma honest_majority_fetches:
  assumes "honest_majority pa pn lo hi" and "\<forall>i<length (pn_pairs pn). fetch_order pa (order i)"
    and "ne_fetch env = (\<lambda>i. pa_FetchPrice pa (order i))"
  shows "\<exists>v. fetches env pn v \<and> (\<forall>i<length (pn_pairs pn). lo i \<le> v i \<and> v i \<le> hi i)"
proof -
  have "\<exists>p. ne_fetch env i (pair_base (pn_pairs pn ! i)) (pair_quote (pn_pairs pn ! i)) = Inr (Fin p) \<and> lo i \<le> p \<and> p \<le> hi i"
    if i: "i < length (pn_pairs pn)" for i
  proof -
    obtain m where m: "computeMedian (answers pa (pair_base (pn_pairs pn ! i)) (pair_quote (pn_pairs pn ! i))) = Inr m" "in_range (lo i) (hi i) m"
    proof -
      have "is_float (lo i)" "is_float (hi i)" "length (answers pa (pair_base (pn_pairs pn ! i)) (pair_quote (pn_pairs pn ! i)))
          < 2 * length (filter (in_range (lo i) (hi i)) (answers pa (pair_base (pn_pairs pn ! i)) (pair_quote (pn_pairs pn ! i))))"
        using assms(1) i by (auto simp: honest_majority_def Let_def)
      moreover have "- (2 ^ 1022) \<le> lo i" "hi i \<le> 2 ^ 1022" using honest_bounds [OF assms(1) i] .
      ultimately show thesis using computeMedian_within that by blast
    qed
    with within_Fin [OF m(2)] pa_FetchPrice_answers assms i show ?thesis
      by (auto simp: honest_majority_def Let_def)
  qed
  then obtain v where v: "\<forall>i<length (pn_pairs pn). ne_fetch env i (pair_base (pn_pairs pn ! i)) (pair_quote (pn_pairs pn ! i)) = Inr (Fin (v i))
      \<and> lo i \<le> v i \<and> v i \<le> hi i" by metis
  have "0 \<le> v i \<and> v i * 10 ^ unat (pair_decimals (pn_pairs pn ! i)) < 2 ^ 49" if "i < length (pn_pairs pn)" for i
  proof -
    have h: "0 \<le> lo i" "hi i * 10 ^ unat (pair_decimals (pn_pairs pn ! i)) < 2 ^ 49" using assms(1) that by (auto simp: honest_majority_def Let_def)
    have "v i * 10 ^ unat (pair_decimals (pn_pairs pn ! i)) \<le> hi i * 10 ^ unat (pair_decimals (pn_pairs pn ! i))"
      using v that by (intro mult_right_mono) simp_all
    with h v that show ?thesis by (meson le_less_trans order_trans)
  qed
  with v show ?thesis by (auto simp: fetches_def)
qed

text \<open>What a round sends can be encoded.\<close>

lemma sent_encodable:
  assumes "notifier_ok pn" and "fetches env pn v" and "Execute env pn = (err, Some args, pn')"
    and "\<forall>i. 0 \<le> ne_now env i \<and> ne_now env i < 2 ^ 63" and "a \<in> set args"
  shows "encodable a"
proof -
  obtain infos where infos: "getAllPrices (ne_fetch env) (ne_now env) pn = Inr infos"
    "\<forall>i<length (pn_pairs pn). pi_price (infos ! i) = trim (Fin (v i)) (pair_trimPrecision (pn_pairs pn ! i))"
    using assms(2) by (rule getAllPrices_fetches)
  have "args = map (\<lambda>i. snd (price_changed (ne_conv env) (notify_args pn infos i))) (round_slice env infos pn)"
    using Execute_round(2) [OF infos(1) assms(1)] assms(3) by (auto split: if_splits)
  with assms(5) obtain i where i: "i < length (pn_pairs pn)" "a = snd (price_changed (ne_conv env) (notify_args pn infos i))"
    by (auto simp: round_slice_def)
  let ?p = "pn_pairs pn ! i"
  have t: "apc_Timestamp a = ne_now env i"
    using fetch_loop_ok [of "ne_fetch env" "ne_now env" 0 "pn_pairs pn" infos] infos(1) i
    by (auto simp: getAllPrices_def price_changed_def notify_args_def Let_def)
  obtain args0 where p: "newPair args0 = Inr ?p" using assms(1) i(1) nth_mem by (fastforce simp: notifier_ok_def)
  then have n: "pair_base ?p \<noteq> []" "pair_quote ?p \<noteq> []" by (simp_all add: newPair_names)
  have "\<bar>of_nat (unat (apc_DenominatedPrice a)) - v i * 10 ^ unat (pair_decimals ?p)\<bar> < 2"
    using round_price_changed(1) [OF assms(2,1) i(1)] infos(2) i by simp
  moreover have "v i * 10 ^ unat (pair_decimals ?p) < 2 ^ 49" using assms(2) i(1) by (simp add: fetches_def)
  ultimately have "(of_nat (unat (apc_DenominatedPrice a)) :: rat) < 2 ^ 49 + 2" unfolding abs_less_iff by linarith
  also have "\<dots> \<le> of_nat (2 ^ 63)" by simp
  finally have "unat (apc_DenominatedPrice a) < 2 ^ 63" by (simp only: of_nat_less_iff)
  moreover have "unat (apc_Decimals a) < 2 ^ 63"
    using newPair_fields(2) [OF p] i(2) by (simp add: price_changed_def notify_args_def Let_def)
  ultimately show ?thesis
    using n t assms(4) i(2) by (simp add: encodable_def price_changed_def notify_args_def Let_def)
qed



end
